(* ===== verification/Go_Prelude.thy ===== *)
theory Go_Prelude
  imports Main "HOL-Library.AList"
begin

text \<open>
  The layer of the Go language and of its standard library that the repository uses: error
  values, panics, \<open>slices.IndexFunc\<close> and checked indexing, Go maps with their nil value and
  their iteration order, and the update-by-name idiom that four of the pod defaulters share.

  A Go map is \<open>None\<close> (nil) or \<open>Some\<close> association list; the list order is the iteration order of
  one \<open>range\<close> loop, so a theorem that quantifies over the list quantifies over the order the
  runtime picks. A computation that may panic is a value of type \<open>'a go\<close>.
\<close>

named_theorems go_eval "equations that evaluate the Go runtime layer"

section \<open>Errors and panics\<close>

text \<open>
  \<open>ErrorString\<close> is \<open>errors.New\<close> or \<open>fmt.Errorf\<close> without \<open>%w\<close>; \<open>WrapError\<close> is \<open>fmt.Errorf\<close> with a
  prefix and a final \<open>%w\<close>; \<open>DetailError\<close> is \<open>fmt.Errorf\<close> with an initial \<open>%w\<close>, a format and its
  arguments; \<open>StatusError\<close> is an error of the Kubernetes API with its reason.
\<close>

datatype gerror =
    ErrorString string
  | StatusError string string
  | WrapError string gerror
  | DetailError gerror string "string list"

text \<open>\<open>errors.Is\<close> against a sentinel error.\<close>

fun errors_is :: "gerror \<Rightarrow> gerror \<Rightarrow> bool" where
  "errors_is (ErrorString s) t = (ErrorString s = t)"
| "errors_is (StatusError r s) t = (StatusError r s = t)"
| "errors_is (WrapError p e) t = (WrapError p e = t \<or> errors_is e t)"
| "errors_is (DetailError e f args) t = (DetailError e f args = t \<or> errors_is e t)"

datatype panic =
    PanicString string
  | PanicError gerror
  | PanicOther string

datatype 'a go = Ret 'a | Panic panic

definition go_bind :: "'a go \<Rightarrow> ('a \<Rightarrow> 'b go) \<Rightarrow> 'b go" where
  "go_bind m f = (case m of Ret a \<Rightarrow> f a | Panic p \<Rightarrow> Panic p)"

lemma go_bind_simps [simp, go_eval]:
  "go_bind (Ret a) f = f a"
  "go_bind (Panic p) f = Panic p"
  by (simp_all add: go_bind_def)

section \<open>Slices\<close>

text \<open>\<open>slices.IndexFunc\<close>: the first index that satisfies the predicate, or -1.\<close>

fun index_func :: "('a \<Rightarrow> bool) \<Rightarrow> 'a list \<Rightarrow> int" where
  "index_func P [] = -1"
| "index_func P (x # xs) =
     (if P x then 0 else let i = index_func P xs in if i = -1 then -1 else i + 1)"

definition index_error :: panic where
  "index_error = PanicError (ErrorString ''index out of range'')"

definition slice_get :: "'a list \<Rightarrow> int \<Rightarrow> 'a go" where
  "slice_get xs i = (if 0 \<le> i \<and> i < int (length xs) then Ret (xs ! nat i) else Panic index_error)"

definition slice_put :: "'a list \<Rightarrow> int \<Rightarrow> 'a \<Rightarrow> 'a list go" where
  "slice_put xs i x =
     (if 0 \<le> i \<and> i < int (length xs) then Ret (xs[nat i := x]) else Panic index_error)"

declare slice_get_def [go_eval] slice_put_def [go_eval]

lemma index_func_ge: "-1 \<le> index_func P xs"
  by (induction xs) (auto simp: Let_def)

lemma index_func_none: "index_func P xs = -1 \<longleftrightarrow> (\<forall>x\<in>set xs. \<not> P x)"
proof (induction xs)
  case (Cons x xs)
  then show ?case using index_func_ge [of P xs] by (auto simp: Let_def)
qed simp

lemma index_func_less: "index_func P xs < int (length xs)"
  by (induction xs) (auto simp: Let_def)

lemma index_func_pos: "index_func P xs \<noteq> -1 \<Longrightarrow> 0 \<le> index_func P xs"
  using index_func_ge [of P xs] by simp

lemma index_func_hit: "index_func P xs \<noteq> -1 \<Longrightarrow> P (xs ! nat (index_func P xs))"
proof (induction xs)
  case (Cons x xs)
  then show ?case
    using index_func_pos [of P xs]
    by (auto simp: Let_def nat_add_distrib split: if_splits)
qed simp

section \<open>Update by name\<close>

text \<open>
  The idiom of the defaulters: look an entry up by its name, append the new entry when it is
  absent, leave it when it is already right, replace it otherwise. \<open>upsert\<close> is its reference
  definition by recursion; \<open>upsert_at\<close> is the way the code writes it, with an index.
\<close>

fun upsert :: "('a \<Rightarrow> bool) \<Rightarrow> ('a \<Rightarrow> bool) \<Rightarrow> 'a \<Rightarrow> 'a list \<Rightarrow> 'a list" where
  "upsert named ok new [] = [new]"
| "upsert named ok new (x # xs) =
     (if named x then (if ok x then x # xs else new # xs) else x # upsert named ok new xs)"

fun upsert_flag :: "('a \<Rightarrow> bool) \<Rightarrow> ('a \<Rightarrow> bool) \<Rightarrow> 'a list \<Rightarrow> bool" where
  "upsert_flag named ok [] = True"
| "upsert_flag named ok (x # xs) = (if named x then \<not> ok x else upsert_flag named ok xs)"

definition upsert_at ::
  "int \<Rightarrow> ('a \<Rightarrow> bool) \<Rightarrow> 'a \<Rightarrow> 'a list \<Rightarrow> ('a list \<times> bool) go" where
  "upsert_at index ok new xs =
     (if index = -1 then Ret (xs @ [new], True)
      else go_bind (slice_get xs index) (\<lambda>x.
        if ok x then Ret (xs, False)
        else go_bind (slice_put xs index new) (\<lambda>xs'. Ret (xs', True))))"

lemma upsert_at_shift:
  assumes "0 \<le> i" "i < int (length xs)"
  shows "upsert_at (i + 1) ok new (x # xs) =
    go_bind (upsert_at i ok new xs) (\<lambda>(ys, b). Ret (x # ys, b))"
  using assms by (auto simp: upsert_at_def go_eval nat_add_distrib)

lemma upsert_at_index:
  "upsert_at (index_func named xs) ok new xs =
     Ret (upsert named ok new xs, upsert_flag named ok xs)"
proof (induction xs)
  case Nil
  then show ?case by (simp add: upsert_at_def)
next
  case (Cons x xs)
  show ?case
  proof (cases "named x \<or> index_func named xs = -1")
    case True
    with Cons.IH show ?thesis
      by (auto simp: upsert_at_def go_eval Let_def)
  next
    case False
    with Cons.IH show ?thesis
      using index_func_pos [of named xs] index_func_less [of named xs]
      by (auto simp: Let_def upsert_at_shift)
  qed
qed

text \<open>The contract of the idiom: the new entry carries the name and is right.\<close>

locale upsert_entry =
  fixes named :: "'a \<Rightarrow> bool"
    and ok :: "'a \<Rightarrow> bool"
    and new :: "'a"
  assumes new_named: "named new"
    and new_ok: "ok new"
begin

lemma first_ok: "find named (upsert named ok new xs) \<noteq> None
    \<and> ok (the (find named (upsert named ok new xs)))"
  by (induction xs) (auto simp: new_named new_ok)

lemma flag_after: "\<not> upsert_flag named ok (upsert named ok new xs)"
  by (induction xs) (auto simp: new_named new_ok)

lemma unflagged_same: "\<not> upsert_flag named ok xs \<Longrightarrow> upsert named ok new xs = xs"
  by (induction xs) (auto split: if_splits)

lemma idempotent: "upsert named ok new (upsert named ok new xs) = upsert named ok new xs"
  by (rule unflagged_same [OF flag_after])

lemma flag_change: "upsert_flag named ok xs \<Longrightarrow> upsert named ok new xs \<noteq> xs"
  by (induction xs) (auto simp: new_ok split: if_splits)

lemma others_kept:
  "filter (\<lambda>x. \<not> named x) (upsert named ok new xs) = filter (\<lambda>x. \<not> named x) xs"
  by (induction xs) (auto simp: new_named)

lemma length_bound: "length (upsert named ok new xs) \<le> Suc (length xs)"
  by (induction xs) auto

end

text \<open>An update under one name does not move the entry of another name.\<close>

lemma index_func_upsert_other:
  assumes "\<And>x. named x \<Longrightarrow> \<not> Q x" and "\<not> Q new"
  shows "index_func Q (upsert named ok new xs) = index_func Q xs"
  using assms by (induction xs) (auto simp: Let_def)

lemma find_upsert_other:
  assumes "\<And>x. named x \<Longrightarrow> \<not> Q x" and "\<not> Q new"
  shows "find Q (upsert named ok new xs) = find Q xs"
  using assms by (induction xs) auto

section \<open>Go maps\<close>

type_synonym 'v go_map = "(string \<times> 'v) list option"

text \<open>
  \<open>map_get\<close> is the comma-ok read (nil reads as empty), \<open>map_read\<close> the plain read of a string
  map (the zero value for an absent key), \<open>map_put\<close> the assignment, which panics on nil, and
  \<open>map_make\<close> the guard \<open>if m == nil { m = map[string]string{} }\<close>.
\<close>

definition map_get :: "'v go_map \<Rightarrow> string \<Rightarrow> 'v option" where
  "map_get m k = (case m of None \<Rightarrow> None | Some al \<Rightarrow> map_of al k)"

definition map_read :: "string go_map \<Rightarrow> string \<Rightarrow> string" where
  "map_read m k = (case map_get m k of None \<Rightarrow> [] | Some v \<Rightarrow> v)"

definition map_put :: "'v go_map \<Rightarrow> string \<Rightarrow> 'v \<Rightarrow> 'v go_map go" where
  "map_put m k v =
     (case m of
        None \<Rightarrow> Panic (PanicError (ErrorString ''assignment to entry in nil map''))
      | Some al \<Rightarrow> Ret (Some (AList.update k v al)))"

definition map_make :: "'v go_map \<Rightarrow> 'v go_map" where
  "map_make m = (case m of None \<Rightarrow> Some [] | Some al \<Rightarrow> Some al)"

definition map_entries :: "'v go_map \<Rightarrow> (string \<times> 'v) list" where
  "map_entries m = (case m of None \<Rightarrow> [] | Some al \<Rightarrow> al)"

definition map_wf :: "'v go_map \<Rightarrow> bool" where
  "map_wf m \<longleftrightarrow> distinct (map fst (map_entries m))"

declare map_read_def [go_eval] map_put_def [go_eval] map_make_def [go_eval] map_entries_def [go_eval]

lemma map_get_simps [simp, go_eval]:
  "map_get None k = None"
  "map_get (Some al) k = map_of al k"
  by (simp_all add: map_get_def)

lemma map_make_simps [simp]:
  "map_make None = Some []"
  "map_make (Some al) = Some al"
  "map_get (map_make m) k = map_get m k"
  by (simp_all add: map_make_def split: option.split)

lemma map_entries_simps [simp]:
  "map_entries None = []"
  "map_entries (Some al) = al"
  by (simp_all add: map_entries_def)

lemma map_put_make: "map_put (map_make m) k v = Ret (Some (AList.update k v (map_entries m)))"
  by (simp add: go_eval split: option.split)

lemma map_get_entries: "map_get m k = map_of (map_entries m) k"
  by (simp add: map_entries_def split: option.split)

lemma map_get_put:
  "map_get (Some (AList.update k v (map_entries m))) k' = (if k' = k then Some v else map_get m k')"
  by (simp add: update_conv' map_get_entries)

lemma map_wf_put: "map_wf m \<Longrightarrow> map_wf (Some (AList.update k v (map_entries m)))"
  by (simp add: map_wf_def distinct_update)


end
