(* ===== verification/K8s_Types.thy ===== *)
theory K8s_Types
  imports Go_Prelude
begin

text \<open>
  The part of the Kubernetes API types (\<open>k8s.io/api/core/v1\<close>) that the repository reads or
  writes. A field of a Go struct that no code under \<open>src/\<close> touches by name is kept, where a whole
  value can be replaced or compared, as one opaque string (\<open>..._rest\<close>, empty for the zero value),
  so that replacing an entry is seen to drop it. A pointer is an option; slices are lists.
\<close>

datatype env_var_source = EnvVarSource string

record env_var =
  env_name :: string
  env_value :: string
  env_valueFrom :: "env_var_source option"

record volume_mount =
  vm_name :: string
  vm_readOnly :: bool
  vm_mountPath :: string
  vm_rest :: string

record ctb_projection =
  ctbp_name :: "string option"
  ctbp_path :: string
  ctbp_rest :: string

record volume_projection =
  vp_clusterTrustBundle :: "ctb_projection option"
  vp_rest :: string

record projected_source =
  pr_sources :: "volume_projection list"
  pr_defaultMode :: "int option"

record volume =
  vol_name :: string
  vol_projected :: "projected_source option"
  vol_rest :: string

record container =
  c_name :: string
  c_image :: string
  c_env :: "env_var list"
  c_volumeMounts :: "volume_mount list"

record owner_reference =
  owner_kind :: string
  owner_name :: string

text \<open>A pod: its metadata and the four lists of its spec that the webhook edits.\<close>

record pod =
  p_name :: string
  p_generateName :: string
  p_namespace :: string
  p_annotations :: "string go_map"
  p_ownerReferences :: "owner_reference list"
  p_initContainers :: "container list"
  p_containers :: "container list"
  p_volumes :: "volume list"
  p_imagePullSecrets :: "string list"

text \<open>A namespace is cluster-scoped: its own \<open>Namespace\<close> field is part of the object all the same.\<close>

record k8s_namespace =
  ns_name :: string
  ns_namespace :: string
  ns_annotations :: "string go_map"

text \<open>
  \<open>reflect.DeepEqual\<close> takes two values of any type and answers false when their types differ.
  \<open>go_any\<close> holds the two types the code passes to it.
\<close>

datatype go_any = AnyVolume volume | AnyVolumeMount volume_mount

definition deep_equal :: "go_any \<Rightarrow> go_any \<Rightarrow> bool" where
  "deep_equal a b \<longleftrightarrow> a = b"

text \<open>A pod as the API server hands it out: what the code may not change.\<close>

definition pod_frame :: "pod \<Rightarrow> pod \<Rightarrow> bool" where
  "pod_frame p q \<longleftrightarrow>
     p_name q = p_name p \<and> p_generateName q = p_generateName p \<and> p_namespace q = p_namespace p
     \<and> p_ownerReferences q = p_ownerReferences p
     \<and> map c_name (p_initContainers q) = map c_name (p_initContainers p)
     \<and> map c_name (p_containers q) = map c_name (p_containers p)"

lemma pod_frame_refl [simp]: "pod_frame p p"
  by (simp add: pod_frame_def)

lemma pod_frame_trans: "pod_frame p q \<Longrightarrow> pod_frame q r \<Longrightarrow> pod_frame p r"
  by (simp add: pod_frame_def)

text \<open>The options of a server-side-apply patch that the code sets.\<close>

record patch_options =
  po_FieldManager :: string
  po_Force :: "bool option"

text \<open>Zero values of the structs, as a composite literal leaves them.\<close>

definition zero_container :: container where
  "zero_container = \<lparr>c_name = [], c_image = [], c_env = [], c_volumeMounts = []\<rparr>"

definition zero_pod :: pod where
  "zero_pod = \<lparr>p_name = [], p_generateName = [], p_namespace = [], p_annotations = None,
     p_ownerReferences = [], p_initContainers = [], p_containers = [], p_volumes = [],
     p_imagePullSecrets = []\<rparr>"

end
