(* ===== verification/K8s_Utilz.thy ===== *)
theory K8s_Utilz
  imports Go_Strings K8s_Types
begin

text \<open>
  \<open>internal/webhook/k8s/utilz.go\<close>: the registry rewrite of an image reference, the containment
  test on annotations, and the trust bundle of the configuration with the volume and the volume
  mount it stands for.
\<close>

section \<open>Registry rewrite\<close>

definition fixRegistry :: "string \<Rightarrow> string go_map \<Rightarrow> string" where
  "fixRegistry registry overrides =
     (case map_get overrides registry of None \<Rightarrow> registry | Some override \<Rightarrow> override)"

definition isRegistryProvided :: "string list \<Rightarrow> bool" where
  "isRegistryProvided data \<longleftrightarrow>
     length data > 1 \<and> (contains_char (hd data) CHR ''.'' \<or> contains_char (hd data) CHR '':'')"

definition AlterPodImageRegistry :: "string \<Rightarrow> string go_map \<Rightarrow> string" where
  "AlterPodImageRegistry img overrides =
     (let data = split_on CHR ''/'' img
      in if isRegistryProvided data
         then fixRegistry (hd data) overrides @ ''/'' @ join ''/'' (tl data)
         else img)"

text \<open>What a registry host looks like: no slash, and a dot or a colon.\<close>

definition registry_host :: "string \<Rightarrow> bool" where
  "registry_host h \<longleftrightarrow> CHR ''/'' \<notin> set h \<and> (CHR ''.'' \<in> set h \<or> CHR '':'' \<in> set h)"

lemma alter_no_slash: "CHR ''/'' \<notin> set img \<Longrightarrow> AlterPodImageRegistry img ov = img"
  by (simp add: AlterPodImageRegistry_def isRegistryProvided_def split_on_absent)

lemma alter_host:
  assumes "CHR ''/'' \<notin> set h"
  shows "AlterPodImageRegistry (h @ CHR ''/'' # path) ov =
    (if registry_host h then fixRegistry h ov else h) @ CHR ''/'' # path"
  using assms
  by (simp add: AlterPodImageRegistry_def isRegistryProvided_def contains_char_def
      registry_host_def split_on_append join_split Let_def Suc_le_eq)

lemma slash_split:
  obtains (no_slash) "CHR ''/'' \<notin> set img"
  | (host) h path where "img = h @ CHR ''/'' # path" "CHR ''/'' \<notin> set h"
  using split_list_first [of "CHR ''/''" img] by blast

lemma fixRegistry_simps:
  "map_get ov h = None \<Longrightarrow> fixRegistry h ov = h"
  "map_get ov h = Some v \<Longrightarrow> fixRegistry h ov = v"
  by (simp_all add: fixRegistry_def)

text \<open>
  Overrides are stable when no target is rewritten again: the host of every target either does not
  look like a registry or is not itself overridden (or only by itself). The documentation takes
  this for granted; \<open>NewConfig\<close> does not check it.
\<close>

definition target_host :: "string \<Rightarrow> string" where
  "target_host v = hd (split_on CHR ''/'' v)"

definition target_stable :: "string go_map \<Rightarrow> string \<Rightarrow> bool" where
  "target_stable ov v \<longleftrightarrow>
     \<not> registry_host (target_host v) \<or> fixRegistry (target_host v) ov = target_host v"

definition overrides_stable :: "string go_map \<Rightarrow> bool" where
  "overrides_stable ov \<longleftrightarrow>
     list_all (\<lambda>(k, v). registry_host k \<and> map_get ov k = Some v \<longrightarrow> target_stable ov v)
       (map_entries ov)"

lemma overrides_stableD:
  "overrides_stable ov \<Longrightarrow> registry_host k \<Longrightarrow> map_get ov k = Some v \<Longrightarrow> target_stable ov v"
  by (auto simp: overrides_stable_def list_all_iff map_get_entries dest: map_of_SomeD)

lemma alter_target:
  assumes "target_stable ov v"
  shows "AlterPodImageRegistry (v @ CHR ''/'' # path) ov = v @ CHR ''/'' # path"
proof (cases rule: slash_split [of v])
  case no_slash
  then show ?thesis
    using assms by (auto simp: alter_host target_stable_def target_host_def split_on_absent)
next
  case (host h rest)
  then show ?thesis
    using assms alter_host [of h "rest @ CHR ''/'' # path" ov]
    by (auto simp: target_stable_def target_host_def split_on_append)
qed

lemma alter_idempotent:
  assumes "overrides_stable ov"
  shows "AlterPodImageRegistry (AlterPodImageRegistry img ov) ov = AlterPodImageRegistry img ov"
proof (cases rule: slash_split [of img])
  case no_slash
  then show ?thesis by (simp add: alter_no_slash)
next
  case (host h path)
  show ?thesis
  proof (cases "registry_host h \<and> map_get ov h \<noteq> None")
    case True
    then obtain v where v: "map_get ov h = Some v" by blast
    with True host show ?thesis
      using alter_target [OF overrides_stableD [OF assms _ v], of path]
      by (simp add: alter_host fixRegistry_simps)
  next
    case False
    with host show ?thesis by (auto simp: alter_host fixRegistry_simps)
  qed
qed

text \<open>Stability is also necessary: an unstable override shows on the image \<open>k/x\<close>.\<close>

lemma alter_target_conv:
  assumes "AlterPodImageRegistry (v @ CHR ''/'' # path) ov = v @ CHR ''/'' # path"
  shows "target_stable ov v"
proof (cases rule: slash_split [of v])
  case no_slash
  then show ?thesis
    using assms
    by (auto simp: alter_host target_stable_def target_host_def split_on_absent split: if_splits)
next
  case (host h rest)
  then show ?thesis
    using assms alter_host [of h "rest @ CHR ''/'' # path" ov]
    by (auto simp: target_stable_def target_host_def split_on_append split: if_splits)
qed

lemma idempotent_stable:
  assumes "\<And>img. AlterPodImageRegistry (AlterPodImageRegistry img ov) ov = AlterPodImageRegistry img ov"
  shows "overrides_stable ov"
proof -
  have "target_stable ov v" if k: "registry_host k" and v: "map_get ov k = Some v" for k v
  proof (rule alter_target_conv)
    show "AlterPodImageRegistry (v @ CHR ''/'' # ''x'') ov = v @ CHR ''/'' # ''x''"
      using assms [of "k @ CHR ''/'' # ''x''"] k v
      by (simp add: alter_host fixRegistry_simps registry_host_def)
  qed
  then show ?thesis by (auto simp: overrides_stable_def list_all_iff)
qed

text \<open>
  The rewrite without splitting and joining: what stands before the first slash is the host, and it
  alone is replaced.
\<close>

definition image_host :: "string \<Rightarrow> string" where
  "image_host img = takeWhile (\<lambda>c. c \<noteq> CHR ''/'') img"

definition image_path :: "string \<Rightarrow> string" where
  "image_path img = dropWhile (\<lambda>c. c \<noteq> CHR ''/'') img"

definition rewritten_image :: "string go_map \<Rightarrow> string \<Rightarrow> string" where
  "rewritten_image ov img =
     (case map_get ov (image_host img) of
        None \<Rightarrow> img
      | Some v \<Rightarrow> if image_path img \<noteq> [] \<and> registry_host (image_host img)
                  then v @ image_path img else img)"

lemma image_parts:
  "CHR ''/'' \<notin> set h \<Longrightarrow> image_host (h @ CHR ''/'' # path) = h"
  "CHR ''/'' \<notin> set h \<Longrightarrow> image_path (h @ CHR ''/'' # path) = CHR ''/'' # path"
  "CHR ''/'' \<notin> set h \<Longrightarrow> image_path h = []"
proof -
  assume h: "CHR ''/'' \<notin> set h"
  then have "\<And>c. c \<in> set h \<Longrightarrow> c \<noteq> CHR ''/''" by blast
  then show "image_host (h @ CHR ''/'' # path) = h"
    "image_path (h @ CHR ''/'' # path) = CHR ''/'' # path" "image_path h = []"
    by (simp_all add: image_host_def image_path_def takeWhile_append2 dropWhile_append2)
qed

lemma image_rewritten: "AlterPodImageRegistry img ov = rewritten_image ov img"
proof (cases rule: slash_split [of img])
  case no_slash
  then show ?thesis
    by (simp add: alter_no_slash rewritten_image_def image_parts split: option.split)
next
  case (host h path)
  then show ?thesis
    by (simp add: alter_host rewritten_image_def image_parts fixRegistry_def split: option.split)
qed

text \<open>
  The registry rewrite of an image reference, as the code computes it by splitting at
  every slash, replaces exactly the part before the first slash, when that part looks like a
  registry (a dot or a colon) and an override names it, and leaves every other image alone.
\<close>

theorem AlterPodImageRegistry_rewrites:
  "AlterPodImageRegistry img ov = rewritten_image ov img"
  by (rule image_rewritten)

text \<open>
  Property C33. Rewriting twice is rewriting once for every image exactly when the overrides are
  stable, that is, when no override's target begins with a registry that is itself overridden by
  something else. \<open>NewConfig\<close> does not check it.
\<close>

theorem AlterPodImageRegistry_idempotent_iff:
  "(\<forall>img. AlterPodImageRegistry (AlterPodImageRegistry img ov) ov = AlterPodImageRegistry img ov)
   \<longleftrightarrow> overrides_stable ov"
  using alter_idempotent idempotent_stable by blast

text \<open>Two overrides in a chain: the second admission of the same image rewrites it again.\<close>

lemma chained_overrides_unstable:
  "\<not> overrides_stable (Some [(''docker.io'', ''mirror.io''), (''mirror.io'', ''eu.mirror.io'')])"
  by (simp add: overrides_stable_def target_stable_def target_host_def registry_host_def
      fixRegistry_def split_on_absent)

section \<open>Containment of annotations\<close>

text \<open>\<open>for k, v := range r\<close>, in the order of \<open>r\<close>'s entries.\<close>

fun contains_loop :: "string go_map \<Rightarrow> (string \<times> string) list \<Rightarrow> bool" where
  "contains_loop l [] = True"
| "contains_loop l ((k, v) # es) =
     (case map_get l k of
        None \<Rightarrow> False
      | Some val \<Rightarrow> if val \<noteq> v then False else contains_loop l es)"

definition Contains :: "string go_map \<Rightarrow> string go_map \<Rightarrow> bool" where
  "Contains l r = contains_loop l (map_entries r)"

lemma contains_loop_iff: "contains_loop l es \<longleftrightarrow> (\<forall>(k, v) \<in> set es. map_get l k = Some v)"
  by (induction l es rule: contains_loop.induct) (auto split: option.splits)

lemma contains_single [simp]: "Contains l (Some [(k, v)]) \<longleftrightarrow> map_get l k = Some v"
  by (simp add: Contains_def contains_loop_iff)

section \<open>The trust bundle of the configuration\<close>

record cluster_trust_bundle =
  ctb_Name :: string
  ctb_CertWritePath :: string
  ctb_VolumeMountPath :: string
  ctb_VolumeName :: string
  ctb_ResyncInterval :: string

definition ClusterTrustedBundle :: "cluster_trust_bundle \<Rightarrow> volume" where
  "ClusterTrustedBundle r =
     \<lparr>vol_name = ctb_VolumeName r,
      vol_projected = Some
        \<lparr>pr_sources =
           [\<lparr>vp_clusterTrustBundle =
               Some \<lparr>ctbp_name = Some (ctb_Name r), ctbp_path = ctb_CertWritePath r, ctbp_rest = []\<rparr>,
             vp_rest = []\<rparr>],
         pr_defaultMode = None\<rparr>,
      vol_rest = []\<rparr>"

definition VolumeMount :: "cluster_trust_bundle \<Rightarrow> volume_mount" where
  "VolumeMount r =
     \<lparr>vm_name = ctb_VolumeName r, vm_readOnly = True, vm_mountPath = ctb_VolumeMountPath r,
      vm_rest = []\<rparr>"

definition KeysAndValues :: "cluster_trust_bundle \<Rightarrow> string list" where
  "KeysAndValues r =
     [''name'', ctb_Name r, ''volumeName'', ctb_VolumeName r,
      ''certWritePath'', ctb_CertWritePath r, ''volumeMountPath'', ctb_VolumeMountPath r]"

lemma trust_bundle_names [simp]:
  "vol_name (ClusterTrustedBundle r) = ctb_VolumeName r"
  "vm_name (VolumeMount r) = ctb_VolumeName r"
  by (simp_all add: ClusterTrustedBundle_def VolumeMount_def)

end
