(* ===== verification/Api_Config.thy ===== *)
theory Api_Config
  imports K8s_Utilz
begin

text \<open>
  \<open>pkg/api/v1/types.go\<close> and \<open>pkg/api/v1/ctb_values.go\<close>: the annotation keys, the configuration,
  the features a namespace has by default, the expansion of the \<open>all\<close> annotation, the validation
  of the feature lists, and the reading of the trust-bundle annotation.
\<close>

section \<open>Names\<close>

definition AnnotationAlterImgRegistry :: string where
  "AnnotationAlterImgRegistry = ''rt-cfg.kyma-project.io/alter-img-registry''"
definition AnnotationSetPullSecret :: string where
  "AnnotationSetPullSecret = ''rt-cfg.kyma-project.io/add-img-pull-secret''"
definition AnnotationAddClusterTrustBundle :: string where
  "AnnotationAddClusterTrustBundle = ''rt-cfg.kyma-project.io/add-cluster-trust-bundle''"
definition AnnotationSetFipsMode :: string where
  "AnnotationSetFipsMode = ''rt-cfg.kyma-project.io/set-fips-mode''"
definition AnnotationSetLandscape :: string where
  "AnnotationSetLandscape = ''rt-cfg.kyma-project.io/set-landscape''"
definition AnnotationAll :: string where
  "AnnotationAll = ''rt-cfg.kyma-project.io/all''"
definition AnnotationModified :: string where
  "AnnotationModified = ''rt-bootstrapper.kyma-project.io/modified''"
definition AnnotationCTBHash :: string where
  "AnnotationCTBHash = ''rt-bootstrapper.kyma-project.io/ctb-hash''"
definition FiledManager :: string where
  "FiledManager = ''rt-bootstrapper''"
definition EnvKymaFipsModeEnabled :: string where
  "EnvKymaFipsModeEnabled = ''KYMA_FIPS_MODE_ENABLED''"
definition EnvFipsModeEnabled :: string where
  "EnvFipsModeEnabled = ''FIPS_MODE_ENABLED''"
definition EnvKymaLandscape :: string where
  "EnvKymaLandscape = ''KYMA_LANDSCAPE''"
definition ConfigMapKey :: string where
  "ConfigMapKey = ''rt-bootstrapper-config.json''"

lemmas annotation_defs =
  AnnotationAlterImgRegistry_def AnnotationSetPullSecret_def AnnotationAddClusterTrustBundle_def
  AnnotationSetFipsMode_def AnnotationSetLandscape_def AnnotationAll_def AnnotationModified_def
  AnnotationCTBHash_def

definition KnownFeatureKeys :: "string list" where
  "KnownFeatureKeys =
     [AnnotationAlterImgRegistry, AnnotationSetPullSecret, AnnotationAddClusterTrustBundle,
      AnnotationSetFipsMode, AnnotationSetLandscape]"

lemma annotations_distinct:
  "distinct [AnnotationAlterImgRegistry, AnnotationSetPullSecret, AnnotationAddClusterTrustBundle,
    AnnotationSetFipsMode, AnnotationSetLandscape, AnnotationAll, AnnotationModified,
    AnnotationCTBHash]"
  by (simp add: annotation_defs)

lemma annotations_distinct_rev:
  "distinct [AnnotationCTBHash, AnnotationModified, AnnotationAll, AnnotationSetLandscape,
    AnnotationSetFipsMode, AnnotationAddClusterTrustBundle, AnnotationSetPullSecret,
    AnnotationAlterImgRegistry]"
  by (simp add: annotation_defs)

lemmas annotation_neqs [simp] =
  annotations_distinct [simplified] annotations_distinct_rev [simplified]

section \<open>The configuration\<close>

text \<open>\<open>NamespaceFeatures\<close> is a pointer to a map that may itself be nil.\<close>

record config =
  cfg_Overrides :: "string go_map"
  cfg_ClusterTrustBundleMapping :: "cluster_trust_bundle option"
  cfg_NamespaceFeatures :: "string list go_map option"
  cfg_AvailableFeatures :: "string list"

definition zero_config :: config where
  "zero_config = \<lparr>cfg_Overrides = None, cfg_ClusterTrustBundleMapping = None,
     cfg_NamespaceFeatures = None, cfg_AvailableFeatures = []\<rparr>"

subsection \<open>Features a namespace has by default\<close>

fun default_features_loop ::
  "string list \<Rightarrow> string list \<Rightarrow> (string \<times> string) list \<Rightarrow> (string \<times> string) list" where
  "default_features_loop avail [] result = result"
| "default_features_loop avail (feature # fs) result =
     (if feature = AnnotationAll
      then default_features_loop avail fs (fold (\<lambda>af r. AList.update af ''true'' r) avail result)
      else default_features_loop avail fs (AList.update feature ''true'' result))"

definition NamespaceDefaultFeatures :: "config \<Rightarrow> string \<Rightarrow> string go_map" where
  "NamespaceDefaultFeatures c nsName =
     (case cfg_NamespaceFeatures c of
        None \<Rightarrow> Some []
      | Some features \<Rightarrow>
          (case map_get features nsName of
             None \<Rightarrow> Some []
           | Some featureList \<Rightarrow>
               Some (default_features_loop (cfg_AvailableFeatures c) featureList [])))"

text \<open>What it promises: a feature is granted by name, or through \<open>all\<close> from the catalog.\<close>

definition feature_list :: "config \<Rightarrow> string \<Rightarrow> string list" where
  "feature_list c ns =
     (case cfg_NamespaceFeatures c of
        None \<Rightarrow> []
      | Some fs \<Rightarrow> (case map_get fs ns of None \<Rightarrow> [] | Some l \<Rightarrow> l))"

definition default_granted :: "config \<Rightarrow> string \<Rightarrow> string \<Rightarrow> bool" where
  "default_granted c ns k \<longleftrightarrow>
     k \<in> set (feature_list c ns) \<and> k \<noteq> AnnotationAll
     \<or> AnnotationAll \<in> set (feature_list c ns) \<and> k \<in> set (cfg_AvailableFeatures c)"

lemma map_of_fold_update:
  "map_of (fold (\<lambda>af r. AList.update af v r) afs result) k =
     (if k \<in> set afs then Some v else map_of result k)"
  by (induction afs arbitrary: result) (auto simp: update_conv')

lemma map_of_default_features_loop:
  "map_of (default_features_loop avail fs result) k =
     (if k \<in> set fs \<and> k \<noteq> AnnotationAll \<or> AnnotationAll \<in> set fs \<and> k \<in> set avail
      then Some ''true'' else map_of result k)"
  by (induction avail fs result rule: default_features_loop.induct)
    (auto simp: update_conv' map_of_fold_update)

lemma NamespaceDefaultFeatures_get:
  "map_get (NamespaceDefaultFeatures c ns) k = (if default_granted c ns k then Some ''true'' else None)"
  by (simp add: NamespaceDefaultFeatures_def default_granted_def feature_list_def
      map_of_default_features_loop split: option.split)

text \<open>
  The features a namespace has by default are exactly those its list in the
  configuration names, with \<open>all\<close> standing for the whole catalog of available features; each has the
  value \<open>true\<close>, and the key \<open>all\<close> itself is a feature only if the catalog lists it.
\<close>

theorem NamespaceDefaultFeatures_granted:
  "map_get (NamespaceDefaultFeatures c ns) k =
     (if default_granted c ns k then Some ''true'' else None)"
  by (rule NamespaceDefaultFeatures_get)

subsection \<open>Expansion of the \<open>all\<close> annotation\<close>

fun copy_without_all :: "(string \<times> string) list \<Rightarrow> (string \<times> string) list \<Rightarrow> (string \<times> string) list" where
  "copy_without_all [] out = out"
| "copy_without_all ((k, v) # es) out =
     (if k = AnnotationAll then copy_without_all es out
      else copy_without_all es (AList.update k v out))"

fun add_available :: "string list \<Rightarrow> (string \<times> string) list \<Rightarrow> (string \<times> string) list" where
  "add_available [] out = out"
| "add_available (af # afs) out =
     (if map_of out af = None then add_available afs (AList.update af ''true'' out)
      else add_available afs out)"

definition ExpandAnnotationAll :: "config \<Rightarrow> string go_map \<Rightarrow> string go_map" where
  "ExpandAnnotationAll c annotations =
     (if annotations = None then None
      else if map_read annotations AnnotationAll \<noteq> ''true'' then annotations
      else Some (add_available (cfg_AvailableFeatures c)
             (copy_without_all (map_entries annotations) [])))"

lemma map_of_copy_without_all:
  "distinct (map fst es) \<Longrightarrow>
   map_of (copy_without_all es out) k =
     (if k = AnnotationAll then map_of out k
      else case map_of es k of Some v \<Rightarrow> Some v | None \<Rightarrow> map_of out k)"
proof (induction es out rule: copy_without_all.induct)
  case (2 k' v es out)
  then show ?case
    by (auto simp: update_conv' map_of_eq_None_iff split: option.splits) (force dest: map_of_SomeD)+
qed auto

lemma map_of_add_available:
  "map_of (add_available afs out) k =
     (case map_of out k of Some v \<Rightarrow> Some v
      | None \<Rightarrow> if k \<in> set afs then Some ''true'' else None)"
  by (induction afs out rule: add_available.induct) (auto simp: update_conv' split: option.splits)

definition expansion_active :: "string go_map \<Rightarrow> bool" where
  "expansion_active m \<longleftrightarrow> map_get m AnnotationAll = Some ''true''"

lemma expansion_inactive: "\<not> expansion_active m \<Longrightarrow> ExpandAnnotationAll c m = m"
  by (cases m)
    (auto simp: ExpandAnnotationAll_def expansion_active_def map_read_def split: option.splits)

lemma ExpandAnnotationAll_get:
  assumes "map_wf m"
  shows "map_get (ExpandAnnotationAll c m) k =
    (if expansion_active m
     then if k \<noteq> AnnotationAll \<and> map_get m k \<noteq> None then map_get m k
          else if k \<in> set (cfg_AvailableFeatures c) then Some ''true'' else None
     else map_get m k)"
proof (cases "expansion_active m")
  case True
  with assms show ?thesis
    by (cases m)
      (auto simp: ExpandAnnotationAll_def expansion_active_def map_read_def map_wf_def
        map_of_add_available map_of_copy_without_all split: option.split)
next
  case False
  then show ?thesis by (simp add: expansion_inactive)
qed

text \<open>
  With the \<open>all\<close> annotation set to \<open>true\<close> an annotation map reads as itself, without
  \<open>all\<close>, completed by \<open>true\<close> for every available feature it does not mention (an explicit value,
  such as \<open>false\<close>, wins over \<open>all\<close>); otherwise it reads as itself.
\<close>

theorem ExpandAnnotationAll_lookup:
  assumes "map_wf m"
  shows "map_get (ExpandAnnotationAll c m) k =
    (if expansion_active m
     then if k \<noteq> AnnotationAll \<and> map_get m k \<noteq> None then map_get m k
          else if k \<in> set (cfg_AvailableFeatures c) then Some ''true'' else None
     else map_get m k)"
  by (rule ExpandAnnotationAll_get [OF assms])

definition sample_catalog :: config where
  "sample_catalog = zero_config\<lparr>cfg_AvailableFeatures := [AnnotationSetFipsMode, AnnotationSetLandscape]\<rparr>"

definition sample_all :: "string go_map" where
  "sample_all = Some [(AnnotationAll, ''true''), (AnnotationSetFipsMode, ''false'')]"

lemma ExpandAnnotationAll_lookup_witness:
  "map_get (ExpandAnnotationAll sample_catalog sample_all) AnnotationSetFipsMode = Some ''false''
   \<and> map_get (ExpandAnnotationAll sample_catalog sample_all) AnnotationSetLandscape = Some ''true''
   \<and> map_get (ExpandAnnotationAll sample_catalog sample_all) AnnotationAll = None"
proof -
  have wf: "map_wf sample_all" by (simp add: map_wf_def sample_all_def)
  show ?thesis
    using ExpandAnnotationAll_lookup [OF wf, of sample_catalog]
    by (simp add: sample_all_def sample_catalog_def expansion_active_def)
qed

subsection \<open>Validation of the feature lists\<close>

definition ErrFeatureValidationFailed :: gerror where
  "ErrFeatureValidationFailed = ErrorString ''feature validation failed''"

definition unknown_feature :: "string \<Rightarrow> gerror" where
  "unknown_feature f = DetailError ErrFeatureValidationFailed '': unknown feature %q'' [f]"

definition not_available :: "string \<Rightarrow> gerror" where
  "not_available f =
     DetailError ErrFeatureValidationFailed '': feature %q is not in availableFeatures'' [f]"

fun check_known :: "string list \<Rightarrow> string list \<Rightarrow> gerror option" where
  "check_known known [] = None"
| "check_known known (f # fs) =
     (if f \<notin> set known then Some (unknown_feature f) else check_known known fs)"

definition sanitizeAvailableFeatures :: "string list \<Rightarrow> string list \<Rightarrow> gerror + string list" where
  "sanitizeAvailableFeatures availableFeatures known =
     (if length availableFeatures = 0 then Inr []
      else case check_known known availableFeatures of
             Some e \<Rightarrow> Inl e
           | None \<Rightarrow> Inr availableFeatures)"

fun validateNsFeatures :: "string list \<Rightarrow> string list \<Rightarrow> string list \<Rightarrow> gerror option" where
  "validateNsFeatures [] availableFeatures known = None"
| "validateNsFeatures (entry # es) availableFeatures known =
     (if entry = AnnotationAll then validateNsFeatures es availableFeatures known
      else if entry \<notin> set known then Some (unknown_feature entry)
      else if length availableFeatures > 0 \<and> entry \<notin> set availableFeatures
      then Some (not_available entry)
      else validateNsFeatures es availableFeatures known)"

fun validate_namespaces ::
  "(string \<times> string list) list \<Rightarrow> string list \<Rightarrow> string list \<Rightarrow> gerror option" where
  "validate_namespaces [] availableFeatures known = None"
| "validate_namespaces ((ns, declared) # es) availableFeatures known =
     (case validateNsFeatures declared availableFeatures known of
        Some e \<Rightarrow> Some e
      | None \<Rightarrow> validate_namespaces es availableFeatures known)"

definition namespace_entries :: "config \<Rightarrow> (string \<times> string list) list" where
  "namespace_entries c = (case cfg_NamespaceFeatures c of None \<Rightarrow> [] | Some m \<Rightarrow> map_entries m)"

definition validateFeatureAliases :: "config \<Rightarrow> string list \<Rightarrow> gerror option" where
  "validateFeatureAliases c known =
     (case sanitizeAvailableFeatures (cfg_AvailableFeatures c) known of
        Inl e \<Rightarrow> Some e
      | Inr availableFeatures \<Rightarrow>
          (case cfg_NamespaceFeatures c of
             None \<Rightarrow> None
           | Some m \<Rightarrow>
               if length (map_entries m) = 0 then None
               else validate_namespaces (map_entries m) availableFeatures known))"

text \<open>The configurations the validation is meant to let through.\<close>

definition entry_valid :: "string list \<Rightarrow> string list \<Rightarrow> string \<Rightarrow> bool" where
  "entry_valid avail known e \<longleftrightarrow>
     e = AnnotationAll \<or> e \<in> set known \<and> (avail = [] \<or> e \<in> set avail)"

definition features_valid :: "config \<Rightarrow> string list \<Rightarrow> bool" where
  "features_valid c known \<longleftrightarrow>
     set (cfg_AvailableFeatures c) \<subseteq> set known
     \<and> list_all (\<lambda>(ns, es). list_all (entry_valid (cfg_AvailableFeatures c) known) es)
         (namespace_entries c)"

lemma check_known_None: "check_known known fs = None \<longleftrightarrow> set fs \<subseteq> set known"
  by (induction fs) auto

lemma check_known_error: "check_known known fs = Some e \<Longrightarrow> errors_is e ErrFeatureValidationFailed"
  by (induction fs)
    (auto simp: unknown_feature_def ErrFeatureValidationFailed_def split: if_splits)

lemma validateNsFeatures_None:
  "validateNsFeatures es avail known = None \<longleftrightarrow> list_all (entry_valid avail known) es"
  by (induction es avail known rule: validateNsFeatures.induct) (auto simp: entry_valid_def)

lemma validateNsFeatures_error:
  "validateNsFeatures es avail known = Some e \<Longrightarrow> errors_is e ErrFeatureValidationFailed"
  by (induction es avail known rule: validateNsFeatures.induct)
    (auto simp: unknown_feature_def not_available_def ErrFeatureValidationFailed_def
      split: if_splits)

lemma validate_namespaces_None:
  "validate_namespaces nss avail known = None
   \<longleftrightarrow> list_all (\<lambda>(ns, es). list_all (entry_valid avail known) es) nss"
  by (induction nss avail known rule: validate_namespaces.induct)
    (auto simp: validateNsFeatures_None [symmetric] split: option.splits)

lemma validate_namespaces_error:
  "validate_namespaces nss avail known = Some e \<Longrightarrow> errors_is e ErrFeatureValidationFailed"
  by (induction nss avail known rule: validate_namespaces.induct)
    (auto split: option.splits dest: validateNsFeatures_error)

lemma validateFeatureAliases_None:
  "validateFeatureAliases c known = None \<longleftrightarrow> features_valid c known"
  by (auto simp: validateFeatureAliases_def sanitizeAvailableFeatures_def features_valid_def
      namespace_entries_def check_known_None validate_namespaces_None
      split: option.splits sum.splits if_splits)
    (auto simp: check_known_None [symmetric])

lemma validateFeatureAliases_error:
  "validateFeatureAliases c known = Some e \<Longrightarrow> errors_is e ErrFeatureValidationFailed"
  by (auto simp: validateFeatureAliases_def sanitizeAvailableFeatures_def
      split: option.splits sum.splits if_splits
      dest: check_known_error validate_namespaces_error)

text \<open>
  Property C32. The validation of the feature lists accepts exactly the configurations in which the
  catalog and every namespace list name known features only, the namespace lists stay within a
  non-empty catalog, and \<open>all\<close> may stand in a namespace list; whatever it rejects is an error that
  wraps \<open>ErrFeatureValidationFailed\<close>.
\<close>

theorem validateFeatureAliases_exact:
  "(validateFeatureAliases c known = None \<longleftrightarrow> features_valid c known)
   \<and> (case validateFeatureAliases c known of
        None \<Rightarrow> True | Some e \<Rightarrow> errors_is e ErrFeatureValidationFailed)"
  using validateFeatureAliases_None validateFeatureAliases_error by (simp split: option.split)

subsection \<open>What valid feature lists grant\<close>

lemma all_not_known: "AnnotationAll \<notin> set KnownFeatureKeys"
  by (simp add: KnownFeatureKeys_def)

lemma feature_list_declared:
  assumes "e \<in> set (feature_list c ns)"
  shows "\<exists>l. (ns, l) \<in> set (namespace_entries c) \<and> e \<in> set l"
proof (cases "cfg_NamespaceFeatures c")
  case None
  with assms show ?thesis by (simp add: feature_list_def)
next
  case (Some fs)
  with assms obtain l where "map_of (map_entries fs) ns = Some l" "e \<in> set l"
    by (cases "map_of (map_entries fs) ns") (auto simp: feature_list_def map_get_entries)
  with Some show ?thesis by (auto simp: namespace_entries_def dest: map_of_SomeD)
qed

lemma feature_list_entry:
  "features_valid c known \<Longrightarrow> e \<in> set (feature_list c ns) \<Longrightarrow>
   entry_valid (cfg_AvailableFeatures c) known e"
  by (fastforce simp: features_valid_def list_all_iff dest: feature_list_declared)

lemma default_granted_known:
  assumes "features_valid c KnownFeatureKeys" "default_granted c ns k"
  shows "k \<in> set KnownFeatureKeys
    \<and> (cfg_AvailableFeatures c \<noteq> [] \<longrightarrow> k \<in> set (cfg_AvailableFeatures c))"
  using assms feature_list_entry [OF assms(1), of k ns] all_not_known
  by (auto simp: default_granted_def entry_valid_def features_valid_def)

section \<open>The trust-bundle annotation\<close>

definition CTBValueTrue :: string where "CTBValueTrue = ''true''"
definition CTBValueFalse :: string where "CTBValueFalse = ''false''"

definition CTBMountEnabled :: "string go_map \<Rightarrow> bool" where
  "CTBMountEnabled annotations =
     (case map_get annotations AnnotationAddClusterTrustBundle of
        None \<Rightarrow> False
      | Some v \<Rightarrow> v = CTBValueTrue)"

definition CTBExplicitOptOut :: "string go_map \<Rightarrow> bool" where
  "CTBExplicitOptOut annotations =
     (case map_get annotations AnnotationAddClusterTrustBundle of
        None \<Rightarrow> False
      | Some v \<Rightarrow> v = CTBValueFalse)"

definition CTBHashPresent :: "string go_map \<Rightarrow> bool" where
  "CTBHashPresent annotations = (map_get annotations AnnotationCTBHash \<noteq> None)"

definition CTBRestartEnabled :: "string go_map \<Rightarrow> bool" where
  "CTBRestartEnabled annotations =
     (if CTBHashPresent annotations then True
      else case map_get annotations AnnotationAddClusterTrustBundle of
             None \<Rightarrow> False
           | Some v \<Rightarrow> v = CTBValueTrue)"

lemmas ctb_value_defs = CTBValueTrue_def CTBValueFalse_def

lemma CTBMountEnabled_iff:
  "CTBMountEnabled a \<longleftrightarrow> map_get a AnnotationAddClusterTrustBundle = Some ''true''"
  by (simp add: CTBMountEnabled_def ctb_value_defs split: option.split)

lemma CTBExplicitOptOut_iff:
  "CTBExplicitOptOut a \<longleftrightarrow> map_get a AnnotationAddClusterTrustBundle = Some ''false''"
  by (simp add: CTBExplicitOptOut_def ctb_value_defs split: option.split)

lemma CTBRestartEnabled_iff:
  "CTBRestartEnabled a \<longleftrightarrow>
     map_get a AnnotationCTBHash \<noteq> None
     \<or> map_get a AnnotationAddClusterTrustBundle = Some ''true''"
  by (simp add: CTBRestartEnabled_def CTBHashPresent_def ctb_value_defs split: option.split)

end
