(* ===== verification/Defaulter_Core.thy ===== *)
theory Defaulter_Core
  imports Api_Config
begin

text \<open>
  What the five pod defaulters share (\<open>internal/webhook/v1/pod_defaulters.go\<close>): the type of a
  defaulter, the loops over containers, the opt-in gate \<open>defaultPod\<close>, and the contracts as locales:
  \<open>container_edit\<close> (one loop body), \<open>pod_edit\<close> (an update handed to \<open>defaultPod\<close>) and
  \<open>pod_defaulting\<close> (a whole defaulter, what \<open>Default\<close> relies on).

  The code edits the pod in place. An update returns the edited pod and its \<open>modified\<close> flag; when
  it panics the pod is given back as it was, which no update of the repository does (proved below).
\<close>

type_synonym pod_update = "pod \<Rightarrow> config \<Rightarrow> (pod \<times> bool) go"

type_synonym pod_defaulter =
  "pod \<Rightarrow> string go_map \<Rightarrow> config \<Rightarrow> pod \<times> (gerror + bool) go"

section \<open>Loops over containers\<close>

fun for_containers ::
  "(container \<Rightarrow> (container \<times> bool) go) \<Rightarrow> container list \<Rightarrow> (container list \<times> bool) go" where
  "for_containers body [] = Ret ([], False)"
| "for_containers body (c # cs) =
     go_bind (body c) (\<lambda>(c', m).
     go_bind (for_containers body cs) (\<lambda>(cs', ms). Ret (c' # cs', m \<or> ms)))"

text \<open>The loop over \<open>[][]corev1.Container{p.Spec.InitContainers, p.Spec.Containers}\<close>.\<close>

definition for_container_groups ::
  "(container list \<Rightarrow> (container list \<times> bool) go) \<Rightarrow> pod \<Rightarrow> (pod \<times> bool) go" where
  "for_container_groups handleContainers p =
     go_bind (handleContainers (p_initContainers p)) (\<lambda>(ics, m1).
     go_bind (handleContainers (p_containers p)) (\<lambda>(cs, m2).
       Ret (p\<lparr>p_initContainers := ics, p_containers := cs\<rparr>, m1 \<or> m2)))"

definition edit_groups :: "(container \<Rightarrow> container) \<Rightarrow> pod \<Rightarrow> pod" where
  "edit_groups edit p =
     p\<lparr>p_initContainers := map edit (p_initContainers p),
       p_containers := map edit (p_containers p)\<rparr>"

definition pod_group_containers :: "pod \<Rightarrow> container list" where
  "pod_group_containers p = p_initContainers p @ p_containers p"

lemma edit_groups_simps [simp]:
  "p_name (edit_groups f p) = p_name p"
  "p_generateName (edit_groups f p) = p_generateName p"
  "p_namespace (edit_groups f p) = p_namespace p"
  "p_annotations (edit_groups f p) = p_annotations p"
  "p_ownerReferences (edit_groups f p) = p_ownerReferences p"
  "p_volumes (edit_groups f p) = p_volumes p"
  "p_imagePullSecrets (edit_groups f p) = p_imagePullSecrets p"
  "p_initContainers (edit_groups f p) = map f (p_initContainers p)"
  "p_containers (edit_groups f p) = map f (p_containers p)"
  "pod_group_containers (edit_groups f p) = map f (pod_group_containers p)"
  by (simp_all add: edit_groups_def pod_group_containers_def)

lemma edit_groups_same:
  "(\<And>c. c \<in> set (pod_group_containers p) \<Longrightarrow> f c = c) \<Longrightarrow> edit_groups f p = p"
  by (simp add: edit_groups_def pod_group_containers_def map_idI)

lemma map_fixed: "map f xs = xs \<Longrightarrow> x \<in> set xs \<Longrightarrow> f x = x"
  by (induction xs) auto

text \<open>The contract of one loop body: it returns, reports every change and keeps the name.\<close>

locale container_edit =
  fixes body :: "container \<Rightarrow> (container \<times> bool) go"
    and edit :: "container \<Rightarrow> container"
    and flag :: "container \<Rightarrow> bool"
  assumes body_ret: "body c = Ret (edit c, flag c)"
    and unflagged: "\<not> flag c \<Longrightarrow> edit c = c"
    and name_kept: "c_name (edit c) = c_name c"
begin

lemma loop_ret: "for_containers body cs = Ret (map edit cs, list_ex flag cs)"
  by (induction cs) (simp_all add: body_ret)

lemma loop_unflagged: "\<not> list_ex flag cs \<Longrightarrow> map edit cs = cs"
  by (induction cs) (auto simp: unflagged)

lemma groups_ret:
  "for_container_groups (for_containers body) p =
     Ret (edit_groups edit p, list_ex flag (pod_group_containers p))"
  by (simp add: for_container_groups_def loop_ret edit_groups_def pod_group_containers_def)

lemma groups_unflagged:
  "\<not> list_ex flag (pod_group_containers p) \<Longrightarrow> edit_groups edit p = p"
  by (rule edit_groups_same) (auto simp: list_ex_iff unflagged)

lemma groups_frame: "pod_frame p (edit_groups edit p)"
  by (simp add: pod_frame_def name_kept comp_def)

end

text \<open>A body whose second run changes nothing.\<close>

locale settled_edit = container_edit +
  assumes flag_after: "\<not> flag (edit c)"
begin

lemma edit_twice: "edit (edit c) = edit c"
  by (rule unflagged [OF flag_after])

lemma groups_settled: "\<not> list_ex flag (pod_group_containers (edit_groups edit p))"
  by (auto simp: list_ex_iff flag_after)

end

text \<open>A body whose flag is raised by a change only, and a pod reports what its containers report.\<close>

locale exact_edit = container_edit +
  assumes flagged: "flag c \<Longrightarrow> edit c \<noteq> c"
begin

lemma groups_exact:
  "list_ex flag (pod_group_containers p) \<longleftrightarrow> edit_groups edit p \<noteq> p"
proof
  assume "list_ex flag (pod_group_containers p)"
  then obtain c where c: "c \<in> set (pod_group_containers p)" "edit c \<noteq> c"
    by (auto simp: list_ex_iff dest: flagged)
  show "edit_groups edit p \<noteq> p"
  proof
    assume "edit_groups edit p = p"
    then have "map edit (pod_group_containers p) = pod_group_containers p"
      by (metis edit_groups_simps(10))
    with c show False by (simp add: map_fixed)
  qed
qed (use groups_unflagged in blast)

end

sublocale settled_edit \<subseteq> exact_edit
  by unfold_locales (metis flag_after)

section \<open>The opt-in gate\<close>

definition opt_in_sources :: "pod \<Rightarrow> string go_map \<Rightarrow> config \<Rightarrow> string go_map list" where
  "opt_in_sources p nsAnnotations cfg =
     [NamespaceDefaultFeatures cfg (p_namespace p),
      ExpandAnnotationAll cfg nsAnnotations,
      ExpandAnnotationAll cfg (p_annotations p)]"

text \<open>The first source that holds the active annotations runs the update; none leaves the pod.\<close>

fun first_opt_in :: "(string go_map \<Rightarrow> bool) \<Rightarrow> string go_map list \<Rightarrow> bool" where
  "first_opt_in accepts [] = False"
| "first_opt_in accepts (a # as) = (if accepts a then True else first_opt_in accepts as)"

definition run_update ::
  "pod \<Rightarrow> (pod \<times> bool) go \<Rightarrow> pod \<times> (gerror + bool) go" where
  "run_update p r = (case r of Ret (p', m) \<Rightarrow> (p', Ret (Inr m)) | Panic x \<Rightarrow> (p, Panic x))"

definition defaultPod :: "pod_update \<Rightarrow> string go_map \<Rightarrow> pod_defaulter" where
  "defaultPod update activeAnnotations p nsAnnotations cfg =
     (if first_opt_in (\<lambda>annotations. Contains annotations activeAnnotations)
           (opt_in_sources p nsAnnotations cfg)
      then run_update p (update p cfg)
      else (p, Ret (Inr False)))"

text \<open>
  The specification of the gate for one feature key: granted by the configuration to the pod's
  namespace, or switched on by an annotation of the namespace or of the pod, directly or by \<open>all\<close>.
\<close>

definition annotation_on :: "config \<Rightarrow> string go_map \<Rightarrow> string \<Rightarrow> bool" where
  "annotation_on cfg m k \<longleftrightarrow>
     map_get m k = Some ''true'' \<and> (k \<noteq> AnnotationAll \<or> \<not> expansion_active m)
     \<or> expansion_active m \<and> (map_get m k = None \<or> k = AnnotationAll)
       \<and> k \<in> set (cfg_AvailableFeatures cfg)"

definition opted_in :: "string \<Rightarrow> pod \<Rightarrow> string go_map \<Rightarrow> config \<Rightarrow> bool" where
  "opted_in k p ns cfg \<longleftrightarrow>
     map_get (NamespaceDefaultFeatures cfg (p_namespace p)) k = Some ''true''
     \<or> map_get (ExpandAnnotationAll cfg ns) k = Some ''true''
     \<or> map_get (ExpandAnnotationAll cfg (p_annotations p)) k = Some ''true''"

lemma first_opt_in_iff: "first_opt_in accepts as \<longleftrightarrow> (\<exists>a\<in>set as. accepts a)"
  by (induction as) auto

lemma gate_opted_in:
  "first_opt_in (\<lambda>a. map_get a k = Some ''true'') (opt_in_sources p ns cfg) = opted_in k p ns cfg"
  by (simp add: first_opt_in_iff opt_in_sources_def opted_in_def)

lemma expand_on: "map_wf m \<Longrightarrow>
  map_get (ExpandAnnotationAll cfg m) k = Some ''true'' \<longleftrightarrow> annotation_on cfg m k"
  by (auto simp: ExpandAnnotationAll_get annotation_on_def expansion_active_def)

lemma opted_in_iff:
  "map_wf ns \<Longrightarrow> map_wf (p_annotations p) \<Longrightarrow>
   opted_in k p ns cfg \<longleftrightarrow>
     default_granted cfg (p_namespace p) k \<or> annotation_on cfg ns k
     \<or> annotation_on cfg (p_annotations p) k"
  by (simp add: opted_in_def NamespaceDefaultFeatures_get expand_on)

text \<open>The gate reads the namespace and the annotations only, and not the stamped keys.\<close>

lemma annotation_on_cong:
  "map_get m' k = map_get m k \<Longrightarrow> map_get m' AnnotationAll = map_get m AnnotationAll \<Longrightarrow>
   annotation_on cfg m' k = annotation_on cfg m k"
  by (simp add: annotation_on_def expansion_active_def)

lemma opted_in_cong:
  assumes "map_wf (p_annotations p)" "map_wf (p_annotations q)" "p_namespace q = p_namespace p"
    and "map_get (p_annotations q) k = map_get (p_annotations p) k"
    and "map_get (p_annotations q) AnnotationAll = map_get (p_annotations p) AnnotationAll"
  shows "opted_in k q ns cfg = opted_in k p ns cfg"
  using assms by (simp add: opted_in_def expand_on annotation_on_cong [OF assms(4,5)])

section \<open>Contracts of updates and defaulters\<close>

text \<open>An update handed to \<open>defaultPod\<close>: returns, reports every change, keeps the frame.\<close>

locale pod_edit =
  fixes update :: pod_update
    and edit :: "pod \<Rightarrow> config \<Rightarrow> pod"
    and flag :: "pod \<Rightarrow> config \<Rightarrow> bool"
  assumes update_ret: "update p cfg = Ret (edit p cfg, flag p cfg)"
    and update_unflagged: "\<not> flag p cfg \<Longrightarrow> edit p cfg = p"
    and update_frame: "pod_frame p (edit p cfg)"
    and update_annotations: "p_annotations (edit p cfg) = p_annotations p"
begin

lemma defaultPod_ret:
  "defaultPod update (Some [(k, ''true'')]) p ns cfg =
     (if opted_in k p ns cfg then (edit p cfg, Ret (Inr (flag p cfg))) else (p, Ret (Inr False)))"
  by (simp add: defaultPod_def gate_opted_in run_update_def update_ret)

end

definition annotations_kept :: "pod \<Rightarrow> pod \<Rightarrow> bool" where
  "annotations_kept p q \<longleftrightarrow>
     (\<forall>k. k \<noteq> AnnotationCTBHash \<longrightarrow> map_get (p_annotations q) k = map_get (p_annotations p) k)
     \<and> (map_wf (p_annotations p) \<longrightarrow> map_wf (p_annotations q))"

lemma annotations_kept_refl [simp]: "annotations_kept p p"
  by (simp add: annotations_kept_def)

lemma annotations_kept_trans:
  "annotations_kept p q \<Longrightarrow> annotations_kept q r \<Longrightarrow> annotations_kept p r"
  by (simp add: annotations_kept_def)

lemma annotations_kept_eq: "p_annotations q = p_annotations p \<Longrightarrow> annotations_kept p q"
  by (simp add: annotations_kept_def)

text \<open>
  A defaulter as \<open>Default\<close> uses it: no error, no panic, every change reported, the frame of the pod
  and every annotation but the hash kept.
\<close>

locale pod_defaulting =
  fixes defaulter :: pod_defaulter
    and effect :: "pod \<Rightarrow> string go_map \<Rightarrow> config \<Rightarrow> pod"
    and reports :: "pod \<Rightarrow> string go_map \<Rightarrow> config \<Rightarrow> bool"
  assumes defaulter_ret: "defaulter p ns cfg = (effect p ns cfg, Ret (Inr (reports p ns cfg)))"
    and unreported: "\<not> reports p ns cfg \<Longrightarrow> effect p ns cfg = p"
    and effect_frame: "pod_frame p (effect p ns cfg)"
    and effect_annotations: "annotations_kept p (effect p ns cfg)"

text \<open>Every gated update is such a defaulter.\<close>

locale gated_edit = pod_edit +
  fixes key :: string
begin

definition gated :: "pod \<Rightarrow> string go_map \<Rightarrow> config \<Rightarrow> pod" where
  "gated p ns cfg = (if opted_in key p ns cfg then edit p cfg else p)"

definition gated_flag :: "pod \<Rightarrow> string go_map \<Rightarrow> config \<Rightarrow> bool" where
  "gated_flag p ns cfg = (opted_in key p ns cfg \<and> flag p cfg)"

end

sublocale gated_edit \<subseteq>
  gated: pod_defaulting "defaultPod update (Some [(key, ''true'')])" gated gated_flag
  by unfold_locales
    (auto simp: defaultPod_ret gated_def gated_flag_def update_unflagged update_frame
      update_annotations annotations_kept_eq)

text \<open>The same contract without naming the effect, for lists of defaulters.\<close>

definition defaulter_ok :: "pod_defaulter \<Rightarrow> bool" where
  "defaulter_ok d \<longleftrightarrow>
     (\<forall>p ns cfg. \<exists>q m. d p ns cfg = (q, Ret (Inr m)) \<and> (m \<or> q = p) \<and> pod_frame p q
        \<and> annotations_kept p q)"

context pod_defaulting begin

lemma ok: "defaulter_ok defaulter"
  unfolding defaulter_ok_def
  using defaulter_ret unreported effect_frame effect_annotations by blast

end

end
