(* ===== verification/Defaulters_Image.thy ===== *)
theory Defaulters_Image
  imports Defaulter_Core
begin

text \<open>
  The registry rewrite and the image pull secret (\<open>internal/webhook/v1/pod_defaulters.go\<close>).
\<close>

section \<open>Registry rewrite\<close>

definition alter_container :: "string go_map \<Rightarrow> container \<Rightarrow> (container \<times> bool) go" where
  "alter_container overrides c =
     (let alteredImage = AlterPodImageRegistry (c_image c) overrides
      in if alteredImage = c_image c then Ret (c, False)
         else Ret (c\<lparr>c_image := alteredImage\<rparr>, True))"

definition alterImgRegistry ::
  "container list \<Rightarrow> string go_map \<Rightarrow> (container list \<times> bool) go" where
  "alterImgRegistry containers overrides = for_containers (alter_container overrides) containers"

definition alterPodImageRegistry :: pod_update where
  "alterPodImageRegistry p c =
     for_container_groups (\<lambda>containers. alterImgRegistry containers (cfg_Overrides c)) p"

definition annotationsAlterImgRegistry :: "string go_map" where
  "annotationsAlterImgRegistry = Some [(AnnotationAlterImgRegistry, ''true'')]"

definition BuildPodDefaulterAlterImgRegistry :: pod_defaulter where
  "BuildPodDefaulterAlterImgRegistry =
     defaultPod alterPodImageRegistry annotationsAlterImgRegistry"

definition registry_container :: "string go_map \<Rightarrow> container \<Rightarrow> container" where
  "registry_container ov c = c\<lparr>c_image := AlterPodImageRegistry (c_image c) ov\<rparr>"

definition registry_pending :: "string go_map \<Rightarrow> container \<Rightarrow> bool" where
  "registry_pending ov c \<longleftrightarrow> AlterPodImageRegistry (c_image c) ov \<noteq> c_image c"

lemma registry_unchanged: "\<not> registry_pending ov c \<Longrightarrow> registry_container ov c = c"
  by (cases c) (simp add: registry_pending_def registry_container_def)

lemma alter_container_ret:
  "alter_container ov c = Ret (registry_container ov c, registry_pending ov c)"
  by (cases c) (simp add: alter_container_def registry_container_def registry_pending_def Let_def)

interpretation registry: exact_edit
  "alter_container ov" "registry_container ov" "registry_pending ov" for ov
  by unfold_locales
    (simp_all add: alter_container_ret registry_unchanged,
     auto simp: registry_container_def registry_pending_def dest: arg_cong [of _ _ c_image])

lemma alterPodImageRegistry_ret:
  "alterPodImageRegistry p cfg =
     Ret (edit_groups (registry_container (cfg_Overrides cfg)) p,
          list_ex (registry_pending (cfg_Overrides cfg)) (pod_group_containers p))"
  by (simp add: alterPodImageRegistry_def alterImgRegistry_def registry.groups_ret)

interpretation alter_registry: gated_edit alterPodImageRegistry
  "\<lambda>p cfg. edit_groups (registry_container (cfg_Overrides cfg)) p"
  "\<lambda>p cfg. list_ex (registry_pending (cfg_Overrides cfg)) (pod_group_containers p)"
  AnnotationAlterImgRegistry
  by unfold_locales
    (simp_all add: alterPodImageRegistry_ret registry.groups_unflagged registry.groups_frame)

definition registry_effect :: "pod \<Rightarrow> string go_map \<Rightarrow> config \<Rightarrow> pod" where
  "registry_effect p ns cfg =
     (if opted_in AnnotationAlterImgRegistry p ns cfg
      then edit_groups (registry_container (cfg_Overrides cfg)) p else p)"

lemma BuildPodDefaulterAlterImgRegistry_ret:
  "BuildPodDefaulterAlterImgRegistry p ns cfg =
     (registry_effect p ns cfg, Ret (Inr (alter_registry.gated_flag p ns cfg)))"
  unfolding BuildPodDefaulterAlterImgRegistry_def annotationsAlterImgRegistry_def
  by (simp only: alter_registry.gated.defaulter_ret alter_registry.gated_def registry_effect_def)

lemma BuildPodDefaulterAlterImgRegistry_ok: "defaulter_ok BuildPodDefaulterAlterImgRegistry"
  unfolding BuildPodDefaulterAlterImgRegistry_def annotationsAlterImgRegistry_def
  by (rule alter_registry.gated.ok)

lemma registry_settled:
  "overrides_stable ov \<Longrightarrow> \<not> registry_pending ov (registry_container ov c)"
  by (simp add: registry_pending_def registry_container_def alter_idempotent)

lemma registry_exact:
  "BuildPodDefaulterAlterImgRegistry p ns cfg =
     (registry_effect p ns cfg, Ret (Inr (registry_effect p ns cfg \<noteq> p)))"
  unfolding BuildPodDefaulterAlterImgRegistry_ret alter_registry.gated_flag_def
  by (simp add: registry_effect_def registry.groups_exact)

text \<open>
  Property C20. On a pod that opted in, the registry defaulter rewrites the image of every container
  and init container, in place, and keeps everything else of the pod; any other pod it leaves as it
  is. It never fails, and it reports a modification exactly when the pod changed.
\<close>

theorem AlterImgRegistry_defaulter:
  "let (q, r) = BuildPodDefaulterAlterImgRegistry p ns cfg
   in r = Ret (Inr (q \<noteq> p))
     \<and> q = (if opted_in AnnotationAlterImgRegistry p ns cfg
            then edit_groups (\<lambda>c. c\<lparr>c_image := rewritten_image (cfg_Overrides cfg) (c_image c)\<rparr>) p
            else p)"
proof -
  have "registry_container ov = (\<lambda>c. c\<lparr>c_image := rewritten_image ov (c_image c)\<rparr>)" for ov
    by (simp add: registry_container_def image_rewritten fun_eq_iff)
  then show ?thesis
    by (simp add: registry_exact registry_effect_def)
qed

section \<open>Image pull secret\<close>

text \<open>A \<open>LocalObjectReference\<close> is its name.\<close>

definition addImgPullSecret :: "string \<Rightarrow> pod_update" where
  "addImgPullSecret secretName p c =
     (let imgPullSecret = secretName
      in if imgPullSecret \<in> set (p_imagePullSecrets p) then Ret (p, False)
         else Ret (p\<lparr>p_imagePullSecrets := p_imagePullSecrets p @ [imgPullSecret]\<rparr>, True))"

definition annotationsSetPullSecret :: "string go_map" where
  "annotationsSetPullSecret = Some [(AnnotationSetPullSecret, ''true'')]"

definition BuildPodDefaulterAddImagePullSecrets :: "string \<Rightarrow> pod_defaulter" where
  "BuildPodDefaulterAddImagePullSecrets secretName =
     defaultPod (addImgPullSecret secretName) annotationsSetPullSecret"

definition add_pull_secret :: "string \<Rightarrow> pod \<Rightarrow> pod" where
  "add_pull_secret s p =
     (if s \<in> set (p_imagePullSecrets p) then p
      else p\<lparr>p_imagePullSecrets := p_imagePullSecrets p @ [s]\<rparr>)"

lemma addImgPullSecret_ret:
  "addImgPullSecret s p cfg = Ret (add_pull_secret s p, s \<notin> set (p_imagePullSecrets p))"
  by (simp add: addImgPullSecret_def add_pull_secret_def)

interpretation pull_secret: gated_edit "addImgPullSecret s"
  "\<lambda>p cfg. add_pull_secret s p" "\<lambda>p cfg. s \<notin> set (p_imagePullSecrets p)"
  AnnotationSetPullSecret for s
  by unfold_locales (auto simp: addImgPullSecret_ret add_pull_secret_def pod_frame_def)

definition pull_secret_effect :: "string \<Rightarrow> pod \<Rightarrow> string go_map \<Rightarrow> config \<Rightarrow> pod" where
  "pull_secret_effect s p ns cfg =
     (if opted_in AnnotationSetPullSecret p ns cfg then add_pull_secret s p else p)"

lemma BuildPodDefaulterAddImagePullSecrets_ret:
  "BuildPodDefaulterAddImagePullSecrets s p ns cfg =
     (pull_secret_effect s p ns cfg, Ret (Inr (pull_secret.gated_flag s p ns cfg)))"
  unfolding BuildPodDefaulterAddImagePullSecrets_def annotationsSetPullSecret_def
  by (simp only: pull_secret.gated.defaulter_ret pull_secret.gated_def pull_secret_effect_def)

lemma BuildPodDefaulterAddImagePullSecrets_ok:
  "defaulter_ok (BuildPodDefaulterAddImagePullSecrets s)"
  unfolding BuildPodDefaulterAddImagePullSecrets_def annotationsSetPullSecret_def
  by (rule pull_secret.gated.ok)

lemma pull_secret_flag: "s \<notin> set (p_imagePullSecrets p) \<longleftrightarrow> add_pull_secret s p \<noteq> p"
  by (auto simp: add_pull_secret_def dest: arg_cong [of _ _ p_imagePullSecrets])

lemma pull_secret_exact:
  "BuildPodDefaulterAddImagePullSecrets s p ns cfg =
     (pull_secret_effect s p ns cfg, Ret (Inr (pull_secret_effect s p ns cfg \<noteq> p)))"
  unfolding BuildPodDefaulterAddImagePullSecrets_ret pull_secret.gated_flag_def
  by (simp add: pull_secret_effect_def pull_secret_flag)

text \<open>
  On a pod that opted in, the pull-secret defaulter appends the configured secret
  unless the pod already names it, so the secret is there once and the pod's own secrets keep
  their order; nothing else changes, and the report is exact.
\<close>

theorem AddImagePullSecrets_defaulter:
  "let (q, r) = BuildPodDefaulterAddImagePullSecrets s p ns cfg
   in r = Ret (Inr (q \<noteq> p))
     \<and> q = p\<lparr>p_imagePullSecrets := p_imagePullSecrets p
          @ (if opted_in AnnotationSetPullSecret p ns cfg \<and> s \<notin> set (p_imagePullSecrets p)
             then [s] else [])\<rparr>"
  by (simp add: pull_secret_exact) (simp add: pull_secret_effect_def add_pull_secret_def)

end
