(* ===== verification/Defaulters_Env.thy ===== *)
theory Defaulters_Env
  imports Defaulter_Core
begin

text \<open>
  The two defaulters that set environment variables: FIPS mode
  (\<open>internal/webhook/v1/pod_defaulter_fips_mode.go\<close>) and the landscape
  (\<open>internal/webhook/v1/pod_defaulter_landscape.go\<close>). Both look the variable up in the container
  as it was at the start of the loop iteration (\<open>currentEnv\<close>) and write to the container as it is.
\<close>

definition env_entry :: "string \<Rightarrow> string \<Rightarrow> env_var" where
  "env_entry n v = \<lparr>env_name = n, env_value = v, env_valueFrom = None\<rparr>"

lemma env_entry_simps [simp]:
  "env_name (env_entry n v) = n"
  "env_value (env_entry n v) = v"
  "env_valueFrom (env_entry n v) = None"
  by (simp_all add: env_entry_def)

text \<open>Setting one variable, on a list: the reference both defaulters are compared with.\<close>

definition set_env :: "string \<Rightarrow> string \<Rightarrow> env_var list \<Rightarrow> env_var list" where
  "set_env n v = upsert (\<lambda>e. env_name e = n) (\<lambda>e. env_value e = v) (env_entry n v)"

definition env_changes :: "string \<Rightarrow> string \<Rightarrow> env_var list \<Rightarrow> bool" where
  "env_changes n v = upsert_flag (\<lambda>e. env_name e = n) (\<lambda>e. env_value e = v)"

interpretation env: upsert_entry
  "\<lambda>e. env_name e = n" "\<lambda>e. env_value e = v" "env_entry n v" for n v
  by unfold_locales simp_all

lemmas set_env_facts =
  env.flag_after [folded set_env_def env_changes_def]
  env.unflagged_same [folded set_env_def env_changes_def]
  env.flag_change [folded set_env_def env_changes_def]

lemma set_env_other_index:
  "n \<noteq> n' \<Longrightarrow> index_func (\<lambda>e. env_name e = n') (set_env n v es) = index_func (\<lambda>e. env_name e = n') es"
  unfolding set_env_def by (rule index_func_upsert_other) auto

lemma env_changes_other:
  "n \<noteq> n' \<Longrightarrow> env_changes n' v' (set_env n v es) = env_changes n' v' es"
  unfolding set_env_def env_changes_def by (induction es) auto

text \<open>What a container reads for a variable: the first entry of that name.\<close>

definition env_lookup :: "string \<Rightarrow> container \<Rightarrow> string option" where
  "env_lookup n c = map_option env_value (find (\<lambda>e. env_name e = n) (c_env c))"

lemma find_set_env: "\<exists>e. find (\<lambda>e. env_name e = n) (set_env n v es) = Some e \<and> env_value e = v"
  using env.first_ok [of n v es] by (auto simp: set_env_def)

lemma env_lookup_set [simp]: "env_lookup n (c\<lparr>c_env := set_env n v es\<rparr>) = Some v"
  using find_set_env [of n v es] by (auto simp: env_lookup_def)

lemma env_lookup_other:
  "n' \<noteq> n \<Longrightarrow> env_lookup n' (c\<lparr>c_env := set_env n v es\<rparr>) = env_lookup n' (c\<lparr>c_env := es\<rparr>)"
  by (simp add: env_lookup_def set_env_def find_upsert_other)

lemma set_env_others:
  "filter (\<lambda>e. env_name e \<noteq> n) (set_env n v es) = filter (\<lambda>e. env_name e \<noteq> n) es"
  unfolding set_env_def by (rule env.others_kept)

section \<open>FIPS mode\<close>

definition fipsModeEnvVarNames :: "string list" where
  "fipsModeEnvVarNames = [EnvKymaFipsModeEnabled, EnvFipsModeEnabled]"

definition setFipsModeEnvVar ::
  "container \<Rightarrow> env_var list \<Rightarrow> string \<Rightarrow> (container \<times> bool) go" where
  "setFipsModeEnvVar container currentEnv envName =
     (let index = index_func (\<lambda>v. env_name v = envName) currentEnv;
          envVar = \<lparr>env_name = envName, env_value = ''true'', env_valueFrom = None\<rparr>
      in if index = -1 then Ret (container\<lparr>c_env := c_env container @ [envVar]\<rparr>, True)
         else go_bind (slice_get (c_env container) index) (\<lambda>old.
           if env_value old = ''true'' then Ret (container, False)
           else go_bind (slice_put (c_env container) index envVar) (\<lambda>env.
             Ret (container\<lparr>c_env := env\<rparr>, True))))"

fun fips_env_loop ::
  "container \<Rightarrow> env_var list \<Rightarrow> string list \<Rightarrow> bool \<Rightarrow> (container \<times> bool) go" where
  "fips_env_loop container currentEnv [] modified = Ret (container, modified)"
| "fips_env_loop container currentEnv (envName # names) modified =
     go_bind (setFipsModeEnvVar container currentEnv envName) (\<lambda>(container', m).
       fips_env_loop container' currentEnv names (if m then True else modified))"

definition fips_handleContainers :: "container list \<Rightarrow> (container list \<times> bool) go" where
  "fips_handleContainers =
     for_containers (\<lambda>c. fips_env_loop c (c_env c) fipsModeEnvVarNames False)"

definition setFipsMode :: pod_update where
  "setFipsMode p cfg = for_container_groups fips_handleContainers p"

definition annotationSetFipsMode :: "string go_map" where
  "annotationSetFipsMode = Some [(AnnotationSetFipsMode, ''true'')]"

definition BuildDefaulterFipsMode :: pod_defaulter where
  "BuildDefaulterFipsMode = defaultPod setFipsMode annotationSetFipsMode"

lemma setFipsModeEnvVar_ret:
  assumes "index_func (\<lambda>e. env_name e = n) currentEnv = index_func (\<lambda>e. env_name e = n) (c_env c)"
  shows "setFipsModeEnvVar c currentEnv n =
    Ret (c\<lparr>c_env := set_env n ''true'' (c_env c)\<rparr>, env_changes n ''true'' (c_env c))"
proof -
  have "setFipsModeEnvVar c currentEnv n =
      go_bind (upsert_at (index_func (\<lambda>e. env_name e = n) (c_env c)) (\<lambda>e. env_value e = ''true'')
        (env_entry n ''true'') (c_env c)) (\<lambda>(es, b). Ret (c\<lparr>c_env := es\<rparr>, b))"
    by (simp add: setFipsModeEnvVar_def assms upsert_at_def env_entry_def Let_def go_bind_def
        split: go.split)
  then show ?thesis
    by (simp add: upsert_at_index set_env_def env_changes_def)
qed

text \<open>What one container becomes, and when it counts as modified.\<close>

definition fips_env :: "env_var list \<Rightarrow> env_var list" where
  "fips_env es = set_env EnvFipsModeEnabled ''true'' (set_env EnvKymaFipsModeEnabled ''true'' es)"

definition fips_container :: "container \<Rightarrow> container" where
  "fips_container c = c\<lparr>c_env := fips_env (c_env c)\<rparr>"

definition fips_pending :: "container \<Rightarrow> bool" where
  "fips_pending c \<longleftrightarrow>
     env_changes EnvKymaFipsModeEnabled ''true'' (c_env c)
     \<or> env_changes EnvFipsModeEnabled ''true'' (c_env c)"

lemma env_names_distinct [simp]:
  "EnvKymaFipsModeEnabled \<noteq> EnvFipsModeEnabled" "EnvFipsModeEnabled \<noteq> EnvKymaFipsModeEnabled"
  "EnvKymaFipsModeEnabled \<noteq> EnvKymaLandscape" "EnvKymaLandscape \<noteq> EnvKymaFipsModeEnabled"
  "EnvFipsModeEnabled \<noteq> EnvKymaLandscape" "EnvKymaLandscape \<noteq> EnvFipsModeEnabled"
  by (simp_all add: EnvKymaFipsModeEnabled_def EnvFipsModeEnabled_def EnvKymaLandscape_def)

lemma fips_loop_ret:
  "fips_env_loop c (c_env c) fipsModeEnvVarNames False = Ret (fips_container c, fips_pending c)"
  by (simp add: fipsModeEnvVarNames_def setFipsModeEnvVar_ret set_env_other_index
      fips_container_def fips_env_def fips_pending_def env_changes_other)

interpretation fips: settled_edit
  "\<lambda>c. fips_env_loop c (c_env c) fipsModeEnvVarNames False" fips_container fips_pending
proof
  fix c
  show "fips_env_loop c (c_env c) fipsModeEnvVarNames False = Ret (fips_container c, fips_pending c)"
    by (rule fips_loop_ret)
  show "\<not> fips_pending c \<Longrightarrow> fips_container c = c"
    by (simp add: fips_pending_def fips_container_def fips_env_def set_env_facts)
  show "c_name (fips_container c) = c_name c"
    by (simp add: fips_container_def)
  show "\<not> fips_pending (fips_container c)"
    by (simp add: fips_pending_def fips_container_def fips_env_def set_env_facts env_changes_other)
qed

lemma setFipsMode_ret:
  "setFipsMode p cfg =
     Ret (edit_groups fips_container p, list_ex fips_pending (pod_group_containers p))"
  by (simp add: setFipsMode_def fips_handleContainers_def fips.groups_ret)

interpretation fips_mode: gated_edit setFipsMode
  "\<lambda>p cfg. edit_groups fips_container p"
  "\<lambda>p cfg. list_ex fips_pending (pod_group_containers p)" AnnotationSetFipsMode
  by unfold_locales (simp_all add: setFipsMode_ret fips.groups_unflagged fips.groups_frame)

definition fips_effect :: "pod \<Rightarrow> string go_map \<Rightarrow> config \<Rightarrow> pod" where
  "fips_effect p ns cfg =
     (if opted_in AnnotationSetFipsMode p ns cfg then edit_groups fips_container p else p)"

lemma BuildDefaulterFipsMode_ret:
  "BuildDefaulterFipsMode p ns cfg =
     (fips_effect p ns cfg, Ret (Inr (fips_mode.gated_flag p ns cfg)))"
  unfolding BuildDefaulterFipsMode_def annotationSetFipsMode_def
  by (simp only: fips_mode.gated.defaulter_ret fips_mode.gated_def fips_effect_def)

lemma BuildDefaulterFipsMode_ok: "defaulter_ok BuildDefaulterFipsMode"
  unfolding BuildDefaulterFipsMode_def annotationSetFipsMode_def by (rule fips_mode.gated.ok)

text \<open>What a container is beside the variables of the given names.\<close>

definition besides_env ::
  "string list \<Rightarrow> container \<Rightarrow> string \<times> string \<times> volume_mount list \<times> env_var list" where
  "besides_env names c =
     (c_name c, c_image c, c_volumeMounts c, filter (\<lambda>e. env_name e \<notin> set names) (c_env c))"

lemma filter_set_env:
  assumes "\<And>e. P e \<Longrightarrow> env_name e \<noteq> n"
  shows "filter P (set_env n v es) = filter P es"
proof -
  have "\<not> P (env_entry n v)" "env_name e = n \<Longrightarrow> \<not> P e" for e
    using assms [of "env_entry n v"] assms [of e] by auto
  then show ?thesis unfolding set_env_def by (induction es) auto
qed

lemma besides_set_env:
  "n \<in> set names \<Longrightarrow> besides_env names (c\<lparr>c_env := set_env n v es\<rparr>) = besides_env names (c\<lparr>c_env := es\<rparr>)"
  by (auto simp: besides_env_def intro: filter_set_env)

lemma fips_container_besides: "besides_env fipsModeEnvVarNames (fips_container c) = besides_env fipsModeEnvVarNames c"
  by (simp add: fips_container_def fips_env_def fipsModeEnvVarNames_def besides_set_env)

lemma fips_container_reads:
  "n \<in> set fipsModeEnvVarNames \<Longrightarrow> env_lookup n (fips_container c) = Some ''true''"
  by (auto simp: fipsModeEnvVarNames_def fips_container_def fips_env_def env_lookup_other)

lemma fips_exact:
  "BuildDefaulterFipsMode p ns cfg = (fips_effect p ns cfg, Ret (Inr (fips_effect p ns cfg \<noteq> p)))"
  unfolding BuildDefaulterFipsMode_ret fips_mode.gated_flag_def
  by (simp add: fips_effect_def fips.groups_exact)

lemma edit_groups_rest:
  "(edit_groups f p)\<lparr>p_initContainers := p_initContainers p, p_containers := p_containers p\<rparr> = p"
  by (simp add: edit_groups_def)

text \<open>
  Property C21. On a pod that opted in, after the FIPS defaulter every container and init container
  has both FIPS variables with the value \<open>true\<close> (the first entry of each name counts), every other
  variable in its order, and its name, image and mounts; the rest of the pod is as it was. The
  defaulter never fails, and it reports a modification exactly when the pod changed.
\<close>

theorem FipsMode_defaulter:
  "let (q, r) = BuildDefaulterFipsMode p ns cfg; names = fipsModeEnvVarNames
   in r = Ret (Inr (q \<noteq> p))
     \<and> (if opted_in AnnotationSetFipsMode p ns cfg
        then list_all (\<lambda>c. list_all (\<lambda>n. env_lookup n c = Some ''true'') names) (pod_group_containers q)
          \<and> map (besides_env names) (p_initContainers q) = map (besides_env names) (p_initContainers p)
          \<and> map (besides_env names) (p_containers q) = map (besides_env names) (p_containers p)
          \<and> q\<lparr>p_initContainers := p_initContainers p, p_containers := p_containers p\<rparr> = p
        else q = p)"
  by (simp add: fips_exact fips_effect_def fips_container_besides list_all_iff
      fips_container_reads edit_groups_rest Let_def)

section \<open>Landscape\<close>

definition setLandscapeEnvVar ::
  "container \<Rightarrow> env_var list \<Rightarrow> string \<Rightarrow> (container \<times> bool) go" where
  "setLandscapeEnvVar container currentEnv landscape =
     (let envName = EnvKymaLandscape;
          index = index_func (\<lambda>v. env_name v = envName) currentEnv;
          envVar = \<lparr>env_name = envName, env_value = landscape, env_valueFrom = None\<rparr>
      in if index = -1 then Ret (container\<lparr>c_env := c_env container @ [envVar]\<rparr>, True)
         else go_bind (slice_get (c_env container) index) (\<lambda>old.
           if env_value old = landscape then Ret (container, False)
           else go_bind (slice_put (c_env container) index envVar) (\<lambda>env.
             Ret (container\<lparr>c_env := env\<rparr>, True))))"

definition landscape_handleContainers ::
  "string \<Rightarrow> container list \<Rightarrow> (container list \<times> bool) go" where
  "landscape_handleContainers landscape =
     for_containers (\<lambda>c. setLandscapeEnvVar c (c_env c) landscape)"

definition setLandscape :: "string \<Rightarrow> pod_update" where
  "setLandscape landscape p cfg = for_container_groups (landscape_handleContainers landscape) p"

definition annotationSetLandscape :: "string go_map" where
  "annotationSetLandscape = Some [(AnnotationSetLandscape, ''true'')]"

definition BuildDefaulterSetLandscape :: "string \<Rightarrow> pod_defaulter" where
  "BuildDefaulterSetLandscape landscape = defaultPod (setLandscape landscape) annotationSetLandscape"

definition landscape_container :: "string \<Rightarrow> container \<Rightarrow> container" where
  "landscape_container v c = c\<lparr>c_env := set_env EnvKymaLandscape v (c_env c)\<rparr>"

definition landscape_pending :: "string \<Rightarrow> container \<Rightarrow> bool" where
  "landscape_pending v c = env_changes EnvKymaLandscape v (c_env c)"

lemma setLandscapeEnvVar_ret:
  "setLandscapeEnvVar c (c_env c) v = Ret (landscape_container v c, landscape_pending v c)"
proof -
  have "setLandscapeEnvVar c (c_env c) v =
      go_bind (upsert_at (index_func (\<lambda>e. env_name e = EnvKymaLandscape) (c_env c))
        (\<lambda>e. env_value e = v) (env_entry EnvKymaLandscape v) (c_env c))
        (\<lambda>(es, b). Ret (c\<lparr>c_env := es\<rparr>, b))"
    by (simp add: setLandscapeEnvVar_def upsert_at_def env_entry_def Let_def go_bind_def
        split: go.split)
  then show ?thesis
    by (simp add: upsert_at_index set_env_def env_changes_def landscape_container_def
        landscape_pending_def)
qed

interpretation landscape: settled_edit
  "\<lambda>c. setLandscapeEnvVar c (c_env c) v" "landscape_container v" "landscape_pending v" for v
  by unfold_locales
    (simp_all add: setLandscapeEnvVar_ret landscape_container_def landscape_pending_def
      set_env_facts)

lemma setLandscape_ret:
  "setLandscape v p cfg =
     Ret (edit_groups (landscape_container v) p,
          list_ex (landscape_pending v) (pod_group_containers p))"
  by (simp add: setLandscape_def landscape_handleContainers_def landscape.groups_ret)

interpretation set_landscape: gated_edit "setLandscape v"
  "\<lambda>p cfg. edit_groups (landscape_container v) p"
  "\<lambda>p cfg. list_ex (landscape_pending v) (pod_group_containers p)" AnnotationSetLandscape for v
  by unfold_locales
    (simp_all add: setLandscape_ret landscape.groups_unflagged landscape.groups_frame)

definition landscape_effect :: "string \<Rightarrow> pod \<Rightarrow> string go_map \<Rightarrow> config \<Rightarrow> pod" where
  "landscape_effect v p ns cfg =
     (if opted_in AnnotationSetLandscape p ns cfg then edit_groups (landscape_container v) p else p)"

lemma BuildDefaulterSetLandscape_ret:
  "BuildDefaulterSetLandscape v p ns cfg =
     (landscape_effect v p ns cfg, Ret (Inr (set_landscape.gated_flag v p ns cfg)))"
  unfolding BuildDefaulterSetLandscape_def annotationSetLandscape_def
  by (simp only: set_landscape.gated.defaulter_ret set_landscape.gated_def landscape_effect_def)

lemma BuildDefaulterSetLandscape_ok: "defaulter_ok (BuildDefaulterSetLandscape v)"
  unfolding BuildDefaulterSetLandscape_def annotationSetLandscape_def
  by (rule set_landscape.gated.ok)

lemma landscape_container_reads: "env_lookup EnvKymaLandscape (landscape_container v c) = Some v"
  by (simp add: landscape_container_def)

lemma landscape_container_besides:
  "besides_env [EnvKymaLandscape] (landscape_container v c) = besides_env [EnvKymaLandscape] c"
  by (simp add: landscape_container_def besides_set_env)

lemma landscape_exact:
  "BuildDefaulterSetLandscape v p ns cfg =
     (landscape_effect v p ns cfg, Ret (Inr (landscape_effect v p ns cfg \<noteq> p)))"
  unfolding BuildDefaulterSetLandscape_ret set_landscape.gated_flag_def
  by (simp add: landscape_effect_def landscape.groups_exact)

text \<open>
  On a pod that opted in, after the landscape defaulter every container and init
  container has \<open>KYMA_LANDSCAPE\<close> with the configured value, every other variable in its order, and
  its name, image and mounts; the rest of the pod is as it was, the defaulter never fails, and its
  report is exact.
\<close>

theorem SetLandscape_defaulter:
  "let (q, r) = BuildDefaulterSetLandscape v p ns cfg; names = [EnvKymaLandscape]
   in r = Ret (Inr (q \<noteq> p))
     \<and> (if opted_in AnnotationSetLandscape p ns cfg
        then list_all (\<lambda>c. env_lookup EnvKymaLandscape c = Some v) (pod_group_containers q)
          \<and> map (besides_env names) (p_initContainers q) = map (besides_env names) (p_initContainers p)
          \<and> map (besides_env names) (p_containers q) = map (besides_env names) (p_containers p)
          \<and> q\<lparr>p_initContainers := p_initContainers p, p_containers := p_containers p\<rparr> = p
        else q = p)"
  by (simp add: landscape_exact landscape_effect_def landscape_container_besides list_all_iff
      landscape_container_reads edit_groups_rest Let_def)

end
