(* ===== verification/Go_Sha256.thy ===== *)
theory Go_Sha256
  imports Go_Prelude "HOL-Library.Word"
begin

text \<open>
  \<open>crypto/sha256\<close>, the digest function \<open>sha256.Sum256\<close>, on 32-bit words: the padding of the message to
  blocks of 64 bytes, the message schedule, the 64 rounds of a block, and the chaining of the blocks.
\<close>

unbundle bit_operations_syntax

type_synonym byte = "8 word"

section \<open>Bytes and words\<close>

definition bytes_of :: "string \<Rightarrow> byte list" where
  "bytes_of s = map of_char s"

definition word_of_bytes :: "byte list \<Rightarrow> 32 word" where
  "word_of_bytes bs = foldl (\<lambda>w b. push_bit 8 w OR ucast b) 0 bs"

definition bytes_of_word :: "32 word \<Rightarrow> byte list" where
  "bytes_of_word w = map (\<lambda>n. ucast (drop_bit n w)) [24, 16, 8, 0]"

fun chunks :: "nat \<Rightarrow> 'a list \<Rightarrow> 'a list list" where
  "chunks n xs = (if n = 0 \<or> xs = [] then [] else take n xs # chunks n (drop n xs))"

declare chunks.simps [simp del]

section \<open>Constants\<close>

text \<open>
  The constants of the digest are the first 32 bits after the point of the roots of the first primes:
  the cube roots of 64 primes for the rounds, the square roots of 8 for the start. \<open>root_bits k n r x\<close>
  completes the \<open>k\<close>-th root of \<open>x\<close> from \<open>r\<close> with its last \<open>n\<close> bits.
\<close>

primrec root_bits :: "nat \<Rightarrow> nat \<Rightarrow> int \<Rightarrow> int \<Rightarrow> int" where
  "root_bits k 0 r x = r"
| "root_bits k (Suc n) r x = root_bits k n (if (r + 2 ^ n) ^ k \<le> x then r + 2 ^ n else r) x"

lemma root_bits_root:
  "r ^ k \<le> x \<Longrightarrow> x < (r + 2 ^ n) ^ k \<Longrightarrow>
   root_bits k n r x ^ k \<le> x \<and> x < (root_bits k n r x + 1) ^ k"
  by (induction n arbitrary: r) (auto simp: add.assoc)

definition is_prime :: "int \<Rightarrow> bool" where
  "is_prime p \<longleftrightarrow> list_all (\<lambda>d. p mod d \<noteq> 0) [2..p - 1]"

definition primes_to :: "int \<Rightarrow> int list" where
  "primes_to n = filter is_prime [2..n]"

definition root_fraction :: "nat \<Rightarrow> int \<Rightarrow> 32 word" where
  "root_fraction k p = word_of_int (root_bits k 40 0 (p * 2 ^ (32 * k)))"

definition sha_K :: "32 word list" where
  "sha_K = map (root_fraction 3) (primes_to 311)"

record sha_state =
  sha_a :: "32 word"
  sha_b :: "32 word"
  sha_c :: "32 word"
  sha_d :: "32 word"
  sha_e :: "32 word"
  sha_f :: "32 word"
  sha_g :: "32 word"
  sha_h :: "32 word"

definition sha_init :: sha_state where
  "sha_init =
     \<lparr>sha_a = root_fraction 2 2, sha_b = root_fraction 2 3, sha_c = root_fraction 2 5,
      sha_d = root_fraction 2 7, sha_e = root_fraction 2 11, sha_f = root_fraction 2 13,
      sha_g = root_fraction 2 17, sha_h = root_fraction 2 19\<rparr>"

section \<open>One block\<close>

text \<open>The schedule is kept with its last word first.\<close>

definition schedule_step :: "32 word list \<Rightarrow> 32 word list" where
  "schedule_step ws =
     (let w15 = ws ! 14; w2 = ws ! 1;
          s0 = word_rotr 7 w15 XOR word_rotr 18 w15 XOR drop_bit 3 w15;
          s1 = word_rotr 17 w2 XOR word_rotr 19 w2 XOR drop_bit 10 w2
      in (ws ! 15 + s0 + ws ! 6 + s1) # ws)"

definition schedule :: "byte list \<Rightarrow> 32 word list" where
  "schedule block = rev ((schedule_step ^^ 48) (rev (map word_of_bytes (chunks 4 block))))"

definition sha_round :: "sha_state \<Rightarrow> 32 word \<times> 32 word \<Rightarrow> sha_state" where
  "sha_round s kw =
     (let e = sha_e s; a = sha_a s;
          s1 = word_rotr 6 e XOR word_rotr 11 e XOR word_rotr 25 e;
          ch = (e AND sha_f s) XOR (NOT e AND sha_g s);
          t1 = sha_h s + s1 + ch + fst kw + snd kw;
          s0 = word_rotr 2 a XOR word_rotr 13 a XOR word_rotr 22 a;
          maj = (a AND sha_b s) XOR (a AND sha_c s) XOR (sha_b s AND sha_c s);
          t2 = s0 + maj
      in \<lparr>sha_a = t1 + t2, sha_b = a, sha_c = sha_b s, sha_d = sha_c s,
          sha_e = sha_d s + t1, sha_f = e, sha_g = sha_f s, sha_h = sha_g s\<rparr>)"

definition sha_block :: "sha_state \<Rightarrow> byte list \<Rightarrow> sha_state" where
  "sha_block s block =
     (let r = foldl sha_round s (zip sha_K (schedule block))
      in \<lparr>sha_a = sha_a s + sha_a r, sha_b = sha_b s + sha_b r, sha_c = sha_c s + sha_c r,
          sha_d = sha_d s + sha_d r, sha_e = sha_e s + sha_e r, sha_f = sha_f s + sha_f r,
          sha_g = sha_g s + sha_g r, sha_h = sha_h s + sha_h r\<rparr>)"

section \<open>The message\<close>

definition length_bytes :: "nat \<Rightarrow> byte list" where
  "length_bytes n = map (\<lambda>i. word_of_nat (n div 256 ^ i)) [7, 6, 5, 4, 3, 2, 1, 0]"

definition sha_pad :: "byte list \<Rightarrow> byte list" where
  "sha_pad m =
     m @ [0x80] @ replicate ((119 - length m mod 64) mod 64) 0 @ length_bytes (8 * length m)"

definition Sum256 :: "byte list \<Rightarrow> byte list" where
  "Sum256 m =
     (let s = foldl sha_block sha_init (chunks 64 (sha_pad m))
      in concat (map bytes_of_word
           [sha_a s, sha_b s, sha_c s, sha_d s, sha_e s, sha_f s, sha_g s, sha_h s]))"

text \<open>A digest has 32 bytes; the padded message is a whole number of blocks.\<close>

lemma length_Sum256 [simp]: "length (Sum256 m) = 32"
  by (simp add: Sum256_def Let_def bytes_of_word_def)

lemma Sum256_nonempty [simp]: "Sum256 m \<noteq> []"
  using length_Sum256 [of m] by (metis list.size(3) zero_neq_numeral)

lemma length_sha_pad: "64 dvd length (sha_pad m)"
proof -
  have "length m = length m div 64 * 64 + length m mod 64" by simp
  then obtain q r where "length m = q * 64 + r" "r < 64" by (meson mod_less_divisor zero_less_numeral)
  moreover from this have "(119 - r) mod 64 = (if r < 56 then 55 - r else 119 - r)"
    by (auto simp: mod_if)
  ultimately show ?thesis
    by (auto simp: sha_pad_def length_bytes_def)
qed

lemma chunks_length: "n dvd length xs \<Longrightarrow> 0 < n \<Longrightarrow> list_all (\<lambda>c. length c = n) (chunks n xs)"
proof (induction n xs rule: chunks.induct)
  case (1 n xs)
  show ?case
  proof (cases "xs = []")
    case True
    then show ?thesis by (simp add: chunks.simps)
  next
    case False
    with 1(2,3) have "n \<le> length xs" by (auto intro: dvd_imp_le)
    then show ?thesis
      using 1 False by (subst chunks.simps) (simp add: dvd_diff_nat)
  qed
qed

lemma padded_blocks: "list_all (\<lambda>b. length b = 64) (chunks 64 (sha_pad m))"
  by (rule chunks_length [OF length_sha_pad]) simp

end
