(* ===== verification/Hash_Holder.thy ===== *)
theory Hash_Holder
  imports Go_Sha256
begin

text \<open>
  \<open>internal/ctb/hash_holder.go\<close>: the cell that the watcher writes and the webhook reads. The
  read-write lock makes each \<open>Get\<close> and \<open>Set\<close> one atomic step, so the cell is a value passed
  through. The digest is SHA-256 of the bundle's bytes, written in hexadecimal.
\<close>

unbundle bit_operations_syntax

section \<open>Hexadecimal encoding (\<open>hex.EncodeToString\<close>)\<close>

definition hextable :: string where
  "hextable = ''0123456789abcdef''"

definition hex_byte :: "byte \<Rightarrow> string" where
  "hex_byte b = [hextable ! unat (drop_bit 4 b), hextable ! unat (b AND 15)]"

fun EncodeToString :: "byte list \<Rightarrow> string" where
  "EncodeToString [] = []"
| "EncodeToString (b # bs) = hex_byte b @ EncodeToString bs"

lemma length_EncodeToString: "length (EncodeToString bs) = 2 * length bs"
  by (induction bs) (simp_all add: hex_byte_def)

lemma high_nibble: "unat (drop_bit 4 (b :: byte)) = unat b div 16"
  by (simp add: drop_bit_eq_div unat_div)

lemma low_nibble: "unat ((b :: byte) AND 15) = unat b mod 16"
proof -
  have "b AND 15 = take_bit 4 b"
    by (simp add: take_bit_eq_mask mask_eq_exp_minus_1)
  then show ?thesis by (simp add: take_bit_eq_mod unat_mod)
qed

lemma length_hextable: "length hextable = 16"
  by (simp add: hextable_def)

lemma distinct_hextable: "distinct hextable"
  by (simp add: hextable_def)

lemma nibbles_less: "unat (b :: byte) div 16 < 16" "unat (b :: byte) mod 16 < 16"
  using unsigned_less [of b, where ?'a = nat] by (simp_all add: less_mult_imp_div_less)

lemma hex_byte_inj: "hex_byte a = hex_byte b \<longleftrightarrow> a = b"
proof
  assume "hex_byte a = hex_byte b"
  then have "unat a div 16 = unat b div 16" "unat a mod 16 = unat b mod 16"
    using nibbles_less [of a] nibbles_less [of b]
    by (simp_all add: hex_byte_def high_nibble low_nibble length_hextable
        nth_eq_iff_index_eq [OF distinct_hextable])
  then have "unat a = unat b" by (metis div_mult_mod_eq)
  then show "a = b" by (simp add: word_unat_eq_iff)
qed simp

lemma EncodeToString_inj: "EncodeToString as = EncodeToString bs \<longleftrightarrow> as = bs"
proof (induction as arbitrary: bs)
  case Nil
  show ?case by (cases bs) (simp_all add: hex_byte_def)
next
  case (Cons a as)
  show ?case
  proof (cases bs)
    case Nil
    then show ?thesis by (simp add: hex_byte_def)
  next
    case (Cons b bs')
    have "length (hex_byte a) = length (hex_byte b)" by (simp add: hex_byte_def)
    with Cons Cons.IH show ?thesis by (auto simp: hex_byte_inj)
  qed
qed

lemma hex_alphabet: "set (EncodeToString bs) \<subseteq> set hextable"
proof (induction bs)
  case (Cons b bs)
  have "hextable ! (unat b div 16) \<in> set hextable" "hextable ! (unat b mod 16) \<in> set hextable"
    using nibbles_less [of b] by (simp_all add: length_hextable)
  with Cons show ?case by (simp add: hex_byte_def high_nibble low_nibble)
qed simp

section \<open>The cell\<close>

record hash_holder =
  hh_hash :: string

definition NewHashHolder :: hash_holder where
  "NewHashHolder = \<lparr>hh_hash = []\<rparr>"

definition Get :: "hash_holder \<Rightarrow> string" where
  "Get h = hh_hash h"

definition Set :: "hash_holder \<Rightarrow> string \<Rightarrow> hash_holder" where
  "Set h v = h\<lparr>hh_hash := v\<rparr>"

definition ComputeAndSet :: "hash_holder \<Rightarrow> string \<Rightarrow> hash_holder" where
  "ComputeAndSet h trustBundle =
     (let sum = Sum256 (bytes_of trustBundle) in Set h (EncodeToString sum))"

abbreviation bundle_hash :: "string \<Rightarrow> string" where
  "bundle_hash trustBundle \<equiv> EncodeToString (Sum256 (bytes_of trustBundle))"

text \<open>The interface its two users rely on: a fresh cell is empty, a read sees the last write.\<close>

locale hash_cell =
  fixes get :: "'h \<Rightarrow> string"
    and put :: "'h \<Rightarrow> string \<Rightarrow> 'h"
    and fresh :: 'h
  assumes get_fresh: "get fresh = []"
    and get_put: "get (put h v) = v"
    and put_put: "put (put h v) w = put h w"
begin

lemma last_write: "get (foldl put h (vs @ [v])) = v"
  by (simp add: get_put)

lemma writes_collapse: "foldl put h (vs @ [v]) = put h v"
  by (induction vs rule: rev_induct) (simp_all add: put_put)

end

interpretation hh: hash_cell Get Set NewHashHolder
  by unfold_locales (simp_all add: Get_def Set_def NewHashHolder_def)

lemma Get_ComputeAndSet: "Get (ComputeAndSet h tb) = bundle_hash tb"
  by (simp add: ComputeAndSet_def hh.get_put)

lemma length_bundle_hash: "length (bundle_hash tb) = 64"
  by (simp add: length_EncodeToString)

lemma bundle_hash_nonempty [simp]: "bundle_hash tb \<noteq> []"
  using length_bundle_hash [of tb] by (metis list.size(3) zero_neq_numeral)

text \<open>
  The cell after \<open>ComputeAndSet\<close> holds the hexadecimal SHA-256 digest of the bundle: 64
  characters, all of them lower-case hexadecimal digits, whatever it held before, and two bundles
  give the same hash exactly when they have the same digest.
\<close>

theorem ComputeAndSet_hash:
  "length (Get (ComputeAndSet h tb)) = 64
   \<and> set (Get (ComputeAndSet h tb)) \<subseteq> set ''0123456789abcdef''
   \<and> (Get (ComputeAndSet h tb) = Get (ComputeAndSet h' tb'))
       = (Sum256 (bytes_of tb) = Sum256 (bytes_of tb'))"
  using hex_alphabet [of "Sum256 (bytes_of tb)", unfolded hextable_def]
  by (simp add: Get_ComputeAndSet length_EncodeToString EncodeToString_inj)

end
