(* ===== verification/Defaulter_CTB.thy ===== *)
theory Defaulter_CTB
  imports Defaulter_Core Hash_Holder
begin

text \<open>
  The defaulter that mounts the cluster trust bundle and stamps its hash
  (\<open>BuildDefaulterAddClusterTrustBundle\<close> in \<open>internal/webhook/v1/pod_defaulters.go\<close>). The hash
  holder is passed as it is when the defaulter runs.
\<close>

section \<open>Volume mounts\<close>

text \<open>
  One iteration of \<open>handleVolumeMount\<close>. The code compares the existing mount with \<open>vol\<close>, the
  \<open>Volume\<close> of the bundle, not with its \<open>VolumeMount\<close>: the two \<open>go_any\<close> constructors below.
\<close>

definition handleVolumeMount_body ::
  "cluster_trust_bundle \<Rightarrow> container \<Rightarrow> (container \<times> bool) go" where
  "handleVolumeMount_body m c =
     (let vol = ClusterTrustedBundle m;
          index = index_func (\<lambda>vm. vm_name vm = ctb_VolumeName m) (c_volumeMounts c)
      in if index = -1
         then let vm = VolumeMount m
              in Ret (c\<lparr>c_volumeMounts := c_volumeMounts c @ [vm]\<rparr>, True)
         else go_bind (slice_get (c_volumeMounts c) index) (\<lambda>old.
           if deep_equal (AnyVolumeMount old) (AnyVolume vol) then Ret (c, False)
           else let vm = VolumeMount m
                in go_bind (slice_put (c_volumeMounts c) index vm) (\<lambda>vms.
                     Ret (c\<lparr>c_volumeMounts := vms\<rparr>, True))))"

definition handleVolumeMount ::
  "container list \<Rightarrow> cluster_trust_bundle \<Rightarrow> (container list \<times> bool) go" where
  "handleVolumeMount cs m = for_containers (handleVolumeMount_body m) cs"

definition handleContainers :: "bool \<Rightarrow> pod \<Rightarrow> cluster_trust_bundle \<Rightarrow> (pod \<times> bool) go" where
  "handleContainers modified p m =
     go_bind (handleVolumeMount (p_containers p) m) (\<lambda>(cs, changed).
       Ret (p\<lparr>p_containers := cs\<rparr>, if changed then True else modified))"

definition handleClusterTrustBundle :: pod_update where
  "handleClusterTrustBundle p c =
     (case cfg_ClusterTrustBundleMapping c of
        None \<Rightarrow> Ret (p, False)
      | Some mapping \<Rightarrow>
          let index = index_func (\<lambda>v. vol_name v = ctb_VolumeName mapping) (p_volumes p);
              vol = ClusterTrustedBundle mapping
          in if index = -1
             then handleContainers True (p\<lparr>p_volumes := p_volumes p @ [vol]\<rparr>) mapping
             else go_bind (slice_get (p_volumes p) index) (\<lambda>old.
               if deep_equal (AnyVolume old) (AnyVolume vol)
               then handleContainers False p mapping
               else go_bind (slice_put (p_volumes p) index vol) (\<lambda>vols.
                      handleContainers True (p\<lparr>p_volumes := vols\<rparr>) mapping)))"

text \<open>\<open>p.Annotations[AnnotationCTBHash] = hash\<close> after the nil guard, when the hash is set.\<close>

definition stamp_hash :: "string \<Rightarrow> pod \<Rightarrow> bool \<Rightarrow> (pod \<times> bool) go" where
  "stamp_hash hash p modified =
     (if hash \<noteq> [] then
        go_bind (map_put (map_make (p_annotations p)) AnnotationCTBHash hash) (\<lambda>annotations.
          Ret (p\<lparr>p_annotations := annotations\<rparr>, True))
      else Ret (p, modified))"

definition annotationAddClusterTrustBundle :: "string go_map" where
  "annotationAddClusterTrustBundle = Some [(AnnotationAddClusterTrustBundle, ''true'')]"

definition ctb_accepts :: "string go_map \<Rightarrow> bool" where
  "ctb_accepts annotations \<longleftrightarrow>
     CTBMountEnabled annotations \<or> Contains annotations annotationAddClusterTrustBundle"

definition BuildDefaulterAddClusterTrustBundle :: "hash_holder \<Rightarrow> pod_defaulter" where
  "BuildDefaulterAddClusterTrustBundle hashHolder p nsAnnotations cfg =
     (if CTBExplicitOptOut (p_annotations p) then (p, Ret (Inr False))
      else if first_opt_in ctb_accepts (opt_in_sources p nsAnnotations cfg)
      then run_update p
        (go_bind (handleClusterTrustBundle p cfg) (\<lambda>(p', modified).
           stamp_hash (Get hashHolder) p' modified))
      else (p, Ret (Inr False)))"

section \<open>What it does\<close>

text \<open>The mount loop never takes its \<open>nothing to do\<close> branch: the comparison is always false.\<close>

lemma mount_never_equal: "\<not> deep_equal (AnyVolumeMount vm) (AnyVolume v)"
  by (simp add: deep_equal_def)

definition set_mount :: "cluster_trust_bundle \<Rightarrow> volume_mount list \<Rightarrow> volume_mount list" where
  "set_mount m = upsert (\<lambda>vm. vm_name vm = ctb_VolumeName m) (\<lambda>vm. False) (VolumeMount m)"

definition mount_container :: "cluster_trust_bundle \<Rightarrow> container \<Rightarrow> container" where
  "mount_container m c = c\<lparr>c_volumeMounts := set_mount m (c_volumeMounts c)\<rparr>"

definition set_volume :: "cluster_trust_bundle \<Rightarrow> volume list \<Rightarrow> volume list" where
  "set_volume m =
     upsert (\<lambda>v. vol_name v = ctb_VolumeName m) (\<lambda>v. v = ClusterTrustedBundle m)
       (ClusterTrustedBundle m)"

definition volume_changes :: "cluster_trust_bundle \<Rightarrow> volume list \<Rightarrow> bool" where
  "volume_changes m =
     upsert_flag (\<lambda>v. vol_name v = ctb_VolumeName m) (\<lambda>v. v = ClusterTrustedBundle m)"

text \<open>
  Had the comparison been with the mount, the loop would run this update; both write the same list.
\<close>

definition set_mount_ideal :: "cluster_trust_bundle \<Rightarrow> volume_mount list \<Rightarrow> volume_mount list" where
  "set_mount_ideal m =
     upsert (\<lambda>vm. vm_name vm = ctb_VolumeName m) (\<lambda>vm. vm = VolumeMount m) (VolumeMount m)"

lemma set_mount_ideal_eq: "set_mount m vms = set_mount_ideal m vms"
  by (induction vms) (simp_all add: set_mount_def set_mount_ideal_def)

interpretation mounts: upsert_entry
  "\<lambda>vm. vm_name vm = ctb_VolumeName m" "\<lambda>vm. vm = VolumeMount m" "VolumeMount m" for m
  by unfold_locales simp_all

interpretation volumes: upsert_entry
  "\<lambda>v. vol_name v = ctb_VolumeName m" "\<lambda>v. v = ClusterTrustedBundle m" "ClusterTrustedBundle m"
  for m
  by unfold_locales simp_all

lemma set_mount_twice: "set_mount m (set_mount m vms) = set_mount m vms"
  by (simp add: set_mount_ideal_eq, simp add: set_mount_ideal_def mounts.idempotent)

lemma upsert_flag_never: "upsert_flag named (\<lambda>x. False) xs"
  by (induction xs) auto

lemma handleVolumeMount_body_ret:
  "handleVolumeMount_body m c = Ret (mount_container m c, True)"
proof -
  have "handleVolumeMount_body m c =
      go_bind (upsert_at (index_func (\<lambda>vm. vm_name vm = ctb_VolumeName m) (c_volumeMounts c))
        (\<lambda>vm. False) (VolumeMount m) (c_volumeMounts c))
        (\<lambda>(vms, b). Ret (c\<lparr>c_volumeMounts := vms\<rparr>, b))"
    by (simp add: handleVolumeMount_body_def upsert_at_def mount_never_equal Let_def go_bind_def
        split: go.split)
  then show ?thesis
    by (simp add: upsert_at_index upsert_flag_never mount_container_def set_mount_def)
qed

interpretation mounting: container_edit
  "handleVolumeMount_body m" "mount_container m" "\<lambda>c. True" for m
  by unfold_locales (simp_all add: handleVolumeMount_body_ret mount_container_def)

definition mount_containers :: "cluster_trust_bundle \<Rightarrow> pod \<Rightarrow> pod" where
  "mount_containers m p = p\<lparr>p_containers := map (mount_container m) (p_containers p)\<rparr>"

lemma handleContainers_ret:
  "handleContainers modified p m = Ret (mount_containers m p, modified \<or> p_containers p \<noteq> [])"
  by (cases "p_containers p")
    (simp_all add: handleContainers_def handleVolumeMount_def mounting.loop_ret
      mounting.body_ret mount_containers_def)

text \<open>The edit of the spec, and its flag: always set when the pod has a container.\<close>

definition ctb_spec :: "pod \<Rightarrow> config \<Rightarrow> pod" where
  "ctb_spec p cfg =
     (case cfg_ClusterTrustBundleMapping cfg of
        None \<Rightarrow> p
      | Some m \<Rightarrow> mount_containers m (p\<lparr>p_volumes := set_volume m (p_volumes p)\<rparr>))"

definition ctb_spec_flag :: "pod \<Rightarrow> config \<Rightarrow> bool" where
  "ctb_spec_flag p cfg =
     (case cfg_ClusterTrustBundleMapping cfg of
        None \<Rightarrow> False
      | Some m \<Rightarrow> volume_changes m (p_volumes p) \<or> p_containers p \<noteq> [])"

lemma handleClusterTrustBundle_Some:
  assumes "cfg_ClusterTrustBundleMapping cfg = Some m"
  shows "handleClusterTrustBundle p cfg =
    go_bind (upsert_at (index_func (\<lambda>v. vol_name v = ctb_VolumeName m) (p_volumes p))
      (\<lambda>v. v = ClusterTrustedBundle m) (ClusterTrustedBundle m) (p_volumes p))
      (\<lambda>(vols, b). handleContainers b (p\<lparr>p_volumes := vols\<rparr>) m)"
  using assms
  by (cases p) (simp add: handleClusterTrustBundle_def upsert_at_def deep_equal_def Let_def
      go_bind_def split: go.split)

lemma handleClusterTrustBundle_ret:
  "handleClusterTrustBundle p cfg = Ret (ctb_spec p cfg, ctb_spec_flag p cfg)"
proof (cases "cfg_ClusterTrustBundleMapping cfg")
  case None
  then show ?thesis by (simp add: handleClusterTrustBundle_def ctb_spec_def ctb_spec_flag_def)
next
  case (Some m)
  then show ?thesis
    by (simp add: handleClusterTrustBundle_Some upsert_at_index handleContainers_ret
        ctb_spec_def ctb_spec_flag_def set_volume_def volume_changes_def)
qed

definition stamp :: "string \<Rightarrow> pod \<Rightarrow> pod" where
  "stamp h p =
     (if h = [] then p
      else p\<lparr>p_annotations :=
        Some (AList.update AnnotationCTBHash h (map_entries (p_annotations p)))\<rparr>)"

lemma stamp_hash_ret: "stamp_hash h p m = Ret (stamp h p, m \<or> h \<noteq> [])"
  by (simp add: stamp_hash_def stamp_def map_put_make)

lemma stamp_annotations:
  "map_get (p_annotations (stamp h p)) k =
     (if h \<noteq> [] \<and> k = AnnotationCTBHash then Some h else map_get (p_annotations p) k)"
  by (simp add: stamp_def update_conv' map_get_entries)

lemma stamp_wf: "map_wf (p_annotations p) \<Longrightarrow> map_wf (p_annotations (stamp h p))"
  by (simp add: stamp_def map_wf_put)

lemma stamp_fields [simp]:
  "p_name (stamp h p) = p_name p"
  "p_generateName (stamp h p) = p_generateName p"
  "p_namespace (stamp h p) = p_namespace p"
  "p_ownerReferences (stamp h p) = p_ownerReferences p"
  "p_initContainers (stamp h p) = p_initContainers p"
  "p_containers (stamp h p) = p_containers p"
  "p_volumes (stamp h p) = p_volumes p"
  "p_imagePullSecrets (stamp h p) = p_imagePullSecrets p"
  by (simp_all add: stamp_def)

lemma ctb_spec_fields [simp]:
  "p_name (ctb_spec p cfg) = p_name p"
  "p_generateName (ctb_spec p cfg) = p_generateName p"
  "p_namespace (ctb_spec p cfg) = p_namespace p"
  "p_annotations (ctb_spec p cfg) = p_annotations p"
  "p_ownerReferences (ctb_spec p cfg) = p_ownerReferences p"
  "p_initContainers (ctb_spec p cfg) = p_initContainers p"
  "p_imagePullSecrets (ctb_spec p cfg) = p_imagePullSecrets p"
  by (simp_all add: ctb_spec_def mount_containers_def split: option.split)

lemma ctb_spec_frame: "pod_frame p (ctb_spec p cfg)"
  by (simp add: pod_frame_def)
    (simp add: ctb_spec_def mount_containers_def mount_container_def comp_def split: option.split)

lemma ctb_spec_unflagged: "\<not> ctb_spec_flag p cfg \<Longrightarrow> ctb_spec p cfg = p"
  by (cases p) (auto simp: ctb_spec_flag_def ctb_spec_def mount_containers_def set_volume_def
      volume_changes_def volumes.unflagged_same split: option.splits)

lemma ctb_accepts_iff: "ctb_accepts a \<longleftrightarrow> map_get a AnnotationAddClusterTrustBundle = Some ''true''"
  by (simp add: ctb_accepts_def CTBMountEnabled_iff annotationAddClusterTrustBundle_def)

lemma ctb_gate:
  "first_opt_in ctb_accepts (opt_in_sources p ns cfg)
   = opted_in AnnotationAddClusterTrustBundle p ns cfg"
  by (simp add: first_opt_in_iff opt_in_sources_def opted_in_def ctb_accepts_iff)

definition ctb_selected :: "pod \<Rightarrow> string go_map \<Rightarrow> config \<Rightarrow> bool" where
  "ctb_selected p ns cfg \<longleftrightarrow>
     \<not> CTBExplicitOptOut (p_annotations p) \<and> opted_in AnnotationAddClusterTrustBundle p ns cfg"

definition ctb_effect :: "hash_holder \<Rightarrow> pod \<Rightarrow> string go_map \<Rightarrow> config \<Rightarrow> pod" where
  "ctb_effect hh p ns cfg = (if ctb_selected p ns cfg then stamp (Get hh) (ctb_spec p cfg) else p)"

definition ctb_reports :: "hash_holder \<Rightarrow> pod \<Rightarrow> string go_map \<Rightarrow> config \<Rightarrow> bool" where
  "ctb_reports hh p ns cfg \<longleftrightarrow> ctb_selected p ns cfg \<and> (ctb_spec_flag p cfg \<or> Get hh \<noteq> [])"

lemma ctb_ret:
  "BuildDefaulterAddClusterTrustBundle hh p ns cfg =
     (ctb_effect hh p ns cfg, Ret (Inr (ctb_reports hh p ns cfg)))"
  by (auto simp: BuildDefaulterAddClusterTrustBundle_def ctb_gate
      handleClusterTrustBundle_ret stamp_hash_ret run_update_def ctb_effect_def ctb_reports_def
      ctb_selected_def)

interpretation ctb: pod_defaulting "BuildDefaulterAddClusterTrustBundle hh" "ctb_effect hh"
  "ctb_reports hh" for hh
proof
  fix p ns cfg
  show "BuildDefaulterAddClusterTrustBundle hh p ns cfg =
      (ctb_effect hh p ns cfg, Ret (Inr (ctb_reports hh p ns cfg)))"
    by (rule ctb_ret)
  show "\<not> ctb_reports hh p ns cfg \<Longrightarrow> ctb_effect hh p ns cfg = p"
    by (auto simp: ctb_reports_def ctb_effect_def ctb_spec_unflagged stamp_def)
  show "pod_frame p (ctb_effect hh p ns cfg)"
    using ctb_spec_frame [of p cfg] by (simp add: ctb_effect_def pod_frame_def)
  show "annotations_kept p (ctb_effect hh p ns cfg)"
    by (simp add: ctb_effect_def annotations_kept_def stamp_annotations stamp_wf)
qed

section \<open>Postconditions\<close>

text \<open>A pod whose spec carries the bundle: the volume, and the mount in every container.\<close>

definition carries_bundle :: "cluster_trust_bundle \<Rightarrow> pod \<Rightarrow> bool" where
  "carries_bundle m q \<longleftrightarrow>
     find (\<lambda>v. vol_name v = ctb_VolumeName m) (p_volumes q) = Some (ClusterTrustedBundle m)
     \<and> list_all (\<lambda>c. find (\<lambda>vm. vm_name vm = ctb_VolumeName m) (c_volumeMounts c)
         = Some (VolumeMount m)) (p_containers q)"

text \<open>What the edit keeps: everything but the entries under the bundle's volume name.\<close>

definition besides_mount ::
  "cluster_trust_bundle \<Rightarrow> container \<Rightarrow> string \<times> string \<times> env_var list \<times> volume_mount list" where
  "besides_mount m c =
     (c_name c, c_image c, c_env c,
      filter (\<lambda>vm. vm_name vm \<noteq> ctb_VolumeName m) (c_volumeMounts c))"

definition besides_bundle :: "cluster_trust_bundle \<Rightarrow> pod \<Rightarrow> pod \<Rightarrow> bool" where
  "besides_bundle m p q \<longleftrightarrow>
     filter (\<lambda>v. vol_name v \<noteq> ctb_VolumeName m) (p_volumes q)
       = filter (\<lambda>v. vol_name v \<noteq> ctb_VolumeName m) (p_volumes p)
     \<and> map (besides_mount m) (p_containers q) = map (besides_mount m) (p_containers p)
     \<and> q\<lparr>p_volumes := p_volumes p, p_containers := p_containers p\<rparr> = p"

lemma find_set_volume:
  "find (\<lambda>v. vol_name v = ctb_VolumeName m) (set_volume m vs) = Some (ClusterTrustedBundle m)"
  using volumes.first_ok [of m vs] by (auto simp: set_volume_def)

lemma find_set_mount:
  "find (\<lambda>vm. vm_name vm = ctb_VolumeName m) (set_mount m vms) = Some (VolumeMount m)"
  using mounts.first_ok [of m vms] by (auto simp: set_mount_ideal_eq set_mount_ideal_def)

lemma besides_mount_container: "besides_mount m (mount_container m c) = besides_mount m c"
  using mounts.others_kept [of m "c_volumeMounts c"]
  by (simp add: besides_mount_def mount_container_def set_mount_ideal_eq set_mount_ideal_def)

lemma ctb_spec_carries:
  assumes "cfg_ClusterTrustBundleMapping cfg = Some m"
  shows "carries_bundle m (ctb_spec p cfg)" "besides_bundle m p (ctb_spec p cfg)"
  using assms volumes.others_kept [of m "p_volumes p", folded set_volume_def]
  by (simp_all add: carries_bundle_def besides_bundle_def ctb_spec_def mount_containers_def
      find_set_volume find_set_mount list_all_iff mount_container_def
      besides_mount_container [unfolded mount_container_def])

lemma stamp_keeps_bundle:
  "carries_bundle m (stamp h p) = carries_bundle m p"
  by (simp add: carries_bundle_def)

text \<open>
  Property C19. A pod that opted in, and does not itself say \<open>false\<close>, leaves the trust-bundle
  defaulter with the bundle's volume and, in every container (not in the init containers), its
  mount, with everything else of its spec kept, and with the current hash in its annotations when
  the hash is known; every other annotation is kept. A pod that says \<open>false\<close> is left as it is
  whatever its namespace and the configuration say. The defaulter never fails.
\<close>

theorem AddClusterTrustBundle_defaulter:
  "let (q, r) = BuildDefaulterAddClusterTrustBundle hh p ns cfg
   in r \<in> {Ret (Inr True), Ret (Inr False)}
     \<and> (if opted_in AnnotationAddClusterTrustBundle p ns cfg
          \<and> \<not> CTBExplicitOptOut (p_annotations p)
        then (\<exists>spec. q = stamp (Get hh) spec
          \<and> (case cfg_ClusterTrustBundleMapping cfg of
               None \<Rightarrow> spec = p
             | Some m \<Rightarrow> carries_bundle m spec \<and> besides_bundle m p spec))
        else q = p)"
  using ctb_spec_carries [of cfg _ p]
  by (auto simp: ctb_ret ctb_effect_def ctb_selected_def intro!: exI [of _ "ctb_spec p cfg"]
      split: option.split) (simp_all add: ctb_spec_def)

lemma handleVolumeMount_ret:
  "handleVolumeMount cs m = Ret (map (mount_container m) cs, cs \<noteq> [])"
  by (cases cs) (simp_all add: handleVolumeMount_def mounting.loop_ret mounting.body_ret)

lemma mount_container_twice: "mount_container m (mount_container m c) = mount_container m c"
  by (simp add: mount_container_def set_mount_twice)

text \<open>
  The mount loop compares the mount it finds with a volume, so it never sees that there
  is nothing to do: on a list of containers it has already served, it writes back the same list and
  still reports a modification. Hence every admission of a selected pod reports one.
\<close>

theorem handleVolumeMount_always_reports:
  "handleVolumeMount cs m = Ret (cs', changed) \<Longrightarrow>
   changed = (cs \<noteq> []) \<and> handleVolumeMount cs' m = Ret (cs', cs \<noteq> [])"
  by (auto simp: handleVolumeMount_ret mount_container_twice)

definition sample_bundle :: cluster_trust_bundle where
  "sample_bundle = \<lparr>ctb_Name = ''trust'', ctb_CertWritePath = ''ca.pem'',
     ctb_VolumeMountPath = ''/etc/ssl'', ctb_VolumeName = ''ctb'', ctb_ResyncInterval = []\<rparr>"

definition sample_mounted :: container where
  "sample_mounted = zero_container\<lparr>c_name := ''app'', c_volumeMounts := [VolumeMount sample_bundle]\<rparr>"

lemma handleVolumeMount_always_reports_witness:
  "handleVolumeMount [sample_mounted] sample_bundle = Ret ([sample_mounted], True)"
proof -
  have "handleVolumeMount [sample_mounted] sample_bundle = Ret ([sample_mounted], True)"
    by (simp add: handleVolumeMount_ret sample_mounted_def mount_container_def set_mount_def
        zero_container_def)
  from handleVolumeMount_always_reports [OF this] show ?thesis by simp
qed

end
