(* ===== verification/Pod_Webhook.thy ===== *)
theory Pod_Webhook
  imports Defaulters_Image Defaulters_Env Defaulter_CTB
begin

text \<open>
  \<open>internal/webhook/v1/pod_webhook.go\<close>: the admission handler \<open>Default\<close> with its recovery from
  panics, the audit of the feature annotations, and the choice of the defaulters by
  \<open>SetupPodWebhookWithManager\<close>.
\<close>

section \<open>Audit of inactive features\<close>

definition feature_prefix :: string where
  "feature_prefix = ''rt-cfg.kyma-project.io/''"

text \<open>The keys \<open>auditFeatures\<close> warns about, in the order of its two loops.\<close>

fun audit_keys :: "string list \<Rightarrow> string list \<Rightarrow> string list" where
  "audit_keys availableFeatures [] = []"
| "audit_keys availableFeatures (key # keys) =
     (let isAvailableFeature = key \<in> set availableFeatures;
          isRtBootstrapperFeature = has_prefix key feature_prefix
      in if \<not> isAvailableFeature \<and> isRtBootstrapperFeature
         then key # audit_keys availableFeatures keys
         else audit_keys availableFeatures keys)"

fun auditFeatures :: "(string \<times> string go_map) list \<Rightarrow> string list \<Rightarrow> string list" where
  "auditFeatures [] availableFeatures = []"
| "auditFeatures ((level, annotations) # srcs) availableFeatures =
     audit_keys availableFeatures (map fst (map_entries annotations))
     @ auditFeatures srcs availableFeatures"

definition inactive_feature :: "string list \<Rightarrow> string \<Rightarrow> bool" where
  "inactive_feature avail k \<longleftrightarrow> k \<notin> set avail \<and> has_prefix k feature_prefix"

lemma audit_keys_filter: "audit_keys avail keys = filter (inactive_feature avail) keys"
  by (induction avail keys rule: audit_keys.induct) (auto simp: Let_def inactive_feature_def)

lemma auditFeatures_filter:
  "auditFeatures srcs avail =
     filter (inactive_feature avail) (concat (map (\<lambda>(l, m). map fst (map_entries m)) srcs))"
  by (induction srcs avail rule: auditFeatures.induct) (simp_all add: audit_keys_filter)

section \<open>The handler\<close>

text \<open>
  The callbacks may fail and may panic. \<open>GetConfig\<close> is called once before every defaulter and may
  answer differently each time: it is a function of the number of the call.
\<close>

record podCustomDefaulter =
  pcd_namespaceDefaultFeatures :: "string \<Rightarrow> string go_map"
  pcd_availableFeatures :: "string list"
  pcd_defaulters :: "pod_defaulter list"
  pcd_GetNsAnnotations :: "string \<Rightarrow> (gerror + string go_map) go"
  pcd_GetConfig :: "nat \<Rightarrow> (gerror + config) go"

definition keysAndValues :: "pod \<Rightarrow> string \<times> string \<times> string go_map" where
  "keysAndValues pod = (p_generateName pod, p_namespace pod, p_annotations pod)"

fun default_loop ::
  "(nat \<Rightarrow> (gerror + config) go) \<Rightarrow> string go_map \<Rightarrow> nat \<Rightarrow> pod_defaulter list \<Rightarrow> pod \<Rightarrow> bool
   \<Rightarrow> pod \<times> (gerror + bool) go" where
  "default_loop GetConfig nsAnnotations i [] pod podDefaulted = (pod, Ret (Inr podDefaulted))"
| "default_loop GetConfig nsAnnotations i (defaulter # ds) pod podDefaulted =
     (case GetConfig i of
        Panic x \<Rightarrow> (pod, Panic x)
      | Ret (Inl err) \<Rightarrow> (pod, Ret (Inl err))
      | Ret (Inr cfg) \<Rightarrow>
          (case defaulter pod nsAnnotations cfg of
             (pod', Panic x) \<Rightarrow> (pod', Panic x)
           | (pod', Ret (Inl err)) \<Rightarrow> (pod', Ret (Inl err))
           | (pod', Ret (Inr podModified)) \<Rightarrow>
               default_loop GetConfig nsAnnotations (Suc i) ds pod'
                 (if \<not> podModified then podDefaulted else True)))"

definition mark_modified :: "pod \<Rightarrow> pod go" where
  "mark_modified pod =
     go_bind (map_put (map_make (p_annotations pod)) AnnotationModified ''true'')
       (\<lambda>annotations. Ret (pod\<lparr>p_annotations := annotations\<rparr>))"

text \<open>The body of \<open>Default\<close>: the pod, the audited keys, and the returned error or a panic.\<close>

definition default_body ::
  "podCustomDefaulter \<Rightarrow> pod \<Rightarrow> pod \<times> string list \<times> gerror option go" where
  "default_body d pod =
     (case pcd_GetNsAnnotations d (p_namespace pod) of
        Panic x \<Rightarrow> (pod, [], Panic x)
      | Ret (Inl err) \<Rightarrow> (pod, [], Ret (Some err))
      | Ret (Inr nsAnnotations) \<Rightarrow>
          let namespaceDefaultFeatures = pcd_namespaceDefaultFeatures d (p_namespace pod);
              annotationSources =
                [(''namespace'', namespaceDefaultFeatures), (''ns'', nsAnnotations),
                 (''pod'', p_annotations pod)];
              warned = auditFeatures annotationSources (pcd_availableFeatures d)
          in (case default_loop (pcd_GetConfig d) nsAnnotations 0 (pcd_defaulters d) pod False of
                (pod', Panic x) \<Rightarrow> (pod', warned, Panic x)
              | (pod', Ret (Inl err)) \<Rightarrow> (pod', warned, Ret (Some err))
              | (pod', Ret (Inr podDefaulted)) \<Rightarrow>
                  if \<not> podDefaulted then (pod', warned, Ret None)
                  else (case mark_modified pod' of
                          Panic x \<Rightarrow> (pod', warned, Panic x)
                        | Ret pod'' \<Rightarrow> (pod'', warned, Ret None))))"

text \<open>The deferred \<open>recover\<close>: the error a panic value becomes.\<close>

fun recover_error :: "panic \<Rightarrow> gerror" where
  "recover_error (PanicString x) = ErrorString x"
| "recover_error (PanicError x) = x"
| "recover_error (PanicOther r) = ErrorString (''unknown defaulting function panic: '' @ r)"

definition Default :: "podCustomDefaulter \<Rightarrow> pod \<Rightarrow> pod \<times> string list \<times> gerror option" where
  "Default d obj =
     (case default_body d obj of
        (pod, warned, Ret err) \<Rightarrow> (pod, warned, err)
      | (pod, warned, Panic r) \<Rightarrow> (pod, warned, Some (recover_error r)))"

definition default_pod :: "podCustomDefaulter \<Rightarrow> pod \<Rightarrow> pod" where
  "default_pod d p = fst (Default d p)"

definition default_error :: "podCustomDefaulter \<Rightarrow> pod \<Rightarrow> gerror option" where
  "default_error d p = snd (snd (Default d p))"

section \<open>Choice of the defaulters\<close>

record webhook_opts =
  wh_AvailableFeatures :: "string list"
  wh_NamespaceDefaultFeatures :: "string \<Rightarrow> string go_map"
  wh_ImagePullSecretName :: string
  wh_Landscape :: string
  wh_GetConfig :: "nat \<Rightarrow> (gerror + config) go"

definition defaulterEntries :: "webhook_opts \<Rightarrow> hash_holder \<Rightarrow> (string \<times> pod_defaulter) list" where
  "defaulterEntries opts hashHolder =
     [(AnnotationAlterImgRegistry, BuildPodDefaulterAlterImgRegistry),
      (AnnotationSetPullSecret, BuildPodDefaulterAddImagePullSecrets (wh_ImagePullSecretName opts)),
      (AnnotationAddClusterTrustBundle, BuildDefaulterAddClusterTrustBundle hashHolder),
      (AnnotationSetFipsMode, BuildDefaulterFipsMode),
      (AnnotationSetLandscape, BuildDefaulterSetLandscape (wh_Landscape opts))]"

fun collect_available :: "string list \<Rightarrow> (string \<times> 'd) list \<Rightarrow> 'd list" where
  "collect_available availableFeatures [] = []"
| "collect_available availableFeatures ((annotation, defaulter) # ds) =
     (if annotation \<in> set availableFeatures
      then defaulter # collect_available availableFeatures ds
      else collect_available availableFeatures ds)"

text \<open>\<open>get\<close> is the manager's client reading one namespace; it answers or fails.\<close>

definition getNamespace ::
  "(string \<Rightarrow> gerror + k8s_namespace) \<Rightarrow> string \<Rightarrow> (gerror + string go_map) go" where
  "getNamespace get name =
     (case get name of Inl err \<Rightarrow> Ret (Inl err) | Inr ns \<Rightarrow> Ret (Inr (ns_annotations ns)))"

definition SetupPodWebhookWithManager ::
  "(string \<Rightarrow> gerror + k8s_namespace) \<Rightarrow> webhook_opts \<Rightarrow> hash_holder \<Rightarrow> podCustomDefaulter" where
  "SetupPodWebhookWithManager get opts hashHolder =
     \<lparr>pcd_namespaceDefaultFeatures = wh_NamespaceDefaultFeatures opts,
      pcd_availableFeatures = wh_AvailableFeatures opts,
      pcd_defaulters =
        collect_available (wh_AvailableFeatures opts) (defaulterEntries opts hashHolder),
      pcd_GetNsAnnotations = getNamespace get,
      pcd_GetConfig = wh_GetConfig opts\<rparr>"

lemma collect_available_filter:
  "collect_available avail ds = map snd (filter (\<lambda>(a, d). a \<in> set avail) ds)"
  by (induction avail ds rule: collect_available.induct) auto

lemma defaulterEntries_ok: "(k, d) \<in> set (defaulterEntries opts hh) \<Longrightarrow> defaulter_ok d"
  by (auto simp: defaulterEntries_def BuildPodDefaulterAlterImgRegistry_ok
      BuildPodDefaulterAddImagePullSecrets_ok ctb.ok BuildDefaulterFipsMode_ok
      BuildDefaulterSetLandscape_ok)

lemma setup_defaulters_ok:
  "d \<in> set (pcd_defaulters (SetupPodWebhookWithManager get opts hh)) \<Longrightarrow> defaulter_ok d"
  by (auto simp: SetupPodWebhookWithManager_def collect_available_filter
      dest: defaulterEntries_ok)

section \<open>What the handler does with defaulters that keep the contract\<close>

lemma mark_modified_ret:
  "mark_modified p =
     Ret (p\<lparr>p_annotations :=
       Some (AList.update AnnotationModified ''true'' (map_entries (p_annotations p)))\<rparr>)"
  by (simp add: mark_modified_def map_put_make)

definition marked :: "pod \<Rightarrow> pod" where
  "marked p = p\<lparr>p_annotations :=
     Some (AList.update AnnotationModified ''true'' (map_entries (p_annotations p)))\<rparr>"

lemma marked_annotations:
  "map_get (p_annotations (marked p)) k =
     (if k = AnnotationModified then Some ''true'' else map_get (p_annotations p) k)"
  by (simp add: marked_def update_conv' map_get_entries)

lemma marked_frame: "pod_frame p (marked p)"
  by (simp add: marked_def pod_frame_def)

lemma marked_twice: "marked (marked p) = marked p"
  by (simp add: marked_def update_triv update_conv')

text \<open>The pods the defaulters produce one after another, for one answer of \<open>GetConfig\<close> each.\<close>

fun run_defaulters ::
  "(nat \<Rightarrow> config) \<Rightarrow> string go_map \<Rightarrow> nat \<Rightarrow> pod_defaulter list \<Rightarrow> pod \<Rightarrow> pod" where
  "run_defaulters cfgs ns i [] p = p"
| "run_defaulters cfgs ns i (d # ds) p = run_defaulters cfgs ns (Suc i) ds (fst (d p ns (cfgs i)))"

lemma default_loop_ok:
  assumes "\<And>d. d \<in> set ds \<Longrightarrow> defaulter_ok d"
  shows "\<exists>m. default_loop (\<lambda>j. Ret (Inr (cfgs j))) ns i ds p b = (run_defaulters cfgs ns i ds p, Ret (Inr (b \<or> m)))
    \<and> (m \<or> run_defaulters cfgs ns i ds p = p)
    \<and> pod_frame p (run_defaulters cfgs ns i ds p)
    \<and> annotations_kept p (run_defaulters cfgs ns i ds p)"
  using assms
proof (induction ds arbitrary: i p b)
  case Nil
  show ?case by (rule exI [of _ False]) simp
next
  case (Cons d ds)
  obtain q m where q: "d p ns (cfgs i) = (q, Ret (Inr m))" "m \<or> q = p" "pod_frame p q"
    "annotations_kept p q"
    using Cons.prems [of d] unfolding defaulter_ok_def by fastforce
  obtain m' where m': "default_loop (\<lambda>j. Ret (Inr (cfgs j))) ns (Suc i) ds q (if \<not> m then b else True)
      = (run_defaulters cfgs ns (Suc i) ds q, Ret (Inr ((if \<not> m then b else True) \<or> m')))"
    "m' \<or> run_defaulters cfgs ns (Suc i) ds q = q"
    "pod_frame q (run_defaulters cfgs ns (Suc i) ds q)"
    "annotations_kept q (run_defaulters cfgs ns (Suc i) ds q)"
    using Cons.IH [of "Suc i" q "if \<not> m then b else True"] Cons.prems by auto
  show ?case
    using q m' by (intro exI [of _ "m \<or> m'"])
      (auto intro: pod_frame_trans annotations_kept_trans)
qed

text \<open>
  \<open>well_served d p ns cfgs\<close>: the namespace is read, every configuration is read, and the defaulters
  keep their contract. Then \<open>Default\<close> is the run of the defaulters, then the mark.
\<close>

definition well_served ::
  "podCustomDefaulter \<Rightarrow> pod \<Rightarrow> string go_map \<Rightarrow> (nat \<Rightarrow> config) \<Rightarrow> bool" where
  "well_served d p ns cfgs \<longleftrightarrow>
     pcd_GetNsAnnotations d (p_namespace p) = Ret (Inr ns)
     \<and> pcd_GetConfig d = (\<lambda>j. Ret (Inr (cfgs j)))
     \<and> (\<forall>dd \<in> set (pcd_defaulters d). defaulter_ok dd)"

lemma Default_served:
  assumes "well_served d p ns cfgs"
  defines "q \<equiv> run_defaulters cfgs ns 0 (pcd_defaulters d) p"
  shows "\<exists>m. default_pod d p = (if m then marked q else q) \<and> default_error d p = None
    \<and> (m \<or> q = p) \<and> pod_frame p q \<and> annotations_kept p q"
proof -
  obtain m where "default_loop (pcd_GetConfig d) ns 0 (pcd_defaulters d) p False = (q, Ret (Inr m))"
    "m \<or> q = p" "pod_frame p q" "annotations_kept p q"
    using default_loop_ok [of "pcd_defaulters d" cfgs ns 0 p False] assms
    by (auto simp: well_served_def)
  then show ?thesis
    using assms(1)
    by (intro exI [of _ m])
      (simp add: default_pod_def default_error_def Default_def default_body_def well_served_def
        mark_modified_ret marked_def Let_def)
qed

section \<open>Errors, frame and silence of the installed handler\<close>

text \<open>The first answer of \<open>GetConfig\<close> that is not a configuration, as the error it becomes.\<close>

fun first_failure :: "(gerror + config) go list \<Rightarrow> gerror option" where
  "first_failure [] = None"
| "first_failure (Ret (Inr cfg) # answers) = first_failure answers"
| "first_failure (Ret (Inl e) # answers) = Some e"
| "first_failure (Panic x # answers) = Some (recover_error x)"

definition loop_error :: "(gerror + bool) go \<Rightarrow> gerror option" where
  "loop_error r = (case r of Ret (Inr b) \<Rightarrow> None | Ret (Inl e) \<Rightarrow> Some e | Panic x \<Rightarrow> Some (recover_error x))"

lemma loop_error_simps [simp]:
  "loop_error (Ret (Inr b)) = None"
  "loop_error (Ret (Inl e)) = Some e"
  "loop_error (Panic x) = Some (recover_error x)"
  by (simp_all add: loop_error_def)

lemma defaulter_okE:
  assumes "defaulter_ok d"
  obtains q m where "d p ns cfg = (q, Ret (Inr m))" "m \<or> q = p" "pod_frame p q" "annotations_kept p q"
  using assms unfolding defaulter_ok_def by blast

text \<open>The answer of \<open>GetConfig\<close> decides one iteration of the loop over the defaulters.\<close>

lemma default_loop_error:
  assumes "\<And>d. d \<in> set ds \<Longrightarrow> defaulter_ok d"
  shows "loop_error (snd (default_loop G ns i ds p b)) = first_failure (map G [i..<i + length ds])"
  using assms
proof (induction ds arbitrary: i p b)
  case (Cons d ds)
  have range: "map G [i..<i + length (d # ds)] = G i # map G [Suc i..<Suc i + length ds]"
    by (simp add: upt_conv_Cons del: upt_Suc)
  consider (answer) cfg where "G i = Ret (Inr cfg)" | (failure) e where "G i = Ret (Inl e)"
    | (crash) x where "G i = Panic x"
    by (metis go.exhaust sum.exhaust)
  then show ?case
  proof cases
    case (answer cfg)
    obtain q m where "d p ns cfg = (q, Ret (Inr m))"
      using defaulter_okE [OF Cons.prems [of d]] by (metis list.set_intros(1))
    with answer Cons show ?thesis unfolding range by simp
  qed (simp_all only: range, simp_all)
qed simp

lemma default_loop_keeps:
  assumes "\<And>d. d \<in> set ds \<Longrightarrow> defaulter_ok d" "default_loop G ns i ds p b = (q, r)"
  shows "pod_frame p q \<and> annotations_kept p q \<and> (r = Ret (Inr False) \<longrightarrow> q = p \<and> \<not> b)"
  using assms
proof (induction ds arbitrary: i p b)
  case (Cons d ds)
  consider (answer) cfg where "G i = Ret (Inr cfg)" | (failure) e where "G i = Ret (Inl e)"
    | (crash) x where "G i = Panic x"
    by (metis go.exhaust sum.exhaust)
  then show ?case
  proof cases
    case (answer cfg)
    obtain q' m where q': "d p ns cfg = (q', Ret (Inr m))" "m \<or> q' = p" "pod_frame p q'"
      "annotations_kept p q'"
      using defaulter_okE [OF Cons.prems(1) [of d]] by (metis list.set_intros(1))
    with answer Cons.prems(2)
    have "default_loop G ns (Suc i) ds q' (if \<not> m then b else True) = (q, r)" by simp
    with Cons.IH [of "Suc i" q'] Cons.prems(1) q' show ?thesis
      by (fastforce intro: pod_frame_trans annotations_kept_trans split: if_splits)
  qed (use Cons.prems in auto)
qed auto

lemma default_body_setup:
  "default_body (SetupPodWebhookWithManager get opts hh) p =
     (case get (p_namespace p) of
        Inl err \<Rightarrow> (p, [], Ret (Some err))
      | Inr obj \<Rightarrow>
          let warned = auditFeatures
                [(''namespace'', wh_NamespaceDefaultFeatures opts (p_namespace p)),
                 (''ns'', ns_annotations obj), (''pod'', p_annotations p)]
                (wh_AvailableFeatures opts);
              (q, r) = default_loop (wh_GetConfig opts) (ns_annotations obj) 0
                (collect_available (wh_AvailableFeatures opts) (defaulterEntries opts hh)) p False
          in (if r = Ret (Inr True) then marked q else q, warned,
              case r of Panic x \<Rightarrow> Panic x | Ret (Inl e) \<Rightarrow> Ret (Some e) | Ret (Inr b) \<Rightarrow> Ret None))"
  by (auto simp: default_body_def SetupPodWebhookWithManager_def getNamespace_def mark_modified_ret
      marked_def Let_def split: sum.split prod.split go.split)

lemma installed_ok:
  "d \<in> set (collect_available avail (defaulterEntries opts hh)) \<Longrightarrow> defaulter_ok d"
  by (auto simp: collect_available_filter dest: defaulterEntries_ok)

lemma setup_defaulters:
  "pcd_defaulters (SetupPodWebhookWithManager get opts hh) =
     collect_available (wh_AvailableFeatures opts) (defaulterEntries opts hh)"
  by (simp add: SetupPodWebhookWithManager_def)

lemma Default_setup:
  fixes get opts hh p
  defines "w \<equiv> SetupPodWebhookWithManager get opts hh"
  assumes "get (p_namespace p) = Inr obj"
  shows "\<exists>q r. default_loop (wh_GetConfig opts) (ns_annotations obj) 0 (pcd_defaulters w) p False = (q, r)
    \<and> default_pod w p = (if r = Ret (Inr True) then marked q else q)
    \<and> default_error w p = loop_error r"
proof -
  obtain q r where "default_loop (wh_GetConfig opts) (ns_annotations obj) 0 (pcd_defaulters w) p False = (q, r)"
    by fastforce
  with assms(2) show ?thesis
    by (auto simp: w_def setup_defaulters default_pod_def default_error_def Default_def
        default_body_setup loop_error_def Let_def split: go.split sum.split)
qed

text \<open>
  Property C4. The installed handler admits a pod exactly when the pod's namespace can be read and
  every configuration it asks for, one per active defaulter, can be read; otherwise it answers with
  the first failure, and a panic of the configuration callback comes back as an error.
\<close>

theorem Default_error_exact:
  "default_error (SetupPodWebhookWithManager get opts hh) p =
     (case get (p_namespace p) of
        Inl e \<Rightarrow> Some e
      | Inr obj \<Rightarrow> first_failure (map (wh_GetConfig opts)
          [0..<length (collect_available (wh_AvailableFeatures opts) (defaulterEntries opts hh))]))"
proof (cases "get (p_namespace p)")
  case (Inl e)
  then show ?thesis by (simp add: default_error_def Default_def default_body_setup)
next
  case (Inr obj)
  let ?ds = "collect_available (wh_AvailableFeatures opts) (defaulterEntries opts hh)"
  have "loop_error (snd (default_loop (wh_GetConfig opts) (ns_annotations obj) 0 ?ds p False))
      = first_failure (map (wh_GetConfig opts) [0..<length ?ds])"
    using default_loop_error [of ?ds "wh_GetConfig opts" "ns_annotations obj" 0 p False] installed_ok
    by auto
  with Default_setup [of get p obj opts hh, OF Inr] Inr show ?thesis
    by (auto simp: setup_defaulters)
qed

text \<open>
  Property C3. Whatever the callbacks answer, the installed handler keeps the pod's identity, its
  owners, the names and the number of its containers, and every annotation but the two keys it
  writes; and a pod it admits is either untouched or marked as modified.
\<close>

theorem Default_keeps_pod:
  "let w = SetupPodWebhookWithManager get opts hh; q = default_pod w p
   in pod_frame p q
     \<and> (k \<in> {AnnotationCTBHash, AnnotationModified}
        \<or> map_get (p_annotations q) k = map_get (p_annotations p) k)
     \<and> (case default_error w p of
          None \<Rightarrow> q = p \<or> map_get (p_annotations q) AnnotationModified = Some ''true''
        | Some e \<Rightarrow> True)"
proof (cases "get (p_namespace p)")
  case (Inl e)
  then show ?thesis by (simp add: default_pod_def Default_def default_body_setup split: option.split)
next
  case (Inr obj)
  have ok: "d \<in> set (pcd_defaulters (SetupPodWebhookWithManager get opts hh)) \<Longrightarrow> defaulter_ok d" for d
    by (rule setup_defaulters_ok)
  obtain q r where "default_loop (wh_GetConfig opts) (ns_annotations obj) 0
        (pcd_defaulters (SetupPodWebhookWithManager get opts hh)) p False = (q, r)"
    and out: "default_pod (SetupPodWebhookWithManager get opts hh) p
        = (if r = Ret (Inr True) then marked q else q)"
      "default_error (SetupPodWebhookWithManager get opts hh) p = loop_error r"
    using Default_setup [of get p obj opts hh, OF Inr] by blast
  then have "pod_frame p q \<and> annotations_kept p q \<and> (r = Ret (Inr False) \<longrightarrow> q = p)"
    using default_loop_keeps [OF ok] by blast
  moreover have "r = Ret (Inr True) \<or> r = Ret (Inr False) \<or> loop_error r \<noteq> None"
    by (auto simp: loop_error_def split: go.split sum.split)
  ultimately show ?thesis
    unfolding Let_def out
    by (auto simp: marked_annotations annotations_kept_def intro: pod_frame_trans marked_frame
        split: option.split)
qed

text \<open>
  The warnings of one admission are, in order, the keys of the namespace's default
  features, of the namespace's annotations and of the pod's annotations that carry the feature
  prefix and are not available; a namespace that cannot be read gives none.
\<close>

theorem Default_audit:
  "fst (snd (Default (SetupPodWebhookWithManager get opts hh) p)) =
     (case get (p_namespace p) of
        Inl e \<Rightarrow> []
      | Inr obj \<Rightarrow> filter (inactive_feature (wh_AvailableFeatures opts))
          (map fst (map_entries (wh_NamespaceDefaultFeatures opts (p_namespace p)))
           @ map fst (map_entries (ns_annotations obj)) @ map fst (map_entries (p_annotations p))))"
  by (auto simp: Default_def default_body_setup auditFeatures_filter Let_def
      split: sum.split prod.split go.split)

end
