(* ===== verification/Webhook_Idempotence.thy ===== *)
theory Webhook_Idempotence
  imports Pod_Webhook
begin

text \<open>
  A second admission of the pod that \<open>Default\<close> returned changes nothing (the documentation's
  \<open>Every manipulation function is designed to be idempotent\<close>). Each defaulter has a predicate
  \<open>..._done\<close> that its own run establishes and no later defaulter destroys; a pod on which every
  predicate holds is a fixed point of the whole run.
\<close>

section \<open>Chains of stages\<close>

text \<open>A stage is an effect with the predicate it establishes; later stages keep earlier ones.\<close>

definition stage_ok :: "('p \<Rightarrow> bool) \<Rightarrow> ('p \<Rightarrow> 'p) \<times> ('p \<Rightarrow> bool) \<Rightarrow> bool" where
  "stage_ok inva s \<longleftrightarrow>
     (\<forall>p. inva p \<longrightarrow> inva (fst s p) \<and> snd s (fst s p) \<and> (snd s p \<longrightarrow> fst s p = p))"

definition stage_keeps ::
  "('p \<Rightarrow> bool) \<Rightarrow> ('p \<Rightarrow> 'p) \<times> ('p \<Rightarrow> bool) \<Rightarrow> ('p \<Rightarrow> 'p) \<times> ('p \<Rightarrow> bool) \<Rightarrow> bool" where
  "stage_keeps inva s t \<longleftrightarrow> (\<forall>p. inva p \<longrightarrow> snd s p \<longrightarrow> snd s (fst t p))"

lemma fold_keeps:
  assumes "\<And>t. t \<in> set ts \<Longrightarrow> stage_ok inva t \<and> stage_keeps inva s t" "inva p" "snd s p"
  shows "snd s (fold fst ts p)"
  using assms by (induction ts arbitrary: p) (auto simp: stage_ok_def stage_keeps_def)

lemma fold_inv:
  assumes "\<And>t. t \<in> set ts \<Longrightarrow> stage_ok inva t" "inva p"
  shows "inva (fold fst ts p)"
  using assms by (induction ts arbitrary: p) (auto simp: stage_ok_def)

lemma fold_establishes:
  assumes "sorted_wrt (stage_keeps inva) ts" "\<And>t. t \<in> set ts \<Longrightarrow> stage_ok inva t" "inva p"
  shows "\<forall>s \<in> set ts. snd s (fold fst ts p)"
  using assms
proof (induction ts arbitrary: p)
  case (Cons t ts)
  then have "inva (fst t p)" "snd t (fst t p)" by (auto simp: stage_ok_def)
  then show ?case
    using Cons.prems Cons.IH [of "fst t p"] fold_keeps [of ts inva t "fst t p"] by auto
qed simp

lemma fold_fixed:
  assumes "\<And>t. t \<in> set ts \<Longrightarrow> stage_ok inva t" "inva p" "\<And>t. t \<in> set ts \<Longrightarrow> snd t p"
  shows "fold fst ts p = p"
  using assms by (induction ts) (auto simp: stage_ok_def)

section \<open>The five stages\<close>

text \<open>An annotation map without duplicate keys is the invariant; Go maps have it by construction.\<close>

definition pod_wf :: "pod \<Rightarrow> bool" where
  "pod_wf p \<longleftrightarrow> map_wf (p_annotations p)"

lemma opted_in_kept:
  assumes "pod_wf p" "annotations_kept p q" "p_namespace q = p_namespace p" "k \<noteq> AnnotationCTBHash"
  shows "opted_in k q ns cfg = opted_in k p ns cfg"
  using assms by (intro opted_in_cong) (auto simp: pod_wf_def annotations_kept_def)

definition registry_done :: "string go_map \<Rightarrow> config \<Rightarrow> pod \<Rightarrow> bool" where
  "registry_done ns cfg p \<longleftrightarrow>
     (opted_in AnnotationAlterImgRegistry p ns cfg \<longrightarrow>
        \<not> list_ex (registry_pending (cfg_Overrides cfg)) (pod_group_containers p))"

definition pull_secret_done :: "string \<Rightarrow> string go_map \<Rightarrow> config \<Rightarrow> pod \<Rightarrow> bool" where
  "pull_secret_done s ns cfg p \<longleftrightarrow>
     (opted_in AnnotationSetPullSecret p ns cfg \<longrightarrow> s \<in> set (p_imagePullSecrets p))"

definition ctb_spec_done :: "config \<Rightarrow> pod \<Rightarrow> bool" where
  "ctb_spec_done cfg p \<longleftrightarrow>
     (case cfg_ClusterTrustBundleMapping cfg of
        None \<Rightarrow> True
      | Some m \<Rightarrow> set_volume m (p_volumes p) = p_volumes p
          \<and> map (set_mount m \<circ> c_volumeMounts) (p_containers p)
            = map c_volumeMounts (p_containers p))"

definition ctb_done :: "hash_holder \<Rightarrow> string go_map \<Rightarrow> config \<Rightarrow> pod \<Rightarrow> bool" where
  "ctb_done hh ns cfg p \<longleftrightarrow>
     (ctb_selected p ns cfg \<longrightarrow>
        ctb_spec_done cfg p
        \<and> (Get hh \<noteq> [] \<longrightarrow> map_get (p_annotations p) AnnotationCTBHash = Some (Get hh)))"

definition fips_done :: "string go_map \<Rightarrow> config \<Rightarrow> pod \<Rightarrow> bool" where
  "fips_done ns cfg p \<longleftrightarrow>
     (opted_in AnnotationSetFipsMode p ns cfg \<longrightarrow> \<not> list_ex fips_pending (pod_group_containers p))"

definition landscape_done :: "string \<Rightarrow> string go_map \<Rightarrow> config \<Rightarrow> pod \<Rightarrow> bool" where
  "landscape_done v ns cfg p \<longleftrightarrow>
     (opted_in AnnotationSetLandscape p ns cfg \<longrightarrow>
        \<not> list_ex (landscape_pending v) (pod_group_containers p))"

definition stages ::
  "webhook_opts \<Rightarrow> hash_holder \<Rightarrow> string go_map \<Rightarrow> config
   \<Rightarrow> (string \<times> (pod \<Rightarrow> pod) \<times> (pod \<Rightarrow> bool)) list" where
  "stages opts hh ns cfg =
     [(AnnotationAlterImgRegistry, \<lambda>p. registry_effect p ns cfg, registry_done ns cfg),
      (AnnotationSetPullSecret, \<lambda>p. pull_secret_effect (wh_ImagePullSecretName opts) p ns cfg,
        pull_secret_done (wh_ImagePullSecretName opts) ns cfg),
      (AnnotationAddClusterTrustBundle, \<lambda>p. ctb_effect hh p ns cfg, ctb_done hh ns cfg),
      (AnnotationSetFipsMode, \<lambda>p. fips_effect p ns cfg, fips_done ns cfg),
      (AnnotationSetLandscape, \<lambda>p. landscape_effect (wh_Landscape opts) p ns cfg,
        landscape_done (wh_Landscape opts) ns cfg)]"

text \<open>What each effect leaves alone.\<close>

lemmas effect_defs =
  registry_effect_def pull_secret_effect_def fips_effect_def landscape_effect_def

lemma effect_annotations [simp]:
  "p_annotations (registry_effect p ns cfg) = p_annotations p"
  "p_annotations (pull_secret_effect s p ns cfg) = p_annotations p"
  "p_annotations (fips_effect p ns cfg) = p_annotations p"
  "p_annotations (landscape_effect v p ns cfg) = p_annotations p"
  by (simp_all add: effect_defs add_pull_secret_def)

lemma effect_namespace [simp]:
  "p_namespace (registry_effect p ns cfg) = p_namespace p"
  "p_namespace (pull_secret_effect s p ns cfg) = p_namespace p"
  "p_namespace (ctb_effect hh p ns cfg) = p_namespace p"
  "p_namespace (fips_effect p ns cfg) = p_namespace p"
  "p_namespace (landscape_effect v p ns cfg) = p_namespace p"
  by (simp_all add: effect_defs ctb_effect_def add_pull_secret_def)

lemma effect_pull_secrets [simp]:
  "p_imagePullSecrets (ctb_effect hh p ns cfg) = p_imagePullSecrets p"
  "p_imagePullSecrets (fips_effect p ns cfg) = p_imagePullSecrets p"
  "p_imagePullSecrets (landscape_effect v p ns cfg) = p_imagePullSecrets p"
  by (simp_all add: effect_defs ctb_effect_def)

lemma effect_volumes [simp]:
  "p_volumes (fips_effect p ns cfg) = p_volumes p"
  "p_volumes (landscape_effect v p ns cfg) = p_volumes p"
  by (simp_all add: effect_defs)

text \<open>Views of the containers: images, mounts, pending variables.\<close>

lemma images_kept [simp]:
  "map c_image (pod_group_containers (pull_secret_effect s p ns cfg)) = map c_image (pod_group_containers p)"
  "map c_image (pod_group_containers (ctb_effect hh p ns cfg)) = map c_image (pod_group_containers p)"
  "map c_image (pod_group_containers (fips_effect p ns cfg)) = map c_image (pod_group_containers p)"
  "map c_image (pod_group_containers (landscape_effect v p ns cfg)) = map c_image (pod_group_containers p)"
  by (simp_all add: effect_defs ctb_effect_def ctb_spec_def mount_containers_def add_pull_secret_def
      pod_group_containers_def fips_container_def landscape_container_def mount_container_def
      split: option.split)

lemma mounts_kept [simp]:
  "map c_volumeMounts (p_containers (fips_effect p ns cfg)) = map c_volumeMounts (p_containers p)"
  "map c_volumeMounts (p_containers (landscape_effect v p ns cfg)) = map c_volumeMounts (p_containers p)"
  by (simp_all add: effect_defs fips_container_def landscape_container_def)

lemma fips_pending_landscape: "fips_pending (landscape_container v c) = fips_pending c"
  by (simp add: fips_pending_def landscape_container_def env_changes_other)

lemma fips_pending_kept:
  "list_ex fips_pending (pod_group_containers (landscape_effect v p ns cfg))
   = list_ex fips_pending (pod_group_containers p)"
  by (simp add: landscape_effect_def list_ex_iff fips_pending_landscape)

text \<open>Two of the predicates read their containers through a view only.\<close>

lemma registry_view:
  "list_ex (registry_pending ov) cs = list_ex (\<lambda>i. AlterPodImageRegistry i ov \<noteq> i) (map c_image cs)"
  by (induction cs) (simp_all add: registry_pending_def)

lemma ctb_spec_view:
  "p_volumes q = p_volumes p \<Longrightarrow>
   map c_volumeMounts (p_containers q) = map c_volumeMounts (p_containers p) \<Longrightarrow>
   ctb_spec_done cfg q = ctb_spec_done cfg p"
  by (simp add: ctb_spec_done_def map_map [symmetric] del: map_map split: option.split)

section \<open>Every stage settles, and later stages keep it\<close>

lemma opted_in_ctb:
  "pod_wf p \<Longrightarrow> k \<noteq> AnnotationCTBHash \<Longrightarrow>
   opted_in k (ctb_effect hh p ns cfg) ns cfg = opted_in k p ns cfg"
  by (rule opted_in_kept [OF _ ctb.effect_annotations]) simp_all

lemma ctb_selected_after:
  "pod_wf p \<Longrightarrow> ctb_selected (ctb_effect hh p ns cfg) ns cfg = ctb_selected p ns cfg"
  using ctb.effect_annotations [of p hh ns cfg]
  by (simp add: ctb_selected_def opted_in_ctb CTBExplicitOptOut_iff annotations_kept_def)

lemma ctb_spec_settles: "ctb_spec_done cfg (ctb_spec p cfg)"
  by (simp add: ctb_spec_done_def ctb_spec_def mount_containers_def mount_container_def comp_def
      set_mount_twice set_volume_def volumes.idempotent split: option.split)

lemma ctb_spec_fixed: "ctb_spec_done cfg p \<Longrightarrow> ctb_spec p cfg = p"
  by (cases p) (auto simp: ctb_spec_done_def ctb_spec_def mount_containers_def mount_container_def
      intro!: map_idI split: option.splits)

lemma stamp_fixed:
  assumes "h \<noteq> [] \<Longrightarrow> map_get (p_annotations p) AnnotationCTBHash = Some h"
  shows "stamp h p = p"
  using assms by (cases p; cases "p_annotations p") (auto simp: stamp_def update_triv)

lemma ctb_done_after: "pod_wf p \<Longrightarrow> ctb_done hh ns cfg (ctb_effect hh p ns cfg)"
  using ctb_spec_settles [of cfg p] ctb_spec_view [of "stamp (Get hh) (ctb_spec p cfg)" "ctb_spec p cfg" cfg]
  by (simp add: ctb_done_def ctb_selected_after) (simp add: ctb_effect_def stamp_annotations)

lemma ctb_done_fixed: "ctb_done hh ns cfg p \<Longrightarrow> ctb_effect hh p ns cfg = p"
  by (auto simp: ctb_done_def ctb_effect_def ctb_spec_fixed intro: stamp_fixed)

lemma wf_kept:
  "pod_wf p \<Longrightarrow> pod_wf (ctb_effect hh p ns cfg)"
  using ctb.effect_annotations [of p hh ns cfg] by (simp add: pod_wf_def annotations_kept_def)

lemma stages_ok:
  assumes "overrides_stable (cfg_Overrides cfg)" "(k, s) \<in> set (stages opts hh ns cfg)"
  shows "stage_ok pod_wf s"
proof -
  have [simp]: "pod_wf (registry_effect p ns cfg) = pod_wf p"
    "pod_wf (pull_secret_effect sn p ns cfg) = pod_wf p"
    "pod_wf (fips_effect p ns cfg) = pod_wf p"
    "pod_wf (landscape_effect v p ns cfg) = pod_wf p" for p sn v
    by (simp_all add: pod_wf_def)
  have same: "opted_in k (registry_effect p ns cfg) ns cfg = opted_in k p ns cfg"
    "opted_in k (pull_secret_effect sn p ns cfg) ns cfg = opted_in k p ns cfg"
    "opted_in k (fips_effect p ns cfg) ns cfg = opted_in k p ns cfg"
    "opted_in k (landscape_effect v p ns cfg) ns cfg = opted_in k p ns cfg" for k p sn v
    by (simp_all add: opted_in_def)
  have reg: "registry_done ns cfg (registry_effect p ns cfg)" for p
    unfolding registry_done_def same
    by (auto simp: registry_effect_def list_ex_iff registry_settled [OF assms(1)])
  have fip: "fips_done ns cfg (fips_effect p ns cfg)" for p
    unfolding fips_done_def same by (auto simp: fips_effect_def list_ex_iff fips.flag_after)
  have land: "landscape_done v ns cfg (landscape_effect v p ns cfg)" for v p
    unfolding landscape_done_def same
    by (auto simp: landscape_effect_def list_ex_iff landscape.flag_after)
  have pull: "pull_secret_done sn ns cfg (pull_secret_effect sn p ns cfg)" for sn p
    unfolding pull_secret_done_def same by (auto simp: pull_secret_effect_def add_pull_secret_def)
  from assms(2) show ?thesis
    by (auto simp: stages_def stage_ok_def reg fip land pull ctb_done_after ctb_done_fixed wf_kept)
      (auto simp: effect_defs registry_done_def pull_secret_done_def fips_done_def
        landscape_done_def registry.groups_unflagged fips.groups_unflagged
        landscape.groups_unflagged add_pull_secret_def)
qed

lemma registry_done_kept:
  assumes "pod_wf p" "annotations_kept p q" "p_namespace q = p_namespace p"
    and "map c_image (pod_group_containers q) = map c_image (pod_group_containers p)"
    and "registry_done ns cfg p"
  shows "registry_done ns cfg q"
  using assms opted_in_kept [OF assms(1-3), of AnnotationAlterImgRegistry]
  by (simp add: registry_done_def registry_view)

lemma pull_secret_done_kept:
  assumes "pod_wf p" "annotations_kept p q" "p_namespace q = p_namespace p"
    and "p_imagePullSecrets q = p_imagePullSecrets p" "pull_secret_done s ns cfg p"
  shows "pull_secret_done s ns cfg q"
  using assms opted_in_kept [OF assms(1-3), of AnnotationSetPullSecret]
  by (simp add: pull_secret_done_def)

lemma ctb_done_kept:
  assumes "p_annotations q = p_annotations p" "p_namespace q = p_namespace p"
    and "p_volumes q = p_volumes p"
    and "map c_volumeMounts (p_containers q) = map c_volumeMounts (p_containers p)"
    and "ctb_done hh ns cfg p"
  shows "ctb_done hh ns cfg q"
  using assms ctb_spec_view [OF assms(3,4)] by (simp add: ctb_done_def ctb_selected_def opted_in_def)

lemma fips_done_kept:
  "fips_done ns cfg p \<Longrightarrow> fips_done ns cfg (landscape_effect v p ns cfg)"
  by (simp add: fips_done_def fips_pending_kept opted_in_def)

lemma effect_annotations_kept [simp]:
  "annotations_kept p (pull_secret_effect s p ns cfg)"
  "annotations_kept p (ctb_effect hh p ns cfg)"
  "annotations_kept p (fips_effect p ns cfg)"
  "annotations_kept p (landscape_effect v p ns cfg)"
  by (simp_all add: annotations_kept_eq ctb.effect_annotations)

lemma keeps_registry:
  assumes "\<And>p. annotations_kept p (f p)" "\<And>p. p_namespace (f p) = p_namespace p"
    and "\<And>p. map c_image (pod_group_containers (f p)) = map c_image (pod_group_containers p)"
  shows "stage_keeps pod_wf (g, registry_done ns cfg) (f, P)"
  using registry_done_kept [OF _ assms] by (simp add: stage_keeps_def)

lemma keeps_pull_secret:
  assumes "\<And>p. annotations_kept p (f p)" "\<And>p. p_namespace (f p) = p_namespace p"
    and "\<And>p. p_imagePullSecrets (f p) = p_imagePullSecrets p"
  shows "stage_keeps pod_wf (g, pull_secret_done s ns cfg) (f, P)"
  using pull_secret_done_kept [OF _ assms] by (simp add: stage_keeps_def)

lemma keeps_ctb:
  assumes "\<And>p. p_annotations (f p) = p_annotations p" "\<And>p. p_namespace (f p) = p_namespace p"
    and "\<And>p. p_volumes (f p) = p_volumes p"
    and "\<And>p. map c_volumeMounts (p_containers (f p)) = map c_volumeMounts (p_containers p)"
  shows "stage_keeps pod_wf (g, ctb_done hh ns cfg) (f, P)"
  using ctb_done_kept [OF assms] by (simp add: stage_keeps_def)

lemma keeps_fips:
  "stage_keeps pod_wf (g, fips_done ns cfg) (\<lambda>p. landscape_effect v p ns cfg, P)"
  by (simp add: stage_keeps_def fips_done_kept)

lemma stages_keep: "sorted_wrt (stage_keeps pod_wf) (map snd (stages opts hh ns cfg))"
  by (simp add: stages_def keeps_registry keeps_pull_secret keeps_ctb keeps_fips)

section \<open>The whole run\<close>

definition active_stages ::
  "webhook_opts \<Rightarrow> hash_holder \<Rightarrow> string go_map \<Rightarrow> config \<Rightarrow> ((pod \<Rightarrow> pod) \<times> (pod \<Rightarrow> bool)) list" where
  "active_stages opts hh ns cfg =
     map snd (filter (\<lambda>(k, s). k \<in> set (wh_AvailableFeatures opts)) (stages opts hh ns cfg))"

lemma active_stages_ok:
  assumes "overrides_stable (cfg_Overrides cfg)" "s \<in> set (active_stages opts hh ns cfg)"
  shows "stage_ok pod_wf s"
  using assms stages_ok [OF assms(1)] by (auto simp: active_stages_def)

lemma active_stages_keep: "sorted_wrt (stage_keeps pod_wf) (active_stages opts hh ns cfg)"
  using stages_keep [of opts hh ns cfg]
  by (simp add: active_stages_def sorted_wrt_map sorted_wrt_filter)

lemma run_entries:
  "run_defaulters (\<lambda>_. cfg) ns i (collect_available avail (defaulterEntries opts hh)) p =
     fold fst (map snd (filter (\<lambda>(k, s). k \<in> set avail) (stages opts hh ns cfg))) p"
  by (simp add: defaulterEntries_def stages_def BuildPodDefaulterAlterImgRegistry_ret
      BuildPodDefaulterAddImagePullSecrets_ret ctb_ret BuildDefaulterFipsMode_ret
      BuildDefaulterSetLandscape_ret)

lemma run_fixed:
  fixes opts hh ns cfg
  defines "run \<equiv> fold fst (active_stages opts hh ns cfg)"
  assumes "overrides_stable (cfg_Overrides cfg)" "pod_wf p"
  shows "run (run p) = run p"
  unfolding run_def
  by (rule fold_fixed [of _ pod_wf])
    (auto intro: active_stages_ok [OF assms(2)] fold_inv [OF active_stages_ok [OF assms(2)] assms(3)]
      fold_establishes [OF active_stages_keep active_stages_ok [OF assms(2)] assms(3), THEN bspec])

text \<open>The mark itself unsettles no stage: none reads the annotation it writes.\<close>

lemma marked_wf: "pod_wf p \<Longrightarrow> pod_wf (marked p)"
  by (simp add: pod_wf_def marked_def map_wf_put)

lemma opted_in_marked:
  "pod_wf p \<Longrightarrow> k \<noteq> AnnotationModified \<Longrightarrow> opted_in k (marked p) ns cfg = opted_in k p ns cfg"
  using marked_wf [of p] marked_frame [of p]
  by (intro opted_in_cong) (simp_all add: pod_wf_def marked_annotations pod_frame_def)

lemma marked_fields [simp]:
  "pod_group_containers (marked p) = pod_group_containers p"
  "p_containers (marked p) = p_containers p"
  "p_volumes (marked p) = p_volumes p"
  "p_imagePullSecrets (marked p) = p_imagePullSecrets p"
  by (simp_all add: marked_def pod_group_containers_def)

lemma ctb_spec_done_marked: "ctb_spec_done cfg (marked p) = ctb_spec_done cfg p"
  by (rule ctb_spec_view) simp_all

lemma stages_marked:
  assumes "pod_wf p" "(k, s) \<in> set (stages opts hh ns cfg)" "snd s p"
  shows "snd s (marked p)"
  using assms
  by (auto simp: stages_def registry_done_def pull_secret_done_def ctb_done_def ctb_spec_done_marked
      ctb_selected_def CTBExplicitOptOut_iff fips_done_def landscape_done_def opted_in_marked
      marked_annotations)

lemma run_marked:
  fixes opts hh ns
  assumes "overrides_stable (cfg_Overrides cfg)" "pod_wf p"
  defines "run \<equiv> fold fst (active_stages opts hh ns cfg)"
  shows "run (marked (run p)) = marked (run p)"
proof -
  note ok = active_stages_ok [OF assms(1)]
  have wf: "pod_wf (run p)"
    unfolding run_def by (rule fold_inv [OF ok assms(2)])
  have settled: "\<forall>s \<in> set (active_stages opts hh ns cfg). snd s (run p)"
    unfolding run_def by (rule fold_establishes [OF active_stages_keep ok assms(2)])
  show ?thesis
    unfolding run_def
  proof (rule fold_fixed [OF ok])
    show "pod_wf (marked (fold fst (active_stages opts hh ns cfg) p))"
      using wf by (simp add: run_def marked_wf)
    fix s assume s: "s \<in> set (active_stages opts hh ns cfg)"
    then obtain k where "(k, s) \<in> set (stages opts hh ns cfg)"
      by (auto simp: active_stages_def)
    with s settled wf show "snd s (marked (fold fst (active_stages opts hh ns cfg) p))"
      using stages_marked [of "run p" k s opts hh ns cfg] by (simp add: run_def)
  qed
qed

text \<open>The handler as \<open>SetupPodWebhookWithManager\<close> builds it, with one configuration throughout.\<close>

definition steady ::
  "(string \<Rightarrow> gerror + k8s_namespace) \<Rightarrow> webhook_opts \<Rightarrow> string \<Rightarrow> string go_map \<Rightarrow> config \<Rightarrow> bool" where
  "steady get opts name ns cfg \<longleftrightarrow>
     (case get name of Inl e \<Rightarrow> False | Inr obj \<Rightarrow> ns_annotations obj = ns)
     \<and> wh_GetConfig opts = (\<lambda>_. Ret (Inr cfg))"

lemma steady_served:
  assumes "steady get opts (p_namespace p) ns cfg"
  shows "well_served (SetupPodWebhookWithManager get opts hh) p ns (\<lambda>_. cfg)"
  using assms setup_defaulters_ok [of _ get opts hh]
  by (auto simp: steady_def well_served_def SetupPodWebhookWithManager_def getNamespace_def
      split: sum.splits)

lemma steady_run:
  "run_defaulters (\<lambda>_. cfg) ns 0 (pcd_defaulters (SetupPodWebhookWithManager get opts hh)) p
   = fold fst (active_stages opts hh ns cfg) p"
  by (simp add: SetupPodWebhookWithManager_def run_entries active_stages_def)

lemma steady_default:
  fixes hh
  assumes "steady get opts (p_namespace p) ns cfg"
  defines "w \<equiv> SetupPodWebhookWithManager get opts hh"
    and "q \<equiv> fold fst (active_stages opts hh ns cfg) p"
  shows "\<exists>m. default_pod w p = (if m then marked q else q) \<and> default_error w p = None
    \<and> (m \<or> q = p) \<and> pod_frame p q \<and> annotations_kept p q"
  using Default_served [OF steady_served [OF assms(1)], of hh]
  unfolding w_def q_def steady_run .

lemma default_frame:
  "steady get opts (p_namespace p) ns cfg \<Longrightarrow>
   pod_frame p (default_pod (SetupPodWebhookWithManager get opts hh) p)"
  using steady_default [of get opts p ns cfg hh]
  by (auto simp: marked_frame intro: pod_frame_trans)

text \<open>A handler with everything available, on a namespace that asks for everything.\<close>

definition sample_cfg :: config where
  "sample_cfg = \<lparr>cfg_Overrides = Some [(''docker.io'', ''mirror.io/hub'')],
     cfg_ClusterTrustBundleMapping = Some sample_bundle, cfg_NamespaceFeatures = None,
     cfg_AvailableFeatures = KnownFeatureKeys\<rparr>"

definition sample_ns_annotations :: "string go_map" where
  "sample_ns_annotations = Some [(AnnotationAll, ''true'')]"

definition sample_get :: "string \<Rightarrow> gerror + k8s_namespace" where
  "sample_get name =
     (if name = ''apps''
      then Inr \<lparr>ns_name = ''apps'', ns_namespace = [], ns_annotations = sample_ns_annotations\<rparr>
      else Inl (StatusError ''NotFound'' name))"

definition sample_opts :: webhook_opts where
  "sample_opts = \<lparr>wh_AvailableFeatures = KnownFeatureKeys,
     wh_NamespaceDefaultFeatures = NamespaceDefaultFeatures sample_cfg,
     wh_ImagePullSecretName = ''regcred'', wh_Landscape = ''CN'',
     wh_GetConfig = (\<lambda>_. Ret (Inr sample_cfg))\<rparr>"

definition sample_pod :: pod where
  "sample_pod = zero_pod\<lparr>p_name := ''web-1'', p_namespace := ''apps'',
     p_ownerReferences := [\<lparr>owner_kind = ''ReplicaSet'', owner_name = ''web''\<rparr>],
     p_containers := [zero_container\<lparr>c_name := ''web'', c_image := ''docker.io/nginx''\<rparr>]\<rparr>"

definition sample_cell :: hash_holder where
  "sample_cell = Set NewHashHolder ''ab12''"

lemma sample_steady:
  "steady sample_get sample_opts (p_namespace sample_pod) sample_ns_annotations sample_cfg"
  by (simp add: steady_def sample_get_def sample_pod_def sample_opts_def)

lemma sample_stable: "overrides_stable (cfg_Overrides sample_cfg)"
  by (simp add: sample_cfg_def overrides_stable_def target_stable_def target_host_def
      fixRegistry_def)

lemma sample_pod_wf: "map_wf (p_annotations sample_pod)"
  by (simp add: sample_pod_def zero_pod_def map_wf_def)

text \<open>
  Property C1. Admitting a pod a second time changes nothing: with one configuration whose
  overrides are stable, \<open>Default\<close> applied to its own result returns that result, without error.
\<close>

theorem Default_idempotent:
  assumes "steady get opts (p_namespace p) ns cfg" "overrides_stable (cfg_Overrides cfg)"
    and "map_wf (p_annotations p)"
  shows "let w = SetupPodWebhookWithManager get opts hh
    in default_pod w (default_pod w p) = default_pod w p
      \<and> default_error w p = None \<and> default_error w (default_pod w p) = None"
proof -
  define w where "w = SetupPodWebhookWithManager get opts hh"
  let ?run = "fold fst (active_stages opts hh ns cfg)"
  have wf: "pod_wf p" using assms(3) by (simp add: pod_wf_def)
  obtain m where m: "default_pod w p = (if m then marked (?run p) else ?run p)"
    "default_error w p = None" "m \<or> ?run p = p"
    using steady_default [OF assms(1), of hh] by (auto simp: w_def)
  have "p_namespace (default_pod w p) = p_namespace p"
    using default_frame [OF assms(1), of hh] by (simp add: pod_frame_def w_def)
  with assms(1) obtain m' where m': "default_pod w (default_pod w p) =
      (if m' then marked (?run (default_pod w p)) else ?run (default_pod w p))"
    "default_error w (default_pod w p) = None" "m' \<or> ?run (default_pod w p) = default_pod w p"
    using steady_default [of get opts "default_pod w p" ns cfg hh] by (auto simp: w_def)
  show ?thesis
  proof (cases m)
    case True
    with m(1) have "?run (default_pod w p) = default_pod w p"
      using run_marked [OF assms(2) wf, of opts hh ns] by simp
    with True m m' show ?thesis by (auto simp: marked_twice w_def [symmetric])
  next
    case False
    with m have "default_pod w p = p" by simp
    with m m' show ?thesis by (simp add: w_def [symmetric])
  qed
qed

lemma Default_idempotent_witness:
  "let w = SetupPodWebhookWithManager sample_get sample_opts sample_cell
   in default_pod w (default_pod w sample_pod) = default_pod w sample_pod
     \<and> default_error w sample_pod = None \<and> default_error w (default_pod w sample_pod) = None"
  by (rule Default_idempotent [OF sample_steady sample_stable sample_pod_wf])

end
