(* ===== verification/Restarter.thy ===== *)
theory Restarter
  imports Api_Config
begin

text \<open>
  \<open>internal/ctb/restarter.go\<close>: the scan that deletes the pods whose trust-bundle hash is stale.
  The Kubernetes client is a record of functions on the state \<open>'s\<close> of the cluster; every call
  returns the new state, so other actors may change the cluster between calls. The scan also
  returns what it logs and which deletions it asks for, in order.
\<close>

section \<open>The client and the events\<close>

record 's kube =
  k_list_namespaces :: "'s \<Rightarrow> 's \<times> (gerror + k8s_namespace list)"
  k_list_pods :: "string \<Rightarrow> 's \<Rightarrow> 's \<times> (gerror + pod list)"
  k_delete_pod :: "pod \<Rightarrow> 's \<Rightarrow> 's \<times> gerror option"
  k_isForbidden :: "gerror \<Rightarrow> bool"
  k_isNotFound :: "gerror \<Rightarrow> bool"

datatype restart_event =
    DeletingStale string pod string
  | OrphanSkipped string pod
  | ForbiddenManaged string gerror
  | ForbiddenUnmanaged string

section \<open>The scan\<close>

fun restart_pods ::
  "'s kube \<Rightarrow> string \<Rightarrow> string \<Rightarrow> pod list \<Rightarrow> bool \<Rightarrow> 's
   \<Rightarrow> 's \<times> restart_event list \<times> (gerror + bool)" where
  "restart_pods c namespace desiredHash [] anyDeleted s = (s, [], Inr anyDeleted)"
| "restart_pods c namespace desiredHash (pod # pods) anyDeleted s =
     (if \<not> CTBRestartEnabled (p_annotations pod)
      then restart_pods c namespace desiredHash pods anyDeleted s
      else if length (p_ownerReferences pod) = 0
      then (case restart_pods c namespace desiredHash pods anyDeleted s of
              (s', evs, r) \<Rightarrow> (s', OrphanSkipped namespace pod # evs, r))
      else let podHash = map_read (p_annotations pod) AnnotationCTBHash
           in if podHash = desiredHash
              then restart_pods c namespace desiredHash pods anyDeleted s
              else (case k_delete_pod c pod s of
                      (s1, err) \<Rightarrow>
                        (case (case err of None \<Rightarrow> None
                                | Some e \<Rightarrow> if k_isNotFound c e then None else Some e) of
                           Some e \<Rightarrow> (s1, [DeletingStale namespace pod podHash], Inl e)
                         | None \<Rightarrow>
                             (case restart_pods c namespace desiredHash pods True s1 of
                                (s', evs, r) \<Rightarrow>
                                  (s', DeletingStale namespace pod podHash # evs, r)))))"

definition restartStalePodsInNamespace ::
  "'s kube \<Rightarrow> string \<Rightarrow> string \<Rightarrow> 's \<Rightarrow> 's \<times> restart_event list \<times> (gerror + bool)" where
  "restartStalePodsInNamespace c namespace desiredHash s =
     (case k_list_pods c namespace s of
        (s1, Inl err) \<Rightarrow> (s1, [], Inl err)
      | (s1, Inr pods) \<Rightarrow> restart_pods c namespace desiredHash pods False s1)"

fun restart_namespaces ::
  "'s kube \<Rightarrow> string \<Rightarrow> string list \<Rightarrow> k8s_namespace list \<Rightarrow> bool \<Rightarrow> 's
   \<Rightarrow> 's \<times> restart_event list \<times> (gerror + bool)" where
  "restart_namespaces c desiredHash managed [] anyDeleted s = (s, [], Inr anyDeleted)"
| "restart_namespaces c desiredHash managed (ns # nss) anyDeleted s =
     (case restartStalePodsInNamespace c (ns_name ns) desiredHash s of
        (s1, evs, Inl err) \<Rightarrow>
          if k_isForbidden c err
          then (case restart_namespaces c desiredHash managed nss anyDeleted s1 of
                  (s', evs', r) \<Rightarrow>
                    (s', evs @ (if ns_name ns \<in> set managed
                                then ForbiddenManaged (ns_name ns) err
                                else ForbiddenUnmanaged (ns_name ns)) # evs', r))
          else (s1, evs, Inl err)
      | (s1, evs, Inr deleted) \<Rightarrow>
          (case restart_namespaces c desiredHash managed nss (if deleted then True else anyDeleted) s1 of
             (s', evs', r) \<Rightarrow> (s', evs @ evs', r)))"

definition RestartStalePods ::
  "'s kube \<Rightarrow> string \<Rightarrow> string list \<Rightarrow> 's \<Rightarrow> 's \<times> restart_event list \<times> (gerror + bool)" where
  "RestartStalePods c desiredHash managedNamespaces s =
     (case k_list_namespaces c s of
        (s1, Inl err) \<Rightarrow> (s1, [], Inl err)
      | (s1, Inr namespaces) \<Rightarrow>
          restart_namespaces c desiredHash managedNamespaces namespaces False s1)"

section \<open>Which pods it deletes\<close>

definition stale :: "string \<Rightarrow> pod \<Rightarrow> bool" where
  "stale h p \<longleftrightarrow>
     CTBRestartEnabled (p_annotations p) \<and> p_ownerReferences p \<noteq> []
     \<and> map_read (p_annotations p) AnnotationCTBHash \<noteq> h"

fun deletions :: "restart_event list \<Rightarrow> pod list" where
  "deletions [] = []"
| "deletions (DeletingStale ns p h # evs) = p # deletions evs"
| "deletions (OrphanSkipped ns p # evs) = deletions evs"
| "deletions (ForbiddenManaged ns e # evs) = deletions evs"
| "deletions (ForbiddenUnmanaged ns # evs) = deletions evs"

fun forbidden_event :: "restart_event \<Rightarrow> bool" where
  "forbidden_event (ForbiddenManaged ns e) = True"
| "forbidden_event (ForbiddenUnmanaged ns) = True"
| "forbidden_event (DeletingStale ns p h) = False"
| "forbidden_event (OrphanSkipped ns p) = False"

lemma deletions_append [simp]: "deletions (xs @ ys) = deletions xs @ deletions ys"
  by (induction xs rule: deletions.induct) simp_all

text \<open>One iteration, by whether the pod is stale.\<close>

definition orphan_note :: "string \<Rightarrow> pod \<Rightarrow> restart_event list" where
  "orphan_note ns p =
     (if CTBRestartEnabled (p_annotations p) \<and> p_ownerReferences p = [] then [OrphanSkipped ns p]
      else [])"

definition delete_error :: "'s kube \<Rightarrow> gerror option \<Rightarrow> gerror option" where
  "delete_error c err =
     (case err of None \<Rightarrow> None | Some e \<Rightarrow> if k_isNotFound c e then None else Some e)"

lemma restart_pods_skip:
  assumes "\<not> stale h q"
  shows "restart_pods c ns h (q # pods) b s =
    (case restart_pods c ns h pods b s of (s', evs, r) \<Rightarrow> (s', orphan_note ns q @ evs, r))"
  using assms by (auto simp: stale_def orphan_note_def split: prod.split)

lemma restart_pods_delete:
  assumes "stale h q"
  shows "restart_pods c ns h (q # pods) b s =
    (let note = DeletingStale ns q (map_read (p_annotations q) AnnotationCTBHash);
         (s1, err) = k_delete_pod c q s
     in case delete_error c err of
          Some e \<Rightarrow> (s1, [note], Inl e)
        | None \<Rightarrow> (case restart_pods c ns h pods True s1 of (s', evs, r) \<Rightarrow> (s', note # evs, r)))"
  using assms by (auto simp: stale_def delete_error_def Let_def split: prod.split)

lemma orphan_note_simps [simp]:
  "deletions (orphan_note ns p) = []"
  "list_ex forbidden_event (orphan_note ns p) = False"
  by (simp_all add: orphan_note_def)

declare restart_pods.simps(2) [simp del]

lemma restart_pods_safe:
  "restart_pods c ns h pods b s = (s', evs, r) \<Longrightarrow>
   p \<in> set (deletions evs) \<Longrightarrow> p \<in> set pods \<and> stale h p"
proof (induction pods arbitrary: b s evs)
  case (Cons q pods)
  then show ?case
    by (cases "stale h q")
      (fastforce simp: restart_pods_skip restart_pods_delete Let_def
        split: prod.splits option.splits)+
qed simp

lemma restart_pods_complete:
  "restart_pods c ns h pods b s = (s', evs, Inr b') \<Longrightarrow>
   deletions evs = filter (stale h) pods \<and> (b' \<longleftrightarrow> b \<or> filter (stale h) pods \<noteq> [])"
proof (induction pods arbitrary: b s evs)
  case (Cons q pods)
  then show ?case
    by (cases "stale h q")
      (fastforce simp: restart_pods_skip restart_pods_delete Let_def
        split: prod.splits option.splits)+
qed simp

lemma restart_pods_no_forbidden:
  "restart_pods c ns h pods b s = (s', evs, r) \<Longrightarrow> \<not> list_ex forbidden_event evs"
proof (induction pods arbitrary: b s evs)
  case (Cons q pods)
  then show ?case
    by (cases "stale h q")
      (auto simp: restart_pods_skip restart_pods_delete Let_def
        split: prod.splits option.splits)
qed simp

lemma in_namespace_safe:
  assumes "restartStalePodsInNamespace c ns h s = (s', evs, r)" "p \<in> set (deletions evs)"
  shows "stale h p \<and> (\<exists>t t' pods. k_list_pods c ns t = (t', Inr pods) \<and> p \<in> set pods)"
  using assms
  by (fastforce simp: restartStalePodsInNamespace_def dest: restart_pods_safe
      split: prod.splits sum.splits)

lemma in_namespace_flag:
  assumes "restartStalePodsInNamespace c ns h s = (s', evs, Inr b)"
  shows "b \<longleftrightarrow> deletions evs \<noteq> []"
  using assms
  by (auto simp: restartStalePodsInNamespace_def dest: restart_pods_complete
      split: prod.splits sum.splits)

text \<open>One iteration over the namespaces: the scan of one namespace and what follows it.\<close>

definition forbidden_note :: "string list \<Rightarrow> string \<Rightarrow> gerror \<Rightarrow> restart_event" where
  "forbidden_note managed n e =
     (if n \<in> set managed then ForbiddenManaged n e else ForbiddenUnmanaged n)"

lemma forbidden_note_simps [simp]:
  "deletions (forbidden_note managed n e # evs) = deletions evs"
  "forbidden_event (forbidden_note managed n e)"
  by (simp_all add: forbidden_note_def)

lemma restart_namespaces_ConsE:
  assumes "restart_namespaces c h managed (n # nss) b s = (s', evs, r)"
  obtains (aborted) e where
    "restartStalePodsInNamespace c (ns_name n) h s = (s', evs, Inl e)" "\<not> k_isForbidden c e"
    "r = Inl e"
  | (forbidden) s1 evs1 e evs2 where
    "restartStalePodsInNamespace c (ns_name n) h s = (s1, evs1, Inl e)" "k_isForbidden c e"
    "restart_namespaces c h managed nss b s1 = (s', evs2, r)"
    "evs = evs1 @ forbidden_note managed (ns_name n) e # evs2"
  | (scanned) s1 evs1 d evs2 where
    "restartStalePodsInNamespace c (ns_name n) h s = (s1, evs1, Inr d)"
    "restart_namespaces c h managed nss (b \<or> d) s1 = (s', evs2, r)" "evs = evs1 @ evs2"
proof -
  obtain s1 evs1 r1 where *: "restartStalePodsInNamespace c (ns_name n) h s = (s1, evs1, r1)"
    by (metis prod_cases3)
  show thesis
  proof (cases r1)
    case (Inl e)
    then show thesis
      using assms * aborted forbidden
      by (auto simp: forbidden_note_def split: if_splits prod.splits)
  next
    case (Inr d)
    then show thesis
      using assms * scanned by (cases d) (auto split: prod.splits)
  qed
qed

lemma restart_namespaces_safe:
  assumes "restart_namespaces c h managed nss b s = (s', evs, r)" "p \<in> set (deletions evs)"
  shows "stale h p \<and> (\<exists>n \<in> set nss. \<exists>t t' pods.
     k_list_pods c (ns_name n) t = (t', Inr pods) \<and> p \<in> set pods)"
  using assms
proof (induction nss arbitrary: b s evs)
  case (Cons n nss)
  from Cons.prems(1) show ?case
  proof (cases rule: restart_namespaces_ConsE)
    case (aborted e)
    then show ?thesis using Cons.prems(2) in_namespace_safe by fastforce
  next
    case (forbidden s1 evs1 e evs2)
    then show ?thesis using Cons.prems(2) Cons.IH [OF forbidden(3)] in_namespace_safe by fastforce
  next
    case (scanned s1 evs1 d evs2)
    then show ?thesis using Cons.prems(2) Cons.IH [OF scanned(2)] in_namespace_safe by fastforce
  qed
qed simp

text \<open>
  The flag: it is never set without a deletion, and it reports every deletion of a scan that met
  no \<open>Forbidden\<close> error.
\<close>

lemma restart_namespaces_flag:
  assumes "restart_namespaces c h managed nss b s = (s', evs, Inr b')"
  shows "(b' \<longrightarrow> b \<or> deletions evs \<noteq> [])
   \<and> (\<not> list_ex forbidden_event evs \<longrightarrow> (b' \<longleftrightarrow> b \<or> deletions evs \<noteq> []))"
  using assms
proof (induction nss arbitrary: b s evs)
  case (Cons n nss)
  from Cons.prems show ?case
  proof (cases rule: restart_namespaces_ConsE)
    case (forbidden s1 evs1 e evs2)
    then show ?thesis using Cons.IH [OF forbidden(3)] by auto
  next
    case (scanned s1 evs1 d evs2)
    then show ?thesis using Cons.IH [OF scanned(2)] in_namespace_flag [OF scanned(1)] by auto
  qed simp
qed simp

section \<open>Convergence on a cluster that deletes what it is asked to\<close>

text \<open>
  \<open>live_cluster c names pods_of\<close>: the API server as the documentation of Kubernetes describes it
  for a client with full permissions and no other writer. Lists answer with the pods of the state,
  which carry the namespace they are listed in and have unique names there; a deletion succeeds
  (or finds nothing) and removes exactly the pod of that namespace and name.
\<close>

definition same_pod :: "pod \<Rightarrow> string \<Rightarrow> pod \<Rightarrow> bool" where
  "same_pod p ns q \<longleftrightarrow> ns = p_namespace p \<and> p_name q = p_name p"

definition live_cluster ::
  "'s kube \<Rightarrow> k8s_namespace list \<Rightarrow> ('s \<Rightarrow> string \<Rightarrow> pod list) \<Rightarrow> bool" where
  "live_cluster c nss pods_of \<longleftrightarrow>
     (\<forall>s. k_list_namespaces c s = (s, Inr nss))
     \<and> (\<forall>s ns. k_list_pods c ns s = (s, Inr (pods_of s ns)))
     \<and> (\<forall>s ns. distinct (map p_name (pods_of s ns)) \<and> (\<forall>p \<in> set (pods_of s ns). p_namespace p = ns))
     \<and> (\<forall>s p. delete_error c (snd (k_delete_pod c p s)) = None)
     \<and> (\<forall>s p ns. pods_of (fst (k_delete_pod c p s)) ns
          = filter (\<lambda>q. \<not> same_pod p ns q) (pods_of s ns))"

definition delete_all :: "'s kube \<Rightarrow> pod list \<Rightarrow> 's \<Rightarrow> 's" where
  "delete_all c ps s = fold (\<lambda>p s. fst (k_delete_pod c p s)) ps s"

lemma delete_all_simps [simp]:
  "delete_all c [] s = s"
  "delete_all c (p # ps) s = delete_all c ps (fst (k_delete_pod c p s))"
  by (simp_all add: delete_all_def)

lemma restart_pods_live:
  assumes "live_cluster c nss pods_of"
  shows "\<exists>evs. restart_pods c ns h ps b s =
    (delete_all c (filter (stale h) ps) s, evs, Inr (b \<or> filter (stale h) ps \<noteq> []))
    \<and> deletions evs = filter (stale h) ps"
proof (induction ps arbitrary: b s)
  case (Cons q ps)
  show ?case
  proof (cases "stale h q")
    case True
    obtain s1 err where d: "k_delete_pod c q s = (s1, err)" by fastforce
    with assms have "delete_error c err = None" by (metis live_cluster_def snd_conv)
    with True d Cons.IH [of True s1] show ?thesis
      by (auto simp: restart_pods_delete Let_def)
  next
    case False
    with Cons.IH [of b s] show ?thesis by (auto simp: restart_pods_skip)
  qed
qed simp

lemma pods_after_delete_all:
  assumes "live_cluster c nss pods_of"
  shows "pods_of (delete_all c ps s) ns
    = filter (\<lambda>q. \<forall>p \<in> set ps. \<not> same_pod p ns q) (pods_of s ns)"
proof (induction ps arbitrary: s)
  case (Cons p ps)
  have "pods_of (fst (k_delete_pod c p s)) ns = filter (\<lambda>q. \<not> same_pod p ns q) (pods_of s ns)"
    using assms by (simp add: live_cluster_def)
  with Cons.IH [of "fst (k_delete_pod c p s)"] show ?case
    by (simp add: filter_filter)
qed simp

lemma same_name_same_pod:
  "distinct (map p_name ps) \<Longrightarrow> p \<in> set ps \<Longrightarrow> q \<in> set ps \<Longrightarrow> p_name p = p_name q \<Longrightarrow> p = q"
  by (metis distinct_map inj_onD)

lemma pods_after_scan:
  assumes live: "live_cluster c nss pods_of"
  shows "pods_of (delete_all c (filter (stale h) (pods_of s ns)) s) ns'
    = (if ns' = ns then filter (\<lambda>q. \<not> stale h q) (pods_of s ns) else pods_of s ns')"
proof -
  have names: "distinct (map p_name (pods_of s ns))"
    and home: "\<And>p. p \<in> set (pods_of s ns) \<Longrightarrow> p_namespace p = ns"
    using live by (simp_all add: live_cluster_def)
  have "(\<forall>p \<in> set (filter (stale h) (pods_of s ns)). \<not> same_pod p ns q) = (\<not> stale h q)"
    if "q \<in> set (pods_of s ns)" for q
    using that home same_name_same_pod [OF names] by (auto simp: same_pod_def)
  moreover have "\<forall>p \<in> set (filter (stale h) (pods_of s ns)). \<not> same_pod p ns' q" if "ns' \<noteq> ns" for q
    using that home by (auto simp: same_pod_def)
  ultimately show ?thesis
    by (cases "ns' = ns") (simp_all add: pods_after_delete_all [OF live] cong: filter_cong)
qed

lemma scan_namespace_live:
  assumes live: "live_cluster c nss pods_of"
  shows "\<exists>s' evs. restartStalePodsInNamespace c ns h s = (s', evs, Inr (deletions evs \<noteq> []))
    \<and> deletions evs = filter (stale h) (pods_of s ns)
    \<and> (\<forall>ns'. pods_of s' ns' =
        (if ns' = ns then filter (\<lambda>q. \<not> stale h q) (pods_of s ns) else pods_of s ns'))"
proof -
  obtain evs where "restart_pods c ns h (pods_of s ns) False s =
      (delete_all c (filter (stale h) (pods_of s ns)) s, evs,
       Inr (filter (stale h) (pods_of s ns) \<noteq> []))"
    "deletions evs = filter (stale h) (pods_of s ns)"
    using restart_pods_live [OF live, of ns h "pods_of s ns" False s] by auto
  moreover have "k_list_pods c ns s = (s, Inr (pods_of s ns))"
    using live by (simp add: live_cluster_def)
  ultimately show ?thesis
    by (simp add: restartStalePodsInNamespace_def pods_after_scan [OF live])
qed

lemma scan_all_live:
  assumes live: "live_cluster c all pods_of" and "distinct (map ns_name nss)"
  shows "\<exists>s' evs. restart_namespaces c h managed nss b s = (s', evs, Inr (b \<or> deletions evs \<noteq> []))
    \<and> deletions evs = concat (map (\<lambda>n. filter (stale h) (pods_of s (ns_name n))) nss)
    \<and> (\<forall>ns. pods_of s' ns =
        (if ns \<in> ns_name ` set nss then filter (\<lambda>q. \<not> stale h q) (pods_of s ns) else pods_of s ns))"
  using assms(2)
proof (induction nss arbitrary: b s)
  case (Cons n nss)
  obtain s1 evs1 where 1: "restartStalePodsInNamespace c (ns_name n) h s
      = (s1, evs1, Inr (deletions evs1 \<noteq> []))"
    "deletions evs1 = filter (stale h) (pods_of s (ns_name n))"
    "\<And>ns'. pods_of s1 ns' = (if ns' = ns_name n
        then filter (\<lambda>q. \<not> stale h q) (pods_of s (ns_name n)) else pods_of s ns')"
    using scan_namespace_live [OF live] by blast
  have "distinct (map ns_name nss)" using Cons.prems by simp
  from Cons.IH [OF this, of "if deletions evs1 \<noteq> [] then True else b" s1]
  obtain s2 evs2 where 2: "restart_namespaces c h managed nss (if deletions evs1 \<noteq> [] then True else b) s1
      = (s2, evs2, Inr ((if deletions evs1 \<noteq> [] then True else b) \<or> deletions evs2 \<noteq> []))"
    "deletions evs2 = concat (map (\<lambda>n. filter (stale h) (pods_of s1 (ns_name n))) nss)"
    "\<And>ns. pods_of s2 ns = (if ns \<in> ns_name ` set nss
        then filter (\<lambda>q. \<not> stale h q) (pods_of s1 ns) else pods_of s1 ns)"
    by blast
  have other: "x \<in> set nss \<Longrightarrow> ns_name x \<noteq> ns_name n" for x
    using Cons.prems by (auto simp: image_iff)
  then have "map (\<lambda>n. filter (stale h) (pods_of s1 (ns_name n))) nss
      = map (\<lambda>n. filter (stale h) (pods_of s (ns_name n))) nss"
    by (simp add: 1(3))
  then have "deletions (evs1 @ evs2)
      = concat (map (\<lambda>n. filter (stale h) (pods_of s (ns_name n))) (n # nss))"
    by (simp add: 1(2) 2(2) cong: map_cong)
  moreover have "restart_namespaces c h managed (n # nss) b s
      = (s2, evs1 @ evs2, Inr (b \<or> deletions (evs1 @ evs2) \<noteq> []))"
    using 1(1) 2(1) by auto
  moreover have "pods_of s2 ns = (if ns \<in> ns_name ` set (n # nss)
      then filter (\<lambda>q. \<not> stale h q) (pods_of s ns) else pods_of s ns)" for ns
    using Cons.prems by (cases "ns = ns_name n") (simp_all add: 1(3) 2(3))
  ultimately show ?case by blast
qed simp

lemma RestartStalePods_live:
  assumes live: "live_cluster c nss pods_of" and names: "distinct (map ns_name nss)"
  shows "\<exists>s' evs. RestartStalePods c h managed s = (s', evs, Inr (deletions evs \<noteq> []))
    \<and> deletions evs = concat (map (\<lambda>n. filter (stale h) (pods_of s (ns_name n))) nss)
    \<and> (\<forall>ns. pods_of s' ns =
        (if ns \<in> ns_name ` set nss then filter (\<lambda>q. \<not> stale h q) (pods_of s ns) else pods_of s ns))"
proof -
  have "k_list_namespaces c s = (s, Inr nss)" using live by (simp add: live_cluster_def)
  then show ?thesis
    using scan_all_live [OF live names, of h managed False s] by (simp add: RestartStalePods_def)
qed

section \<open>Guarantees\<close>

text \<open>A store for the witnesses: the state is the list of deleted pods, by namespace and name.\<close>

type_synonym deleted_pods = "(string \<times> string) list"

definition owned_pod :: "string \<Rightarrow> string \<Rightarrow> string go_map \<Rightarrow> pod" where
  "owned_pod ns n annotations = zero_pod\<lparr>p_name := n, p_namespace := ns, p_annotations := annotations,
     p_ownerReferences := [\<lparr>owner_kind = ''ReplicaSet'', owner_name = ''web''\<rparr>]\<rparr>"

definition sample_cluster_pods :: "string \<Rightarrow> pod list" where
  "sample_cluster_pods ns =
     (if ns = ''apps''
      then [owned_pod ''apps'' ''web-1'' (Some [(AnnotationCTBHash, ''old'')]),
            owned_pod ''apps'' ''web-2'' (Some [(AnnotationAddClusterTrustBundle, ''true'')]),
            owned_pod ''apps'' ''web-3'' (Some [(AnnotationCTBHash, ''new'')])]
      else [])"

definition sample_pods_of :: "deleted_pods \<Rightarrow> string \<Rightarrow> pod list" where
  "sample_pods_of s ns = filter (\<lambda>q. (ns, p_name q) \<notin> set s) (sample_cluster_pods ns)"

definition sample_namespaces :: "k8s_namespace list" where
  "sample_namespaces = [\<lparr>ns_name = ''apps'', ns_namespace = [], ns_annotations = None\<rparr>]"

definition sample_kube :: "deleted_pods kube" where
  "sample_kube =
     \<lparr>k_list_namespaces = (\<lambda>s. (s, Inr sample_namespaces)),
      k_list_pods = (\<lambda>ns s. (s, Inr (sample_pods_of s ns))),
      k_delete_pod = (\<lambda>p s. ((p_namespace p, p_name p) # s, None)),
      k_isForbidden = (\<lambda>e. False), k_isNotFound = (\<lambda>e. False)\<rparr>"

lemma owned_pod_simps [simp]:
  "p_name (owned_pod ns n a) = n" "p_namespace (owned_pod ns n a) = ns"
  "p_annotations (owned_pod ns n a) = a" "p_ownerReferences (owned_pod ns n a) \<noteq> []"
  by (simp_all add: owned_pod_def)

lemma sample_live: "live_cluster sample_kube sample_namespaces sample_pods_of"
proof -
  have "distinct (map p_name (sample_pods_of s ns))" for s ns
    unfolding sample_pods_of_def
    by (rule distinct_map_filter) (simp add: sample_cluster_pods_def)
  moreover have "\<forall>p \<in> set (sample_pods_of s ns). p_namespace p = ns" for s ns
    by (auto simp: sample_pods_of_def sample_cluster_pods_def)
  moreover have "sample_pods_of ((p_namespace p, p_name p) # s) ns
      = filter (\<lambda>q. \<not> same_pod p ns q) (sample_pods_of s ns)" for p s ns
    by (auto simp: sample_pods_of_def same_pod_def intro: filter_cong)
  ultimately show ?thesis
    by (simp add: live_cluster_def sample_kube_def delete_error_def)
qed

lemma sample_distinct: "distinct (map ns_name sample_namespaces)"
  by (simp add: sample_namespaces_def)

text \<open>
  Property C18. Whatever the cluster answers and whoever changes it meanwhile, and also when the scan
  ends in an error, every pod it deletes came out of a pod list of that scan, has an owner to
  recreate it, is marked for restarts, and carries a hash other than the desired one.
\<close>

theorem RestartStalePods_safe:
  assumes "RestartStalePods c h managed s = (s', evs, r)" "p \<in> set (deletions evs)"
  shows "stale h p \<and> p_ownerReferences p \<noteq> []
    \<and> (\<exists>ns t t' pods. k_list_pods c ns t = (t', Inr pods) \<and> p \<in> set pods)"
proof -
  obtain s1 nss where "restart_namespaces c h managed nss False s1 = (s', evs, r)"
    using assms by (auto simp: RestartStalePods_def split: prod.splits sum.splits)
  from restart_namespaces_safe [OF this assms(2)] show ?thesis by (auto simp: stale_def)
qed

lemma RestartStalePods_safe_witness:
  "stale ''new'' (owned_pod ''apps'' ''web-1'' (Some [(AnnotationCTBHash, ''old'')]))"
proof -
  let ?p = "owned_pod ''apps'' ''web-1'' (Some [(AnnotationCTBHash, ''old'')])"
  obtain s' evs where run: "RestartStalePods sample_kube ''new'' [] [] = (s', evs, Inr (deletions evs \<noteq> []))"
    and del: "deletions evs = concat (map (\<lambda>n. filter (stale ''new'') (sample_pods_of [] (ns_name n)))
      sample_namespaces)"
    using RestartStalePods_live [OF sample_live sample_distinct] by blast
  have "?p \<in> set (deletions evs)"
    by (simp add: del sample_namespaces_def sample_pods_of_def sample_cluster_pods_def stale_def
        CTBRestartEnabled_iff map_read_def)
  from RestartStalePods_safe [OF run this] show ?thesis by blast
qed



text \<open>
  The flag of a scan that ends without an error is set only when something was deleted,
  and, unless a namespace answered \<open>Forbidden\<close>, whenever something was deleted.
\<close>

theorem RestartStalePods_flag:
  assumes "RestartStalePods c h managed s = (s', evs, Inr deleted)"
  shows "(\<not> deleted \<or> deletions evs \<noteq> [])
    \<and> (list_ex forbidden_event evs \<or> deleted = (deletions evs \<noteq> []))"
proof -
  obtain s1 nss where "restart_namespaces c h managed nss False s1 = (s', evs, Inr deleted)"
    using assms by (auto simp: RestartStalePods_def split: prod.splits sum.splits)
  from restart_namespaces_flag [OF this] show ?thesis by auto
qed

text \<open>A cluster that lets the client delete the first pod and forbids the second deletion.\<close>

definition sample_forbidding :: "deleted_pods kube" where
  "sample_forbidding = sample_kube\<lparr>
     k_delete_pod := (\<lambda>p s. if s = [] then ((p_namespace p, p_name p) # s, None)
       else (s, Some (StatusError ''Forbidden'' (p_name p)))),
     k_isForbidden := (\<lambda>e. e = StatusError ''Forbidden'' ''web-2'')\<rparr>"

lemma forbidding_simps [simp]:
  "k_list_namespaces sample_forbidding s = (s, Inr sample_namespaces)"
  "k_list_pods sample_forbidding ns s = (s, Inr (sample_pods_of s ns))"
  "k_delete_pod sample_forbidding p s =
     (if s = [] then ([(p_namespace p, p_name p)], None)
      else (s, Some (StatusError ''Forbidden'' (p_name p))))"
  "k_isForbidden sample_forbidding e \<longleftrightarrow> e = StatusError ''Forbidden'' ''web-2''"
  "k_isNotFound sample_forbidding e \<longleftrightarrow> False"
  by (simp_all add: sample_forbidding_def sample_kube_def)

lemma forbidding_scan:
  "restartStalePodsInNamespace sample_forbidding ''apps'' ''new'' [] =
     ([(''apps'', ''web-1'')],
      [DeletingStale ''apps'' (owned_pod ''apps'' ''web-1'' (Some [(AnnotationCTBHash, ''old'')])) ''old'',
       DeletingStale ''apps'' (owned_pod ''apps'' ''web-2''
         (Some [(AnnotationAddClusterTrustBundle, ''true'')])) []],
      Inl (StatusError ''Forbidden'' ''web-2''))"
  by (simp add: restartStalePodsInNamespace_def sample_pods_of_def sample_cluster_pods_def
      restart_pods.simps(2) CTBRestartEnabled_iff map_read_def Let_def)

lemma forbidding_run:
  "RestartStalePods sample_forbidding ''new'' [] [] =
     ([(''apps'', ''web-1'')],
      [DeletingStale ''apps'' (owned_pod ''apps'' ''web-1'' (Some [(AnnotationCTBHash, ''old'')])) ''old'',
       DeletingStale ''apps'' (owned_pod ''apps'' ''web-2''
         (Some [(AnnotationAddClusterTrustBundle, ''true'')])) [],
       ForbiddenUnmanaged ''apps''],
      Inr False)"
  by (simp add: RestartStalePods_def sample_namespaces_def forbidding_scan)

lemma RestartStalePods_flag_witness:
  "\<not> (snd (snd (RestartStalePods sample_forbidding ''new'' [] [])) = Inr True)
   \<and> list_ex forbidden_event (fst (snd (RestartStalePods sample_forbidding ''new'' [] [])))"
  using RestartStalePods_flag [OF forbidding_run] by (simp add: forbidding_run)

text \<open>
  A deletion that is forbidden after others succeeded in the same namespace loses the
  flag: the scan below deletes a pod, meets \<open>Forbidden\<close> on the next one, and reports that it deleted
  nothing, although the function is documented to return true if any pod was deleted.
\<close>

theorem RestartStalePods_flag_lost:
  "\<exists>evs s'. RestartStalePods sample_forbidding ''new'' [] [] = (s', evs, Inr False)
    \<and> (''apps'', ''web-1'') \<in> set s'"
  by (simp add: forbidding_run)

end
