(* ===== verification/Watcher.thy ===== *)
theory Watcher
  imports Restarter Hash_Holder
begin

text \<open>
  \<open>internal/ctb/watcher.go\<close>: the reconciler of the cluster trust bundle. It refreshes the hash cell
  from the bundle, runs the restart scan, and says when it wants to be called again. Durations are
  \<open>time.Duration\<close> values, integers in nanoseconds.
\<close>

definition second :: int where "second = 1000000000"
definition minute :: int where "minute = 60 * second"

type_synonym ctrl_result = int \<comment> \<open>\<open>RequeueAfter\<close>; 0 asks for nothing\<close>

record 's ctb_watcher =
  w_kube :: "'s kube"
  w_get_bundle :: "string \<Rightarrow> 's \<Rightarrow> 's \<times> (gerror + string)"
  w_CTBName :: string
  w_ResyncInterval :: int
  w_ManagedNamespaces :: "string list"

definition resyncInterval :: "'s ctb_watcher \<Rightarrow> int" where
  "resyncInterval w = (if w_ResyncInterval w > 0 then w_ResyncInterval w else 5 * minute)"

definition IgnoreNotFound :: "'s kube \<Rightarrow> gerror \<Rightarrow> gerror option" where
  "IgnoreNotFound c e = (if k_isNotFound c e then None else Some e)"

text \<open>
  The event filter of \<open>SetupWithManager\<close>, and \<open>CTBWatcher_Reconcile\<close>: the cluster, the cell, the events of
  the scan, the result and the error.
\<close>

definition watcher_event_filter :: "'s ctb_watcher \<Rightarrow> string \<Rightarrow> bool" where
  "watcher_event_filter w object_name \<longleftrightarrow> object_name = w_CTBName w"

definition CTBWatcher_Reconcile ::
  "'s ctb_watcher \<Rightarrow> string \<Rightarrow> hash_holder \<Rightarrow> 's
   \<Rightarrow> 's \<times> hash_holder \<times> restart_event list \<times> ctrl_result \<times> gerror option" where
  "CTBWatcher_Reconcile w req_Name hashHolder s =
     (if req_Name \<noteq> w_CTBName w then (s, hashHolder, [], 0, None)
      else case w_get_bundle w req_Name s of
        (s1, Inl err) \<Rightarrow> (s1, hashHolder, [], 0, IgnoreNotFound (w_kube w) err)
      | (s1, Inr trustBundle) \<Rightarrow>
          let hashHolder' = ComputeAndSet hashHolder trustBundle;
              newHash = Get hashHolder'
          in (case RestartStalePods (w_kube w) newHash (w_ManagedNamespaces w) s1 of
                (s2, evs, Inl err) \<Rightarrow> (s2, hashHolder', evs, 0, Some err)
              | (s2, evs, Inr requeue) \<Rightarrow>
                  if requeue then (s2, hashHolder', evs, 10 * second, None)
                  else (s2, hashHolder', evs, resyncInterval w, None)))"

definition PreComputeHash ::
  "(string \<Rightarrow> 's \<Rightarrow> 's \<times> (gerror + string)) \<Rightarrow> string \<Rightarrow> hash_holder \<Rightarrow> 's
   \<Rightarrow> 's \<times> hash_holder \<times> gerror option" where
  "PreComputeHash get_bundle ctbName holder s =
     (case get_bundle ctbName s of
        (s1, Inl err) \<Rightarrow> (s1, holder, Some err)
      | (s1, Inr trustBundle) \<Rightarrow> (s1, ComputeAndSet holder trustBundle, None))"

lemma resyncInterval_pos: "0 < resyncInterval w"
  by (simp add: resyncInterval_def minute_def second_def)

lemma second_pos [simp]: "0 < 10 * second"
  by (simp add: second_def)

lemma reconcile_other:
  "req \<noteq> w_CTBName w \<Longrightarrow> CTBWatcher_Reconcile w req hh s = (s, hh, [], 0, None)"
  by (simp add: CTBWatcher_Reconcile_def)

lemma reconcile_unread:
  "w_get_bundle w (w_CTBName w) s = (s1, Inl err) \<Longrightarrow>
   CTBWatcher_Reconcile w (w_CTBName w) hh s = (s1, hh, [], 0, IgnoreNotFound (w_kube w) err)"
  by (simp add: CTBWatcher_Reconcile_def)

lemma reconcile_scanned:
  assumes "w_get_bundle w (w_CTBName w) s = (s1, Inr bundle)"
    and "RestartStalePods (w_kube w) (bundle_hash bundle) (w_ManagedNamespaces w) s1
      = (s2, evs, Inr b)"
  shows "CTBWatcher_Reconcile w (w_CTBName w) hh s =
    (s2, ComputeAndSet hh bundle, evs, if b then 10 * second else resyncInterval w, None)"
  using assms by (simp add: CTBWatcher_Reconcile_def Get_ComputeAndSet Let_def)

text \<open>
  A refreshed cell holds the encoding of the bundle's digest; nothing else is ever written to it.
\<close>

lemma reconcile_holder:
  assumes "CTBWatcher_Reconcile w req hh s = (s', hh', evs, after, err)"
  shows "hh' = hh
    \<or> (\<exists>s1 bundle. w_get_bundle w (w_CTBName w) s = (s1, Inr bundle)
        \<and> Get hh' = bundle_hash bundle)"
  using assms
  by (auto simp: CTBWatcher_Reconcile_def Get_ComputeAndSet Let_def split: if_splits prod.splits sum.splits)

text \<open>A reconciliation that reaches the scan and does not fail always asks to be called again.\<close>

lemma reconcile_requeue:
  assumes "CTBWatcher_Reconcile w (w_CTBName w) hh s = (s', hh', evs, after, None)"
    and "w_get_bundle w (w_CTBName w) s = (s1, Inr bundle)"
  shows "0 < after"
  using assms resyncInterval_pos [of w]
  by (auto simp: CTBWatcher_Reconcile_def Let_def split: if_splits prod.splits sum.splits)

section \<open>Guarantees\<close>

lemma reconcile_deletes:
  assumes "live_cluster (w_kube w) nss pods_of" "distinct (map ns_name nss)"
    and "w_get_bundle w (w_CTBName w) s = (s, Inr tb)"
  shows "\<exists>s' cell evs. CTBWatcher_Reconcile w (w_CTBName w) holder s =
      (s', cell, evs, if deletions evs = [] then resyncInterval w else 10 * second, None)
    \<and> Get cell = bundle_hash tb
    \<and> deletions evs = concat (map (\<lambda>n. filter (stale (Get cell)) (pods_of s (ns_name n))) nss)
    \<and> list_all (\<lambda>n. filter (stale (Get cell)) (pods_of s' (ns_name n)) = []) nss"
proof -
  obtain s' evs where "RestartStalePods (w_kube w) (bundle_hash tb) (w_ManagedNamespaces w) s
      = (s', evs, Inr (deletions evs \<noteq> []))"
    "deletions evs = concat (map (\<lambda>n. filter (stale (bundle_hash tb)) (pods_of s (ns_name n))) nss)"
    "\<forall>ns. pods_of s' ns = (if ns \<in> ns_name ` set nss
      then filter (\<lambda>q. \<not> stale (bundle_hash tb) q) (pods_of s ns) else pods_of s ns)"
    using RestartStalePods_live [OF assms(1,2)] by blast
  then show ?thesis
    using reconcile_scanned [OF assms(3)]
    by (intro exI [of _ s'] exI [of _ "ComputeAndSet holder tb"] exI [of _ evs])
      (simp add: Get_ComputeAndSet list_all_iff)
qed

lemma reconcile_live:
  assumes "live_cluster (w_kube w) nss pods_of" "distinct (map ns_name nss)"
    and "w_get_bundle w (w_CTBName w) s = (s, Inr tb)"
  shows "\<exists>s' cell evs after. CTBWatcher_Reconcile w (w_CTBName w) holder s = (s', cell, evs, after, None)
    \<and> Get cell = bundle_hash tb
    \<and> list_all (\<lambda>n. filter (stale (Get cell)) (pods_of s' (ns_name n)) = []) nss
    \<and> after = (if deletions evs = [] then resyncInterval w else 10 * second) \<and> 0 < after"
proof -
  obtain s' cell evs where "CTBWatcher_Reconcile w (w_CTBName w) holder s =
      (s', cell, evs, if deletions evs = [] then resyncInterval w else 10 * second, None)"
    "Get cell = bundle_hash tb"
    "list_all (\<lambda>n. filter (stale (Get cell)) (pods_of s' (ns_name n)) = []) nss"
    using reconcile_deletes [OF assms, of holder] by blast
  moreover have "0 < (if deletions evs = [] then resyncInterval w else 10 * second)"
    by (simp add: resyncInterval_pos)
  ultimately show ?thesis by blast
qed

text \<open>
  On a cluster that answers and deletes as asked, a reconciliation of the configured
  bundle puts the bundle's hash into the cell, leaves no stale pod in any namespace, and asks to be
  called again: after ten seconds when it deleted something, after the resync interval otherwise,
  never at once and never not at all.
\<close>

theorem CTBWatcher_converges:
  assumes "live_cluster (w_kube w) nss pods_of" "distinct (map ns_name nss)"
    and "w_get_bundle w (w_CTBName w) s = (s, Inr tb)"
  shows "\<exists>s' cell evs after. CTBWatcher_Reconcile w (w_CTBName w) holder s = (s', cell, evs, after, None)
    \<and> Get cell = bundle_hash tb
    \<and> list_all (\<lambda>n. filter (stale (Get cell)) (pods_of s' (ns_name n)) = []) nss
    \<and> after = (if deletions evs = [] then resyncInterval w else 10 * second) \<and> 0 < after"
  by (rule reconcile_live [OF assms])

definition sample_watcher :: "deleted_pods ctb_watcher" where
  "sample_watcher = \<lparr>w_kube = sample_kube, w_get_bundle = (\<lambda>n s. (s, Inr ''PEM'')),
     w_CTBName = ''trust'', w_ResyncInterval = 0, w_ManagedNamespaces = []\<rparr>"

lemma CTBWatcher_converges_witness:
  "\<exists>s' cell evs after. CTBWatcher_Reconcile sample_watcher ''trust'' NewHashHolder []
      = (s', cell, evs, after, None)
    \<and> filter (stale (Get cell)) (sample_pods_of s' ''apps'') = [] \<and> 0 < after"
proof -
  have live: "live_cluster (w_kube sample_watcher) sample_namespaces sample_pods_of"
    by (simp add: sample_watcher_def sample_live)
  have get: "w_get_bundle sample_watcher (w_CTBName sample_watcher) [] = ([], Inr ''PEM'')"
    by (simp add: sample_watcher_def)
  from CTBWatcher_converges [OF live sample_distinct get, of NewHashHolder]
  show ?thesis by (auto simp: sample_watcher_def sample_namespaces_def)
qed

text \<open>
  Whatever the cluster answers, a reconciliation writes nothing to the cell but the
  hash of a bundle it read under the configured name; a bundle that is not found, and an object of
  another name, leave the cell and the pods alone, without an error and without a requeue.
\<close>

theorem CTBWatcher_cell:
  "let (s', cell, evs, after, err) = CTBWatcher_Reconcile w req holder s
   in (case w_get_bundle w req s of
         (s1, Inl e) \<Rightarrow> cell = holder \<and> evs = [] \<and> after = 0
           \<and> (err = None \<or> req = w_CTBName w \<and> err = Some e \<and> \<not> k_isNotFound (w_kube w) e)
       | (s1, Inr tb) \<Rightarrow>
           if req = w_CTBName w then Get cell = bundle_hash tb
           else s' = s \<and> cell = holder \<and> evs = [] \<and> after = 0 \<and> err = None)"
  by (auto simp: CTBWatcher_Reconcile_def IgnoreNotFound_def Get_ComputeAndSet Let_def
      split: prod.splits sum.splits)

end
