(* ===== verification/Webhook_Properties.thy ===== *)
theory Webhook_Properties
  imports Webhook_Idempotence Watcher
begin

text \<open>
  What the installed handler does as a whole (\<open>internal/webhook/v1\<close>), and how it fits the restart
  scan (\<open>internal/ctb\<close>): the pod the webhook admits with the current hash is one the scan keeps.
\<close>

section \<open>The handler as the composition of its defaulters\<close>

definition when_available :: "webhook_opts \<Rightarrow> string \<Rightarrow> (pod \<Rightarrow> pod) \<Rightarrow> pod \<Rightarrow> pod" where
  "when_available opts k effect p = (if k \<in> set (wh_AvailableFeatures opts) then effect p else p)"

definition served_pod ::
  "webhook_opts \<Rightarrow> hash_holder \<Rightarrow> string go_map \<Rightarrow> config \<Rightarrow> pod \<Rightarrow> pod" where
  "served_pod opts hh ns cfg p =
     when_available opts AnnotationSetLandscape (\<lambda>p. landscape_effect (wh_Landscape opts) p ns cfg)
     (when_available opts AnnotationSetFipsMode (\<lambda>p. fips_effect p ns cfg)
     (when_available opts AnnotationAddClusterTrustBundle (\<lambda>p. ctb_effect hh p ns cfg)
     (when_available opts AnnotationSetPullSecret
        (\<lambda>p. pull_secret_effect (wh_ImagePullSecretName opts) p ns cfg)
     (when_available opts AnnotationAlterImgRegistry (\<lambda>p. registry_effect p ns cfg) p))))"

lemma served_pod_fold: "fold fst (active_stages opts hh ns cfg) p = served_pod opts hh ns cfg p"
  by (simp add: active_stages_def stages_def served_pod_def when_available_def)

lemma steady_served_pod:
  assumes "steady get opts (p_namespace p) ns cfg"
  shows "\<exists>m. default_pod (SetupPodWebhookWithManager get opts hh) p =
      (if m then marked (served_pod opts hh ns cfg p) else served_pod opts hh ns cfg p)
    \<and> default_error (SetupPodWebhookWithManager get opts hh) p = None
    \<and> (m \<or> served_pod opts hh ns cfg p = p)"
  using steady_default [OF assms, of hh] unfolding served_pod_fold by blast

text \<open>
  Property C2. With the namespace read and one configuration throughout, \<open>Default\<close> is the registry
  rewrite, then the pull secret, then the trust bundle, then the FIPS variables, then the landscape,
  each only when it is available, followed by the \<open>modified\<close> annotation; an unmarked result is the
  pod that came in.
\<close>

theorem Default_refines:
  assumes "steady get opts (p_namespace p) ns cfg"
  shows "let w = SetupPodWebhookWithManager get opts hh; q = served_pod opts hh ns cfg p
    in default_error w p = None \<and> (default_pod w p = marked q \<or> default_pod w p = p \<and> q = p)"
  using steady_served_pod [OF assms, of hh] by (auto split: if_splits)

lemma all_known [simp]:
  "AnnotationAlterImgRegistry \<in> set KnownFeatureKeys"
  "AnnotationSetPullSecret \<in> set KnownFeatureKeys"
  "AnnotationAddClusterTrustBundle \<in> set KnownFeatureKeys"
  "AnnotationSetFipsMode \<in> set KnownFeatureKeys"
  "AnnotationSetLandscape \<in> set KnownFeatureKeys"
  by (simp_all add: KnownFeatureKeys_def)

lemma sample_containers:
  "map c_image (pod_group_containers sample_pod) = [''docker.io/nginx'']"
  "p_imagePullSecrets sample_pod = []"
  by (simp_all add: sample_pod_def zero_pod_def zero_container_def pod_group_containers_def)

lemma sample_opted:
  "k \<in> set KnownFeatureKeys \<Longrightarrow> opted_in k p sample_ns_annotations sample_cfg"
  using expand_on [of sample_ns_annotations sample_cfg k]
  by (auto simp: opted_in_def annotation_on_def sample_ns_annotations_def expansion_active_def
      map_wf_def sample_cfg_def KnownFeatureKeys_def)

lemma Default_refines_witness:
  "let q = default_pod (SetupPodWebhookWithManager sample_get sample_opts sample_cell) sample_pod
   in p_imagePullSecrets q = [''regcred'']
     \<and> map c_image (pod_group_containers q) = [''mirror.io/hub/nginx'']"
proof -
  let ?q = "served_pod sample_opts sample_cell sample_ns_annotations sample_cfg sample_pod"
  have image: "AlterPodImageRegistry ''docker.io/nginx'' (cfg_Overrides sample_cfg) = ''mirror.io/hub/nginx''"
    by (simp add: image_rewritten rewritten_image_def image_host_def image_path_def
        registry_host_def sample_cfg_def)
  have "p_imagePullSecrets ?q = [''regcred'']"
    by (simp add: served_pod_def when_available_def sample_opts_def pull_secret_effect_def sample_opted
        add_pull_secret_def registry_effect_def sample_containers)
  moreover have "map c_image (pod_group_containers ?q) = [''mirror.io/hub/nginx'']"
    using sample_containers(1)
    by (simp add: served_pod_def when_available_def sample_opts_def)
      (auto simp: registry_effect_def sample_opted registry_container_def image)
  ultimately show ?thesis
    using Default_refines [OF sample_steady, of sample_cell] by (auto simp: Let_def)
qed

section \<open>Pods that asked for nothing\<close>

lemma entry_silent:
  assumes "(k, d) \<in> set (defaulterEntries opts hh)" "\<not> opted_in k p ns cfg"
  shows "d p ns cfg = (p, Ret (Inr False))"
  using assms
  by (auto simp: defaulterEntries_def registry_exact pull_secret_exact fips_exact landscape_exact
      effect_defs ctb_ret ctb_effect_def ctb_reports_def ctb_selected_def)

lemma default_loop_silent:
  "list_all (\<lambda>d. d p ns cfg = (p, Ret (Inr False))) ds \<Longrightarrow>
   default_loop (\<lambda>_. Ret (Inr cfg)) ns i ds p b = (p, Ret (Inr b))"
  by (induction ds arbitrary: i) simp_all

text \<open>
  Property C5. A pod for which no available feature is switched on, neither by the configuration
  for its namespace nor by an annotation of the namespace or of the pod, is admitted without error
  and without any change, the \<open>modified\<close> annotation included.
\<close>

theorem Default_silent:
  assumes "steady get opts (p_namespace p) ns cfg"
    and "list_all (\<lambda>k. \<not> opted_in k p ns cfg) (wh_AvailableFeatures opts)"
  shows "default_pod (SetupPodWebhookWithManager get opts hh) p = p
    \<and> default_error (SetupPodWebhookWithManager get opts hh) p = None"
proof -
  obtain obj where obj: "get (p_namespace p) = Inr obj" "ns_annotations obj = ns"
    "wh_GetConfig opts = (\<lambda>_. Ret (Inr cfg))"
    using assms(1) by (auto simp: steady_def split: sum.splits)
  have "list_all (\<lambda>d. d p ns cfg = (p, Ret (Inr False)))
      (collect_available (wh_AvailableFeatures opts) (defaulterEntries opts hh))"
    using assms(2)
    by (auto simp: collect_available_filter list_all_iff intro: entry_silent)
  then show ?thesis
    using Default_setup [of get p obj opts hh, OF obj(1)] obj
    by (simp add: setup_defaulters default_loop_silent)
qed

definition sample_quiet_opts :: webhook_opts where
  "sample_quiet_opts = sample_opts\<lparr>wh_AvailableFeatures := [AnnotationSetPullSecret],
     wh_GetConfig := (\<lambda>_. Ret (Inr zero_config))\<rparr>"

lemma Default_silent_witness:
  "default_pod (SetupPodWebhookWithManager sample_get sample_quiet_opts sample_cell) sample_pod
   = sample_pod"
proof -
  have steady: "steady sample_get sample_quiet_opts (p_namespace sample_pod) sample_ns_annotations
      zero_config"
    using sample_steady by (simp add: steady_def sample_quiet_opts_def)
  have "\<not> opted_in AnnotationSetPullSecret sample_pod sample_ns_annotations zero_config"
    by (simp add: opted_in_iff map_wf_def sample_ns_annotations_def sample_pod_def zero_pod_def
        zero_config_def default_granted_def feature_list_def annotation_on_def expansion_active_def)
  then have "list_all (\<lambda>k. \<not> opted_in k sample_pod sample_ns_annotations zero_config)
      (wh_AvailableFeatures sample_quiet_opts)"
    by (simp add: sample_quiet_opts_def)
  from Default_silent [OF steady this] show ?thesis by blast
qed

section \<open>The webhook and the restart scan\<close>

lemma selected_cong:
  "p_annotations q = p_annotations p \<Longrightarrow> p_namespace q = p_namespace p \<Longrightarrow>
   ctb_selected q ns cfg = ctb_selected p ns cfg"
  by (simp add: ctb_selected_def opted_in_def)

lemma served_hash:
  "map_get (p_annotations (served_pod opts hh ns cfg p)) AnnotationCTBHash =
     (if AnnotationAddClusterTrustBundle \<in> set (wh_AvailableFeatures opts)
        \<and> ctb_selected p ns cfg \<and> Get hh \<noteq> []
      then Some (Get hh) else map_get (p_annotations p) AnnotationCTBHash)"
proof -
  define q where "q = when_available opts AnnotationSetPullSecret
    (\<lambda>p. pull_secret_effect (wh_ImagePullSecretName opts) p ns cfg)
    (when_available opts AnnotationAlterImgRegistry (\<lambda>p. registry_effect p ns cfg) p)"
  have q: "p_annotations q = p_annotations p" "p_namespace q = p_namespace p"
    by (simp_all add: q_def when_available_def)
  have "map_get (p_annotations (served_pod opts hh ns cfg p)) AnnotationCTBHash =
      map_get (p_annotations (when_available opts AnnotationAddClusterTrustBundle
        (\<lambda>p. ctb_effect hh p ns cfg) q)) AnnotationCTBHash"
    unfolding served_pod_def q_def [symmetric] by (simp add: when_available_def)
  then show ?thesis
    by (simp add: when_available_def ctb_effect_def stamp_annotations q selected_cong [OF q])
qed

lemma default_hash:
  assumes "steady get opts (p_namespace p) ns cfg"
  shows "map_get (p_annotations (default_pod (SetupPodWebhookWithManager get opts hh) p))
      AnnotationCTBHash =
    (if AnnotationAddClusterTrustBundle \<in> set (wh_AvailableFeatures opts)
        \<and> ctb_selected p ns cfg \<and> Get hh \<noteq> []
     then Some (Get hh) else map_get (p_annotations p) AnnotationCTBHash)"
  using steady_served_pod [OF assms, of hh]
  by (auto simp: marked_annotations served_hash [symmetric])

text \<open>
  Property C6. No restart loop: a pod that the webhook selects for the trust bundle while the cell
  holds the hash of a bundle is not stale for a scan that looks for the hash of that bundle.
\<close>

theorem admitted_pod_not_stale:
  assumes "steady get opts (p_namespace p) ns cfg"
    and "AnnotationAddClusterTrustBundle \<in> set (wh_AvailableFeatures opts)"
    and "ctb_selected p ns cfg"
  shows "let cell = ComputeAndSet holder bundle
    in \<not> stale (Get cell) (default_pod (SetupPodWebhookWithManager get opts cell) p)"
  using assms by (simp add: stale_def map_read_def default_hash Get_ComputeAndSet Let_def)

lemma sample_selected: "ctb_selected sample_pod sample_ns_annotations sample_cfg"
  by (simp add: ctb_selected_def CTBExplicitOptOut_iff sample_pod_def zero_pod_def
      opted_in_iff map_wf_def sample_ns_annotations_def annotation_on_def expansion_active_def
      sample_cfg_def)

lemma admitted_pod_not_stale_witness:
  "let cell = ComputeAndSet NewHashHolder ''PEM''
   in \<not> stale (Get cell) (default_pod (SetupPodWebhookWithManager sample_get sample_opts cell) sample_pod)"
  by (rule admitted_pod_not_stale [OF sample_steady _ sample_selected])
    (simp_all add: sample_opts_def)

text \<open>
  Property C40. A pod that opts out with \<open>false\<close> but carries an old hash, from its template say, is
  never healed: the webhook leaves its annotations alone, so the replacement that its owner creates
  is as stale as the pod itself, and every scan deletes it again.
\<close>

theorem opted_out_pod_stays_stale:
  assumes "steady get opts (p_namespace p) ns cfg" and "CTBExplicitOptOut (p_annotations p)"
    and "map_get (p_annotations p) AnnotationCTBHash = Some old" "old \<noteq> desired"
    and "p_ownerReferences p \<noteq> []"
  shows "stale desired p
    \<and> stale desired (default_pod (SetupPodWebhookWithManager get opts hh) p)"
proof -
  have "map_get (p_annotations (default_pod (SetupPodWebhookWithManager get opts hh) p))
      AnnotationCTBHash = Some old"
    using assms by (simp add: default_hash ctb_selected_def)
  moreover have "p_ownerReferences (default_pod (SetupPodWebhookWithManager get opts hh) p)
      = p_ownerReferences p"
    using default_frame [OF assms(1), of hh] by (simp add: pod_frame_def)
  ultimately show ?thesis
    using assms by (simp add: stale_def CTBRestartEnabled_iff map_read_def)
qed

definition sample_opted_out :: pod where
  "sample_opted_out = sample_pod\<lparr>p_annotations :=
     Some [(AnnotationAddClusterTrustBundle, ''false''), (AnnotationCTBHash, ''00'')]\<rparr>"

lemma opted_out_pod_stays_stale_witness:
  "stale ''ab12'' (default_pod (SetupPodWebhookWithManager sample_get sample_opts sample_cell)
     sample_opted_out)"
proof -
  have "steady sample_get sample_opts (p_namespace sample_opted_out) sample_ns_annotations sample_cfg"
    using sample_steady by (simp add: sample_opted_out_def)
  then have "stale ''ab12'' sample_opted_out \<and> stale ''ab12''
      (default_pod (SetupPodWebhookWithManager sample_get sample_opts sample_cell) sample_opted_out)"
    by (rule opted_out_pod_stays_stale [where old = "''00''"])
      (simp_all add: sample_opted_out_def CTBExplicitOptOut_iff, simp add: sample_pod_def)
  then show ?thesis by blast
qed

end
