(* ===== verification/Interleaving.thy ===== *)
theory Interleaving
  imports Webhook_Properties
begin

text \<open>
  The scan of \<open>internal/ctb/restarter.go\<close> and the reconciliation of \<open>internal/ctb/watcher.go\<close> call by
  call: between two calls of the watcher's goroutine other clients change the cluster and the webhook
  admits pods. The big steps of \<open>Restarter\<close> and \<open>Watcher\<close> are these steps with nothing in between.
\<close>

section \<open>The scan, one call at a time\<close>

text \<open>
  Where a scan stands: before the list of the namespaces; before the next of the namespaces, with the
  flag \<open>anyDeleted\<close> of \<open>RestartStalePods\<close>; inside a namespace, before the next of its pods, with both
  flags; or with its result.
\<close>

datatype scan_pc =
    ListNamespaces
  | NextNamespace "k8s_namespace list" bool
  | NextPod k8s_namespace "pod list" bool "k8s_namespace list" bool
  | ScanReturned "gerror + bool"

definition namespace_failed ::
  "'s kube \<Rightarrow> string list \<Rightarrow> k8s_namespace \<Rightarrow> gerror \<Rightarrow> k8s_namespace list \<Rightarrow> bool
   \<Rightarrow> restart_event list \<times> scan_pc" where
  "namespace_failed c managed ns err nss anyDeleted =
     (if k_isForbidden c err
      then ([if ns_name ns \<in> set managed then ForbiddenManaged (ns_name ns) err
             else ForbiddenUnmanaged (ns_name ns)], NextNamespace nss anyDeleted)
      else ([], ScanReturned (Inl err)))"

fun restart_step ::
  "'s kube \<Rightarrow> string \<Rightarrow> string list \<Rightarrow> scan_pc \<Rightarrow> 's \<Rightarrow> 's \<times> restart_event list \<times> scan_pc" where
  "restart_step c desiredHash managed ListNamespaces s =
     (case k_list_namespaces c s of
        (s1, Inl err) \<Rightarrow> (s1, [], ScanReturned (Inl err))
      | (s1, Inr namespaces) \<Rightarrow> (s1, [], NextNamespace namespaces False))"
| "restart_step c desiredHash managed (NextNamespace [] anyDeleted) s =
     (s, [], ScanReturned (Inr anyDeleted))"
| "restart_step c desiredHash managed (NextNamespace (ns # nss) anyDeleted) s =
     (case k_list_pods c (ns_name ns) s of
        (s1, Inl err) \<Rightarrow> (s1, namespace_failed c managed ns err nss anyDeleted)
      | (s1, Inr pods) \<Rightarrow> (s1, [], NextPod ns pods False nss anyDeleted))"
| "restart_step c desiredHash managed (NextPod ns [] deleted nss anyDeleted) s =
     (s, [], NextNamespace nss (if deleted then True else anyDeleted))"
| "restart_step c desiredHash managed (NextPod ns (pod # pods) deleted nss anyDeleted) s =
     (if \<not> CTBRestartEnabled (p_annotations pod)
      then (s, [], NextPod ns pods deleted nss anyDeleted)
      else if length (p_ownerReferences pod) = 0
      then (s, [OrphanSkipped (ns_name ns) pod], NextPod ns pods deleted nss anyDeleted)
      else let podHash = map_read (p_annotations pod) AnnotationCTBHash
           in if podHash = desiredHash
              then (s, [], NextPod ns pods deleted nss anyDeleted)
              else (case k_delete_pod c pod s of
                      (s1, err) \<Rightarrow>
                        (case delete_error c err of
                           Some e \<Rightarrow>
                             (case namespace_failed c managed ns e nss anyDeleted of
                                (evs, pc) \<Rightarrow> (s1, DeletingStale (ns_name ns) pod podHash # evs, pc))
                         | None \<Rightarrow>
                             (s1, [DeletingStale (ns_name ns) pod podHash],
                              NextPod ns pods True nss anyDeleted))))"
| "restart_step c desiredHash managed (ScanReturned r) s = (s, [], ScanReturned r)"

text \<open>
  A run of the scan: before each of its steps the rest of the world changes the cluster, by the next
  of \<open>others\<close>.
\<close>

fun restart_run ::
  "'s kube \<Rightarrow> string \<Rightarrow> string list \<Rightarrow> ('s \<Rightarrow> 's) list \<Rightarrow> scan_pc \<Rightarrow> 's
   \<Rightarrow> 's \<times> restart_event list \<times> scan_pc" where
  "restart_run c h managed [] pc s = (s, [], pc)"
| "restart_run c h managed (f # others) pc s =
     (case restart_step c h managed pc (f s) of
        (s1, evs, pc1) \<Rightarrow>
          (case restart_run c h managed others pc1 s1 of (s2, evs', pc2) \<Rightarrow> (s2, evs @ evs', pc2)))"


lemma restart_run_returned [simp]:
  "restart_run c h managed (replicate n (\<lambda>s. s)) (ScanReturned r) s = (s, [], ScanReturned r)"
  by (induction n) simp_all

text \<open>One step, by whether the pod is stale.\<close>

lemma restart_step_pod:
  "restart_step c h managed (NextPod ns (q # pods) d nss b) s =
     (if \<not> stale h q then (s, orphan_note (ns_name ns) q, NextPod ns pods d nss b)
      else let note = DeletingStale (ns_name ns) q (map_read (p_annotations q) AnnotationCTBHash);
               (s1, err) = k_delete_pod c q s
           in case delete_error c err of
                Some e \<Rightarrow> (case namespace_failed c managed ns e nss b of (evs, pc) \<Rightarrow> (s1, note # evs, pc))
              | None \<Rightarrow> (s1, [note], NextPod ns pods True nss b))"
  by (auto simp: stale_def orphan_note_def Let_def split: prod.split)

lemma deletions_failed [simp]: "deletions (fst (namespace_failed c managed ns e nss b)) = []"
  by (simp add: namespace_failed_def)

declare restart_step.simps(5) [simp del]

section \<open>The steps without interference\<close>









section \<open>The scan returns, whatever happens between its calls\<close>

lemma restart_run_Suc:
  "restart_run c h managed (map f [0..<Suc n]) pc s =
     (case restart_step c h managed pc (f 0 s) of
        (s1, evs, pc1) \<Rightarrow>
          (case restart_run c h managed (map (\<lambda>i. f (Suc i)) [0..<n]) pc1 s1 of
             (s2, evs', pc2) \<Rightarrow> (s2, evs @ evs', pc2)))"
  by (simp add: upt_conv_Cons map_Suc_upt [symmetric] comp_def del: upt_Suc)

definition returns :: "'s kube \<Rightarrow> string \<Rightarrow> string list \<Rightarrow> scan_pc \<Rightarrow> bool" where
  "returns c h managed pc \<longleftrightarrow>
     (\<forall>f s. \<exists>n s' evs r. restart_run c h managed (map f [0..<n]) pc s = (s', evs, ScanReturned r))"

lemma returns_step:
  fixes c :: "'s kube"
  assumes "\<And>s. returns c h managed (snd (snd (restart_step c h managed pc s)))"
  shows "returns c h managed pc"
  unfolding returns_def
proof (intro allI)
  fix f :: "nat \<Rightarrow> 's \<Rightarrow> 's" and s
  obtain s1 evs pc1 where st: "restart_step c h managed pc (f 0 s) = (s1, evs, pc1)"
    by (metis prod_cases3)
  with assms [of "f 0 s"] obtain n s' evs' r where
    "restart_run c h managed (map (\<lambda>i. f (Suc i)) [0..<n]) pc1 s1 = (s', evs', ScanReturned r)"
    unfolding returns_def by fastforce
  then have "restart_run c h managed (map f [0..<Suc n]) pc s = (s', evs @ evs', ScanReturned r)"
    unfolding restart_run_Suc by (simp add: st)
  then show "\<exists>n s' evs r. restart_run c h managed (map f [0..<n]) pc s = (s', evs, ScanReturned r)"
    by blast
qed

lemma returns_returned: "returns c h managed (ScanReturned r)"
  unfolding returns_def by (intro allI exI [of _ 0]) simp

lemma returns_failed:
  "(\<And>b. returns c h managed (NextNamespace nss b)) \<Longrightarrow>
   returns c h managed (snd (namespace_failed c managed ns e nss b))"
  by (simp add: namespace_failed_def returns_returned)

lemma returns_pods:
  assumes "\<And>b. returns c h managed (NextNamespace nss b)"
  shows "returns c h managed (NextPod ns pods d nss b)"
proof (induction pods arbitrary: d)
  case Nil
  show ?case by (rule returns_step) (simp add: assms)
next
  case (Cons q pods)
  have "returns c h managed (snd (snd (restart_step c h managed (NextPod ns (q # pods) d nss b) s)))" for s
    using returns_failed [OF assms]
    by (auto simp: restart_step_pod Cons.IH Let_def split_beta split: option.split)
  then show ?case by (rule returns_step)
qed

lemma returns_namespaces: "returns c h managed (NextNamespace nss b)"
proof (induction nss arbitrary: b)
  case Nil
  show ?case by (rule returns_step) (simp add: returns_returned)
next
  case (Cons n nss)
  show ?case
    by (rule returns_step)
      (simp add: returns_failed [OF Cons.IH] returns_pods [OF Cons.IH] split: prod.split sum.split)
qed

lemma returns_scan: "returns c h managed ListNamespaces"
  by (rule returns_step) (simp add: returns_namespaces returns_returned split: prod.split sum.split)

section \<open>The reconciliation, one call at a time\<close>

text \<open>
  Where a reconciliation of the configured bundle stands: not begun; with the bundle that was read;
  with the hash stored; scanning for a hash; or returned, with the delay it asks for and its error.
\<close>

datatype watch_pc =
    NotBegun
  | Fetched string
  | HashStored
  | RestartScan string scan_pc
  | Reconciled ctrl_result "gerror option"

fun watch_step ::
  "'s ctb_watcher \<Rightarrow> watch_pc \<Rightarrow> hash_holder \<Rightarrow> 's \<Rightarrow> 's \<times> hash_holder \<times> restart_event list \<times> watch_pc" where
  "watch_step w NotBegun cell s =
     (case w_get_bundle w (w_CTBName w) s of
        (s1, Inl err) \<Rightarrow> (s1, cell, [], Reconciled 0 (IgnoreNotFound (w_kube w) err))
      | (s1, Inr trustBundle) \<Rightarrow> (s1, cell, [], Fetched trustBundle))"
| "watch_step w (Fetched trustBundle) cell s = (s, ComputeAndSet cell trustBundle, [], HashStored)"
| "watch_step w HashStored cell s = (s, cell, [], RestartScan (Get cell) ListNamespaces)"
| "watch_step w (RestartScan newHash pc) cell s =
     (case restart_step (w_kube w) newHash (w_ManagedNamespaces w) pc s of
        (s1, evs, ScanReturned (Inl err)) \<Rightarrow> (s1, cell, evs, Reconciled 0 (Some err))
      | (s1, evs, ScanReturned (Inr requeue)) \<Rightarrow>
          (s1, cell, evs, Reconciled (if requeue then 10 * second else resyncInterval w) None)
      | (s1, evs, pc1) \<Rightarrow> (s1, cell, evs, RestartScan newHash pc1))"
| "watch_step w (Reconciled after err) cell s = (s, cell, [], Reconciled after err)"

fun watch_run ::
  "'s ctb_watcher \<Rightarrow> ('s \<Rightarrow> 's) list \<Rightarrow> watch_pc \<Rightarrow> hash_holder \<Rightarrow> 's
   \<Rightarrow> 's \<times> hash_holder \<times> restart_event list \<times> watch_pc" where
  "watch_run w [] pc cell s = (s, cell, [], pc)"
| "watch_run w (f # others) pc cell s =
     (case watch_step w pc cell (f s) of
        (s1, cell1, evs, pc1) \<Rightarrow>
          (case watch_run w others pc1 cell1 s1 of
             (s2, cell2, evs', pc2) \<Rightarrow> (s2, cell2, evs @ evs', pc2)))"

text \<open>What a scan that has its result makes of the reconciliation.\<close>

definition scan_outcome :: "'s ctb_watcher \<Rightarrow> string \<Rightarrow> scan_pc \<Rightarrow> watch_pc" where
  "scan_outcome w h pc =
     (case pc of
        ScanReturned (Inl err) \<Rightarrow> Reconciled 0 (Some err)
      | ScanReturned (Inr requeue) \<Rightarrow> Reconciled (if requeue then 10 * second else resyncInterval w) None
      | _ \<Rightarrow> RestartScan h pc)"

lemma scan_outcome_simps [simp]:
  "scan_outcome w h (ScanReturned (Inl err)) = Reconciled 0 (Some err)"
  "scan_outcome w h (ScanReturned (Inr requeue)) =
     Reconciled (if requeue then 10 * second else resyncInterval w) None"
  by (simp_all add: scan_outcome_def)

lemma watch_step_scan:
  "watch_step w (RestartScan h pc) cell s =
     (case restart_step (w_kube w) h (w_ManagedNamespaces w) pc s of
        (s1, evs, pc1) \<Rightarrow> (s1, cell, evs, scan_outcome w h pc1))"
  by (auto simp: scan_outcome_def split: prod.split scan_pc.split sum.split)

declare watch_step.simps(4) [simp del]

lemma watch_run_returned [simp]:
  "watch_run w (replicate n (\<lambda>s. s)) (Reconciled after err) cell s = (s, cell, [], Reconciled after err)"
  by (induction n) simp_all

lemma watch_run_outcome [simp]:
  "watch_run w (replicate n (\<lambda>s. s)) (scan_outcome w h (ScanReturned r)) cell s
   = (s, cell, [], scan_outcome w h (ScanReturned r))"
  by (cases r) simp_all

lemma scan_outcome_scanning: "(\<And>r. pc \<noteq> ScanReturned r) \<Longrightarrow> scan_outcome w h pc = RestartScan h pc"
  by (simp add: scan_outcome_def split: scan_pc.split)



section \<open>The reconciliation returns, whatever happens between its calls\<close>

lemma watch_run_Suc:
  "watch_run w (map f [0..<Suc n]) pc cell s =
     (case watch_step w pc cell (f 0 s) of
        (s1, cell1, evs, pc1) \<Rightarrow>
          (case watch_run w (map (\<lambda>i. f (Suc i)) [0..<n]) pc1 cell1 s1 of
             (s2, cell2, evs', pc2) \<Rightarrow> (s2, cell2, evs @ evs', pc2)))"
  by (simp add: upt_conv_Cons map_Suc_upt [symmetric] comp_def del: upt_Suc)

definition ends_at :: "'s ctb_watcher \<Rightarrow> (nat \<Rightarrow> 's \<Rightarrow> 's) \<Rightarrow> watch_pc \<Rightarrow> hash_holder \<Rightarrow> 's \<Rightarrow> bool" where
  "ends_at w f pc cell s \<longleftrightarrow>
     (\<exists>n s' cell' evs after err. watch_run w (map f [0..<n]) pc cell s = (s', cell', evs, Reconciled after err))"

lemma ends_at_returned: "ends_at w f (Reconciled after err) cell s"
  unfolding ends_at_def by (rule exI [of _ 0]) simp

lemma ends_at_step:
  assumes "watch_step w pc cell (f 0 s) = (s1, cell1, evs, pc1)"
    and "ends_at w (\<lambda>i. f (Suc i)) pc1 cell1 s1"
  shows "ends_at w f pc cell s"
proof -
  obtain n s' cell' evs' after err where
    "watch_run w (map (\<lambda>i. f (Suc i)) [0..<n]) pc1 cell1 s1 = (s', cell', evs', Reconciled after err)"
    using assms(2) unfolding ends_at_def by blast
  then have "watch_run w (map f [0..<Suc n]) pc cell s = (s', cell', evs @ evs', Reconciled after err)"
    unfolding watch_run_Suc by (simp add: assms(1))
  then show ?thesis unfolding ends_at_def by blast
qed

lemma ends_at_scan:
  assumes "restart_run (w_kube w) h (w_ManagedNamespaces w) (map f [0..<n]) pc s = (s', evs, ScanReturned r)"
  shows "ends_at w f (scan_outcome w h pc) cell s"
  using assms
proof (induction n arbitrary: f pc s evs)
  case 0
  then show ?case by (cases r) (simp_all add: ends_at_returned)
next
  case (Suc n)
  show ?case
  proof (cases "\<exists>r. pc = ScanReturned r")
    case True
    then obtain r' where "pc = ScanReturned r'" by blast
    then show ?thesis by (cases r') (simp_all add: ends_at_returned)
  next
    case False
    obtain s1 evs1 pc1 where st: "restart_step (w_kube w) h (w_ManagedNamespaces w) pc (f 0 s) = (s1, evs1, pc1)"
      by (metis prod_cases3)
    from Suc.prems obtain evs2 where "restart_run (w_kube w) h (w_ManagedNamespaces w)
        (map (\<lambda>i. f (Suc i)) [0..<n]) pc1 s1 = (s', evs2, ScanReturned r)"
      unfolding restart_run_Suc by (auto simp: st split: prod.splits)
    from Suc.IH [OF this] False st show ?thesis
      by (simp add: scan_outcome_scanning) (rule ends_at_step, auto simp: watch_step_scan)
  qed
qed

lemma ends_at_stored: "ends_at w f HashStored cell s"
proof -
  have "ends_at w f (RestartScan h ListNamespaces) cell s" for f h s
  proof -
    obtain n s' evs r where "restart_run (w_kube w) h (w_ManagedNamespaces w) (map f [0..<n]) ListNamespaces s
        = (s', evs, ScanReturned r)"
      using returns_scan [of "w_kube w" h "w_ManagedNamespaces w"] unfolding returns_def by blast
    from ends_at_scan [OF this] show ?thesis by (simp add: scan_outcome_scanning)
  qed
  then show ?thesis by (rule ends_at_step [rotated]) simp
qed

text \<open>
  Property C13. A reconciliation returns: whatever the cluster answers and whatever other clients do to
  it between two calls (new pods and namespaces without end included), after finitely many of its own
  calls the watcher has returned.
\<close>

theorem CTBWatcher_returns:
  "\<exists>n s' cell evs after err.
     watch_run w (map others [0..<n]) NotBegun holder s = (s', cell, evs, Reconciled after err)"
proof -
  have fetched: "ends_at w f (Fetched tb) cell s" for f tb cell s
    by (rule ends_at_step [OF _ ends_at_stored]) simp
  obtain s1 gb where gb: "w_get_bundle w (w_CTBName w) (others 0 s) = (s1, gb)" by fastforce
  have "ends_at w others NotBegun holder s"
  proof (cases gb)
    case (Inl err)
    show ?thesis by (rule ends_at_step [OF _ ends_at_returned]) (simp add: gb Inl)
  next
    case (Inr tb)
    show ?thesis by (rule ends_at_step [OF _ fetched]) (simp add: gb Inr)
  qed
  then show ?thesis by (simp add: ends_at_def)
qed

end
