(* ===== verification/Secret_Controller.thy ===== *)
theory Secret_Controller
  imports Api_Config
begin

text \<open>
  \<open>internal/controller\<close>: the event predicates of the two watches and the reconciler that copies the
  master pull secret to the namespaces. As in the restarter, the client works on the state \<open>'s\<close> of
  the cluster; the reconciler also returns the patches it asks for, in order.
\<close>

section \<open>Objects and events\<close>

record namespaced_name =
  nn_Namespace :: string
  nn_Name :: string

record secret =
  sec_kind :: string
  sec_apiVersion :: string
  sec_name :: string
  sec_namespace :: string
  sec_data :: "string go_map"
  sec_type :: string


definition DockerConfigJsonKey :: string where
  "DockerConfigJsonKey = ''.dockerconfigjson''"

section \<open>The predicate of the namespace watch\<close>







section \<open>The predicate of the secret watch\<close>











section \<open>The reconciler\<close>

type_synonym patch_call = "secret \<times> patch_options"

record 's secret_reconciler =
  sr_get_secret :: "namespaced_name \<Rightarrow> 's \<Rightarrow> 's \<times> (gerror + secret)"
  sr_list_namespaces :: "'s \<Rightarrow> 's \<times> (gerror + k8s_namespace list)"
  sr_patch :: "secret \<Rightarrow> patch_options \<Rightarrow> 's \<Rightarrow> 's \<times> gerror option"
  sr_error_text :: "gerror \<Rightarrow> string"
  sr_NamespacedName :: namespaced_name
  sr_SecretSyncInterval :: int
  sr_GetConfig :: "'s \<Rightarrow> 's \<times> (gerror + config)"

definition createCredentialSecret :: "string \<Rightarrow> string \<Rightarrow> string \<Rightarrow> secret" where
  "createCredentialSecret name ns data =
     \<lparr>sec_kind = ''Secret'', sec_apiVersion = ''v1'', sec_name = name, sec_namespace = ns,
      sec_data = Some [(DockerConfigJsonKey, data)], sec_type = ''kubernetes.io/dockerconfigjson''\<rparr>"

definition plain_patch :: patch_options where
  "plain_patch = \<lparr>po_FieldManager = FiledManager, po_Force = None\<rparr>"

definition forced_patch :: patch_options where
  "forced_patch = \<lparr>po_FieldManager = FiledManager, po_Force = Some True\<rparr>"

text \<open>
  The loop over the namespaces after a change of the master secret: a failed patch is noted and the
  loop goes on. The guard compares the namespace's own (empty) namespace with the secret's name.
\<close>

fun sync_namespaces ::
  "'s secret_reconciler \<Rightarrow> string \<Rightarrow> k8s_namespace list \<Rightarrow> 's
   \<Rightarrow> 's \<times> patch_call list \<times> string list" where
  "sync_namespaces r data [] s = (s, [], [])"
| "sync_namespaces r data (namespace # nss) s =
     (if ns_namespace namespace = nn_Name (sr_NamespacedName r)
      then sync_namespaces r data nss s
      else let credentialsSecret =
                 createCredentialSecret (nn_Name (sr_NamespacedName r)) (ns_name namespace) data
           in (case sr_patch r credentialsSecret plain_patch s of
                 (s1, Some err) \<Rightarrow>
                   (case sync_namespaces r data nss s1 of
                      (s', calls, errors) \<Rightarrow>
                        (s', (credentialsSecret, plain_patch) # calls, sr_error_text r err # errors))
               | (s1, None) \<Rightarrow>
                   (case sync_namespaces r data nss s1 of
                      (s', calls, errors) \<Rightarrow>
                        (s', (credentialsSecret, plain_patch) # calls, errors))))"

definition isMasterSecretUpdated :: "namespaced_name \<Rightarrow> namespaced_name \<Rightarrow> bool" where
  "isMasterSecretUpdated r req \<longleftrightarrow> nn_Namespace req = nn_Namespace r \<and> nn_Name req = nn_Name r"

definition isCredentialsSecretUpdated :: "namespaced_name \<Rightarrow> namespaced_name \<Rightarrow> bool" where
  "isCredentialsSecretUpdated r req \<longleftrightarrow>
     (nn_Namespace req \<noteq> [] \<and> nn_Namespace req \<noteq> nn_Namespace r) \<and> nn_Name req = nn_Name r"

definition isNamespaceCreated :: "namespaced_name \<Rightarrow> bool" where
  "isNamespaceCreated req \<longleftrightarrow> nn_Namespace req = []"

text \<open>The patch of one namespace, returned as the result of \<open>Reconcile\<close>.\<close>

definition patch_one ::
  "'s secret_reconciler \<Rightarrow> string \<Rightarrow> string \<Rightarrow> patch_options \<Rightarrow> 's
   \<Rightarrow> 's \<times> patch_call list \<times> int \<times> gerror option" where
  "patch_one r ns data opts s =
     (let credentialsSecret = createCredentialSecret (nn_Name (sr_NamespacedName r)) ns data;
          (s1, err) = sr_patch r credentialsSecret opts s
      in (s1, [(credentialsSecret, opts)], 0, err))"

definition SecretReconciler_Reconcile ::
  "'s secret_reconciler \<Rightarrow> namespaced_name \<Rightarrow> 's
   \<Rightarrow> 's \<times> patch_call list \<times> int \<times> gerror option" where
  "SecretReconciler_Reconcile r req s =
     (case sr_GetConfig r s of
        (s1, Inl err) \<Rightarrow> (s1, [], 0, Some (WrapError ''failed to read config: '' err))
      | (s1, Inr cfg) \<Rightarrow>
          if AnnotationSetPullSecret \<notin> set (cfg_AvailableFeatures cfg) then (s1, [], 0, None)
          else (case sr_get_secret r (sr_NamespacedName r) s1 of
            (s2, Inl err) \<Rightarrow> (s2, [], 0, Some err)
          | (s2, Inr master) \<Rightarrow>
              let data = map_read (sec_data master) DockerConfigJsonKey
              in if isMasterSecretUpdated (sr_NamespacedName r) req
                 then (case sr_list_namespaces r s2 of
                         (s3, Inl err) \<Rightarrow> (s3, [], 0, Some err)
                       | (s3, Inr namespaces) \<Rightarrow>
                           (case sync_namespaces r data namespaces s3 of
                              (s4, calls, errors) \<Rightarrow>
                                if length errors > 0
                                then (s4, calls, 0, Some (ErrorString
                                  (''failed to reconcile due to patch errors: '' @ join '','' errors)))
                                else (s4, calls, sr_SecretSyncInterval r, None)))
                 else if isCredentialsSecretUpdated (sr_NamespacedName r) req
                 then patch_one r (nn_Namespace req) data forced_patch s2
                 else if isNamespaceCreated req
                 then patch_one r (nn_Name req) data plain_patch s2
                 else (s2, [], 0, None)))"

section \<open>Which patches it asks for\<close>

definition sync_targets :: "namespaced_name \<Rightarrow> k8s_namespace list \<Rightarrow> k8s_namespace list" where
  "sync_targets r nss = filter (\<lambda>n. ns_namespace n \<noteq> nn_Name r) nss"

text \<open>
  Every target is patched, whatever the patches before it answered, and the collected errors are
  empty exactly when no patch failed.
\<close>

fun patch_failures ::
  "'s secret_reconciler \<Rightarrow> patch_call list \<Rightarrow> 's \<Rightarrow> gerror list" where
  "patch_failures r [] s = []"
| "patch_failures r ((sec, opts) # calls) s =
     (case sr_patch r sec opts s of
        (s1, None) \<Rightarrow> patch_failures r calls s1
      | (s1, Some e) \<Rightarrow> e # patch_failures r calls s1)"

definition sync_calls :: "namespaced_name \<Rightarrow> string \<Rightarrow> k8s_namespace list \<Rightarrow> patch_call list" where
  "sync_calls r data nss =
     map (\<lambda>n. (createCredentialSecret (nn_Name r) (ns_name n) data, plain_patch))
       (sync_targets r nss)"

lemma sync_namespaces_calls:
  assumes "sync_namespaces r data nss s = (s', calls, errors)"
  shows "calls = sync_calls (sr_NamespacedName r) data nss
    \<and> errors = map (sr_error_text r) (patch_failures r calls s)"
  using assms
proof (induction nss arbitrary: s calls errors)
  case (Cons n nss)
  then show ?case
    by (auto simp: sync_calls_def sync_targets_def Let_def split: if_splits prod.splits option.splits)
qed (simp add: sync_calls_def sync_targets_def)

lemma credential_secret_fields [simp]:
  "sec_name (createCredentialSecret n ns d) = n"
  "sec_namespace (createCredentialSecret n ns d) = ns"
  "map_read (sec_data (createCredentialSecret n ns d)) DockerConfigJsonKey = d"
  by (simp_all add: createCredentialSecret_def map_read_def)

section \<open>Requests the watches let through\<close>






section \<open>Guarantees\<close>

text \<open>A reconciler that reads its configuration, the feature being on, and the master secret.\<close>

definition sync_ready :: "'s secret_reconciler \<Rightarrow> 's \<Rightarrow> 's \<Rightarrow> secret \<Rightarrow> bool" where
  "sync_ready r s s2 master \<longleftrightarrow>
     (case sr_GetConfig r s of
        (s1, Inl e) \<Rightarrow> False
      | (s1, Inr cfg) \<Rightarrow> AnnotationSetPullSecret \<in> set (cfg_AvailableFeatures cfg)
          \<and> sr_get_secret r (sr_NamespacedName r) s1 = (s2, Inr master))"

definition credentials :: "secret \<Rightarrow> string" where
  "credentials master = map_read (sec_data master) DockerConfigJsonKey"

text \<open>The reconciliation of the master secret itself, up to the report of failed patches.\<close>

lemma reconcile_master:
  assumes "sync_ready r s s2 master" "sr_list_namespaces r s2 = (s3, Inr nss)"
    and "sync_namespaces r (credentials master) nss s3 = (s4, calls, errors)"
  shows "\<exists>err. SecretReconciler_Reconcile r (sr_NamespacedName r) s =
      (s4, calls, if errors = [] then sr_SecretSyncInterval r else 0, err)
    \<and> (err = None \<longleftrightarrow> errors = [])"
  using assms
  by (auto simp: sync_ready_def SecretReconciler_Reconcile_def isMasterSecretUpdated_def
      credentials_def split: prod.splits sum.splits)

text \<open>
  A change of the master secret patches a copy into every listed namespace but those
  whose own namespace field is the secret's name, in the order of the list and whatever the patches
  before answered; the reconciliation ends without an error, and asks for the next resync, exactly
  when no patch failed.
\<close>

theorem SecretReconciler_syncs_all:
  assumes "sync_ready r s s2 master" "sr_list_namespaces r s2 = (s3, Inr nss)"
  shows "\<exists>s' err. SecretReconciler_Reconcile r (sr_NamespacedName r) s =
      (s', sync_calls (sr_NamespacedName r) (credentials master) nss,
       if err = None then sr_SecretSyncInterval r else 0, err)
    \<and> (err = None) = (patch_failures r
         (sync_calls (sr_NamespacedName r) (credentials master) nss) s3 = [])"
proof -
  obtain s4 calls errors where run: "sync_namespaces r (credentials master) nss s3 = (s4, calls, errors)"
    by (metis prod_cases3)
  obtain err where "SecretReconciler_Reconcile r (sr_NamespacedName r) s =
      (s4, calls, if errors = [] then sr_SecretSyncInterval r else 0, err)"
    "err = None \<longleftrightarrow> errors = []"
    using reconcile_master [OF assms run] by blast
  with sync_namespaces_calls [OF run] show ?thesis
    by (intro exI [of _ s4] exI [of _ err]) auto
qed

text \<open>A cluster that applies patches, seen through the credentials each secret holds.\<close>

type_synonym credential_store = "string \<times> string \<Rightarrow> string option"

definition applies_patches :: "'s secret_reconciler \<Rightarrow> ('s \<Rightarrow> credential_store) \<Rightarrow> bool" where
  "applies_patches r store \<longleftrightarrow>
     (\<forall>sec opts s. snd (sr_patch r sec opts s) = None
        \<and> store (fst (sr_patch r sec opts s))
          = (store s)((sec_namespace sec, sec_name sec) \<mapsto> credentials sec))"

lemma sync_namespaces_store:
  assumes "applies_patches r store" "sync_namespaces r data nss s = (s', calls, errors)"
  shows "errors = [] \<and> store s' = (\<lambda>(ns, n).
    if n = nn_Name (sr_NamespacedName r)
       \<and> ns \<in> ns_name ` set (sync_targets (sr_NamespacedName r) nss)
    then Some data else store s (ns, n))"
  using assms(2)
proof (induction nss arbitrary: s calls errors)
  case (Cons x nss)
  let ?sec = "createCredentialSecret (nn_Name (sr_NamespacedName r)) (ns_name x) data"
  obtain s1 where "sr_patch r ?sec plain_patch s = (s1, None)"
    "store s1 = (store s)((ns_name x, nn_Name (sr_NamespacedName r)) \<mapsto> data)"
    using assms(1)
    by (metis applies_patches_def credential_secret_fields credentials_def prod.collapse)
  with Cons show ?case
    by (auto simp: sync_targets_def Let_def fun_eq_iff split: if_splits prod.splits)
qed (simp add: sync_targets_def fun_eq_iff)

lemma reconcile_converges:
  assumes "sync_ready r s s2 master" "sr_list_namespaces r s2 = (s3, Inr nss)"
    and "applies_patches r store" "nn_Name (sr_NamespacedName r) \<noteq> []"
    and "list_all (\<lambda>n. ns_namespace n = []) nss"
  shows "\<exists>s' calls. SecretReconciler_Reconcile r (sr_NamespacedName r) s =
      (s', calls, sr_SecretSyncInterval r, None)
    \<and> store s' = (\<lambda>(ns, n). if n = nn_Name (sr_NamespacedName r) \<and> ns \<in> ns_name ` set nss
        then Some (credentials master) else store s3 (ns, n))"
proof -
  obtain s4 calls errors where run: "sync_namespaces r (credentials master) nss s3 = (s4, calls, errors)"
    by (metis prod_cases3)
  have "sync_targets (sr_NamespacedName r) nss = nss"
    using assms(4,5) by (simp add: sync_targets_def list_all_iff)
  with reconcile_master [OF assms(1,2) run] sync_namespaces_store [OF assms(3) run]
  show ?thesis by auto
qed

text \<open>
  Property C22. On a cluster that applies patches, after a reconciliation of the master secret every
  listed namespace (their own namespace field is empty, as for every cluster-scoped object) holds
  the master's credentials under the secret's name, and every other secret is as it was.
\<close>

theorem SecretReconciler_converges:
  assumes "sync_ready r s s2 master" "sr_list_namespaces r s2 = (s3, Inr nss)"
    and "applies_patches r store" "nn_Name (sr_NamespacedName r) \<noteq> []"
    and "list_all (\<lambda>n. ns_namespace n = []) nss"
  shows "\<exists>s' calls. SecretReconciler_Reconcile r (sr_NamespacedName r) s =
      (s', calls, sr_SecretSyncInterval r, None)
    \<and> store s' = (\<lambda>(ns, n). if n = nn_Name (sr_NamespacedName r) \<and> ns \<in> ns_name ` set nss
        then Some (credentials master) else store s3 (ns, n))"
  by (rule reconcile_converges [OF assms])

text \<open>A store for the witnesses: the state is the contents of the secrets.\<close>

definition sample_master_name :: namespaced_name where
  "sample_master_name = \<lparr>nn_Namespace = ''kyma-system'', nn_Name = ''regcred''\<rparr>"

definition sample_master :: secret where
  "sample_master = createCredentialSecret ''regcred'' ''kyma-system'' ''auth''"

definition sample_targets :: "k8s_namespace list" where
  "sample_targets = map (\<lambda>n. \<lparr>ns_name = n, ns_namespace = [], ns_annotations = None\<rparr>)
     [''kyma-system'', ''apps'']"

definition sample_reconciler :: "credential_store secret_reconciler" where
  "sample_reconciler =
     \<lparr>sr_get_secret = (\<lambda>k s. (s, Inr sample_master)),
      sr_list_namespaces = (\<lambda>s. (s, Inr sample_targets)),
      sr_patch = (\<lambda>sec opts s. (s((sec_namespace sec, sec_name sec) \<mapsto> credentials sec), None)),
      sr_error_text = (\<lambda>e. []), sr_NamespacedName = sample_master_name,
      sr_SecretSyncInterval = 60000000000,
      sr_GetConfig = (\<lambda>s. (s, Inr (zero_config\<lparr>cfg_AvailableFeatures := [AnnotationSetPullSecret]\<rparr>)))\<rparr>"

lemma sample_reconciler_facts:
  "sync_ready sample_reconciler s s sample_master"
  "sr_list_namespaces sample_reconciler s = (s, Inr sample_targets)"
  "applies_patches sample_reconciler (\<lambda>s. s)"
  "sr_NamespacedName sample_reconciler = sample_master_name"
  "list_all (\<lambda>n. ns_namespace n = []) sample_targets"
  "nn_Name (sr_NamespacedName sample_reconciler) \<noteq> []"
  by (simp_all add: sync_ready_def sample_reconciler_def applies_patches_def sample_targets_def
      sample_master_name_def)

lemma SecretReconciler_syncs_all_witness:
  "map (sec_namespace \<circ> fst) (fst (snd (SecretReconciler_Reconcile sample_reconciler sample_master_name Map.empty)))
   = [''kyma-system'', ''apps'']"
  using SecretReconciler_syncs_all [OF sample_reconciler_facts(1,2), of Map.empty]
  by (auto simp: sample_reconciler_facts(4) sync_calls_def sync_targets_def sample_targets_def
      sample_master_name_def)

lemma SecretReconciler_converges_witness:
  "\<exists>s' calls. SecretReconciler_Reconcile sample_reconciler sample_master_name Map.empty
      = (s', calls, 60000000000, None)
    \<and> s' (''apps'', ''regcred'') = Some ''auth''"
proof -
  have "credentials sample_master = ''auth''"
    by (simp add: credentials_def sample_master_def)
  then show ?thesis
    using SecretReconciler_converges [OF sample_reconciler_facts(1,2,3,6,5), of Map.empty]
    by (auto simp: sample_reconciler_facts(4) sample_master_name_def sample_targets_def)
      (simp add: sample_reconciler_def)
qed

text \<open>
  Property C39. The guard that is meant to skip the namespace of the master secret compares the
  wrong fields: when that namespace is listed, the master secret's own name is patched there too,
  with the master's credentials.
\<close>

theorem SecretReconciler_patches_master:
  assumes "sync_ready r s s2 master" "sr_list_namespaces r s2 = (s3, Inr nss)"
    and "n \<in> set nss" "ns_name n = nn_Namespace (sr_NamespacedName r)" "ns_namespace n = []"
    and "nn_Name (sr_NamespacedName r) \<noteq> []"
  shows "\<exists>s' calls after err. SecretReconciler_Reconcile r (sr_NamespacedName r) s = (s', calls, after, err)
    \<and> (createCredentialSecret (nn_Name (sr_NamespacedName r)) (nn_Namespace (sr_NamespacedName r))
         (credentials master), plain_patch) \<in> set calls"
proof -
  obtain s4 calls errors where run: "sync_namespaces r (credentials master) nss s3 = (s4, calls, errors)"
    by (metis prod_cases3)
  have "n \<in> set (sync_targets (sr_NamespacedName r) nss)"
    using assms(3,5,6) by (simp add: sync_targets_def)
  then have "(createCredentialSecret (nn_Name (sr_NamespacedName r)) (ns_name n) (credentials master),
      plain_patch) \<in> set calls"
    using sync_namespaces_calls [OF run] by (simp add: sync_calls_def)
  with reconcile_master [OF assms(1,2) run] show ?thesis by (auto simp: assms(4))
qed

lemma SecretReconciler_patches_master_witness:
  "\<exists>s' calls after err. SecretReconciler_Reconcile sample_reconciler sample_master_name Map.empty
      = (s', calls, after, err)
    \<and> (createCredentialSecret ''regcred'' ''kyma-system'' ''auth'', plain_patch) \<in> set calls"
proof -
  have "credentials sample_master = ''auth''"
    by (simp add: credentials_def sample_master_def)
  moreover have "\<lparr>ns_name = ''kyma-system'', ns_namespace = [], ns_annotations = None\<rparr> \<in> set sample_targets"
    by (simp add: sample_targets_def)
  ultimately show ?thesis
    using SecretReconciler_patches_master [OF sample_reconciler_facts(1,2) _ _ _ sample_reconciler_facts(6),
      of "\<lparr>ns_name = ''kyma-system'', ns_namespace = [], ns_annotations = None\<rparr>" Map.empty]
    by (simp add: sample_reconciler_facts(4) sample_master_name_def)
qed



text \<open>
  Property C38. With the pull-secret feature off, with an unreadable configuration or with an
  unreadable master secret, the reconciler asks for no patch at all; the first case is silent, the
  other two are errors. Every patch it does ask for is named like the master secret, carries the
  master's credentials and is made by the program's field manager.
\<close>

theorem SecretReconciler_no_patches:
  "let (s', calls, after, err) = SecretReconciler_Reconcile r req s
   in (case sr_GetConfig r s of
         (s1, Inl e) \<Rightarrow> calls = [] \<and> err = Some (WrapError ''failed to read config: '' e)
       | (s1, Inr cfg) \<Rightarrow>
           if AnnotationSetPullSecret \<notin> set (cfg_AvailableFeatures cfg)
           then s' = s1 \<and> calls = [] \<and> err = None
           else (case sr_get_secret r (sr_NamespacedName r) s1 of
                   (s2, Inl e) \<Rightarrow> s' = s2 \<and> calls = [] \<and> err = Some e
                 | (s2, Inr master) \<Rightarrow>
                     list_all (\<lambda>(sec, opts). sec_name sec = nn_Name (sr_NamespacedName r)
                       \<and> map_read (sec_data sec) DockerConfigJsonKey = credentials master
                       \<and> po_FieldManager opts = FiledManager) calls))"
proof -
  have "list_all (\<lambda>(sec, opts). sec_name sec = nn_Name (sr_NamespacedName r)
        \<and> map_read (sec_data sec) DockerConfigJsonKey = data \<and> po_FieldManager opts = FiledManager) calls"
    if "sync_namespaces r data nss s1 = (s2, calls, errors)" for data nss s1 s2 calls errors
    using sync_namespaces_calls [OF that]
    by (auto simp: sync_calls_def list_all_iff plain_patch_def)
  then show ?thesis
    by (auto simp: SecretReconciler_Reconcile_def patch_one_def credentials_def plain_patch_def
        forced_patch_def Let_def split: prod.splits sum.splits)
qed

end
