(* ===== verification/CA_Bundle.thy ===== *)
theory CA_Bundle
  imports K8s_Types "HOL-Library.Word"
begin

text \<open>
  \<open>internal/webhook/certificate/callback.go\<close>: the function that writes the current CA bundle into
  the mutating webhook configuration. Get and patch are functions on the cluster state \<open>'s\<close> that may
  fail (a timeout of the five-second context is one of their errors); the function also returns the
  patches it asks for.
\<close>

section \<open>The configuration object\<close>

record admission_webhook =
  aw_name :: string
  aw_CABundle :: "8 word list"
  aw_rest :: string

record webhook_configuration =
  wc_Kind :: string
  wc_APIVersion :: string
  wc_Name :: string
  wc_ManagedFields :: "string list"
  wc_Webhooks :: "admission_webhook list"

record update_opts =
  uo_Name :: string
  uo_CABundle :: "8 word list"
  uo_FieldManager :: string

record 's webhook_client =
  wcl_get :: "string \<Rightarrow> 's \<Rightarrow> 's \<times> (gerror + webhook_configuration)"
  wcl_patch :: "webhook_configuration \<Rightarrow> patch_options \<Rightarrow> 's \<Rightarrow> 's \<times> gerror option"

section \<open>The update\<close>

text \<open>\<open>bytes.Equal\<close> does not tell nil from empty, so a bundle is a list.\<close>

fun update_bundles ::
  "8 word list \<Rightarrow> admission_webhook list \<Rightarrow> bool \<Rightarrow> admission_webhook list \<times> bool" where
  "update_bundles bundle_bytes [] updated = ([], updated)"
| "update_bundles bundle_bytes (w # ws) updated =
     (if bundle_bytes = aw_CABundle w
      then (let (ws', u) = update_bundles bundle_bytes ws updated in (w # ws', u))
      else (let (ws', u) = update_bundles bundle_bytes ws True
            in (w\<lparr>aw_CABundle := bundle_bytes\<rparr> # ws', u)))"

definition BuildUpdateCABundle ::
  "'s webhook_client \<Rightarrow> update_opts \<Rightarrow> 's
   \<Rightarrow> 's \<times> (webhook_configuration \<times> patch_options) list \<times> gerror option" where
  "BuildUpdateCABundle rtClient opts s =
     (case wcl_get rtClient (uo_Name opts) s of
        (s1, Inl err) \<Rightarrow>
          (s1, [], Some (WrapError ''unable to get mutating webhook configuration: '' err))
      | (s1, Inr mutatingWebhook) \<Rightarrow>
          let (webhooks, updated) =
                update_bundles (uo_CABundle opts) (wc_Webhooks mutatingWebhook) False
          in if \<not> updated then (s1, [], None)
             else let patched = mutatingWebhook\<lparr>wc_Webhooks := webhooks,
                        wc_Kind := ''MutatingWebhookConfiguration'',
                        wc_APIVersion := ''admissionregistration.k8s.io/v1'',
                        wc_ManagedFields := []\<rparr>;
                      patch_opts = \<lparr>po_FieldManager = uo_FieldManager opts, po_Force = Some True\<rparr>;
                      (s2, err) = wcl_patch rtClient patched patch_opts s1
                  in (s2, [(patched, patch_opts)], err))"

section \<open>What it writes\<close>

definition with_bundle :: "8 word list \<Rightarrow> admission_webhook \<Rightarrow> admission_webhook" where
  "with_bundle ca w = w\<lparr>aw_CABundle := ca\<rparr>"

definition up_to_date :: "8 word list \<Rightarrow> webhook_configuration \<Rightarrow> bool" where
  "up_to_date ca cfg \<longleftrightarrow> list_all (\<lambda>w. aw_CABundle w = ca) (wc_Webhooks cfg)"

definition refreshed :: "8 word list \<Rightarrow> webhook_configuration \<Rightarrow> webhook_configuration" where
  "refreshed ca cfg = cfg\<lparr>wc_Webhooks := map (with_bundle ca) (wc_Webhooks cfg),
     wc_Kind := ''MutatingWebhookConfiguration'',
     wc_APIVersion := ''admissionregistration.k8s.io/v1'', wc_ManagedFields := []\<rparr>"

lemma update_bundles_ret:
  "update_bundles ca ws updated =
     (map (with_bundle ca) ws, updated \<or> \<not> list_all (\<lambda>w. aw_CABundle w = ca) ws)"
  by (induction ws arbitrary: updated) (auto simp: with_bundle_def)

lemma update_ret:
  assumes "wcl_get c (uo_Name opts) s = (s1, Inr cfg)"
  shows "BuildUpdateCABundle c opts s =
    (if up_to_date (uo_CABundle opts) cfg then (s1, [], None)
     else let patch_opts = \<lparr>po_FieldManager = uo_FieldManager opts, po_Force = Some True\<rparr>;
              (s2, err) = wcl_patch c (refreshed (uo_CABundle opts) cfg) patch_opts s1
          in (s2, [(refreshed (uo_CABundle opts) cfg, patch_opts)], err))"
  using assms
  by (simp add: BuildUpdateCABundle_def update_bundles_ret up_to_date_def refreshed_def Let_def)

lemma up_to_date_refreshed [simp]: "up_to_date ca (refreshed ca cfg)"
  by (simp add: up_to_date_def refreshed_def list_all_iff with_bundle_def)

text \<open>
  A failed read of the webhook configuration is an error and patches nothing. A
  configuration in which every webhook has the CA bundle is not patched. Any other is patched once,
  with the bundle in every webhook, everything else of the webhooks kept, the managed fields
  cleared and the conflict forced, and the patch's answer is the answer.
\<close>

theorem UpdateCABundle_patch:
  "BuildUpdateCABundle c opts s =
     (case wcl_get c (uo_Name opts) s of
        (s1, Inl e) \<Rightarrow>
          (s1, [], Some (WrapError ''unable to get mutating webhook configuration: '' e))
      | (s1, Inr cfg) \<Rightarrow>
          if up_to_date (uo_CABundle opts) cfg then (s1, [], None)
          else let patch_opts = \<lparr>po_FieldManager = uo_FieldManager opts, po_Force = Some True\<rparr>;
                   (s2, err) = wcl_patch c (refreshed (uo_CABundle opts) cfg) patch_opts s1
               in (s2, [(refreshed (uo_CABundle opts) cfg, patch_opts)], err))"
proof (cases "wcl_get c (uo_Name opts) s")
  case (Pair s1 r)
  then show ?thesis by (cases r) (simp_all add: update_ret, simp add: BuildUpdateCABundle_def)
qed

text \<open>
  A cluster that serves the configuration \<open>current s\<close> under its name and applies a forced patch to it.
\<close>

definition serves_configuration ::
  "'s webhook_client \<Rightarrow> string \<Rightarrow> ('s \<Rightarrow> webhook_configuration) \<Rightarrow> bool" where
  "serves_configuration c n current \<longleftrightarrow>
     (\<forall>s. wcl_get c n s = (s, Inr (current s)))
     \<and> (\<forall>s cfg opts. wc_Name cfg = n \<and> po_Force opts = Some True \<longrightarrow>
          snd (wcl_patch c cfg opts s) = None
          \<and> wc_Webhooks (current (fst (wcl_patch c cfg opts s))) = wc_Webhooks cfg)
     \<and> (\<forall>s. wc_Name (current s) = n)"

lemma update_trusts:
  assumes "serves_configuration c (uo_Name opts) current"
  shows "\<exists>s' patches. BuildUpdateCABundle c opts s = (s', patches, None)
    \<and> wc_Webhooks (current s') = map (with_bundle (uo_CABundle opts)) (wc_Webhooks (current s))
    \<and> BuildUpdateCABundle c opts s' = (s', [], None)"
proof -
  let ?ca = "uo_CABundle opts" and ?cfg = "refreshed (uo_CABundle opts) (current s)"
  let ?po = "\<lparr>po_FieldManager = uo_FieldManager opts, po_Force = Some True\<rparr>"
  have get: "wcl_get c (uo_Name opts) t = (t, Inr (current t))" for t
    using assms by (simp add: serves_configuration_def)
  show ?thesis
  proof (cases "up_to_date ?ca (current s)")
    case True
    then have "map (with_bundle ?ca) (wc_Webhooks (current s)) = wc_Webhooks (current s)"
      by (auto simp: up_to_date_def list_all_iff with_bundle_def intro: map_idI)
    with True show ?thesis by (simp add: update_ret [OF get])
  next
    case False
    have "wc_Name ?cfg = uo_Name opts"
      using assms by (simp add: serves_configuration_def refreshed_def)
    then obtain s' where s': "wcl_patch c ?cfg ?po s = (s', None)"
      "wc_Webhooks (current s') = wc_Webhooks ?cfg"
      using assms unfolding serves_configuration_def
      by (metis patch_options.select_convs(2) prod.collapse)
    moreover from s'(2) have "up_to_date ?ca (current s')"
      using up_to_date_refreshed [of ?ca "current s"] by (simp add: up_to_date_def)
    ultimately show ?thesis
      using False by (simp add: update_ret [OF get]) (simp add: refreshed_def)
  qed
qed

text \<open>
  On such a cluster one call succeeds and leaves every webhook with the CA bundle and
  everything else of it kept; a second call finds the configuration up to date and patches nothing.
\<close>

theorem UpdateCABundle_converges:
  assumes "serves_configuration c (uo_Name opts) current"
  shows "\<exists>s' patches. BuildUpdateCABundle c opts s = (s', patches, None)
    \<and> wc_Webhooks (current s') = map (with_bundle (uo_CABundle opts)) (wc_Webhooks (current s))
    \<and> BuildUpdateCABundle c opts s' = (s', [], None)"
  by (rule update_trusts [OF assms])

definition sample_configuration :: webhook_configuration where
  "sample_configuration = \<lparr>wc_Kind = [], wc_APIVersion = [], wc_Name = ''mwc'',
     wc_ManagedFields = [''kubectl''],
     wc_Webhooks = [\<lparr>aw_name = ''pods'', aw_CABundle = [], aw_rest = ''v1''\<rparr>]\<rparr>"

definition sample_webhook_client :: "admission_webhook list webhook_client" where
  "sample_webhook_client =
     \<lparr>wcl_get = (\<lambda>n s. (s, Inr (sample_configuration\<lparr>wc_Webhooks := s\<rparr>))),
      wcl_patch = (\<lambda>cfg opts s. (wc_Webhooks cfg, None))\<rparr>"

lemma UpdateCABundle_converges_witness:
  "\<exists>s' patches. BuildUpdateCABundle sample_webhook_client
      \<lparr>uo_Name = ''mwc'', uo_CABundle = [1, 2], uo_FieldManager = ''fm''\<rparr>
      (wc_Webhooks sample_configuration) = (s', patches, None)
    \<and> map aw_CABundle s' = [[1, 2]]"
proof -
  have serves: "serves_configuration sample_webhook_client
      (uo_Name \<lparr>uo_Name = ''mwc'', uo_CABundle = [1, 2], uo_FieldManager = ''fm''\<rparr>)
      (\<lambda>s. sample_configuration\<lparr>wc_Webhooks := s\<rparr>)"
    by (simp add: serves_configuration_def sample_webhook_client_def sample_configuration_def)
  from UpdateCABundle_converges [OF serves, of "wc_Webhooks sample_configuration"] show ?thesis
    by (auto simp: sample_configuration_def with_bundle_def)
qed

end
