(* ===== verification/Webhook_Server.thy ===== *)
theory Webhook_Server
  imports Go_Text "HOL-Library.Word"
begin

text \<open>
  \<open>internal/webhook/server/server.go\<close> and \<open>internal/httpserver/server.go\<close>: the defaults of the
  options, the registration of webhooks, the start of the server in its phases, and the health
  check. \<open>Start\<close> runs beside \<open>Register\<close> and beside the goroutine that shuts the server down, so it is
  a step relation; each step is one section of the code between two points where the others may run.

  A \<open>ServeMux\<close> is shared by pointer (the options and the server hold the same one), so muxes live in
  a heap. Patterns are literal paths (no wildcard, method or host), for which \<open>Handle\<close> panics on the
  empty pattern and on a pattern that is there already.
\<close>

section \<open>Muxes\<close>

type_synonym 'h mux = "(string \<times> 'h) list"

record 'h mux_heap =
  mh_next :: nat
  mh_mux :: "nat \<Rightarrow> 'h mux"

definition NewServeMux :: "'h mux_heap \<Rightarrow> nat \<times> 'h mux_heap" where
  "NewServeMux heap =
     (mh_next heap, heap\<lparr>mh_next := Suc (mh_next heap), mh_mux := (mh_mux heap)(mh_next heap := [])\<rparr>)"

definition mux_handle :: "'h mux_heap \<Rightarrow> nat option \<Rightarrow> string \<Rightarrow> 'h \<Rightarrow> 'h mux_heap go" where
  "mux_handle heap mux pattern hook =
     (case mux of
        None \<Rightarrow> Panic (PanicError (ErrorString ''nil pointer dereference''))
      | Some i \<Rightarrow>
          if pattern = [] then Panic (PanicString ''http: invalid pattern'')
          else if map_of (mh_mux heap i) pattern \<noteq> None
          then Panic (PanicString ''http: multiple registrations'')
          else Ret (heap\<lparr>mh_mux := (mh_mux heap)(i := mh_mux heap i @ [(pattern, hook)])\<rparr>))"

section \<open>Options and defaults\<close>

text \<open>
  Where the certificate comes from: the files a watcher loads it from, and whether the watcher has a
  callback to run on each certificate it loads; or a function given by the options.
\<close>

datatype cert_source = CertWatcher string string bool | GivenCertificate string

datatype client_auth = NoClientCert | RequireAndVerifyClientCert

record tls_config =
  tls_NextProtos :: "string list"
  tls_MinVersion :: nat
  tls_GetCertificate :: "cert_source option"
  tls_ClientCAs :: "8 word list option"
  tls_ClientAuth :: client_auth

record server_options =
  so_Host :: string
  so_Port :: int
  so_CertDir :: string
  so_CertName :: string
  so_KeyName :: string
  so_ClientCAName :: string
  so_TLSOpts :: "(tls_config \<Rightarrow> tls_config) list"
  so_WebhookMux :: "nat option"
  so_Callback :: bool \<comment> \<open>whether there is one; the program's is \<open>certificate_callback\<close>\<close>

record 'h default_server =
  ds_Options :: server_options
  ds_webhooks :: "'h go_map"
  ds_defaulted :: bool \<comment> \<open>\<open>defaultingOnce\<close>\<close>
  ds_started :: bool
  ds_webhookMux :: "nat option"

definition DefaultPort :: int where
  "DefaultPort = 9443"

definition NewServer :: "server_options \<Rightarrow> 'h default_server" where
  "NewServer o' = \<lparr>ds_Options = o', ds_webhooks = None, ds_defaulted = False, ds_started = False,
     ds_webhookMux = None\<rparr>"

definition Options_setDefaults ::
  "string \<Rightarrow> 'h mux_heap \<Rightarrow> server_options \<Rightarrow> 'h mux_heap \<times> server_options" where
  "Options_setDefaults tempDir heap opts =
     (let (heap, opts) =
            (if so_WebhookMux opts = None
             then let (m, heap') = NewServeMux heap in (heap', opts\<lparr>so_WebhookMux := Some m\<rparr>)
             else (heap, opts));
          opts = (if so_Port opts \<le> 0 then opts\<lparr>so_Port := DefaultPort\<rparr> else opts);
          opts = (if length (so_CertDir opts) = 0
             then opts\<lparr>so_CertDir := path_join [tempDir, ''k8s-webhook-server'', ''serving-certs'']\<rparr>
             else opts);
          opts = (if length (so_CertName opts) = 0 then opts\<lparr>so_CertName := ''tls.crt''\<rparr> else opts);
          opts = (if length (so_KeyName opts) = 0 then opts\<lparr>so_KeyName := ''tls.key''\<rparr> else opts)
      in (heap, opts))"

definition Server_setDefaults ::
  "string \<Rightarrow> 'h mux_heap \<Rightarrow> 'h default_server \<Rightarrow> 'h mux_heap \<times> 'h default_server" where
  "Server_setDefaults tempDir heap s =
     (let (heap', opts) = Options_setDefaults tempDir heap (ds_Options s)
      in (heap', s\<lparr>ds_webhooks := Some [], ds_Options := opts, ds_webhookMux := so_WebhookMux opts\<rparr>))"

text \<open>\<open>s.defaultingOnce.Do(s.setDefaults)\<close>.\<close>

definition defaulting_once ::
  "string \<Rightarrow> 'h mux_heap \<Rightarrow> 'h default_server \<Rightarrow> 'h mux_heap \<times> 'h default_server" where
  "defaulting_once tempDir heap s =
     (if ds_defaulted s then (heap, s)
      else let (heap', s') = Server_setDefaults tempDir heap s in (heap', s'\<lparr>ds_defaulted := True\<rparr>))"

definition NeedLeaderElection :: bool where
  "NeedLeaderElection = False"

definition WebhookMux :: "'h default_server \<Rightarrow> nat option" where
  "WebhookMux s = ds_webhookMux s"

section \<open>Registration\<close>

text \<open>The outcome says whether the path was refused as a duplicate; the map is written before the mux.\<close>

definition Register ::
  "string \<Rightarrow> 'h mux_heap \<Rightarrow> 'h default_server \<Rightarrow> string \<Rightarrow> 'h
   \<Rightarrow> 'h mux_heap \<times> 'h default_server \<times> bool go" where
  "Register tempDir heap s path hook =
     (let (heap, s) = defaulting_once tempDir heap s
      in case map_get (ds_webhooks s) path of
           Some _ \<Rightarrow> (heap, s, Ret True)
         | None \<Rightarrow>
             (case map_put (ds_webhooks s) path hook of
                Panic x \<Rightarrow> (heap, s, Panic x)
              | Ret webhooks \<Rightarrow>
                  let s = s\<lparr>ds_webhooks := webhooks\<rparr>
                  in (case mux_handle heap (ds_webhookMux s) path hook of
                        Panic x \<Rightarrow> (heap, s, Panic x)
                      | Ret heap' \<Rightarrow> (heap', s, Ret False))))"

section \<open>Start\<close>

text \<open>What \<open>Start\<close> asks of its surroundings.\<close>

record start_env =
  se_TempDir :: string
  se_new_certwatcher :: "string \<Rightarrow> string \<Rightarrow> gerror option"
  se_ReadFile :: "string \<Rightarrow> gerror + 8 word list"
  se_AppendCertsFromPEM :: "8 word list \<Rightarrow> bool"
  se_Listen :: "string \<Rightarrow> tls_config \<Rightarrow> gerror option"

definition VersionTLS13 :: nat where
  "VersionTLS13 = 772"

definition base_tls_config :: tls_config where
  "base_tls_config = \<lparr>tls_NextProtos = [''h2''], tls_MinVersion = VersionTLS13,
     tls_GetCertificate = None, tls_ClientCAs = None, tls_ClientAuth = NoClientCert\<rparr>"

definition apply_tls_opts :: "(tls_config \<Rightarrow> tls_config) list \<Rightarrow> tls_config \<Rightarrow> tls_config" where
  "apply_tls_opts ops cfg = fold (\<lambda>op c. op c) ops cfg"

definition start_certificate :: "start_env \<Rightarrow> server_options \<Rightarrow> tls_config \<Rightarrow> gerror + tls_config" where
  "start_certificate env opts cfg =
     (if tls_GetCertificate cfg = None
      then let certPath = path_join [so_CertDir opts, so_CertName opts];
               keyPath = path_join [so_CertDir opts, so_KeyName opts]
           in (case se_new_certwatcher env certPath keyPath of
                 Some err \<Rightarrow> Inl err
               | None \<Rightarrow> Inr (cfg\<lparr>tls_GetCertificate := Some (CertWatcher certPath keyPath (so_Callback opts))\<rparr>))
      else Inr cfg)"

definition start_client_ca :: "start_env \<Rightarrow> server_options \<Rightarrow> tls_config \<Rightarrow> gerror + tls_config" where
  "start_client_ca env opts cfg =
     (if so_ClientCAName opts \<noteq> []
      then (case se_ReadFile env (path_join [so_CertDir opts, so_ClientCAName opts]) of
              Inl err \<Rightarrow> Inl (WrapError ''failed to read client CA cert: '' err)
            | Inr clientCABytes \<Rightarrow>
                if \<not> se_AppendCertsFromPEM env clientCABytes
                then Inl (ErrorString ''failed to append client CA cert to CA pool'')
                else Inr (cfg\<lparr>tls_ClientCAs := Some clientCABytes,
                       tls_ClientAuth := RequireAndVerifyClientCert\<rparr>))
      else Inr cfg)"

text \<open>\<open>Start\<close> up to the listener, after the defaults.\<close>

definition start_listen :: "start_env \<Rightarrow> server_options \<Rightarrow> gerror + tls_config" where
  "start_listen env opts =
     (case start_certificate env opts (apply_tls_opts (so_TLSOpts opts) base_tls_config) of
        Inl err \<Rightarrow> Inl err
      | Inr cfg1 \<Rightarrow>
          (case start_client_ca env opts cfg1 of
             Inl err \<Rightarrow> Inl err
           | Inr cfg \<Rightarrow>
               (case se_Listen env (JoinHostPort (so_Host opts) (Itoa (so_Port opts))) cfg of
                  Some err \<Rightarrow> Inl err
                | None \<Rightarrow> Inr cfg)))"

text \<open>The HTTP server that \<open>httpserver.New\<close> builds around the mux; durations in nanoseconds.\<close>

record http_server =
  hs_Handler :: "nat option"
  hs_MaxHeaderBytes :: int
  hs_IdleTimeout :: int
  hs_ReadHeaderTimeout :: int

definition httpserver_New :: "nat option \<Rightarrow> http_server" where
  "httpserver_New handler =
     \<lparr>hs_Handler = handler, hs_MaxHeaderBytes = push_bit 20 1, hs_IdleTimeout = 90 * 1000000000,
      hs_ReadHeaderTimeout = 32 * 1000000000\<rparr>"

definition ErrServerClosed :: gerror where
  "ErrServerClosed = ErrorString ''http: Server closed''"

text \<open>\<open>StartedChecker\<close>: the error of one health check.\<close>

definition StartedChecker :: "'h default_server \<Rightarrow> gerror option" where
  "StartedChecker s =
     (if \<not> ds_started s then Some (ErrorString ''webhook server has not been started yet'') else None)"

section \<open>The server beside its callers\<close>

text \<open>
  The phases of the goroutine that runs \<open>Start\<close>: not called yet; listening, with the shutdown
  goroutine spawned and \<open>started\<close> not yet set; serving; waiting for \<open>idleConnsClosed\<close>; returned.
\<close>

datatype phase =
    Idle
  | Listening tls_config http_server
  | Serving tls_config http_server
  | Draining
  | Returned "gerror option"

record 'h serving =
  sv_heap :: "'h mux_heap"
  sv_server :: "'h default_server"
  sv_phase :: phase
  sv_cancelled :: bool \<comment> \<open>\<open>ctx.Done()\<close> is closed\<close>
  sv_idleConnsClosed :: bool

definition spawned :: "phase \<Rightarrow> bool" where
  "spawned ph \<longleftrightarrow> (case ph of Idle \<Rightarrow> False | Returned e \<Rightarrow> False | _ \<Rightarrow> True)"

lemma spawned_simps [simp]:
  "\<not> spawned Idle" "\<not> spawned (Returned e)" "spawned (Listening cfg srv)"
  "spawned (Serving cfg srv)" "spawned Draining"
  by (simp_all add: spawned_def)

text \<open>
  One call of \<open>Register\<close> that returns (one that panics ends the process), one section of \<open>Start\<close>,
  the context, or the shutdown goroutine.
\<close>

inductive server_step :: "start_env \<Rightarrow> 'h serving \<Rightarrow> 'h serving \<Rightarrow> bool" for env where
  register:
    "Register (se_TempDir env) (sv_heap v) (sv_server v) path hook = (heap', s', Ret dup) \<Longrightarrow>
     server_step env v (v\<lparr>sv_heap := heap', sv_server := s'\<rparr>)"
| start_failed:
    "sv_phase v = Idle \<Longrightarrow>
     defaulting_once (se_TempDir env) (sv_heap v) (sv_server v) = (heap', s') \<Longrightarrow>
     start_listen env (ds_Options s') = Inl err \<Longrightarrow>
     server_step env v (v\<lparr>sv_heap := heap', sv_server := s', sv_phase := Returned (Some err)\<rparr>)"
| start_listening:
    "sv_phase v = Idle \<Longrightarrow>
     defaulting_once (se_TempDir env) (sv_heap v) (sv_server v) = (heap', s') \<Longrightarrow>
     start_listen env (ds_Options s') = Inr cfg \<Longrightarrow>
     server_step env v (v\<lparr>sv_heap := heap', sv_server := s',
       sv_phase := Listening cfg (httpserver_New (ds_webhookMux s'))\<rparr>)"
| set_started:
    "sv_phase v = Listening cfg srv \<Longrightarrow>
     server_step env v
       (v\<lparr>sv_server := (sv_server v)\<lparr>ds_started := True\<rparr>, sv_phase := Serving cfg srv\<rparr>)"
| serve_failed:
    "sv_phase v = Serving cfg srv \<Longrightarrow> err \<noteq> ErrServerClosed \<Longrightarrow>
     server_step env v (v\<lparr>sv_phase := Returned (Some err)\<rparr>)"
| serve_closed:
    "sv_phase v = Serving cfg srv \<Longrightarrow> sv_cancelled v \<Longrightarrow>
     server_step env v (v\<lparr>sv_phase := Draining\<rparr>)"
| cancel:
    "server_step env v (v\<lparr>sv_cancelled := True\<rparr>)"
| shut_down:
    "sv_cancelled v \<Longrightarrow> spawned (sv_phase v) \<Longrightarrow>
     server_step env v (v\<lparr>sv_idleConnsClosed := True\<rparr>)"
| drained:
    "sv_phase v = Draining \<Longrightarrow> sv_idleConnsClosed v \<Longrightarrow>
     server_step env v (v\<lparr>sv_phase := Returned None\<rparr>)"

inductive server_reachable :: "start_env \<Rightarrow> 'h serving \<Rightarrow> 'h serving \<Rightarrow> bool" for env v where
  initial: "server_reachable env v v"
| step: "server_reachable env v v' \<Longrightarrow> server_step env v' v'' \<Longrightarrow> server_reachable env v v''"

inductive_cases server_stepE: "server_step env v v'"

definition fresh_serving :: "'h mux_heap \<Rightarrow> server_options \<Rightarrow> 'h serving" where
  "fresh_serving heap opts =
     \<lparr>sv_heap = heap, sv_server = NewServer opts, sv_phase = Idle, sv_cancelled = False,
      sv_idleConnsClosed = False\<rparr>"

section \<open>Defaults\<close>

definition valid_options :: "server_options \<Rightarrow> bool" where
  "valid_options opts \<longleftrightarrow>
     so_WebhookMux opts \<noteq> None \<and> 0 < so_Port opts \<and> so_CertDir opts \<noteq> []
     \<and> so_CertName opts \<noteq> [] \<and> so_KeyName opts \<noteq> []"

definition or_default :: "string \<Rightarrow> string \<Rightarrow> string" where
  "or_default d v = (if v = [] then d else v)"

definition default_cert_dir :: "string \<Rightarrow> string" where
  "default_cert_dir tempDir = path_join [tempDir, ''k8s-webhook-server'', ''serving-certs'']"

lemma default_cert_dir_nonempty [simp]: "default_cert_dir t \<noteq> []"
  by (cases t) (simp_all add: default_cert_dir_def path_join_def)

lemma or_default_twice [simp]: "or_default d (or_default d v) = or_default d v"
  by (simp add: or_default_def)

text \<open>The options after defaulting, field by field, and the heap.\<close>

definition defaulted_options :: "string \<Rightarrow> 'h mux_heap \<Rightarrow> server_options \<Rightarrow> server_options" where
  "defaulted_options t heap opts = opts\<lparr>
     so_Port := (if so_Port opts \<le> 0 then DefaultPort else so_Port opts),
     so_CertDir := or_default (default_cert_dir t) (so_CertDir opts),
     so_CertName := or_default ''tls.crt'' (so_CertName opts),
     so_KeyName := or_default ''tls.key'' (so_KeyName opts),
     so_WebhookMux := (case so_WebhookMux opts of None \<Rightarrow> Some (mh_next heap) | Some m \<Rightarrow> Some m)\<rparr>"

lemma Options_setDefaults_ret:
  "Options_setDefaults t heap opts =
     ((if so_WebhookMux opts = None then snd (NewServeMux heap) else heap),
      defaulted_options t heap opts)"
  by (cases opts) (auto simp: Options_setDefaults_def defaulted_options_def NewServeMux_def
      or_default_def default_cert_dir_def Let_def split: option.split)

lemma defaulted_valid: "valid_options (defaulted_options t heap opts)"
  by (auto simp: valid_options_def defaulted_options_def DefaultPort_def or_default_def
      split: option.split)

lemma valid_fixed: "valid_options opts \<Longrightarrow> Options_setDefaults t heap opts = (heap, opts)"
  by (cases opts) (auto simp: Options_setDefaults_ret valid_options_def defaulted_options_def
      or_default_def)

text \<open>
  Defaulting fills in what is missing and nothing else: the port is the given one if
  it is positive and 9443 otherwise, the certificate directory and the file names are the given
  ones unless empty, a mux is created only when none is given, host, client CA and TLS options are
  kept. The result needs no more defaulting.
\<close>

theorem Options_setDefaults_fills:
  "let (heap', opts') = Options_setDefaults t heap opts
   in valid_options opts'
     \<and> so_Port opts' = (if so_Port opts \<le> 0 then 9443 else so_Port opts)
     \<and> so_CertDir opts' = or_default (default_cert_dir t) (so_CertDir opts)
     \<and> so_CertName opts' = or_default ''tls.crt'' (so_CertName opts)
     \<and> so_KeyName opts' = or_default ''tls.key'' (so_KeyName opts)
     \<and> so_Host opts' = so_Host opts \<and> so_ClientCAName opts' = so_ClientCAName opts
     \<and> so_TLSOpts opts' = so_TLSOpts opts
     \<and> (so_WebhookMux opts = None \<or> heap' = heap \<and> so_WebhookMux opts' = so_WebhookMux opts)
     \<and> Options_setDefaults t heap' opts' = (heap', opts')"
  using defaulted_valid [of t heap opts]
  by (simp add: Options_setDefaults_ret valid_fixed)
    (auto simp: Options_setDefaults_ret valid_fixed defaulted_options_def DefaultPort_def
      split: option.split)

section \<open>The registry of webhooks\<close>

text \<open>
  The contract of a registry in which the first registration of a path wins, on the states that
  satisfy \<open>inv\<close>.
\<close>

locale path_registry =
  fixes register :: "'s \<Rightarrow> string \<Rightarrow> 'h \<Rightarrow> 's"
    and lookup :: "'s \<Rightarrow> string \<Rightarrow> 'h option"
    and inv :: "'s \<Rightarrow> bool"
    and path_ok :: "string \<Rightarrow> bool"
  assumes inv_register: "inv s \<Longrightarrow> path_ok p \<Longrightarrow> inv (register s p h)"
    and lookup_register: "inv s \<Longrightarrow> path_ok p \<Longrightarrow>
      lookup (register s p h) q = (if q = p \<and> lookup s p = None then Some h else lookup s q)"
begin

definition register_all :: "(string \<times> 'h) list \<Rightarrow> 's \<Rightarrow> 's" where
  "register_all rs s = fold (\<lambda>(p, h) s. register s p h) rs s"

lemma first_wins:
  "inv s \<Longrightarrow> list_all (\<lambda>(p, h). path_ok p) rs \<Longrightarrow>
   lookup (register_all rs s) q = (case lookup s q of Some h \<Rightarrow> Some h | None \<Rightarrow> map_of rs q)"
proof (induction rs arbitrary: s)
  case (Cons r rs)
  obtain p h where r: "r = (p, h)" by fastforce
  with Cons have "inv (register s p h)" by (simp add: inv_register)
  with Cons r show ?case
    by (auto simp: register_all_def lookup_register split: option.split)
qed (simp add: register_all_def split: option.split)

end

text \<open>The webhooks map and the mux agree, from the first use of the server on.\<close>

type_synonym 'h registry = "'h mux_heap \<times> 'h default_server"

definition registry_inv :: "'h registry \<Rightarrow> bool" where
  "registry_inv v =
     (case v of (heap, s) \<Rightarrow>
        if ds_defaulted s
        then (case (ds_webhooks s, ds_webhookMux s) of
                (Some w, Some i) \<Rightarrow> map_of (mh_mux heap i) = map_of w \<and> valid_options (ds_Options s)
              | _ \<Rightarrow> False)
        else ds_webhookMux s = None
          \<and> (case so_WebhookMux (ds_Options s) of None \<Rightarrow> True | Some i \<Rightarrow> mh_mux heap i = []))"

definition registry_lookup :: "'h registry \<Rightarrow> string \<Rightarrow> 'h option" where
  "registry_lookup v q =
     (case v of (heap, s) \<Rightarrow>
        (case ds_webhookMux s of None \<Rightarrow> None | Some i \<Rightarrow> map_of (mh_mux heap i) q))"

definition registered :: "string \<Rightarrow> 'h registry \<Rightarrow> string \<Rightarrow> 'h \<Rightarrow> 'h registry" where
  "registered t v p h = (case Register t (fst v) (snd v) p h of (heap', s', r) \<Rightarrow> (heap', s'))"

lemma once_inv:
  assumes "registry_inv (heap, s)"
  shows "\<exists>heap' s' i w. defaulting_once t heap s = (heap', s') \<and> ds_defaulted s'
    \<and> ds_webhooks s' = Some w \<and> ds_webhookMux s' = Some i \<and> ds_started s' = ds_started s
    \<and> map_of (mh_mux heap' i) = map_of w \<and> valid_options (ds_Options s')
    \<and> (\<forall>q. registry_lookup (heap', s') q = registry_lookup (heap, s) q)"
proof (cases "ds_defaulted s")
  case True
  with assms show ?thesis
    by (auto simp: registry_inv_def defaulting_once_def split: option.splits)
next
  case False
  with assms show ?thesis
    using defaulted_valid [of t heap "ds_Options s"]
    by (auto simp: registry_inv_def registry_lookup_def defaulting_once_def Server_setDefaults_def
        Options_setDefaults_ret NewServeMux_def defaulted_options_def split: option.splits)
qed

text \<open>A registration on a defaulted server: refused, or entered into both the map and the mux.\<close>

lemma Register_inv:
  assumes "registry_inv (heap, s)" "path \<noteq> []"
  shows "\<exists>heap' s' r. Register t heap s path hook = (heap', s', Ret r)
    \<and> registry_inv (heap', s') \<and> ds_started s' = ds_started s \<and> ds_defaulted s'
    \<and> ds_Options s' = ds_Options (snd (defaulting_once t heap s))
    \<and> ds_webhookMux s' = ds_webhookMux (snd (defaulting_once t heap s))
    \<and> r = (registry_lookup (heap, s) path \<noteq> None)
    \<and> (\<forall>q. registry_lookup (heap', s') q =
        (if q = path \<and> registry_lookup (heap, s) path = None then Some hook
         else registry_lookup (heap, s) q))"
proof -
  obtain h1 s1 i w where once: "defaulting_once t heap s = (h1, s1)" "ds_defaulted s1"
    "ds_webhooks s1 = Some w" "ds_webhookMux s1 = Some i" "ds_started s1 = ds_started s"
    "map_of (mh_mux h1 i) = map_of w" "valid_options (ds_Options s1)"
    and look: "\<And>q. registry_lookup (heap, s) q = map_of w q"
    using once_inv [OF assms(1), of t] by (auto simp: registry_lookup_def)
  show ?thesis
  proof (cases "map_of w path")
    case None
    with once look assms(2) show ?thesis
      by (auto simp: Register_def map_put_def mux_handle_def registry_inv_def registry_lookup_def
          map_add_def update_conv' fun_eq_iff split: option.split)
  next
    case (Some h)
    with once look show ?thesis
      by (auto simp: Register_def registry_inv_def registry_lookup_def)
  qed
qed

interpretation webhooks: path_registry "registered t" registry_lookup registry_inv "\<lambda>p. p \<noteq> []" for t
proof
  fix v :: "'h registry" and p q :: string and h :: 'h
  assume v: "registry_inv v" "p \<noteq> []"
  obtain heap s where [simp]: "v = (heap, s)" by fastforce
  from Register_inv [of heap s p t h] v
  show "registry_inv (registered t v p h)"
    "registry_lookup (registered t v p h) q =
      (if q = p \<and> registry_lookup v p = None then Some h else registry_lookup v q)"
    by (auto simp: registered_def)
qed


definition sample_server_options :: server_options where
  "sample_server_options = \<lparr>so_Host = [], so_Port = 0, so_CertDir = ''/certs'', so_CertName = [],
     so_KeyName = [], so_ClientCAName = ''ca.crt'', so_TLSOpts = [], so_WebhookMux = None, so_Callback = False\<rparr>"

definition empty_heap :: "'h mux_heap" where
  "empty_heap = \<lparr>mh_next = 0, mh_mux = (\<lambda>_. [])\<rparr>"


section \<open>Invariants of the running server\<close>

text \<open>What the phase of \<open>Start\<close> says of the rest of the state.\<close>

definition phase_ok :: "start_env \<Rightarrow> 'h serving \<Rightarrow> bool" where
  "phase_ok env v \<longleftrightarrow>
     (case sv_phase v of
        Idle \<Rightarrow> \<not> ds_started (sv_server v) \<and> \<not> sv_idleConnsClosed v
      | Listening cfg srv \<Rightarrow>
          \<not> ds_started (sv_server v) \<and> ds_defaulted (sv_server v)
          \<and> start_listen env (ds_Options (sv_server v)) = Inr cfg
          \<and> hs_Handler srv = ds_webhookMux (sv_server v)
      | Serving cfg srv \<Rightarrow>
          ds_started (sv_server v) \<and> ds_defaulted (sv_server v)
          \<and> start_listen env (ds_Options (sv_server v)) = Inr cfg
          \<and> hs_Handler srv = ds_webhookMux (sv_server v)
      | Draining \<Rightarrow> ds_started (sv_server v) \<and> sv_cancelled v
      | Returned None \<Rightarrow> ds_started (sv_server v) \<and> sv_idleConnsClosed v
      | Returned (Some e) \<Rightarrow> True)"

definition serving_inv :: "start_env \<Rightarrow> 'h serving \<Rightarrow> bool" where
  "serving_inv env v \<longleftrightarrow>
     registry_inv (sv_heap v, sv_server v) \<and> phase_ok env v
     \<and> (ds_started (sv_server v) \<longrightarrow> ds_defaulted (sv_server v)
          \<and> (\<exists>cfg. start_listen env (ds_Options (sv_server v)) = Inr cfg))
     \<and> (sv_idleConnsClosed v \<longrightarrow> sv_cancelled v)"

lemma fresh_serving_inv:
  assumes "case so_WebhookMux opts of None \<Rightarrow> True | Some i \<Rightarrow> mh_mux heap i = []"
  shows "serving_inv env (fresh_serving heap opts)"
  using assms
  by (simp add: serving_inv_def phase_ok_def fresh_serving_def NewServer_def registry_inv_def)

text \<open>Once defaulted, a registration changes the webhooks and the mux's contents only.\<close>

lemma Register_keeps:
  assumes "Register t heap s path hook = (heap', s', r)"
  shows "ds_started s' = ds_started s \<and> ds_defaulted s'
    \<and> (ds_defaulted s \<longrightarrow> ds_Options s' = ds_Options s \<and> ds_webhookMux s' = ds_webhookMux s)"
proof -
  have once: "ds_started s1 = ds_started s \<and> ds_defaulted s1
      \<and> (ds_defaulted s \<longrightarrow> s1 = s)" if "defaulting_once t heap s = (h1, s1)" for h1 s1
    using that by (auto simp: defaulting_once_def Server_setDefaults_def split: prod.splits if_splits)
  show ?thesis
    using assms once
    by (cases "defaulting_once t heap s")
      (fastforce simp: Register_def Let_def split: option.splits go.splits)
qed

text \<open>Registrations that return keep the registry.\<close>

lemma Register_registry:
  assumes "registry_inv (heap, s)" "Register t heap s path hook = (heap', s', r)"
    "r = Ret b"
  shows "registry_inv (heap', s')"
proof (cases "path = []")
  case False
  with assms Register_inv [of heap s path t hook] show ?thesis by auto
next
  case True
  obtain h1 s1 i w where once: "defaulting_once t heap s = (h1, s1)" "ds_defaulted s1"
    "ds_webhooks s1 = Some w" "ds_webhookMux s1 = Some i"
    "map_of (mh_mux h1 i) = map_of w" "valid_options (ds_Options s1)"
    using once_inv [OF assms(1), of t] by auto
  with True assms show ?thesis
    by (auto simp: Register_def map_put_def mux_handle_def registry_inv_def split: option.splits)
qed

lemma registry_inv_started [simp]:
  "registry_inv (heap, s\<lparr>ds_started := b\<rparr>) = registry_inv (heap, s)"
  by (simp add: registry_inv_def split: option.split)

lemma once_registry:
  assumes "registry_inv (heap, s)" "defaulting_once t heap s = (heap', s')"
  shows "registry_inv (heap', s') \<and> ds_defaulted s' \<and> ds_started s' = ds_started s
    \<and> (ds_defaulted s \<longrightarrow> s' = s)"
  using once_inv [OF assms(1), of t] assms(2)
  by (auto simp: registry_inv_def defaulting_once_def split: if_splits)

lemma step_keeps_inv:
  assumes "server_step env v v'" "serving_inv env v"
  shows "serving_inv env v'"
  using assms(1)
proof (cases rule: server_step.cases)
  case (register path hook heap' s' dup)
  note keeps = Register_keeps [OF register(2)]
  have "registry_inv (heap', s')"
    using Register_registry [OF _ register(2)] assms(2) by (simp add: serving_inv_def)
  with keeps assms(2) show ?thesis
    unfolding register(1)
    by (auto simp: serving_inv_def phase_ok_def split: phase.splits option.splits)
next
  case (start_failed heap' s' err)
  with assms(2) once_registry [of "sv_heap v" "sv_server v" "se_TempDir env" heap' s']
  show ?thesis by (auto simp: serving_inv_def phase_ok_def)
next
  case (start_listening heap' s' cfg)
  with assms(2) once_registry [of "sv_heap v" "sv_server v" "se_TempDir env" heap' s']
  show ?thesis by (auto simp: serving_inv_def phase_ok_def httpserver_New_def)
qed (use assms(2) in \<open>auto simp: serving_inv_def phase_ok_def split: phase.splits option.splits\<close>)

lemma reachable_inv:
  assumes "server_reachable env v v'" "serving_inv env v"
  shows "serving_inv env v'"
  using assms by (induction rule: server_reachable.induct) (auto intro: step_keeps_inv)

text \<open>What the listener's TLS configuration is, whenever there is one.\<close>

lemma start_listen_Inr:
  assumes "start_listen env opts = Inr cfg"
  shows "tls_GetCertificate cfg \<noteq> None
    \<and> (so_ClientCAName opts = [] \<or> tls_ClientAuth cfg = RequireAndVerifyClientCert
        \<and> tls_ClientCAs cfg \<noteq> None)
    \<and> tls_NextProtos cfg = tls_NextProtos (apply_tls_opts (so_TLSOpts opts) base_tls_config)
    \<and> tls_MinVersion cfg = tls_MinVersion (apply_tls_opts (so_TLSOpts opts) base_tls_config)
    \<and> se_Listen env (JoinHostPort (so_Host opts) (Itoa (so_Port opts))) cfg = None"
  using assms
  by (auto simp: start_listen_def start_certificate_def start_client_ca_def Let_def
      split: sum.splits option.splits if_splits)

text \<open>The options of a reachable server are the given ones, or the given ones defaulted.\<close>

definition options_from :: "server_options \<Rightarrow> 'h default_server \<Rightarrow> bool" where
  "options_from opts s \<longleftrightarrow>
     (if ds_defaulted s
      then so_TLSOpts (ds_Options s) = so_TLSOpts opts \<and> so_Callback (ds_Options s) = so_Callback opts
        \<and> so_Host (ds_Options s) = so_Host opts
        \<and> so_ClientCAName (ds_Options s) = so_ClientCAName opts
        \<and> (so_CertDir opts = [] \<or> so_CertDir (ds_Options s) = so_CertDir opts)
        \<and> so_CertName (ds_Options s) = or_default ''tls.crt'' (so_CertName opts)
        \<and> so_KeyName (ds_Options s) = or_default ''tls.key'' (so_KeyName opts)
      else ds_Options s = opts)"

lemma options_from_started [simp]: "options_from opts (s\<lparr>ds_started := b\<rparr>) = options_from opts s"
  by (simp add: options_from_def)

lemma once_options_from:
  "options_from opts s \<Longrightarrow> defaulting_once t heap s = (heap', s') \<Longrightarrow> options_from opts s'"
  by (auto simp: options_from_def defaulting_once_def Server_setDefaults_def Options_setDefaults_ret
      defaulted_options_def or_default_def split: if_splits)

lemma Register_options_from:
  assumes "options_from opts s" "Register t heap s path hook = (heap', s', r)"
  shows "options_from opts s'"
proof -
  obtain h1 s1 where once: "defaulting_once t heap s = (h1, s1)" by fastforce
  have "ds_Options s' = ds_Options s1 \<and> ds_defaulted s' = ds_defaulted s1"
    using assms(2) once by (auto simp: Register_def Let_def split: option.splits go.splits)
  with once_options_from [OF assms(1) once] show ?thesis by (simp add: options_from_def)
qed

lemma step_options_from:
  assumes "server_step env v v'" "options_from opts (sv_server v)"
  shows "options_from opts (sv_server v')"
  using assms(1)
proof (cases rule: server_step.cases)
  case (register path hook heap' s' dup)
  with assms(2) Register_options_from show ?thesis by fastforce
qed (use assms(2) in \<open>auto intro: once_options_from\<close>)

lemma reachable_options:
  assumes "server_reachable env (fresh_serving heap opts) v"
  shows "options_from opts (sv_server v)"
  using assms
proof (induction rule: server_reachable.induct)
  case initial
  show ?case by (simp add: options_from_def fresh_serving_def NewServer_def)
next
  case (step v' v'')
  then show ?case by (blast intro: step_options_from)
qed

text \<open>
  Property C25. Whatever registrations, cancellations and sections of \<open>Start\<close> happened and in whatever
  order, a server that its health check calls started did set up its TLS listener: on its defaulted
  options the certificates were found, the client CA (when one is configured) was loaded and client
  certificates are demanded, and the port was bound; its options are complete.
\<close>

theorem started_server_listens:
  assumes "server_reachable env (fresh_serving heap opts) v"
    and "case so_WebhookMux opts of None \<Rightarrow> True | Some i \<Rightarrow> mh_mux heap i = []"
    and "StartedChecker (sv_server v) = None"
  shows "\<exists>cfg. start_listen env (ds_Options (sv_server v)) = Inr cfg
    \<and> tls_GetCertificate cfg \<noteq> None
    \<and> (so_ClientCAName (ds_Options (sv_server v)) = []
        \<or> tls_ClientAuth cfg = RequireAndVerifyClientCert \<and> tls_ClientCAs cfg \<noteq> None)
    \<and> valid_options (ds_Options (sv_server v))"
proof -
  have inv: "serving_inv env v" by (rule reachable_inv [OF assms(1) fresh_serving_inv [OF assms(2)]])
  moreover have "ds_started (sv_server v)"
    using assms(3) by (simp add: StartedChecker_def split: if_splits)
  ultimately obtain cfg where "start_listen env (ds_Options (sv_server v)) = Inr cfg"
    "registry_inv (sv_heap v, sv_server v)" "ds_defaulted (sv_server v)"
    by (auto simp: serving_inv_def)
  with start_listen_Inr show ?thesis
    by (force simp: registry_inv_def split: option.splits)
qed

definition sample_env :: start_env where
  "sample_env = \<lparr>se_TempDir = ''/tmp'', se_new_certwatcher = (\<lambda>c k. None),
     se_ReadFile = (\<lambda>f. Inr [1]), se_AppendCertsFromPEM = (\<lambda>b. True), se_Listen = (\<lambda>a c. None)\<rparr>"

lemma sample_env_simps [simp]:
  "se_new_certwatcher sample_env c k = None" "se_ReadFile sample_env f = Inr [1]"
  "se_AppendCertsFromPEM sample_env b" "se_Listen sample_env a cfg = None"
  by (simp_all add: sample_env_def)

lemma sample_listens: "\<exists>cfg. start_listen sample_env opts = Inr cfg"
  by (simp add: start_listen_def start_certificate_def start_client_ca_def Let_def)

text \<open>A server that was started, then cancelled and shut down.\<close>

definition sample_serving :: "nat serving" where
  "sample_serving = fresh_serving empty_heap sample_server_options"

lemma sample_start:
  "\<exists>v. server_reachable sample_env sample_serving v
    \<and> sv_phase v = Returned None \<and> ds_started (sv_server v)"
proof -
  let ?v0 = sample_serving
  obtain heap' s' where once: "defaulting_once (se_TempDir sample_env) (sv_heap ?v0) (sv_server ?v0)
      = (heap', s')" by fastforce
  obtain cfg where cfg: "start_listen sample_env (ds_Options s') = Inr cfg"
    using sample_listens by blast
  have idle: "sv_phase ?v0 = Idle" by (simp add: sample_serving_def fresh_serving_def)
  note run = server_reachable.step [OF server_reachable.initial start_listening [OF idle once cfg]]
  note run = server_reachable.step [OF run set_started, simplified]
  note run = server_reachable.step [OF run cancel]
  note run = server_reachable.step [OF run shut_down, simplified]
  note run = server_reachable.step [OF run serve_closed, simplified]
  note run = server_reachable.step [OF run drained, simplified]
  show ?thesis by (intro exI conjI) (rule run, simp_all)
qed

lemma sample_mux: "case so_WebhookMux sample_server_options of None \<Rightarrow> True | Some i \<Rightarrow> mh_mux h i = []"
  by (simp add: sample_server_options_def)

lemma started_server_listens_witness:
  "\<exists>v cfg. server_reachable sample_env sample_serving v
    \<and> start_listen sample_env (ds_Options (sv_server v)) = Inr cfg \<and> tls_GetCertificate cfg \<noteq> None"
proof -
  obtain v where v: "server_reachable sample_env sample_serving v" "ds_started (sv_server v)"
    using sample_start by blast
  then have "StartedChecker (sv_server v) = None" by (simp add: StartedChecker_def)
  from started_server_listens [OF v(1) [unfolded sample_serving_def] sample_mux this] v(1)
  show ?thesis by blast
qed

text \<open>
  \<open>Start\<close> returns without an error only after its context was cancelled and the
  shutdown goroutine had closed the idle connections, and only if the server had been started; an
  error before the listener is there leaves the health check failing.
\<close>

theorem Start_returns_nil_after_shutdown:
  assumes "server_reachable env (fresh_serving heap opts) v"
    and "case so_WebhookMux opts of None \<Rightarrow> True | Some i \<Rightarrow> mh_mux heap i = []"
    and "sv_phase v = Returned None"
  shows "sv_cancelled v \<and> sv_idleConnsClosed v \<and> StartedChecker (sv_server v) = None"
  using reachable_inv [OF assms(1) fresh_serving_inv [OF assms(2)]] assms(3)
  by (simp add: serving_inv_def phase_ok_def StartedChecker_def)

lemma Start_returns_nil_after_shutdown_witness:
  "\<exists>v. server_reachable sample_env sample_serving v \<and> sv_phase v = Returned None \<and> sv_idleConnsClosed v"
proof -
  obtain v where v: "server_reachable sample_env sample_serving v" "sv_phase v = Returned None"
    using sample_start by blast
  from Start_returns_nil_after_shutdown [OF v(1) [unfolded sample_serving_def] sample_mux v(2)] v
  show ?thesis by blast
qed

lemma reachable_trans:
  assumes "server_reachable env b c" "server_reachable env a b"
  shows "server_reachable env a c"
  using assms by (induction rule: server_reachable.induct) (auto intro: server_reachable.step)

lemma one_step: "server_step env v v' \<Longrightarrow> server_reachable env v v'"
  by (rule server_reachable.step [OF server_reachable.initial])

definition can_return :: "start_env \<Rightarrow> 'h serving \<Rightarrow> bool" where
  "can_return env v \<longleftrightarrow> (\<exists>v'. server_reachable env v v' \<and> sv_phase v' = Returned None)"

lemma can_return_step: "server_step env v v' \<Longrightarrow> can_return env v' \<Longrightarrow> can_return env v"
  unfolding can_return_def using reachable_trans [OF _ one_step] by blast

lemma drained_returns:
  assumes "sv_phase v = Draining"
  shows "can_return env v"
proof -
  let ?c = "v\<lparr>sv_cancelled := True\<rparr>"
  let ?s = "?c\<lparr>sv_idleConnsClosed := True\<rparr>"
  have "server_step env ?s (?s\<lparr>sv_phase := Returned None\<rparr>)"
    by (rule drained) (simp_all add: assms)
  then have "can_return env ?s"
    by (rule can_return_step) (auto simp: can_return_def intro: server_reachable.initial)
  moreover have "server_step env ?c ?s" by (rule shut_down) (simp_all add: assms)
  ultimately have "can_return env ?c" by (blast intro: can_return_step)
  with cancel show ?thesis by (blast intro: can_return_step)
qed

lemma serving_returns:
  assumes "sv_phase v = Serving cfg srv"
  shows "can_return env v"
proof -
  let ?c = "v\<lparr>sv_cancelled := True\<rparr>"
  have "server_step env ?c (?c\<lparr>sv_phase := Draining\<rparr>)"
    by (rule serve_closed) (simp_all add: assms)
  then have "can_return env ?c"
    by (rule can_return_step) (simp add: drained_returns)
  with cancel show ?thesis by (blast intro: can_return_step)
qed

lemma listening_returns:
  assumes "sv_phase v = Listening cfg srv"
  shows "can_return env v"
  by (rule can_return_step [OF set_started [OF assms]]) (simp add: serving_returns)

text \<open>
  A server whose listener is up can always be shut down: from every state in which
  \<open>Start\<close> listens, serves or drains, it can still return without an error.
\<close>

theorem Start_can_shut_down:
  assumes "spawned (sv_phase v)"
  shows "\<exists>v'. server_reachable env v v' \<and> sv_phase v' = Returned None"
  using assms drained_returns [of v env] serving_returns [of v _ _ env] listening_returns [of v _ _ env]
  unfolding can_return_def by (cases "sv_phase v") auto

lemma Start_can_shut_down_witness:
  "\<exists>v'. server_reachable sample_env (sample_serving\<lparr>sv_phase := Draining\<rparr>) v' \<and> sv_phase v' = Returned None"
  by (rule Start_can_shut_down) simp

end
