(* ===== verification/Go_Time.thy ===== *)
theory Go_Time
  imports Go_Text
begin

text \<open>
  Durations as Go's package \<open>time\<close> reads and prints them: \<open>ParseDuration\<close>, with its overflow checks
  and its floating-point treatment of fractions, and \<open>Duration.String\<close>. A duration is an integer of
  nanoseconds in the range of \<open>int64\<close>; the parser's \<open>uint64\<close> values are natural numbers, with the
  wrap-around written where the checks of the code leave one.
\<close>

section \<open>Double-precision arithmetic on non-negative numbers\<close>

text \<open>
  A double is a numerator and a denominator. \<open>double_of_ratio n d\<close> rounds \<open>n / d\<close> to 53 significant
  bits, ties to even. The exponent is not limited: the only doubles of the parser that can leave the
  range are scales beyond \<open>2 ^ 1023\<close>, and the fraction they scale is then truncated to 0 either way.
\<close>

fun bit_length :: "nat \<Rightarrow> nat" where
  "bit_length n = (if n = 0 then 0 else Suc (bit_length (n div 2)))"

declare bit_length.simps [simp del]

definition round_ratio :: "nat \<Rightarrow> nat \<Rightarrow> nat" where
  "round_ratio a b =
     (let q = a div b; r = a mod b
      in if b < 2 * r \<or> 2 * r = b \<and> odd q then q + 1 else q)"

definition double_of_ratio :: "nat \<Rightarrow> nat \<Rightarrow> nat \<times> nat" where
  "double_of_ratio n d =
     (let up = 53 + bit_length d - bit_length n;
          down = bit_length n - (53 + bit_length d);
          a = n * 2 ^ up; b = d * 2 ^ down
      in if a < b * 2 ^ 53 then (round_ratio a b * 2 ^ down, 2 ^ up)
         else if up = 0 then (round_ratio a (2 * b) * 2 ^ Suc down, 1)
         else (round_ratio a (2 * b), 2 ^ (up - 1)))"

text \<open>\<open>uint64(float64(f) * (float64(unit) / scale))\<close>.\<close>

definition fraction_ns :: "nat \<Rightarrow> nat \<Rightarrow> nat \<Rightarrow> nat" where
  "fraction_ns f unit scale =
     (case (double_of_ratio f 1, double_of_ratio unit scale) of
        ((f1, f2), (g1, g2)) \<Rightarrow>
          (case double_of_ratio (f1 * g1) (f2 * g2) of (h1, h2) \<Rightarrow> h1 div h2))"

lemma round_ratio_exact: "0 < b \<Longrightarrow> b dvd a \<Longrightarrow> round_ratio a b * b = a"
  by (auto simp: round_ratio_def Let_def)

lemma bit_length_0 [simp]: "bit_length 0 = 0"
  by (simp add: bit_length.simps)

lemma bit_length_pos: "0 < n \<Longrightarrow> bit_length n = Suc (bit_length (n div 2))"
  by (subst bit_length.simps) simp

lemma bit_length_less: "n < 2 ^ bit_length n"
proof (induction n rule: bit_length.induct)
  case (1 n)
  then show ?case by (cases "n = 0") (auto simp: bit_length_pos)
qed

lemma bit_length_ge: "0 < n \<Longrightarrow> 2 ^ bit_length n \<le> 2 * n"
proof (induction n rule: bit_length.induct)
  case (1 n)
  show ?case
  proof (cases "n = 1")
    case True
    then show ?thesis by (simp add: bit_length_pos)
  next
    case False
    with 1 have "(2::nat) ^ bit_length (n div 2) \<le> 2 * (n div 2)" by simp
    with 1(2) show ?thesis by (simp add: bit_length_pos)
  qed
qed

text \<open>An integer quotient below \<open>2 ^ 53\<close> is a double.\<close>

lemma double_exact:
  assumes "0 < d" "c < 2 ^ 53" "double_of_ratio (c * d) d = (p, q)"
  shows "p = c * q \<and> 0 < q"
proof (cases "c = 0")
  case True
  then show ?thesis using assms
    by (auto simp: double_of_ratio_def round_ratio_def Let_def split: if_splits)
next
  case False
  have "2 ^ bit_length (c * d) \<le> 2 * (c * d)" using bit_length_ge [of "c * d"] False assms(1) by simp
  also have "\<dots> < 2 * (2 ^ 53 * 2 ^ bit_length d)"
    using mult_strict_mono [OF assms(2) bit_length_less [of d]] by simp
  finally have "(2::nat) ^ bit_length (c * d) < 2 ^ (54 + bit_length d)" by (simp add: power_add)
  then have down: "bit_length (c * d) - (53 + bit_length d) = 0"
    by (simp add: power_strict_increasing_iff)
  define up where "up = 53 + bit_length d - bit_length (c * d)"
  have exact: "round_ratio (c * d * 2 ^ up) d = c * 2 ^ up"
    using round_ratio_exact [of d "c * d * 2 ^ up"] assms(1) by (simp add: mult.commute mult.left_commute)
  show ?thesis
  proof (cases "c * d * 2 ^ up < d * 2 ^ 53")
    case True
    then show ?thesis
      using assms(3) by (auto simp: double_of_ratio_def down up_def [symmetric] exact Let_def)
  next
    case False
    have "up \<noteq> 0"
    proof
      assume "up = 0"
      with assms(1,2) have "c * d * 2 ^ up < d * 2 ^ 53" by (simp add: mult.commute [of c d])
      with False show False by simp
    qed
    then obtain k where k: "up = Suc k" by (cases up) auto
    have "round_ratio (c * d * 2 ^ up) (2 * d) = c * 2 ^ k"
      using round_ratio_exact [of "2 * d" "c * d * 2 ^ up"] assms(1) k
      by (auto simp: mult.commute mult.left_commute)
    then show ?thesis
      using assms(3) False k by (auto simp: double_of_ratio_def down up_def [symmetric] Let_def)
  qed
qed

lemma fraction_exact:
  assumes "0 < scale" "scale dvd unit" "f * (unit div scale) < 2 ^ 53" "0 < unit"
  shows "fraction_ns f unit scale = f * (unit div scale)"
proof -
  let ?c = "unit div scale"
  have c: "unit = ?c * scale" "0 < ?c" using assms by (auto simp: dvd_div_eq_0_iff)
  obtain f1 f2 g1 g2 h1 h2 where d: "double_of_ratio f 1 = (f1, f2)"
    "double_of_ratio unit scale = (g1, g2)" "double_of_ratio (f1 * g1) (f2 * g2) = (h1, h2)"
    by (metis surj_pair)
  show ?thesis
  proof (cases "f = 0")
    case True
    then have "f1 = 0" using d(1) double_exact [of 1 0 f1 f2] by simp
    then show ?thesis using d True double_exact [of "f2 * g2" 0 h1 h2]
      by (cases "f2 * g2 = 0") (auto simp: fraction_ns_def double_of_ratio_def round_ratio_def Let_def)
  next
    case False
    have "f \<le> f * ?c" "?c \<le> f * ?c" using c(2) False by simp_all
    then have small: "f < 2 ^ 53" "?c < 2 ^ 53" using assms(3) by linarith+
    have 1: "f1 = f * f2" "0 < f2" using double_exact [of 1 f f1 f2] d(1) small by auto
    have 2: "g1 = ?c * g2" "0 < g2"
      using double_exact [of scale ?c g1 g2] d(2) small c(1) assms(1) by auto
    have "double_of_ratio (f * ?c * (f2 * g2)) (f2 * g2) = (h1, h2)"
      using d(3) by (simp add: 1(1) 2(1) ac_simps)
    with double_exact [of "f2 * g2" "f * ?c" h1 h2] 1(2) 2(2) assms(3)
    have "h1 = f * ?c * h2" "0 < h2" by auto
    then show ?thesis unfolding fraction_ns_def d(1,2) prod.case d(3) by simp
  qed
qed

section \<open>Reading a duration\<close>

definition is_digit :: "char \<Rightarrow> bool" where
  "is_digit c \<longleftrightarrow> (48::nat) \<le> of_char c \<and> of_char c \<le> (57::nat)"

text \<open>The loop of \<open>leadingInt\<close>: \<open>None\<close> is its overflow error.\<close>

fun leadingInt :: "nat \<Rightarrow> string \<Rightarrow> (nat \<times> string) option" where
  "leadingInt x [] = Some (x, [])"
| "leadingInt x (c # s) =
     (if \<not> is_digit c then Some (x, c # s)
      else if x > 2 ^ 63 div 10 then None
      else let x' = x * 10 + digit_value c
           in if x' > 2 ^ 63 then None else leadingInt x' s)"

text \<open>The loop of \<open>leadingFraction\<close>; \<open>scale\<close> is a double that is a natural number.\<close>

definition times_10 :: "nat \<Rightarrow> nat" where
  "times_10 scale = (case double_of_ratio (scale * 10) 1 of (p, q) \<Rightarrow> p div q)"

fun leadingFraction :: "nat \<Rightarrow> nat \<Rightarrow> bool \<Rightarrow> string \<Rightarrow> nat \<times> nat \<times> string" where
  "leadingFraction x scale overflow [] = (x, scale, [])"
| "leadingFraction x scale overflow (c # s) =
     (if \<not> is_digit c then (x, scale, c # s)
      else if overflow then leadingFraction x scale overflow s
      else if x > (2 ^ 63 - 1) div 10 then leadingFraction x scale True s
      else let y = x * 10 + digit_value c
           in if y > 2 ^ 63 then leadingFraction x scale True s
              else leadingFraction y (times_10 scale) overflow s)"

definition unitMap :: "(string \<times> nat) list" where
  "unitMap =
     [(''ns'', 1), (''us'', 1000), ([CHR 0xC2, CHR 0xB5, CHR ''s''], 1000),
      ([CHR 0xCE, CHR 0xBC, CHR ''s''], 1000), (''ms'', 1000000), (''s'', 1000000000),
      (''m'', 60000000000), (''h'', 3600000000000)]"

text \<open>\<open>quote\<close>: bytes outside printable ASCII are escaped one by one.\<close>

definition hex_digit :: "nat \<Rightarrow> char" where
  "hex_digit n = ''0123456789abcdef'' ! n"

definition quote_char :: "char \<Rightarrow> string" where
  "quote_char c =
     (let n = of_char c :: nat
      in if 128 \<le> n \<or> n < 32
         then [CHR 0x5C, CHR ''x'', hex_digit (n div 16), hex_digit (n mod 16)]
         else if c = CHR 0x22 \<or> c = CHR 0x5C then [CHR 0x5C, c] else [c])"

definition quote :: "string \<Rightarrow> string" where
  "quote s = CHR 0x22 # concat (map quote_char s) @ [CHR 0x22]"

definition invalid_duration :: "string \<Rightarrow> gerror" where
  "invalid_duration orig = ErrorString (''time: invalid duration '' @ quote orig)"

text \<open>One round of the loop of \<open>ParseDuration\<close>: the nanoseconds of one term and the rest.\<close>

definition parse_fraction :: "string \<Rightarrow> nat \<times> nat \<times> bool \<times> string" where
  "parse_fraction s =
     (case s of
        [] \<Rightarrow> (0, 1, False, s)
      | c # s' \<Rightarrow>
          if c = CHR ''.''
          then (case leadingFraction 0 1 False s' of
                  (f, scale, r) \<Rightarrow> (f, scale, length s' \<noteq> length r, r))
          else (0, 1, False, s))"

definition unit_end :: "char \<Rightarrow> bool" where
  "unit_end c \<longleftrightarrow> c = CHR ''.'' \<or> is_digit c"

definition term_value :: "string \<Rightarrow> nat \<Rightarrow> nat \<Rightarrow> nat \<Rightarrow> nat \<Rightarrow> gerror + nat" where
  "term_value orig v f scale unit =
     (if v > 2 ^ 63 div unit then Inl (invalid_duration orig)
      else let v' = v * unit
           in if f > 0
              then (let v'' = v' + fraction_ns f unit scale
                    in if v'' > 2 ^ 63 then Inl (invalid_duration orig) else Inr v'')
              else Inr v')"

definition parse_unit :: "string \<Rightarrow> string \<Rightarrow> gerror + (nat \<times> string)" where
  "parse_unit orig s =
     (let u = takeWhile (\<lambda>c. \<not> unit_end c) s; r = dropWhile (\<lambda>c. \<not> unit_end c) s
      in if u = [] then Inl (ErrorString (''time: missing unit in duration '' @ quote orig))
         else (case map_of unitMap u of
                 None \<Rightarrow> Inl (ErrorString (''time: unknown unit '' @ quote u @ '' in duration '' @ quote orig))
               | Some unit \<Rightarrow> Inr (unit, r)))"

definition parse_term :: "string \<Rightarrow> string \<Rightarrow> gerror + (nat \<times> string)" where
  "parse_term orig s =
     (if s = [] \<or> \<not> unit_end (hd s) then Inl (invalid_duration orig)
      else (case leadingInt 0 s of
              None \<Rightarrow> Inl (invalid_duration orig)
            | Some (v, s1) \<Rightarrow>
                (case parse_fraction s1 of
                   (f, scale, post, s2) \<Rightarrow>
                     if \<not> (length s \<noteq> length s1) \<and> \<not> post then Inl (invalid_duration orig)
                     else (case parse_unit orig s2 of
                             Inl err \<Rightarrow> Inl err
                           | Inr (unit, s3) \<Rightarrow>
                               (case term_value orig v f scale unit of
                                  Inl err \<Rightarrow> Inl err
                                | Inr v' \<Rightarrow> Inr (v', s3))))))"

lemma leadingInt_rest: "leadingInt x s = Some (v, r) \<Longrightarrow> length r \<le> length s"
  by (induction x s rule: leadingInt.induct) (auto simp: Let_def split: if_splits)

lemma leadingFraction_rest: "leadingFraction x sc ov s = (v, sc', r) \<Longrightarrow> length r \<le> length s"
  by (induction x sc ov s rule: leadingFraction.induct) (force simp: Let_def split: if_splits)+

lemma parse_fraction_rest: "parse_fraction s = (f, sc, post, r) \<Longrightarrow> length r \<le> length s"
  by (auto simp: parse_fraction_def split: list.splits if_splits prod.splits
      dest!: leadingFraction_rest)

lemma parse_unit_rest: "parse_unit orig s = Inr (u, r) \<Longrightarrow> length r < length s"
proof -
  assume a: "parse_unit orig s = Inr (u, r)"
  then have "takeWhile (\<lambda>c. \<not> unit_end c) s \<noteq> []" "r = dropWhile (\<lambda>c. \<not> unit_end c) s"
    by (auto simp: parse_unit_def Let_def split: if_splits option.splits)
  moreover have "length s = length (takeWhile (\<lambda>c. \<not> unit_end c) s)
      + length (dropWhile (\<lambda>c. \<not> unit_end c) s)"
    by (simp flip: length_append)
  ultimately show ?thesis by simp
qed

lemma parse_term_rest: "parse_term orig s = Inr (v, r) \<Longrightarrow> length r < length s"
  by (auto simp: parse_term_def split: if_splits option.splits prod.splits sum.splits
      dest!: leadingInt_rest parse_fraction_rest parse_unit_rest)

text \<open>The loop: each round consumes input.\<close>

function parse_terms :: "string \<Rightarrow> nat \<Rightarrow> string \<Rightarrow> gerror + nat" where
  "parse_terms orig d s =
     (if s = [] then Inr d
      else (case parse_term orig s of
              Inl err \<Rightarrow> Inl err
            | Inr (v, r) \<Rightarrow>
                let d' = (d + v) mod 2 ^ 64
                in if d' > 2 ^ 63 then Inl (invalid_duration orig) else parse_terms orig d' r))"
  by pat_completeness auto
termination
  by (relation "measure (\<lambda>(orig, d, s). length s)") (auto dest: parse_term_rest)

declare parse_terms.simps [simp del]

definition parse_unsigned :: "bool \<Rightarrow> string \<Rightarrow> string \<Rightarrow> gerror + int" where
  "parse_unsigned neg orig s =
     (if s = ''0'' then Inr 0
      else if s = [] then Inl (invalid_duration orig)
      else (case parse_terms orig 0 s of
              Inl err \<Rightarrow> Inl err
            | Inr d \<Rightarrow>
                if neg then Inr (- int d)
                else if d > 2 ^ 63 - 1 then Inl (invalid_duration orig) else Inr (int d)))"

definition ParseDuration :: "string \<Rightarrow> gerror + int" where
  "ParseDuration s =
     (case s of
        [] \<Rightarrow> parse_unsigned False s s
      | c # s' \<Rightarrow>
          if c = CHR ''-'' \<or> c = CHR ''+'' then parse_unsigned (c = CHR ''-'') s s'
          else parse_unsigned False s s)"

section \<open>Printing a duration\<close>

text \<open>
  The buffer is filled from its end, so a step puts its bytes in front of what is there.
  \<open>fmtFrac\<close> prints the last \<open>prec\<close> digits of \<open>v\<close> without trailing zeros.
\<close>

fun fmtFrac_loop :: "nat \<Rightarrow> bool \<Rightarrow> string \<Rightarrow> nat \<Rightarrow> bool \<times> string \<times> nat" where
  "fmtFrac_loop 0 printing buf v = (printing, buf, v)"
| "fmtFrac_loop (Suc prec) printing buf v =
     (let digit = v mod 10; printing' = (printing \<or> digit \<noteq> 0)
      in fmtFrac_loop prec printing' (if printing' then digit_char digit # buf else buf) (v div 10))"

definition fmtFrac :: "string \<Rightarrow> nat \<Rightarrow> nat \<Rightarrow> string \<times> nat" where
  "fmtFrac buf v prec =
     (case fmtFrac_loop prec False buf v of
        (printing, buf', v') \<Rightarrow> (if printing then CHR ''.'' # buf' else buf', v'))"

definition fmtInt :: "string \<Rightarrow> nat \<Rightarrow> string" where
  "fmtInt buf v = show_nat v @ buf"

definition format_small :: "nat \<Rightarrow> string" where
  "format_small u =
     (if u = 0 then ''0s''
      else if u < 1000 then (case fmtFrac ''ns'' u 0 of (buf, u') \<Rightarrow> fmtInt buf u')
      else if u < 1000000
        then (case fmtFrac [CHR 0xC2, CHR 0xB5, CHR ''s''] u 3 of (buf, u') \<Rightarrow> fmtInt buf u')
      else (case fmtFrac ''ms'' u 6 of (buf, u') \<Rightarrow> fmtInt buf u'))"

definition format_large :: "nat \<Rightarrow> string" where
  "format_large u =
     (case fmtFrac ''s'' u 9 of
        (buf, secs) \<Rightarrow>
          let buf = fmtInt buf (secs mod 60); mins = secs div 60
          in if mins > 0
             then let buf = fmtInt (CHR ''m'' # buf) (mins mod 60); hours = mins div 60
                  in if hours > 0 then fmtInt (CHR ''h'' # buf) hours else buf
             else buf)"

definition Duration_String :: "int \<Rightarrow> string" where
  "Duration_String d =
     (let neg = d < 0; u = nat (abs d);
          buf = (if u < 1000000000 then format_small u else format_large u)
      in if neg then CHR ''-'' # buf else buf)"

end
