(* ===== verification/Go_Json.thy ===== *)
theory Go_Json
  imports Go_Time
begin

text \<open>
  \<open>encoding/json\<close> as the repository uses it: the scanner of \<open>scanner.go\<close> as a pushdown automaton that
  takes one byte at a time and keeps the values it has completed, \<open>Decoder.Decode\<close> and \<open>Unmarshal\<close> as
  two ways to run it, the strings with their escapes and their repaired UTF-8, and the printing of a
  string.
\<close>

section \<open>Bytes of a text\<close>

abbreviation byte_val :: "char \<Rightarrow> nat" where
  "byte_val c \<equiv> of_char c"

definition isSpace :: "char \<Rightarrow> bool" where
  "isSpace c \<longleftrightarrow> c = CHR '' '' \<or> c = CHR 0x09 \<or> c = CHR 0x0D \<or> c = CHR 0x0A"

definition hex_value :: "char \<Rightarrow> nat option" where
  "hex_value c =
     (let n = byte_val c
      in if 48 \<le> n \<and> n \<le> 57 then Some (n - 48)
         else if 97 \<le> n \<and> n \<le> 102 then Some (n - 87)
         else if 65 \<le> n \<and> n \<le> 70 then Some (n - 55) else None)"

text \<open>
  \<open>utf8.DecodeRune\<close>: the width of the rune at the head of a text, if it is well-formed. The first byte
  gives the width and the range of the second byte; the others are continuation bytes.
\<close>

definition rune_shape :: "nat \<Rightarrow> (nat \<times> nat \<times> nat) option" where
  "rune_shape b =
     (if b < 0x80 then Some (1, 0, 0xFF)
      else if b < 0xC2 then None
      else if b \<le> 0xDF then Some (2, 0x80, 0xBF)
      else if b \<le> 0xEF
        then Some (3, if b = 0xE0 then 0xA0 else 0x80, if b = 0xED then 0x9F else 0xBF)
      else if b \<le> 0xF4
        then Some (4, if b = 0xF0 then 0x90 else 0x80, if b = 0xF4 then 0x8F else 0xBF)
      else None)"

definition byte_in :: "nat \<Rightarrow> nat \<Rightarrow> char \<Rightarrow> bool" where
  "byte_in lo hi c \<longleftrightarrow> lo \<le> byte_val c \<and> byte_val c \<le> hi"

definition rune_width :: "string \<Rightarrow> nat option" where
  "rune_width s =
     (case s of
        [] \<Rightarrow> None
      | c # r \<Rightarrow>
          (case rune_shape (byte_val c) of
             None \<Rightarrow> None
           | Some (n, lo, hi) \<Rightarrow>
               if length r < n - 1 then None
               else (case take (n - 1) r of
                       [] \<Rightarrow> Some n
                     | c1 # cs \<Rightarrow>
                         if byte_in lo hi c1 \<and> list_all (byte_in 0x80 0xBF) cs then Some n else None)))"

definition utf8_encode :: "nat \<Rightarrow> string" where
  "utf8_encode r =
     (if r < 0x80 then [char_of r]
      else if r < 0x800 then [char_of (0xC0 + r div 64), char_of (0x80 + r mod 64)]
      else if r < 0x10000
        then [char_of (0xE0 + r div 4096), char_of (0x80 + r div 64 mod 64), char_of (0x80 + r mod 64)]
      else [char_of (0xF0 + r div 262144), char_of (0x80 + r div 4096 mod 64),
            char_of (0x80 + r div 64 mod 64), char_of (0x80 + r mod 64)])"

definition replacement_char :: string where
  "replacement_char = [CHR 0xEF, CHR 0xBF, CHR 0xBD]"

section \<open>Strings\<close>

text \<open>\<open>getu4\<close>: the code unit that \<open>\uXXXX\<close> at the head of a text denotes.\<close>

definition getu4 :: "string \<Rightarrow> nat option" where
  "getu4 s =
     (case s of
        a # u # h1 # h2 # h3 # h4 # _ \<Rightarrow>
          if a = CHR 0x5C \<and> u = CHR ''u''
          then (case (hex_value h1, hex_value h2, hex_value h3, hex_value h4) of
                  (Some d1, Some d2, Some d3, Some d4) \<Rightarrow>
                    Some (((d1 * 16 + d2) * 16 + d3) * 16 + d4)
                | _ \<Rightarrow> None)
          else None
      | _ \<Rightarrow> None)"

definition surrogate_pair :: "nat \<Rightarrow> nat \<Rightarrow> nat option" where
  "surrogate_pair r1 r2 =
     (if 0xD800 \<le> r1 \<and> r1 < 0xDC00 \<and> 0xDC00 \<le> r2 \<and> r2 < 0xE000
      then Some ((r1 - 0xD800) * 1024 + (r2 - 0xDC00) + 0x10000) else None)"

definition unescape :: "char \<Rightarrow> char" where
  "unescape c =
     (if c = CHR ''b'' then CHR 0x08 else if c = CHR ''f'' then CHR 0x0C
      else if c = CHR ''n'' then CHR 0x0A else if c = CHR ''r'' then CHR 0x0D
      else if c = CHR ''t'' then CHR 0x09 else c)"

text \<open>
  \<open>unquoteBytes\<close> on the bytes between the quotes, as the scanner lets them through: \<open>unquote_escape\<close>
  is what an escape at the head denotes and how many bytes it takes.
\<close>

definition unquote_escape :: "string \<Rightarrow> string \<times> nat" where
  "unquote_escape s =
     (case getu4 s of
        None \<Rightarrow> ([unescape (hd (tl s))], 2)
      | Some rr \<Rightarrow>
          if 0xD800 \<le> rr \<and> rr < 0xE000
          then (case Option.bind (getu4 (drop 6 s)) (surrogate_pair rr) of
                  Some r \<Rightarrow> (utf8_encode r, 12)
                | None \<Rightarrow> (replacement_char, 6))
          else (utf8_encode rr, 6))"

function unquote :: "string \<Rightarrow> string" where
  "unquote [] = []"
| "unquote (c # s) =
     (if c = CHR 0x5C
      then (case unquote_escape (c # s) of (t, n) \<Rightarrow> t @ unquote (drop (n - 1) s))
      else if byte_val c < 0x80 then c # unquote s
      else (case rune_width (c # s) of
              Some n \<Rightarrow> c # take (n - 1) s @ unquote (drop (n - 1) s)
            | None \<Rightarrow> replacement_char @ unquote s))"
  by pat_completeness auto
termination by (relation "measure length") auto

section \<open>The scanner\<close>

datatype json =
    JNull
  | JBool bool
  | JNumber string
  | JString string
  | JArray "json list"
  | JObject "(string \<times> json) list"

text \<open>
  The parse states of the enclosing values, each with what it holds so far, the last one first; then
  the step functions of the scanner, with the bytes of the token they are in, the last one first.
\<close>

datatype parse_state =
    ParseObjectKey "(string \<times> json) list"
  | ParseObjectValue "(string \<times> json) list" string
  | ParseArrayValue "json list"

datatype number_state = Neg | Zero | Digits | Dot | DotDigits | Exp | ExpSign | ExpDigits

datatype scan_step =
    BeginValueOrEmpty
  | BeginValue
  | BeginStringOrEmpty
  | BeginString
  | EndValue json
  | InString string
  | InStringEsc string
  | InStringEscU nat string
  | InNumber number_state string
  | InLiteral string string json

text \<open>
  One byte either keeps the scanner going, completes the top-level value with this byte, shows that
  it was complete before this byte, or is an error.
\<close>

datatype scan_result =
    Scanning scan_step "parse_state list"
  | Complete json
  | CompleteBefore json
  | ScanError gerror

definition quoted_rune :: "nat \<Rightarrow> string" where
  "quoted_rune r =
     (if r = 0x5C then [CHR 0x5C, CHR 0x5C]
      else if 0x20 \<le> r \<and> r < 0x7F \<or> 0xA1 \<le> r \<and> r \<noteq> 0xAD then utf8_encode r
      else CHR 0x5C #
        (if r = 7 then ''a'' else if r = 8 then ''b'' else if r = 12 then ''f''
         else if r = 10 then ''n'' else if r = 13 then ''r'' else if r = 9 then ''t''
         else if r = 11 then ''v''
         else let hex = [hex_digit (r div 16), hex_digit (r mod 16)]
              in if r < 0x80 then CHR ''x'' # hex else ''u00'' @ hex))"

definition quoteChar :: "char \<Rightarrow> string" where
  "quoteChar c =
     (if c = CHR 0x27 then [CHR 0x27, CHR 0x5C, CHR 0x27, CHR 0x27]
      else if c = CHR 0x22 then [CHR 0x27, CHR 0x22, CHR 0x27]
      else CHR 0x27 # quoted_rune (byte_val c) @ [CHR 0x27])"

definition SyntaxError :: "char \<Rightarrow> string \<Rightarrow> gerror" where
  "SyntaxError c context = ErrorString (''invalid character '' @ quoteChar c @ '' '' @ context)"

definition pushParseState ::
  "char \<Rightarrow> parse_state \<Rightarrow> scan_step \<Rightarrow> parse_state list \<Rightarrow> scan_result" where
  "pushParseState c p step ps =
     (if length ps < 10000 then Scanning step (p # ps)
      else ScanError (SyntaxError c ''exceeded max depth''))"

definition popParseState :: "parse_state list \<Rightarrow> json \<Rightarrow> scan_result" where
  "popParseState ps v = (if ps = [] then Complete v else Scanning (EndValue v) ps)"

definition key_text :: "json \<Rightarrow> string" where
  "key_text v = (case v of JString k \<Rightarrow> k | _ \<Rightarrow> [])"

fun stateEndValue :: "json \<Rightarrow> parse_state list \<Rightarrow> char \<Rightarrow> scan_result" where
  "stateEndValue v [] c = CompleteBefore v"
| "stateEndValue v (p # ps) c =
     (if isSpace c then Scanning (EndValue v) (p # ps)
      else case p of
        ParseObjectKey ms \<Rightarrow>
          if c = CHR '':'' then Scanning BeginValue (ParseObjectValue ms (key_text v) # ps)
          else ScanError (SyntaxError c ''after object key'')
      | ParseObjectValue ms k \<Rightarrow>
          if c = CHR '','' then Scanning BeginString (ParseObjectKey ((k, v) # ms) # ps)
          else if c = CHR ''}'' then popParseState ps (JObject (rev ((k, v) # ms)))
          else ScanError (SyntaxError c ''after object key:value pair'')
      | ParseArrayValue vs \<Rightarrow>
          if c = CHR '','' then Scanning BeginValue (ParseArrayValue (v # vs) # ps)
          else if c = CHR '']'' then popParseState ps (JArray (rev (v # vs)))
          else ScanError (SyntaxError c ''after array element''))"

definition stateBeginValue :: "parse_state list \<Rightarrow> char \<Rightarrow> scan_result" where
  "stateBeginValue ps c =
     (if isSpace c then Scanning BeginValue ps
      else if c = CHR ''{'' then pushParseState c (ParseObjectKey []) BeginStringOrEmpty ps
      else if c = CHR ''['' then pushParseState c (ParseArrayValue []) BeginValueOrEmpty ps
      else if c = CHR 0x22 then Scanning (InString []) ps
      else if c = CHR ''-'' then Scanning (InNumber Neg [c]) ps
      else if c = CHR ''0'' then Scanning (InNumber Zero [c]) ps
      else if c = CHR ''t'' then Scanning (InLiteral ''true'' ''rue'' (JBool True)) ps
      else if c = CHR ''f'' then Scanning (InLiteral ''false'' ''alse'' (JBool False)) ps
      else if c = CHR ''n'' then Scanning (InLiteral ''null'' ''ull'' JNull) ps
      else if is_digit c then Scanning (InNumber Digits [c]) ps
      else ScanError (SyntaxError c ''looking for beginning of value''))"

definition stateBeginString :: "parse_state list \<Rightarrow> char \<Rightarrow> scan_result" where
  "stateBeginString ps c =
     (if isSpace c then Scanning BeginString ps
      else if c = CHR 0x22 then Scanning (InString []) ps
      else ScanError (SyntaxError c ''looking for beginning of object key string''))"

definition stateInNumber :: "number_state \<Rightarrow> string \<Rightarrow> parse_state list \<Rightarrow> char \<Rightarrow> scan_result" where
  "stateInNumber n raw ps c =
     (let go = (\<lambda>n'. Scanning (InNumber n' (c # raw)) ps);
          exp = (c = CHR ''e'' \<or> c = CHR ''E'');
          finish = stateEndValue (JNumber (rev raw)) ps c
      in case n of
           Neg \<Rightarrow> if c = CHR ''0'' then go Zero else if is_digit c then go Digits
                  else ScanError (SyntaxError c ''in numeric literal'')
         | Zero \<Rightarrow> if c = CHR ''.'' then go Dot else if exp then go Exp else finish
         | Digits \<Rightarrow> if is_digit c then go Digits else if c = CHR ''.'' then go Dot
                     else if exp then go Exp else finish
         | Dot \<Rightarrow> if is_digit c then go DotDigits
                  else ScanError (SyntaxError c ''after decimal point in numeric literal'')
         | DotDigits \<Rightarrow> if is_digit c then go DotDigits else if exp then go Exp else finish
         | Exp \<Rightarrow> if c = CHR ''+'' \<or> c = CHR ''-'' then go ExpSign else if is_digit c then go ExpDigits
                  else ScanError (SyntaxError c ''in exponent of numeric literal'')
         | ExpSign \<Rightarrow> if is_digit c then go ExpDigits
                      else ScanError (SyntaxError c ''in exponent of numeric literal'')
         | ExpDigits \<Rightarrow> if is_digit c then go ExpDigits else finish)"

fun stateInLiteral :: "string \<Rightarrow> string \<Rightarrow> json \<Rightarrow> parse_state list \<Rightarrow> char \<Rightarrow> scan_result" where
  "stateInLiteral word [] v ps c = stateEndValue v ps c"
| "stateInLiteral word (e # rest) v ps c =
     (if c = e then (if rest = [] then Scanning (EndValue v) ps else Scanning (InLiteral word rest v) ps)
      else ScanError (SyntaxError c
        (''in literal '' @ word @ '' (expecting '' @ [CHR 0x27, e, CHR 0x27] @ '')'')))"

fun scan_byte :: "scan_step \<Rightarrow> parse_state list \<Rightarrow> char \<Rightarrow> scan_result" where
  "scan_byte BeginValueOrEmpty ps c =
     (if isSpace c then Scanning BeginValueOrEmpty ps
      else if c = CHR '']'' then popParseState (tl ps) (JArray [])
      else stateBeginValue ps c)"
| "scan_byte BeginValue ps c = stateBeginValue ps c"
| "scan_byte BeginStringOrEmpty ps c =
     (if isSpace c then Scanning BeginStringOrEmpty ps
      else if c = CHR ''}'' then popParseState (tl ps) (JObject [])
      else stateBeginString ps c)"
| "scan_byte BeginString ps c = stateBeginString ps c"
| "scan_byte (EndValue v) ps c = stateEndValue v ps c"
| "scan_byte (InString raw) ps c =
     (if c = CHR 0x22 then Scanning (EndValue (JString (unquote (rev raw)))) ps
      else if c = CHR 0x5C then Scanning (InStringEsc (c # raw)) ps
      else if byte_val c < 0x20 then ScanError (SyntaxError c ''in string literal'')
      else Scanning (InString (c # raw)) ps)"
| "scan_byte (InStringEsc raw) ps c =
     (if c \<in> set ''bfnrt/'' \<or> c = CHR 0x5C \<or> c = CHR 0x22 then Scanning (InString (c # raw)) ps
      else if c = CHR ''u'' then Scanning (InStringEscU 3 (c # raw)) ps
      else ScanError (SyntaxError c ''in string escape code''))"
| "scan_byte (InStringEscU n raw) ps c =
     (if hex_value c \<noteq> None
      then Scanning (if n = 0 then InString (c # raw) else InStringEscU (n - 1) (c # raw)) ps
      else ScanError (SyntaxError c
        (''in '' @ [CHR 0x5C] @ ''u hexadecimal character escape'')))"
| "scan_byte (InNumber n raw) ps c = stateInNumber n raw ps c"
| "scan_byte (InLiteral word rest v) ps c = stateInLiteral word rest v ps c"

section \<open>Decoding\<close>

text \<open>
  The loop of \<open>Decoder.readValue\<close>: it stops at the end of the first value; \<open>Inl None\<close> is an input that
  ends before. Then what \<open>Decode\<close> returns for it.
\<close>

fun readValue :: "scan_step \<Rightarrow> parse_state list \<Rightarrow> string \<Rightarrow> gerror option + json" where
  "readValue st ps [] =
     (case scan_byte st ps (CHR '' '') of CompleteBefore v \<Rightarrow> Inr v | _ \<Rightarrow> Inl None)"
| "readValue st ps (c # s) =
     (case scan_byte st ps c of
        Scanning st' ps' \<Rightarrow> readValue st' ps' s
      | Complete v \<Rightarrow> Inr v
      | CompleteBefore v \<Rightarrow> Inr v
      | ScanError e \<Rightarrow> Inl (Some e))"

definition io_EOF :: gerror where "io_EOF = ErrorString ''EOF''"
definition io_ErrUnexpectedEOF :: gerror where "io_ErrUnexpectedEOF = ErrorString ''unexpected EOF''"

definition decoder_value :: "string \<Rightarrow> gerror + json" where
  "decoder_value r =
     (case readValue BeginValue [] r of
        Inr v \<Rightarrow> Inr v
      | Inl (Some e) \<Rightarrow> Inl e
      | Inl None \<Rightarrow> Inl (if list_all isSpace r then io_EOF else io_ErrUnexpectedEOF))"

text \<open>The loop of \<open>checkValid\<close>, which \<open>Unmarshal\<close> runs: nothing but space may follow the value.\<close>

definition after_top :: "json \<Rightarrow> string \<Rightarrow> gerror + json" where
  "after_top v s =
     (case dropWhile isSpace s of
        [] \<Rightarrow> Inr v
      | c # _ \<Rightarrow> Inl (SyntaxError c ''after top-level value''))"

fun checkValid :: "scan_step \<Rightarrow> parse_state list \<Rightarrow> string \<Rightarrow> gerror + json" where
  "checkValid st ps [] =
     (case scan_byte st ps (CHR '' '') of
        CompleteBefore v \<Rightarrow> Inr v
      | ScanError e \<Rightarrow> Inl e
      | _ \<Rightarrow> Inl (ErrorString ''unexpected end of JSON input''))"
| "checkValid st ps (c # s) =
     (case scan_byte st ps c of
        Scanning st' ps' \<Rightarrow> checkValid st' ps' s
      | Complete v \<Rightarrow> after_top v s
      | CompleteBefore v \<Rightarrow> after_top v (c # s)
      | ScanError e \<Rightarrow> Inl e)"

definition unmarshal_value :: "string \<Rightarrow> gerror + json" where
  "unmarshal_value p = checkValid BeginValue [] p"

section \<open>Printing a string\<close>

text \<open>\<open>appendString\<close> with the escaping of HTML that \<open>Marshal\<close> asks for.\<close>

definition escape_ascii :: "char \<Rightarrow> string" where
  "escape_ascii c =
     (let n = byte_val c; hex = [hex_digit (n div 16), hex_digit (n mod 16)]
      in if c = CHR 0x5C \<or> c = CHR 0x22 then [CHR 0x5C, c]
         else if n = 8 then [CHR 0x5C, CHR ''b''] else if n = 12 then [CHR 0x5C, CHR ''f'']
         else if n = 10 then [CHR 0x5C, CHR ''n''] else if n = 13 then [CHR 0x5C, CHR ''r'']
         else if n = 9 then [CHR 0x5C, CHR ''t'']
         else if n < 0x20 \<or> c \<in> set ''<>&'' then CHR 0x5C # ''u00'' @ hex
         else [c])"

function escape_text :: "string \<Rightarrow> string" where
  "escape_text [] = []"
| "escape_text (c # s) =
     (if byte_val c < 0x80 then escape_ascii c @ escape_text s
      else (case rune_width (c # s) of
              None \<Rightarrow> CHR 0x5C # ''ufffd'' @ escape_text s
            | Some n \<Rightarrow>
                let rune = c # take (n - 1) s
                in (if rune = [CHR 0xE2, CHR 0x80, CHR 0xA8] then CHR 0x5C # ''u2028''
                    else if rune = [CHR 0xE2, CHR 0x80, CHR 0xA9] then CHR 0x5C # ''u2029'' else rune)
                   @ escape_text (drop (n - 1) s)))"
  by pat_completeness auto
termination by (relation "measure length") auto

definition marshal_string :: "string \<Rightarrow> string" where
  "marshal_string s = CHR 0x22 # escape_text s @ [CHR 0x22]"

end
