(* ===== verification/Go_Json_Text.thy ===== *)
theory Go_Json_Text
  imports Go_Json
begin

text \<open>
  What the scanner and the string functions of \<open>encoding/json\<close> do together: a text that is printed is
  read back. A text is sound when it is well-formed UTF-8; every other text is repaired on the way.
\<close>

section \<open>Sound text\<close>

function utf8_valid :: "string \<Rightarrow> bool" where
  "utf8_valid [] = True"
| "utf8_valid (c # s) =
     (case rune_width (c # s) of None \<Rightarrow> False | Some n \<Rightarrow> utf8_valid (drop (n - 1) s))"
  by pat_completeness auto
termination by (relation "measure length") auto

lemma rune_width_ascii: "byte_val c < 0x80 \<Longrightarrow> rune_width (c # s) = Some 1"
  by (simp add: rune_width_def rune_shape_def)

lemma rune_shape_width: "rune_shape b = Some (n, lo, hi) \<Longrightarrow> 0 < n \<and> (0x80 \<le> b \<longrightarrow> 0x80 \<le> lo)"
  by (auto simp: rune_shape_def split: if_splits)

lemma rune_width_bounds:
  assumes "rune_width s = Some n"
  shows "0 < n \<and> n \<le> length s"
  using assms
  by (auto simp: rune_width_def dest!: rune_shape_width split: list.splits option.splits if_splits)

text \<open>The rune is found by its own bytes, whatever follows.\<close>

lemma rune_width_append:
  assumes "rune_width (c # s) = Some n"
  shows "rune_width (c # take (n - 1) s @ t) = Some n"
proof -
  have "\<exists>lo hi. rune_shape (byte_val c) = Some (n, lo, hi) \<and> n - 1 \<le> length s"
    using assms by (auto simp: rune_width_def split: list.splits option.splits if_splits)
  then show ?thesis using assms by (auto simp: rune_width_def)
qed

lemma utf8_ascii: "list_all (\<lambda>c. byte_val c < 0x80) s \<Longrightarrow> utf8_valid (s @ r) = utf8_valid r"
  by (induction s) (simp_all add: rune_width_ascii)

section \<open>Strings read back\<close>

lemma hex_value_char: "n < 16 \<Longrightarrow> hex_value (hex_digit n) = Some n"
proof -
  have all: "list_all (\<lambda>n. hex_value (hex_digit n) = Some n) [0..<16]"
    by (simp add: upt_rec hex_digit_def hex_value_def)
  then show "n < 16 \<Longrightarrow> ?thesis" by (simp add: list_all_iff)
qed

lemma getu4_escape:
  assumes "n < 128"
  shows "getu4 (CHR 0x5C # ''u00'' @ hex_digit (n div 16)
      # hex_digit (n mod 16) # r) = Some n"
proof -
  have "n div 16 < 16" using assms by simp
  moreover have "hex_value CHR ''0'' = Some 0" by (simp add: hex_value_def)
  ultimately show ?thesis
    using hex_value_char [of "n div 16"] hex_value_char [of "n mod 16"] by (simp add: getu4_def)
qed

declare unquote.simps(2) [simp del]

lemma unquote_plain: "c \<noteq> CHR 0x5C \<Longrightarrow> byte_val c < 0x80 \<Longrightarrow> unquote (c # s) = c # unquote s"
  by (simp add: unquote.simps(2))

lemma unquote_backslash:
  "unquote (CHR 0x5C # s) = (case unquote_escape (CHR 0x5C # s) of (t, n) \<Rightarrow> t @ unquote (drop (n - 1) s))"
  by (simp add: unquote.simps(2))

lemma getu4_other: "e \<noteq> CHR ''u'' \<Longrightarrow> getu4 (CHR 0x5C # e # s) = None"
  by (simp add: getu4_def split: list.split)

lemma unquote_simple_escape:
  "e \<noteq> CHR ''u'' \<Longrightarrow> unquote (CHR 0x5C # e # s) = unescape e # unquote s"
  by (simp add: unquote_backslash unquote_escape_def getu4_other)

lemma unquote_u_escape:
  assumes "getu4 (CHR 0x5C # h # a # b # c # d # s) = Some r" "r < 0xD800"
  shows "unquote (CHR 0x5C # h # a # b # c # d # s) = utf8_encode r @ unquote s"
  using assms by (simp add: unquote_backslash unquote_escape_def)

lemma unquote_u00:
  assumes "n < 128"
  shows "unquote (CHR 0x5C # ''u00'' @ hex_digit (n div 16)
      # hex_digit (n mod 16) # s) = char_of n # unquote s"
  using getu4_escape [OF assms, of s] unquote_u_escape assms by (simp add: utf8_encode_def)

lemma control_chars:
  "byte_val c = 8 \<longleftrightarrow> c = CHR 0x08" "byte_val c = 12 \<longleftrightarrow> c = CHR 0x0C"
  "byte_val c = 10 \<longleftrightarrow> c = CHR 0x0A" "byte_val c = 13 \<longleftrightarrow> c = CHR 0x0D"
  "byte_val c = 9 \<longleftrightarrow> c = CHR 0x09"
  using of_char_eq_iff [of c "CHR 0x08", where ?'a = nat] of_char_eq_iff [of c "CHR 0x0C", where ?'a = nat]
    of_char_eq_iff [of c "CHR 0x0A", where ?'a = nat] of_char_eq_iff [of c "CHR 0x0D", where ?'a = nat]
    of_char_eq_iff [of c "CHR 0x09", where ?'a = nat]
  by simp_all

lemma unquote_escape_ascii:
  assumes "byte_val c < 0x80"
  shows "unquote (escape_ascii c @ s) = c # unquote s"
proof -
  have "unquote (CHR 0x5C # CHR ''u'' # CHR ''0'' # CHR ''0'' # hex_digit (byte_val c div 16)
      # hex_digit (byte_val c mod 16) # s) = c # unquote s"
    using unquote_u00 [OF assms, of s] by simp
  then show ?thesis
    using assms
    by (auto simp: escape_ascii_def Let_def control_chars unquote_simple_escape unescape_def unquote_plain)
qed

lemma unquote_rune:
  assumes "rune_width (c # s) = Some n" "0x80 \<le> byte_val c"
  shows "unquote (c # take (n - 1) s @ t) = c # take (n - 1) s @ unquote t"
proof -
  have n: "0 < n" "n - 1 \<le> length s" using rune_width_bounds [OF assms(1)] by auto
  have "c \<noteq> CHR 0x5C" using assms(2) by auto
  with n assms(2) rune_width_append [OF assms(1), of t] show ?thesis
    by (simp add: unquote.simps(2))
qed

lemma unquote_line_separator:
  "unquote (CHR 0x5C # ''u2028'' @ s) = CHR 0xE2 # CHR 0x80 # CHR 0xA8 # unquote s"
  "unquote (CHR 0x5C # ''u2029'' @ s) = CHR 0xE2 # CHR 0x80 # CHR 0xA9 # unquote s"
  by (simp_all add: unquote_u_escape getu4_def hex_value_def utf8_encode_def char_of_def bit_Suc_0_iff)

lemma unquote_escape_text: "utf8_valid s \<Longrightarrow> unquote (escape_text s) = s"
proof (induction s rule: escape_text.induct)
  case (2 c s)
  show ?case
  proof (cases "byte_val c < 0x80")
    case True
    with 2 show ?thesis by (simp add: unquote_escape_ascii rune_width_ascii)
  next
    case False
    with "2.prems" obtain n where n: "rune_width (c # s) = Some n" "utf8_valid (drop (n - 1) s)"
      by (auto split: option.splits)
    note IH = "2.IH"(3) [OF False n(1) refl n(2)]
    have two: "take (n - Suc 0) s = [a, b] \<Longrightarrow> a # b # drop (n - Suc 0) s = s" for a b
      using append_take_drop_id [of "n - Suc 0" s] by simp
    show ?thesis
      using False n(1) IH unquote_rune [OF n(1)]
      by (simp add: Let_def) (auto simp: unquote_line_separator [simplified] intro: two)
  qed
qed simp

section \<open>Running the scanner\<close>

text \<open>The scanner over a text that neither completes the top-level value nor is an error.\<close>

fun scan_run :: "scan_step \<Rightarrow> parse_state list \<Rightarrow> string \<Rightarrow> (scan_step \<times> parse_state list) option" where
  "scan_run st ps [] = Some (st, ps)"
| "scan_run st ps (c # s) =
     (case scan_byte st ps c of Scanning st' ps' \<Rightarrow> scan_run st' ps' s | _ \<Rightarrow> None)"

lemma scan_run_append:
  "scan_run st ps (s @ t) = Option.bind (scan_run st ps s) (\<lambda>(st', ps'). scan_run st' ps' t)"
  by (induction st ps s rule: scan_run.induct) (simp_all split: scan_result.split)

lemma readValue_run:
  "scan_run st ps s = Some (st', ps') \<Longrightarrow> readValue st ps (s @ t) = readValue st' ps' t"
  by (induction st ps s rule: scan_run.induct) (simp_all split: scan_result.splits)

lemma checkValid_run:
  "scan_run st ps s = Some (st', ps') \<Longrightarrow> checkValid st ps (s @ t) = checkValid st' ps' t"
  by (induction st ps s rule: scan_run.induct) (simp_all split: scan_result.splits)

lemma hex_digit_hex: "n < 16 \<Longrightarrow> hex_value (hex_digit n) \<noteq> None"
  by (simp add: hex_value_char)

lemma run_escape_ascii:
  assumes "byte_val c < 0x80"
  shows "scan_run (InString raw) ps (escape_ascii c) = Some (InString (rev (escape_ascii c) @ raw), ps)"
proof -
  have "byte_val c div 16 < 16" using assms by simp
  moreover have "hex_value CHR ''0'' = Some 0" by (simp add: hex_value_def)
  ultimately show ?thesis
    by (simp add: escape_ascii_def Let_def hex_value_char)
qed

lemma run_high_bytes:
  "list_all (\<lambda>c. 0x80 \<le> byte_val c) s \<Longrightarrow>
   scan_run (InString raw) ps s = Some (InString (rev s @ raw), ps)"
proof (induction s arbitrary: raw)
  case (Cons c s)
  then have "c \<noteq> CHR 0x22" "c \<noteq> CHR 0x5C" by auto
  with Cons show ?case by simp
qed simp

lemma rune_bytes_high:
  assumes "rune_width (c # s) = Some n" "0x80 \<le> byte_val c"
  shows "list_all (\<lambda>c. 0x80 \<le> byte_val c) (c # take (n - 1) s)"
proof -
  obtain lo hi where shape: "rune_shape (byte_val c) = Some (n, lo, hi)"
    using assms(1) by (auto simp: rune_width_def split: list.splits option.splits if_splits)
  then have "list_all (\<lambda>c. 0x80 \<le> byte_val c) (take (n - 1) s)"
    using assms rune_shape_width [OF shape]
    by (auto simp: rune_width_def byte_in_def list_all_iff split: list.splits if_splits)
  with assms(2) show ?thesis by simp
qed

lemma run_escape_text:
  "scan_run (InString raw) ps (escape_text s) = Some (InString (rev (escape_text s) @ raw), ps)"
proof (induction s arbitrary: raw rule: escape_text.induct)
  case (2 c s)
  show ?case
  proof (cases "byte_val c < 0x80")
    case True
    with 2 show ?thesis by (simp add: scan_run_append run_escape_ascii)
  next
    case False
    show ?thesis
    proof (cases "rune_width (c # s)")
      case None
      with False 2 show ?thesis by (simp add: hex_value_def)
    next
      case (Some n)
      have "list_all (\<lambda>c. 0x80 \<le> byte_val c) (c # take (n - 1) s)"
        using rune_bytes_high [OF Some] False by simp
      from run_high_bytes [OF this] "2.IH"(3) [OF False Some refl] False Some
      show ?thesis
        by (simp add: Let_def scan_run_append hex_value_def)
    qed
  qed
qed simp

lemma run_string:
  "st \<in> {BeginValue, BeginValueOrEmpty, BeginString, BeginStringOrEmpty} \<Longrightarrow>
   scan_run st ps (marshal_string s) = Some (EndValue (JString (unquote (escape_text s))), ps)"
  by (auto simp: marshal_string_def scan_run_append run_escape_text stateBeginValue_def
      stateBeginString_def isSpace_def)

text \<open>A printed string is read back, by both ways to run the scanner.\<close>

lemma unmarshal_marshal_string: "utf8_valid s \<Longrightarrow> unmarshal_value (marshal_string s) = Inr (JString s)"
  using checkValid_run [OF run_string, of BeginValue "[]" s "[]"]
  by (simp add: unmarshal_value_def unquote_escape_text)

end
