(* ===== verification/Go_Time_Roundtrip.thy ===== *)
theory Go_Time_Roundtrip
  imports Go_Time
begin

text \<open>
  A printed duration reads back as itself, and a duration that is read is in the range of \<open>int64\<close>.
  The printed text is a sequence of terms, a number with its unit, the last one with a fraction.
\<close>

section \<open>Runs of digits\<close>

abbreviation push_digit :: "nat \<Rightarrow> char \<Rightarrow> nat" where
  "push_digit n c \<equiv> 10 * n + digit_value c"

abbreviation starts_no_digit :: "string \<Rightarrow> bool" where
  "starts_no_digit r \<equiv> (case r of [] \<Rightarrow> True | c # _ \<Rightarrow> \<not> is_digit c)"

lemma is_digit_char: "d < 10 \<Longrightarrow> is_digit (digit_char d)"
  by (drule digit_cases) (auto simp: digit_char_def is_digit_def)

lemma show_nat_digits: "list_all is_digit (show_nat n)"
proof (induction n rule: show_nat.induct)
  case (1 n)
  then show ?case by (subst show_nat.simps) (simp add: is_digit_char)
qed

lemma show_nat_nonempty [simp]: "show_nat n \<noteq> []"
  by (subst show_nat.simps) simp

lemma push_digits_ge: "x \<le> foldl push_digit x ds"
proof (induction ds arbitrary: x)
  case (Cons c ds)
  have "x \<le> push_digit x c" by simp
  also have "\<dots> \<le> foldl push_digit x (c # ds)" using Cons by simp
  finally show ?case .
qed simp

lemma leadingInt_digits:
  assumes "list_all is_digit ds" "starts_no_digit r" "foldl push_digit x ds \<le> 2 ^ 63"
  shows "leadingInt x (ds @ r) = Some (foldl push_digit x ds, r)"
  using assms
proof (induction ds arbitrary: x)
  case Nil
  then show ?case by (cases r) auto
next
  case (Cons c ds)
  have "push_digit x c \<le> 2 ^ 63" using Cons.prems(3) push_digits_ge [of "push_digit x c" ds] by simp
  then show ?case using Cons by (simp add: Let_def mult.commute)
qed

lemma leadingInt_show_nat:
  assumes "starts_no_digit r" "n \<le> 2 ^ 63"
  shows "leadingInt 0 (show_nat n @ r) = Some (n, r)"
  using leadingInt_digits [OF show_nat_digits assms(1), of 0 n] assms(2) read_show_nat [of n]
  by (simp add: read_nat_def)

lemma times_10_power: "j < 15 \<Longrightarrow> times_10 (10 ^ j) = 10 ^ Suc j"
proof -
  assume "j < 15"
  then have "(10::nat) ^ Suc j \<le> 10 ^ 15" by (intro power_increasing) auto
  then have small: "(10::nat) ^ Suc j < 2 ^ 53" by simp
  obtain p q where pq: "double_of_ratio (10 ^ Suc j * 1) 1 = (p, q)" by fastforce
  have "p = 10 ^ Suc j * q \<and> 0 < q" by (rule double_exact [OF _ small pq]) simp
  then show ?thesis using pq by (simp add: times_10_def mult.commute)
qed

lemma leadingFraction_digits:
  assumes "list_all is_digit ds" "starts_no_digit r" "foldl push_digit x ds < 2 ^ 63"
    "j + length ds \<le> 15"
  shows "leadingFraction x (10 ^ j) False (ds @ r)
      = (foldl push_digit x ds, 10 ^ (j + length ds), r)"
  using assms
proof (induction ds arbitrary: x j)
  case Nil
  then show ?case by (cases r) auto
next
  case (Cons c ds)
  have "push_digit x c < 2 ^ 63" using Cons.prems(3) push_digits_ge [of "push_digit x c" ds] by simp
  moreover have "leadingFraction (push_digit x c) (10 ^ Suc j) False (ds @ r)
      = (foldl push_digit (push_digit x c) ds, 10 ^ (Suc j + length ds), r)"
    by (rule Cons.IH) (use Cons.prems in simp_all)
  ultimately show ?case
    using Cons.prems by (simp add: Let_def mult.commute times_10_power del: power_Suc)
qed

section \<open>The printed fraction\<close>

fun fixed_digits :: "nat \<Rightarrow> nat \<Rightarrow> string" where
  "fixed_digits 0 v = []"
| "fixed_digits (Suc p) v = fixed_digits p (v div 10) @ [digit_char (v mod 10)]"

lemma mod_power_Suc: "v mod 10 ^ Suc p = 10 * (v div 10 mod 10 ^ p) + v mod (10::nat)"
  using mod_mult2_eq [of v 10 "10 ^ p"] by simp

lemma div_power_Suc: "v div 10 ^ Suc p = v div 10 div (10::nat) ^ p"
  by (simp add: div_mult2_eq)

lemma length_fixed_digits [simp]: "length (fixed_digits p v) = p"
  by (induction p arbitrary: v) auto

lemma fixed_digits_all: "list_all is_digit (fixed_digits p v)"
  by (induction p arbitrary: v) (auto simp: is_digit_char)

lemma fixed_digits_value: "foldl push_digit 0 (fixed_digits p v) = v mod 10 ^ p"
  by (induction p arbitrary: v) (simp_all add: digit_roundtrip mod_power_Suc del: power_Suc)

lemma fmtFrac_loop_printing:
  "fmtFrac_loop p True buf v = (True, fixed_digits p v @ buf, v div 10 ^ p)"
  by (induction p arbitrary: v buf) (simp_all add: Let_def div_mult2_eq)

lemma fmtFrac_loop_silent:
  "\<exists>m\<le>p. fmtFrac_loop p False buf v =
      (v mod 10 ^ p \<noteq> 0, fixed_digits m (v div 10 ^ (p - m)) @ buf, v div 10 ^ p)
    \<and> (v mod 10 ^ p = 0) = (m = 0)
    \<and> v div 10 ^ (p - m) mod 10 ^ m * 10 ^ (p - m) = v mod 10 ^ p"
proof (induction p arbitrary: v buf)
  case (Suc p)
  show ?case
  proof (cases "v mod 10 = 0")
    case False
    then show ?thesis
      by (intro exI [of _ "Suc p"])
        (simp add: Let_def fmtFrac_loop_printing mod_power_Suc div_power_Suc del: power_Suc)
  next
    case True
    from Suc [of buf "v div 10"] obtain m where m: "m \<le> p"
      "fmtFrac_loop p False buf (v div 10) =
        (v div 10 mod 10 ^ p \<noteq> 0, fixed_digits m (v div 10 div 10 ^ (p - m)) @ buf,
         v div 10 div 10 ^ p)"
      "(v div 10 mod 10 ^ p = 0) = (m = 0)"
      "v div 10 div 10 ^ (p - m) mod 10 ^ m * 10 ^ (p - m) = v div 10 mod 10 ^ p"
      by (elim exE conjE) (rule that; assumption)
    have a: "v div 10 ^ (Suc p - m) = v div 10 div 10 ^ (p - m)" "Suc p - m = Suc (p - m)"
      using m(1) by (simp_all add: Suc_diff_le div_mult2_eq)
    have b: "v mod 10 ^ Suc p = 10 * (v div 10 mod 10 ^ p)" using True by (simp only: mod_power_Suc)
    show ?thesis
    proof (intro exI [of _ m] conjI)
      show "m \<le> Suc p" using m(1) by simp
      show "fmtFrac_loop (Suc p) False buf v =
          (v mod 10 ^ Suc p \<noteq> 0, fixed_digits m (v div 10 ^ (Suc p - m)) @ buf, v div 10 ^ Suc p)"
        unfolding a(1) b using m(2) True by (simp add: Let_def div_mult2_eq)
      show "(v mod 10 ^ Suc p = 0) = (m = 0)" unfolding b using m(3) by simp
      show "v div 10 ^ (Suc p - m) mod 10 ^ m * 10 ^ (Suc p - m) = v mod 10 ^ Suc p"
        unfolding a b using m(4)
        by (simp only: power_Suc div_mult2_eq mult.left_commute [of _ 10])
    qed
  qed
qed simp

lemma fmtFrac_cases:
  obtains (none) "v mod 10 ^ p = 0" "fmtFrac buf v p = (buf, v div 10 ^ p)"
    | (some) m w where "0 < m" "m \<le> p" "w mod 10 ^ m * 10 ^ (p - m) = v mod 10 ^ p"
        "fmtFrac buf v p = (CHR ''.'' # fixed_digits m w @ buf, v div 10 ^ p)"
proof -
  obtain m where m: "m \<le> p" "fmtFrac_loop p False buf v =
      (v mod 10 ^ p \<noteq> 0, fixed_digits m (v div 10 ^ (p - m)) @ buf, v div 10 ^ p)"
    "(v mod 10 ^ p = 0) = (m = 0)"
    "v div 10 ^ (p - m) mod 10 ^ m * 10 ^ (p - m) = v mod 10 ^ p"
    using fmtFrac_loop_silent [of p buf v] by (elim exE conjE) (rule that; assumption)
  show ?thesis
  proof (cases "m = 0")
    case True
    have "v mod 10 ^ p = 0" using m(3) True by simp
    moreover have "fmtFrac buf v p = (buf, v div 10 ^ p)"
      unfolding fmtFrac_def m(2) using m(3) True by simp
    ultimately show ?thesis by (rule none)
  next
    case False
    have "0 < m" using False by simp
    moreover have "fmtFrac buf v p
        = (CHR ''.'' # fixed_digits m (v div 10 ^ (p - m)) @ buf, v div 10 ^ p)"
      unfolding fmtFrac_def m(2) using m(3) False by simp
    ultimately show ?thesis using some [OF _ m(1) m(4)] by blast
  qed
qed

section \<open>Reading one printed term\<close>

abbreviation unit_text :: "string \<Rightarrow> nat \<Rightarrow> bool" where
  "unit_text u n \<equiv> map_of unitMap u = Some n \<and> u \<noteq> [] \<and> list_all (\<lambda>c. \<not> unit_end c) u"

abbreviation starts_term :: "string \<Rightarrow> bool" where
  "starts_term r \<equiv> (case r of [] \<Rightarrow> True | c # _ \<Rightarrow> unit_end c)"

lemma unit_end_digit: "is_digit c \<Longrightarrow> unit_end c"
  by (simp add: unit_end_def)

lemma parse_unit_text: "unit_text u n \<Longrightarrow> starts_term r \<Longrightarrow> parse_unit orig (u @ r) = Inr (n, r)"
  by (cases r) (auto simp: parse_unit_def list_all_iff takeWhile_append2 dropWhile_append2 Let_def
      takeWhile_eq_all_conv [THEN iffD2] dropWhile_eq_Nil_conv [THEN iffD2])

lemma hd_show_nat: "unit_end (hd (show_nat n @ r))"
  using show_nat_digits [of n] by (cases "show_nat n") (auto simp: unit_end_digit)

lemma unit_text_head: "unit_text u n \<Longrightarrow> \<exists>c t. u = c # t \<and> \<not> is_digit c \<and> c \<noteq> CHR ''.''"
  by (cases u) (auto simp: unit_end_def)

lemma parse_term_plain:
  assumes "unit_text u n" "starts_term r" "x * n \<le> 2 ^ 63" "0 < n"
  shows "parse_term orig (show_nat x @ u @ r) = Inr (x * n, r)"
proof -
  obtain c t where u: "u = c # t" "\<not> is_digit c" "c \<noteq> CHR ''.''" using unit_text_head assms(1) by blast
  have "x \<le> x * n" using assms(4) by simp
  then have "x \<le> 2 ^ 63" using assms(3) by linarith
  then have lead: "leadingInt 0 (show_nat x @ u @ r) = Some (x, u @ r)"
    using leadingInt_show_nat [of "u @ r" x] u by simp
  have frac: "parse_fraction (u @ r) = (0, 1, False, u @ r)" using u by (simp add: parse_fraction_def)
  have "\<not> x > 2 ^ 63 div n" using assms(3,4) by (simp add: less_eq_div_iff_mult_less_eq not_less)
  then have val: "term_value orig x 0 1 n = Inr (x * n)" by (simp add: term_value_def Let_def)
  show ?thesis
    using hd_show_nat parse_unit_text [OF assms(1,2)]
    by (simp add: parse_term_def lead frac val [unfolded One_nat_def])
qed

lemma parse_term_printed:
  assumes "unit_text u (10 ^ p)" "p \<le> 9" "fmtFrac u v p = (buf, w)"
    "x * 10 ^ p + v mod 10 ^ p \<le> 2 ^ 63"
  shows "parse_term orig (show_nat x @ buf) = Inr (x * 10 ^ p + v mod 10 ^ p, [])"
proof (cases rule: fmtFrac_cases [of v p u])
  case none
  then show ?thesis using parse_term_plain [OF assms(1), of "[]" x] assms(3,4) by simp
next
  case (some m w')
  define f where "f = w' mod 10 ^ m"
  obtain c t where u: "u = c # t" "\<not> is_digit c" using unit_text_head assms(1) by blast
  have buf: "buf = CHR ''.'' # fixed_digits m w' @ u" using some(4) assms(3) by simp
  have "x \<le> x * 10 ^ p" by simp
  then have "x \<le> 2 ^ 63" using assms(4) by linarith
  then have lead: "leadingInt 0 (show_nat x @ buf) = Some (x, buf)"
    using leadingInt_show_nat [of buf x] by (simp add: buf is_digit_def)
  have f_less: "f < 10 ^ m" by (simp add: f_def)
  also have "(10::nat) ^ m \<le> 10 ^ 9" using some(2) assms(2) by (intro power_increasing) auto
  finally have f_small: "f < 10 ^ 9" .
  have "leadingFraction 0 (10 ^ 0) False (fixed_digits m w' @ u) = (f, 10 ^ (0 + m), u)"
    using leadingFraction_digits [OF fixed_digits_all, of u 0 m w' 0] f_small u some(2) assms(2)
    by (simp add: fixed_digits_value f_def)
  then have frac: "parse_fraction buf = (f, 10 ^ m, True, u)"
    using some(1) by (simp add: buf parse_fraction_def)
  have pm: "(10::nat) ^ p = 10 ^ (p - m) * 10 ^ m" using some(2) by (simp flip: power_add)
  have "v mod 10 ^ p < 10 ^ p" by simp
  also have "(10::nat) ^ p \<le> 10 ^ 9" using assms(2) by (intro power_increasing) auto
  finally have "f * 10 ^ (p - m) < 2 ^ 53" using some(3) by (simp add: f_def)
  then have fns: "fraction_ns f (10 ^ p) (10 ^ m) = v mod 10 ^ p"
    using fraction_exact [of "10 ^ m" "10 ^ p" f] pm some(3) by (simp add: f_def)
  have le: "\<not> x > 2 ^ 63 div 10 ^ p"
    using assms(4) by (simp add: less_eq_div_iff_mult_less_eq not_less)
  have "f = 0 \<Longrightarrow> v mod 10 ^ p = 0" using some(3) by (simp add: f_def)
  then have val: "term_value orig x f (10 ^ m) (10 ^ p) = Inr (x * 10 ^ p + v mod 10 ^ p)"
    using assms(4) le by (auto simp: term_value_def Let_def fns)
  show ?thesis
    using hd_show_nat parse_unit_text [OF assms(1), of "[]"]
    by (simp add: parse_term_def lead frac val)
qed

section \<open>Reading all of it\<close>

lemma parse_terms_step:
  assumes "parse_term orig s = Inr (v, r)" "d + v \<le> 2 ^ 63"
  shows "parse_terms orig d s = parse_terms orig (d + v) r"
proof -
  have "s \<noteq> []" using assms(1) by (auto simp: parse_term_def)
  moreover have "(d + v) mod 2 ^ 64 = d + v" using assms(2) by simp
  ultimately show ?thesis
    using assms by (subst parse_terms.simps) (simp add: Let_def)
qed

lemma parse_terms_end: "parse_terms orig d [] = Inr d"
  by (simp add: parse_terms.simps)

lemma parse_terms_last:
  assumes "unit_text u (10 ^ p)" "p \<le> 9" "fmtFrac u v p = (buf, w)"
    "d + (x * 10 ^ p + v mod 10 ^ p) \<le> 2 ^ 63"
  shows "parse_terms orig d (show_nat x @ buf) = Inr (d + (x * 10 ^ p + v mod 10 ^ p))"
proof -
  have "parse_term orig (show_nat x @ buf) = Inr (x * 10 ^ p + v mod 10 ^ p, [])"
    using assms by (intro parse_term_printed [OF assms(1-3)]) simp
  with assms(4) show ?thesis by (simp add: parse_terms_step parse_terms_end)
qed

lemma unit_texts:
  "unit_text ''ns'' (10 ^ 0)" "unit_text [CHR 0xC2, CHR 0xB5, CHR ''s''] (10 ^ 3)"
  "unit_text ''ms'' (10 ^ 6)" "unit_text ''s'' (10 ^ 9)"
  "unit_text ''m'' 60000000000" "unit_text ''h'' 3600000000000"
  by (simp_all add: unitMap_def unit_end_def is_digit_def)

lemma fmtFrac_rest: "snd (fmtFrac u v p) = v div 10 ^ p"
  by (cases rule: fmtFrac_cases [of v p u]) simp_all

lemma parse_terms_small:
  assumes "unit_text u (10 ^ p)" "p \<le> 9" "v \<le> 2 ^ 63"
  shows "parse_terms orig 0 (case fmtFrac u v p of (buf, w) \<Rightarrow> fmtInt buf w) = Inr v"
proof -
  obtain buf w where f: "fmtFrac u v p = (buf, w)" by fastforce
  have w: "w = v div 10 ^ p" using fmtFrac_rest [of u v p] f by simp
  have "v div 10 ^ p * 10 ^ p + v mod 10 ^ p = v" by (rule div_mult_mod_eq)
  then show ?thesis
    using parse_terms_last [OF assms(1,2) f, of 0 w orig] assms(3) f by (simp add: w fmtInt_def)
qed

lemma starts_term_show_nat: "starts_term (show_nat n @ r)"
  using hd_show_nat [of n r] by (cases "show_nat n @ r") auto

lemma parse_terms_unit:
  assumes "unit_text u n" "0 < n" "d + x * n \<le> 2 ^ 63"
  shows "parse_terms orig d (show_nat x @ u @ show_nat y @ r)
      = parse_terms orig (d + x * n) (show_nat y @ r)"
  using parse_term_plain [OF assms(1) starts_term_show_nat [of y r], of x orig] assms(2,3)
  by (intro parse_terms_step) simp_all

lemma fmtFrac_zero: "fmtFrac buf 0 p = (buf, 0)"
proof -
  have "fmtFrac_loop p False buf 0 = (False, buf, 0)" by (induction p) (simp_all add: Let_def)
  then show ?thesis by (simp add: fmtFrac_def)
qed

lemma show_nat_0: "show_nat 0 = ''0''"
  by (subst show_nat.simps) (simp add: digit_char_def)

lemma parse_terms_format_small: "u < 1000000000 \<Longrightarrow> parse_terms orig 0 (format_small u) = Inr u"
proof (cases "u = 0")
  case True
  show ?thesis
    using parse_terms_last [OF unit_texts(4) _ fmtFrac_zero, of 0 0 orig] True
    by (simp add: format_small_def show_nat_0)
next
  case False
  assume "u < 1000000000"
  then have u: "u \<le> 2 ^ 63" by simp
  show ?thesis
    using False parse_terms_small [OF unit_texts(1) _ u] parse_terms_small [OF unit_texts(2) _ u]
      parse_terms_small [OF unit_texts(3) _ u]
    by (simp add: format_small_def)
qed

lemma parse_terms_format_large:
  assumes "u \<le> 2 ^ 63"
  shows "parse_terms orig 0 (format_large u) = Inr u"
proof -
  obtain buf secs where f: "fmtFrac ''s'' u 9 = (buf, secs)" by fastforce
  have secs: "secs = u div 10 ^ 9" using fmtFrac_rest [of "''s''" u 9] f by simp
  define mins where "mins = secs div 60"
  define hours where "hours = mins div 60"
  define frac where "frac = u mod 10 ^ 9"
  have u: "u = secs * 1000000000 + frac" unfolding secs frac_def by simp
  have m: "secs = mins * 60 + secs mod 60" "mins = hours * 60 + mins mod 60"
    by (simp_all add: mins_def hours_def)
  have last: "d + (secs mod 60 * 1000000000 + frac) \<le> 2 ^ 63 \<Longrightarrow>
      parse_terms orig d (show_nat (secs mod 60) @ buf) = Inr (d + (secs mod 60 * 1000000000 + frac))"
    for d
    using parse_terms_last [OF unit_texts(4) _ f, of d "secs mod 60" orig] by (simp add: frac_def)
  have shape: "format_large u =
     (if 0 < mins then
        if 0 < hours then show_nat hours @ ''h'' @ show_nat (mins mod 60) @ ''m'' @ show_nat (secs mod 60) @ buf
        else show_nat (mins mod 60) @ ''m'' @ show_nat (secs mod 60) @ buf
      else show_nat (secs mod 60) @ buf)"
    by (simp add: format_large_def f Let_def fmtInt_def mins_def hours_def)
  consider "mins = 0" | "0 < mins" "hours = 0" | "0 < hours" by blast
  then show ?thesis
  proof cases
    case 1
    then have "secs mod 60 * 1000000000 + frac = u" using u m by simp
    with 1 show ?thesis using last [of 0] assms by (simp add: shape)
  next
    case 2
    then have eq: "mins * 60000000000 + (secs mod 60 * 1000000000 + frac) = u" "mins mod 60 = mins"
      using u m by simp_all
    have "parse_terms orig 0 (show_nat mins @ ''m'' @ show_nat (secs mod 60) @ buf)
        = parse_terms orig (mins * 60000000000) (show_nat (secs mod 60) @ buf)"
      using parse_terms_unit [OF unit_texts(5), of 0 mins orig "secs mod 60" buf] eq(1) assms by simp
    with 2 show ?thesis using last [of "mins * 60000000000"] assms by (simp add: shape eq)
  next
    case 3
    then have "0 < mins" by (simp add: hours_def)
    have eq: "hours * 3600000000000 + mins mod 60 * 60000000000
        + (secs mod 60 * 1000000000 + frac) = u"
      using u m by simp
    have "parse_terms orig 0 (show_nat hours @ ''h'' @ show_nat (mins mod 60) @ ''m''
          @ show_nat (secs mod 60) @ buf)
        = parse_terms orig (hours * 3600000000000) (show_nat (mins mod 60) @ ''m''
          @ show_nat (secs mod 60) @ buf)"
      using eq assms
        parse_terms_unit [OF unit_texts(6), of 0 hours orig "mins mod 60"] by simp
    also have "\<dots> = parse_terms orig (hours * 3600000000000 + mins mod 60 * 60000000000)
          (show_nat (secs mod 60) @ buf)"
      using eq assms
      by (intro parse_terms_unit [OF unit_texts(5)]) simp_all
    also have "\<dots> = Inr u" using last eq assms by simp
    finally show ?thesis using 3 \<open>0 < mins\<close> by (simp add: shape)
  qed
qed

lemma parse_unsigned_terms:
  assumes "parse_terms orig 0 s = Inr u" "s \<noteq> ''0''" "s \<noteq> []" "if neg then u \<le> 2 ^ 63 else u < 2 ^ 63"
  shows "parse_unsigned neg orig s = Inr (if neg then - int u else int u)"
  using assms by (simp add: parse_unsigned_def split: if_splits)

lemma format_shape:
  "\<exists>n r. (if u < 1000000000 then format_small u else format_large u) = show_nat n @ r \<and> r \<noteq> []"
proof -
  have buf: "fst (fmtFrac t v p) \<noteq> []" if "t \<noteq> []" for t v p
    using that by (cases rule: fmtFrac_cases [of v p t]) simp_all
  have "\<exists>n r. format_small u = show_nat n @ r \<and> r \<noteq> []"
  proof (cases "u = 0")
    case True
    then have "format_small u = show_nat 0 @ ''s''" by (simp add: format_small_def show_nat_0)
    then show ?thesis by blast
  next
    case False
    have "\<exists>n r. (case fmtFrac t u p of (b, w) \<Rightarrow> fmtInt b w) = show_nat n @ r \<and> r \<noteq> []"
      if "t \<noteq> []" for t p
      using buf [OF that, of u p] by (cases "fmtFrac t u p") (auto simp: fmtInt_def)
    then show ?thesis using False by (simp add: format_small_def)
  qed
  moreover have "\<exists>n r. format_large u = show_nat n @ r \<and> r \<noteq> []"
    using buf [of "''s''" u 9]
    by (cases "fmtFrac ''s'' u 9") (fastforce simp: format_large_def fmtInt_def Let_def)
  ultimately show ?thesis by simp
qed

lemma parse_Duration_String:
  assumes "- (2 ^ 63) \<le> d" "d < 2 ^ 63"
  shows "ParseDuration (Duration_String d) = Inr d"
proof -
  define u where "u = nat \<bar>d\<bar>"
  define s where "s = (if u < 1000000000 then format_small u else format_large u)"
  obtain n r where s: "s = show_nat n @ r" "r \<noteq> []"
    using format_shape [of u] by (auto simp: s_def)
  obtain c t where ct: "show_nat n = c # t" "is_digit c"
    using show_nat_digits [of n] by (cases "show_nat n") auto
  have sign: "c \<noteq> CHR ''-''" "c \<noteq> CHR ''+''" using ct(2) by (auto simp: is_digit_def)
  have "s \<noteq> ''0''" "s \<noteq> []" using s ct by auto
  moreover have "u \<le> 2 ^ 63" "\<not> d < 0 \<Longrightarrow> u < 2 ^ 63" using assms by (simp_all add: u_def)
  moreover from this have "parse_terms orig 0 s = Inr u" for orig
    by (simp add: s_def parse_terms_format_small parse_terms_format_large)
  ultimately have "parse_unsigned (d < 0) orig s = Inr (if d < 0 then - int u else int u)" for orig
    by (intro parse_unsigned_terms) simp_all
  then have "parse_unsigned (d < 0) orig s = Inr d" for orig by (simp add: u_def)
  moreover have "Duration_String d = (if d < 0 then CHR ''-'' # s else s)"
    by (simp add: Duration_String_def s_def u_def Let_def)
  ultimately show ?thesis
    using sign by (cases "d < 0") (simp_all add: ParseDuration_def s ct)
qed

section \<open>The range of what is read\<close>

lemma parse_terms_range: "parse_terms orig d s = Inr v \<Longrightarrow> d \<le> 2 ^ 63 \<Longrightarrow> v \<le> 2 ^ 63"
proof (induction orig d s rule: parse_terms.induct)
  case (1 orig d s)
  show ?case
  proof (cases "s = []")
    case False
    with "1.prems" obtain a r where t: "parse_term orig s = Inr (a, r)"
      "\<not> (d + a) mod 2 ^ 64 > 2 ^ 63" "parse_terms orig ((d + a) mod 2 ^ 64) r = Inr v"
      by (auto simp: parse_terms.simps [of orig d s] Let_def split: if_splits sum.splits prod.splits)
    then show ?thesis using "1.IH" [OF False t(1) refl refl] by simp
  qed (use "1.prems" in \<open>simp add: parse_terms_end\<close>)
qed

lemma parse_unsigned_range:
  "parse_unsigned neg orig s = Inr d \<Longrightarrow> - (2 ^ 63) \<le> d \<and> d < 2 ^ 63"
  by (auto simp: parse_unsigned_def split: if_splits sum.splits dest!: parse_terms_range)

lemma ParseDuration_range: "ParseDuration s = Inr d \<Longrightarrow> - (2 ^ 63) \<le> d \<and> d < 2 ^ 63"
  by (auto simp: ParseDuration_def split: list.splits if_splits dest: parse_unsigned_range)

end
