(* ===== verification/Api_Duration.thy ===== *)
theory Api_Duration
  imports Go_Json_Text Go_Time_Roundtrip
begin

text \<open>
  The \<open>Duration\<close> of \<open>pkg/api/v1/types.go\<close>: a \<open>time.Duration\<close> that is written to JSON as its text and
  read from a JSON number of nanoseconds or from a text.
\<close>

section \<open>JSON numbers as doubles\<close>

text \<open>
  A JSON number is the quotient of two natural numbers with a sign; \<open>strconv.ParseFloat\<close> rounds it to
  a double, and fails beyond the largest one. Numbers below the smallest normal double are not
  rounded to it: they are only used truncated to an integer, which is 0 for all of them.
\<close>

definition number_ratio :: "string \<Rightarrow> nat \<times> nat" where
  "number_ratio raw =
     (let s = (if raw \<noteq> [] \<and> hd raw = CHR ''-'' then tl raw else raw);
          ints = takeWhile is_digit s; s1 = dropWhile is_digit s;
          has_frac = (s1 \<noteq> [] \<and> hd s1 = CHR ''.'');
          fracs = (if has_frac then takeWhile is_digit (tl s1) else []);
          s2 = (if has_frac then dropWhile is_digit (tl s1) else s1);
          e = (if s2 = [] then [] else tl s2);
          e_neg = (e \<noteq> [] \<and> hd e = CHR ''-'');
          e_abs = read_nat (dropWhile (\<lambda>c. \<not> is_digit c) e);
          mant = read_nat (ints @ fracs)
      in if e_neg then (mant, 10 ^ (length fracs + e_abs))
         else (mant * 10 ^ e_abs, 10 ^ length fracs))"

definition negative_number :: "string \<Rightarrow> bool" where
  "negative_number raw \<longleftrightarrow> raw \<noteq> [] \<and> hd raw = CHR ''-''"

text \<open>The magnitude of the double, or \<open>None\<close> when it is out of range.\<close>

definition ParseFloat :: "string \<Rightarrow> (nat \<times> nat) option" where
  "ParseFloat raw =
     (case number_ratio raw of
        (n, d) \<Rightarrow>
          (case double_of_ratio n d of (p, q) \<Rightarrow> if q * 2 ^ 1024 \<le> p then None else Some (p, q)))"

text \<open>
  Decoding into \<open>any\<close> converts every number of the value; the first that is out of range is the error.
\<close>

fun bad_number :: "json \<Rightarrow> string option"
  and bad_numbers :: "json list \<Rightarrow> string option"
  and bad_members :: "(string \<times> json) list \<Rightarrow> string option" where
  "bad_number (JNumber raw) = (if ParseFloat raw = None then Some raw else None)"
| "bad_number (JArray vs) = bad_numbers vs"
| "bad_number (JObject ms) = bad_members ms"
| "bad_number _ = None"
| "bad_numbers [] = None"
| "bad_numbers (v # vs) = (case bad_number v of Some raw \<Rightarrow> Some raw | None \<Rightarrow> bad_numbers vs)"
| "bad_members [] = None"
| "bad_members ((k, v) # ms) = (case bad_number v of Some raw \<Rightarrow> Some raw | None \<Rightarrow> bad_members ms)"

definition number_error :: "string \<Rightarrow> gerror" where
  "number_error raw =
     ErrorString (''json: cannot unmarshal number '' @ raw @ '' into Go value of type float64'')"

definition Unmarshal_any :: "string \<Rightarrow> gerror + json" where
  "Unmarshal_any p =
     (case unmarshal_value p of
        Inl err \<Rightarrow> Inl err
      | Inr v \<Rightarrow> (case bad_number v of Some raw \<Rightarrow> Inl (number_error raw) | None \<Rightarrow> Inr v))"

text \<open>
  The conversion of a double to \<open>int64\<close> truncates. Go leaves the result to the implementation when it
  does not fit: \<open>wild\<close> is what the implementation makes of the truncated value.
\<close>

definition float_to_int64 :: "(int \<Rightarrow> int) \<Rightarrow> string \<Rightarrow> int" where
  "float_to_int64 wild raw =
     (case ParseFloat raw of
        None \<Rightarrow> 0
      | Some (p, q) \<Rightarrow>
          let t = (if negative_number raw then - int (p div q) else int (p div q))
          in if - (2 ^ 63) \<le> t \<and> t < 2 ^ 63 then t else wild t)"

section \<open>The duration\<close>

definition MarshalJSON :: "int \<Rightarrow> gerror + string" where
  "MarshalJSON d = Inr (marshal_string (Duration_String d))"

definition UnmarshalJSON :: "(int \<Rightarrow> int) \<Rightarrow> string \<Rightarrow> gerror + int" where
  "UnmarshalJSON wild p =
     (case Unmarshal_any p of
        Inl err \<Rightarrow> Inl err
      | Inr v \<Rightarrow>
          (case v of
             JNumber value \<Rightarrow> Inr (float_to_int64 wild value)
           | JString value \<Rightarrow> (case ParseDuration value of Inl err \<Rightarrow> Inl err | Inr tmp \<Rightarrow> Inr tmp)
           | _ \<Rightarrow> Inl (ErrorString ''invalid duration'')))"

lemma ascii_digits: "list_all is_digit s \<Longrightarrow> list_all (\<lambda>c. byte_val c < 0x80) s"
  by (induction s) (auto simp: is_digit_def)

lemma ascii_show_nat: "list_all (\<lambda>c. byte_val c < 0x80) (show_nat n)"
  by (rule ascii_digits [OF show_nat_digits])

lemma fmtFrac_valid: "utf8_valid (show_nat n @ fst (fmtFrac u v p)) = utf8_valid u"
proof -
  have "utf8_valid (fst (fmtFrac u v p)) = utf8_valid u"
  proof (cases rule: fmtFrac_cases [of v p u])
    case (some m w)
    have "list_all (\<lambda>c. byte_val c < 0x80) (CHR ''.'' # fixed_digits m w)"
      using ascii_digits [OF fixed_digits_all] by simp
    from utf8_ascii [OF this, of u] show ?thesis using some(4) by simp
  qed simp
  then show ?thesis by (simp add: utf8_ascii [OF ascii_show_nat])
qed

lemma utf8_unit_texts:
  "utf8_valid ''s''" "utf8_valid ''ns''" "utf8_valid ''ms''"
  "utf8_valid [CHR 0xC2, CHR 0xB5, CHR ''s'']"
  by (simp_all add: rune_width_def rune_shape_def byte_in_def)

lemma utf8_Duration_String: "utf8_valid (Duration_String d)"
proof -
  have "utf8_valid (format_small u)" for u
  proof (cases "u = 0")
    case False
    have "utf8_valid (case fmtFrac t u p of (b, w) \<Rightarrow> fmtInt b w) = utf8_valid t" for t p
      using fmtFrac_valid [of _ t u p] by (cases "fmtFrac t u p") (simp add: fmtInt_def)
    then show ?thesis using False by (simp add: format_small_def rune_width_def rune_shape_def byte_in_def)
  qed (simp add: format_small_def rune_width_def rune_shape_def byte_in_def)
  moreover have "utf8_valid (format_large u)" for u
  proof -
    obtain buf secs where f: "fmtFrac ''s'' u 9 = (buf, secs)" by fastforce
    have buf: "utf8_valid (show_nat n @ buf)" for n
      using fmtFrac_valid [of n "''s''" u 9] f utf8_unit_texts by simp
    have m: "utf8_valid (show_nat n @ c # r) = utf8_valid r" if "byte_val c < 0x80" for n c r
      using that by (simp add: utf8_ascii [OF ascii_show_nat] rune_width_ascii)
    show ?thesis using buf by (simp add: format_large_def f Let_def fmtInt_def m)
  qed
  ultimately show ?thesis by (simp add: Duration_String_def Let_def rune_width_ascii)
qed

text \<open>
  Property C30. A duration survives JSON: reading what \<open>MarshalJSON\<close> writes for a duration gives that
  duration back, for every value of the type, whatever the implementation does with numbers that
  do not fit.
\<close>

theorem Duration_json_roundtrip:
  assumes "- (2 ^ 63) \<le> d" "d < 2 ^ 63"
  shows "\<exists>p. MarshalJSON d = Inr p \<and> UnmarshalJSON wild p = Inr d"
proof -
  have "Unmarshal_any (marshal_string (Duration_String d)) = Inr (JString (Duration_String d))"
    by (simp add: Unmarshal_any_def unmarshal_marshal_string utf8_Duration_String)
  then show ?thesis
    using parse_Duration_String [OF assms] by (simp add: MarshalJSON_def UnmarshalJSON_def)
qed

lemma Duration_json_roundtrip_witness:
  "\<exists>p. MarshalJSON (- (2 ^ 63)) = Inr p \<and> UnmarshalJSON (\<lambda>t. 0) p = Inr (- (2 ^ 63))"
  by (rule Duration_json_roundtrip) simp_all

text \<open>
  What \<open>UnmarshalJSON\<close> accepts is a JSON number or a JSON text with a duration, and the
  result fits into 64 bits whenever the implementation's conversion of numbers that do not fit does;
  every other JSON value is the error \<open>invalid duration\<close>.
\<close>

theorem UnmarshalJSON_range:
  assumes "\<And>t. - (2 ^ 63) \<le> wild t \<and> wild t < 2 ^ 63"
  shows "case UnmarshalJSON wild p of
      Inr d \<Rightarrow> - (2 ^ 63) \<le> d \<and> d < 2 ^ 63
        \<and> (\<exists>raw. unmarshal_value p \<in> {Inr (JNumber raw), Inr (JString raw)})
    | Inl e \<Rightarrow> (case Unmarshal_any p of
          Inl e' \<Rightarrow> e = e'
        | Inr (JString t) \<Rightarrow> ParseDuration t = Inl e
        | Inr (JNumber raw) \<Rightarrow> False
        | Inr _ \<Rightarrow> e = ErrorString ''invalid duration'')"
proof (cases "Unmarshal_any p")
  case (Inr v)
  then have v: "unmarshal_value p = Inr v"
    by (auto simp: Unmarshal_any_def split: sum.splits option.splits)
  have num: "- (2 ^ 63) \<le> float_to_int64 wild raw \<and> float_to_int64 wild raw < 2 ^ 63" for raw
    using assms by (simp add: float_to_int64_def Let_def split: option.split)
  show ?thesis
    using Inr v num by (cases v) (auto simp: UnmarshalJSON_def dest: ParseDuration_range split: sum.splits)
qed (simp add: UnmarshalJSON_def)

lemma UnmarshalJSON_range_witness:
  "case UnmarshalJSON (\<lambda>t. 0) (marshal_string (Duration_String 5)) of
      Inr d \<Rightarrow> - (2 ^ 63) \<le> d \<and> d < 2 ^ 63 | Inl e \<Rightarrow> True"
  using UnmarshalJSON_range [of "\<lambda>t. 0" "marshal_string (Duration_String 5)"]
  by (simp split: sum.splits)

end
