(* ===== verification/Go_Json_Print.thy ===== *)
theory Go_Json_Print
  imports Go_Json_Text
begin

text \<open>
  The text of a JSON value without numbers, as \<open>json.Marshal\<close> writes it, and the theorem that the
  decoder reads the value back from any input that starts with it.
\<close>

fun print_json :: "json \<Rightarrow> string"
  and print_items :: "json list \<Rightarrow> string"
  and print_members :: "(string \<times> json) list \<Rightarrow> string" where
  "print_json JNull = ''null''"
| "print_json (JBool b) = (if b then ''true'' else ''false'')"
| "print_json (JNumber n) = n"
| "print_json (JString s) = marshal_string s"
| "print_json (JArray vs) = ''['' @ print_items vs @ '']''"
| "print_json (JObject ms) = ''{'' @ print_members ms @ ''}''"
| "print_items [] = []"
| "print_items (v # vs) = print_json v @ (if vs = [] then [] else CHR '','' # print_items vs)"
| "print_members [] = []"
| "print_members ((k, v) # ms) =
     marshal_string k @ CHR '':'' # print_json v @ (if ms = [] then [] else CHR '','' # print_members ms)"

text \<open>Values without numbers, with sound strings, nested at most \<open>n\<close> deep.\<close>

fun sound_json :: "nat \<Rightarrow> json \<Rightarrow> bool"
  and sound_items :: "nat \<Rightarrow> json list \<Rightarrow> bool"
  and sound_members :: "nat \<Rightarrow> (string \<times> json) list \<Rightarrow> bool" where
  "sound_json n (JNumber raw) = False"
| "sound_json n (JString s) = utf8_valid s"
| "sound_json n (JArray vs) = (0 < n \<and> sound_items (n - 1) vs)"
| "sound_json n (JObject ms) = (0 < n \<and> sound_members (n - 1) ms)"
| "sound_json n _ = True"
| "sound_items n [] = True"
| "sound_items n (v # vs) = (sound_json n v \<and> sound_items n vs)"
| "sound_members n [] = True"
| "sound_members n ((k, v) # ms) = (utf8_valid k \<and> sound_json n v \<and> sound_members n ms)"

text \<open>The scanner over a printed value inside another value, over its items and its members.\<close>

abbreviation value_start :: "scan_step \<Rightarrow> bool" where
  "value_start st \<equiv> st = BeginValue \<or> st = BeginValueOrEmpty"

abbreviation key_start :: "scan_step \<Rightarrow> bool" where
  "key_start st \<equiv> st = BeginString \<or> st = BeginStringOrEmpty"

lemma run_marshal_string:
  assumes "value_start st \<or> key_start st" "utf8_valid s"
  shows "scan_run st ps (marshal_string s) = Some (EndValue (JString s), ps)"
  using assms by (auto simp: run_string unquote_escape_text)

lemma scan_open:
  assumes "value_start st" "length ps < 10000"
  shows "scan_byte st ps CHR ''['' = Scanning BeginValueOrEmpty (ParseArrayValue [] # ps)"
    "scan_byte st ps CHR ''{'' = Scanning BeginStringOrEmpty (ParseObjectKey [] # ps)"
  using assms by (auto simp: stateBeginValue_def pushParseState_def isSpace_def)

text \<open>
  What a run over the items or members of a container comes to, and how it grows and ends: the last
  value, with the ones before in the state of the parser.
\<close>

definition items_read :: "parse_state list \<Rightarrow> json list \<Rightarrow> (scan_step \<times> parse_state list) option \<Rightarrow> bool" where
  "items_read ps vs r \<longleftrightarrow>
     (\<exists>w acc. r = Some (EndValue w, ParseArrayValue acc # ps) \<and> rev (w # acc) = vs)"

definition members_read ::
  "parse_state list \<Rightarrow> (string \<times> json) list \<Rightarrow> (scan_step \<times> parse_state list) option \<Rightarrow> bool" where
  "members_read ps ms r \<longleftrightarrow>
     (\<exists>w k acc. r = Some (EndValue w, ParseObjectValue acc k # ps) \<and> rev ((k, w) # acc) = ms)"

lemma run_array:
  assumes "value_start st" "length ps < 10000" "ps \<noteq> []"
    and "vs \<noteq> [] \<Longrightarrow> items_read ps vs (scan_run BeginValueOrEmpty (ParseArrayValue [] # ps) (print_items vs))"
  shows "scan_run st ps (print_json (JArray vs)) = Some (EndValue (JArray vs), ps)"
proof (cases "vs = []")
  case True
  then show ?thesis using assms(3) by (simp add: scan_open(1) [OF assms(1,2)] isSpace_def popParseState_def)
next
  case False
  then obtain w acc where "scan_run BeginValueOrEmpty (ParseArrayValue [] # ps) (print_items vs)
      = Some (EndValue w, ParseArrayValue acc # ps)" "vs = rev (w # acc)"
    using assms(4) unfolding items_read_def by blast
  then show ?thesis using assms(3)
    by (simp add: scan_open(1) [OF assms(1,2)] scan_run_append isSpace_def popParseState_def)
qed

lemma run_object:
  assumes "value_start st" "length ps < 10000" "ps \<noteq> []"
    and "ms \<noteq> [] \<Longrightarrow> members_read ps ms (scan_run BeginStringOrEmpty (ParseObjectKey [] # ps) (print_members ms))"
  shows "scan_run st ps (print_json (JObject ms)) = Some (EndValue (JObject ms), ps)"
proof (cases "ms = []")
  case True
  then show ?thesis using assms(3) by (simp add: scan_open(2) [OF assms(1,2)] isSpace_def popParseState_def)
next
  case False
  then obtain w k acc where "scan_run BeginStringOrEmpty (ParseObjectKey [] # ps) (print_members ms)
      = Some (EndValue w, ParseObjectValue acc k # ps)" "ms = rev ((k, w) # acc)"
    using assms(4) unfolding members_read_def by blast
  then show ?thesis using assms(3)
    by (simp add: scan_open(2) [OF assms(1,2)] scan_run_append isSpace_def popParseState_def)
qed

lemma run_items_Cons:
  assumes "scan_run st (ParseArrayValue acc # ps) (print_json v)
      = Some (EndValue v, ParseArrayValue acc # ps)"
    and "vs \<noteq> [] \<Longrightarrow> items_read ps (rev (v # acc) @ vs)
        (scan_run BeginValue (ParseArrayValue (v # acc) # ps) (print_items vs))"
  shows "items_read ps (rev acc @ v # vs) (scan_run st (ParseArrayValue acc # ps) (print_items (v # vs)))"
  using assms by (cases "vs = []") (simp_all add: items_read_def scan_run_append isSpace_def)

lemma run_members_Cons:
  assumes "key_start st" "utf8_valid k"
    and "scan_run BeginValue (ParseObjectValue acc k # ps) (print_json v)
      = Some (EndValue v, ParseObjectValue acc k # ps)"
    and "ms \<noteq> [] \<Longrightarrow> members_read ps (rev ((k, v) # acc) @ ms)
        (scan_run BeginString (ParseObjectKey ((k, v) # acc) # ps) (print_members ms))"
  shows "members_read ps (rev acc @ (k, v) # ms)
    (scan_run st (ParseObjectKey acc # ps) (print_members ((k, v) # ms)))"
proof -
  have "scan_run st (ParseObjectKey acc # ps) (marshal_string k)
      = Some (EndValue (JString k), ParseObjectKey acc # ps)"
    using assms(1,2) by (simp add: run_marshal_string)
  then show ?thesis using assms(3,4)
    by (cases "ms = []") (simp_all add: members_read_def scan_run_append isSpace_def key_text_def)
qed

lemma run_print:
  "\<And>n ps st. sound_json n v \<Longrightarrow> n + length ps \<le> 10000 \<Longrightarrow> ps \<noteq> [] \<Longrightarrow> value_start st \<Longrightarrow>
     scan_run st ps (print_json v) = Some (EndValue v, ps)"
  "\<And>n ps st acc. sound_items n vs \<Longrightarrow> n + length ps < 10000 \<Longrightarrow> value_start st \<Longrightarrow> vs \<noteq> [] \<Longrightarrow>
     items_read ps (rev acc @ vs) (scan_run st (ParseArrayValue acc # ps) (print_items vs))"
  "\<And>n ps st acc. sound_members n ms \<Longrightarrow> n + length ps < 10000 \<Longrightarrow> key_start st \<Longrightarrow> ms \<noteq> [] \<Longrightarrow>
     members_read ps (rev acc @ ms) (scan_run st (ParseObjectKey acc # ps) (print_members ms))"
proof (induction v and vs and ms rule: print_json_print_items_print_members.induct)
  case 1
  then show ?case by (auto simp: stateBeginValue_def isSpace_def)
next
  case (2 b)
  then show ?case by (cases b) (auto simp: stateBeginValue_def isSpace_def)
next
  case (4 s)
  then show ?case by (simp add: run_marshal_string)
next
  case (5 vs)
  then have "sound_items (n - 1) vs" "n - 1 + length ps < 10000" by auto
  with "5.IH" [of "n - 1" ps BeginValueOrEmpty "[]"] "5.prems" show ?case
    by (intro run_array) auto
next
  case (6 ms)
  then have "sound_members (n - 1) ms" "n - 1 + length ps < 10000" by auto
  with "6.IH" [of "n - 1" ps BeginStringOrEmpty "[]"] "6.prems" show ?case
    by (intro run_object) auto
next
  case (8 v vs)
  with "8.IH"(1) [of n "ParseArrayValue acc # ps" st] "8.IH"(2) [of n ps BeginValue "v # acc"]
  show ?case by (intro run_items_Cons) auto
next
  case (10 k v ms)
  with "10.IH"(1) [of n "ParseObjectValue acc k # ps" BeginValue]
    "10.IH"(2) [of n ps BeginString "(k, v) # acc"]
  show ?case by (intro run_members_Cons) auto
qed simp_all

text \<open>
  An object is read back from its text, whatever follows it; \<open>Unmarshal\<close> wants nothing to follow.
\<close>

lemma decoder_reads_object:
  assumes "sound_json 10000 (JObject ms)"
  shows "decoder_value (print_json (JObject ms) @ r) = Inr (JObject ms)"
proof (cases "ms = []")
  case True
  then show ?thesis
    by (simp add: decoder_value_def stateBeginValue_def pushParseState_def isSpace_def popParseState_def)
next
  case False
  obtain w k acc' where
    w: "scan_run BeginStringOrEmpty [ParseObjectKey []] (print_members ms)
       = Some (EndValue w, [ParseObjectValue acc' k])" "rev ((k, w) # acc') = ms"
    using run_print(3) [of 9999 ms "[]" BeginStringOrEmpty "[]"] assms False
    by (auto simp: members_read_def)
  have "readValue BeginStringOrEmpty [ParseObjectKey []] (print_members ms @ ''}'' @ r)
      = readValue (EndValue w) [ParseObjectValue acc' k] (''}'' @ r)"
    by (rule readValue_run [OF w(1)])
  then have "readValue BeginValue [] (print_json (JObject ms) @ r) = Inr (JObject ms)"
    using w(2)
    by (simp add: stateBeginValue_def pushParseState_def isSpace_def popParseState_def)
  then show ?thesis by (simp add: decoder_value_def)
qed

end
