(* ===== verification/Config_Reader.thy ===== *)
theory Config_Reader
  imports Api_Config Go_Json_Print "HOL-Library.Multiset"
begin

text \<open>
  \<open>NewConfig\<close> of \<open>pkg/api/v1/types.go\<close>: the JSON text of a configuration is decoded into the fields of
  \<open>Config\<close> by the names of their tags, then validated. \<open>encoding/json\<close> records the first value of a
  wrong type and goes on; as \<open>Decode\<close> then returns that error and \<open>NewConfig\<close> drops what was decoded,
  the model stops there.
\<close>

section \<open>Values of the wrong type\<close>

text \<open>
  The context of an error: the struct and the path of tags that lead to the field, if there is one.
\<close>

type_synonym error_context = "(string \<times> string list) option"

definition UnmarshalTypeError :: "error_context \<Rightarrow> string \<Rightarrow> string \<Rightarrow> gerror" where
  "UnmarshalTypeError ctx val typ =
     ErrorString (''json: cannot unmarshal '' @ val @
       (case ctx of
          None \<Rightarrow> '' into Go value of type ''
        | Some (struct, path) \<Rightarrow> '' into Go struct field '' @ struct @ ''.'' @ join ''.'' path @ '' of type '')
       @ typ)"

fun json_kind :: "json \<Rightarrow> string" where
  "json_kind JNull = ''null''"
| "json_kind (JBool b) = ''bool''"
| "json_kind (JNumber n) = ''number''"
| "json_kind (JString s) = ''string''"
| "json_kind (JArray vs) = ''array''"
| "json_kind (JObject ms) = ''object''"

section \<open>Fields by name\<close>

text \<open>
  \<open>foldName\<close>, as far as it can make a key equal to a tag: the letters of ASCII, and the two other
  runes that fold to one (the Kelvin sign and the long s). A field is found by its exact tag or else
  by its folded one.
\<close>

function fold_name :: "string \<Rightarrow> string" where
  "fold_name [] = []"
| "fold_name (c # s) =
     (if 97 \<le> byte_val c \<and> byte_val c \<le> 122 then char_of (byte_val c - 32) # fold_name s
      else if c = CHR 0xE2 \<and> take 2 s = [CHR 0x84, CHR 0xAA] then CHR ''K'' # fold_name (drop 2 s)
      else if c = CHR 0xC5 \<and> take 1 s = [CHR 0xBF] then CHR ''S'' # fold_name (drop 1 s)
      else c # fold_name s)"
  by pat_completeness auto
termination by (relation "measure length") auto

definition find_field :: "string list \<Rightarrow> string \<Rightarrow> string option" where
  "find_field tags k =
     (if k \<in> set tags then Some k else find (\<lambda>t. fold_name t = fold_name k) tags)"

section \<open>Decoding into the fields\<close>

definition decode_string :: "error_context \<Rightarrow> string \<Rightarrow> json \<Rightarrow> gerror + string" where
  "decode_string ctx old v =
     (case v of
        JNull \<Rightarrow> Inr old
      | JString s \<Rightarrow> Inr s
      | _ \<Rightarrow> Inl (UnmarshalTypeError ctx (json_kind v) ''string''))"

fun decode_string_members ::
  "error_context \<Rightarrow> (string \<times> json) list \<Rightarrow> (string \<times> string) list \<Rightarrow> gerror + (string \<times> string) list" where
  "decode_string_members ctx [] al = Inr al"
| "decode_string_members ctx ((k, v) # ms) al =
     (case decode_string ctx [] v of
        Inl e \<Rightarrow> Inl e
      | Inr t \<Rightarrow> decode_string_members ctx ms (AList.update k t al))"

definition decode_string_map :: "error_context \<Rightarrow> string go_map \<Rightarrow> json \<Rightarrow> gerror + string go_map" where
  "decode_string_map ctx old v =
     (case v of
        JNull \<Rightarrow> Inr None
      | JObject ms \<Rightarrow>
          (case decode_string_members ctx ms (map_entries old) of Inl e \<Rightarrow> Inl e | Inr al \<Rightarrow> Inr (Some al))
      | _ \<Rightarrow> Inl (UnmarshalTypeError ctx (json_kind v) ''map[string]string''))"

text \<open>
  A slice is decoded into the array behind the slice that was there, so a \<open>null\<close> keeps what an earlier
  value of the same key left at that place.
\<close>

fun decode_elements :: "error_context \<Rightarrow> string list \<Rightarrow> json list \<Rightarrow> gerror + string list" where
  "decode_elements ctx behind [] = Inr []"
| "decode_elements ctx behind (v # vs) =
     (case decode_string ctx (case behind of [] \<Rightarrow> [] | b # _ \<Rightarrow> b) v of
        Inl e \<Rightarrow> Inl e
      | Inr t \<Rightarrow>
          (case decode_elements ctx (tl behind) vs of Inl e \<Rightarrow> Inl e | Inr ts \<Rightarrow> Inr (t # ts)))"

definition decode_strings :: "error_context \<Rightarrow> string list \<Rightarrow> json \<Rightarrow> gerror + (string list \<times> string list)" where
  "decode_strings ctx behind v =
     (case v of
        JNull \<Rightarrow> Inr ([], [])
      | JArray vs \<Rightarrow>
          (case decode_elements ctx behind vs of
             Inl e \<Rightarrow> Inl e
           | Inr ts \<Rightarrow> Inr (ts, if ts = [] then [] else ts @ drop (length ts) behind))
      | _ \<Rightarrow> Inl (UnmarshalTypeError ctx (json_kind v) ''[]string''))"

fun decode_features_members ::
  "error_context \<Rightarrow> (string \<times> json) list \<Rightarrow> (string \<times> string list) list
   \<Rightarrow> gerror + (string \<times> string list) list" where
  "decode_features_members ctx [] al = Inr al"
| "decode_features_members ctx ((k, v) # ms) al =
     (case decode_strings ctx [] v of
        Inl e \<Rightarrow> Inl e
      | Inr (ts, _) \<Rightarrow> decode_features_members ctx ms (AList.update k ts al))"

definition decode_features ::
  "error_context \<Rightarrow> string list go_map option \<Rightarrow> json \<Rightarrow> gerror + string list go_map option" where
  "decode_features ctx old v =
     (case v of
        JNull \<Rightarrow> Inr None
      | JObject ms \<Rightarrow>
          (case decode_features_members ctx ms (case old of None \<Rightarrow> [] | Some m \<Rightarrow> map_entries m) of
             Inl e \<Rightarrow> Inl e
           | Inr al \<Rightarrow> Inr (Some (Some al)))
      | _ \<Rightarrow> Inl (UnmarshalTypeError ctx (json_kind v) ''v1.NamespaceFeatures''))"

definition ctb_tags :: "string list" where
  "ctb_tags = [''name'', ''certWritePath'', ''volumeMountPath'', ''volumeName'', ''resyncInterval'']"

definition zero_ctb :: cluster_trust_bundle where
  "zero_ctb = \<lparr>ctb_Name = [], ctb_CertWritePath = [], ctb_VolumeMountPath = [], ctb_VolumeName = [],
     ctb_ResyncInterval = []\<rparr>"

definition decode_ctb_field ::
  "string \<Rightarrow> json \<Rightarrow> cluster_trust_bundle \<Rightarrow> gerror + cluster_trust_bundle" where
  "decode_ctb_field tag v b =
     (let dec = (\<lambda>old set. case decode_string (Some (''ClusterTrustBundle'', [''clusterTrustBundle'', tag])) old v
                   of Inl e \<Rightarrow> Inl e | Inr t \<Rightarrow> Inr (set t))
      in if tag = ''name'' then dec (ctb_Name b) (\<lambda>t. b\<lparr>ctb_Name := t\<rparr>)
         else if tag = ''certWritePath'' then dec (ctb_CertWritePath b) (\<lambda>t. b\<lparr>ctb_CertWritePath := t\<rparr>)
         else if tag = ''volumeMountPath'' then dec (ctb_VolumeMountPath b) (\<lambda>t. b\<lparr>ctb_VolumeMountPath := t\<rparr>)
         else if tag = ''volumeName'' then dec (ctb_VolumeName b) (\<lambda>t. b\<lparr>ctb_VolumeName := t\<rparr>)
         else dec (ctb_ResyncInterval b) (\<lambda>t. b\<lparr>ctb_ResyncInterval := t\<rparr>))"

fun decode_ctb_members ::
  "(string \<times> json) list \<Rightarrow> cluster_trust_bundle \<Rightarrow> gerror + cluster_trust_bundle" where
  "decode_ctb_members [] b = Inr b"
| "decode_ctb_members ((k, v) # ms) b =
     (case find_field ctb_tags k of
        None \<Rightarrow> decode_ctb_members ms b
      | Some tag \<Rightarrow>
          (case decode_ctb_field tag v b of Inl e \<Rightarrow> Inl e | Inr b' \<Rightarrow> decode_ctb_members ms b'))"

definition decode_ctb ::
  "error_context \<Rightarrow> cluster_trust_bundle option \<Rightarrow> json \<Rightarrow> gerror + cluster_trust_bundle option" where
  "decode_ctb ctx old v =
     (case v of
        JNull \<Rightarrow> Inr None
      | JObject ms \<Rightarrow>
          (case decode_ctb_members ms (case old of None \<Rightarrow> zero_ctb | Some b \<Rightarrow> b) of
             Inl e \<Rightarrow> Inl e
           | Inr b \<Rightarrow> Inr (Some b))
      | _ \<Rightarrow> Inl (UnmarshalTypeError ctx (json_kind v) ''k8s.ClusterTrustBundle''))"

definition config_tags :: "string list" where
  "config_tags = [''overrides'', ''clusterTrustBundle'', ''namespaceFeatures'', ''availableFeatures'']"

text \<open>One member of the object: the configuration and the array behind its available features.\<close>

definition decode_config_field ::
  "string \<Rightarrow> json \<Rightarrow> config \<times> string list \<Rightarrow> gerror + config \<times> string list" where
  "decode_config_field tag v = (\<lambda>(c, behind).
     let ctx = Some (''Config'', [tag])
     in if tag = ''overrides''
        then (case decode_string_map ctx (cfg_Overrides c) v of
                Inl e \<Rightarrow> Inl e | Inr m \<Rightarrow> Inr (c\<lparr>cfg_Overrides := m\<rparr>, behind))
        else if tag = ''clusterTrustBundle''
        then (case decode_ctb ctx (cfg_ClusterTrustBundleMapping c) v of
                Inl e \<Rightarrow> Inl e | Inr b \<Rightarrow> Inr (c\<lparr>cfg_ClusterTrustBundleMapping := b\<rparr>, behind))
        else if tag = ''namespaceFeatures''
        then (case decode_features ctx (cfg_NamespaceFeatures c) v of
                Inl e \<Rightarrow> Inl e | Inr m \<Rightarrow> Inr (c\<lparr>cfg_NamespaceFeatures := m\<rparr>, behind))
        else (case decode_strings ctx behind v of
                Inl e \<Rightarrow> Inl e | Inr (fs, behind') \<Rightarrow> Inr (c\<lparr>cfg_AvailableFeatures := fs\<rparr>, behind')))"

fun decode_config_members ::
  "(string \<times> json) list \<Rightarrow> config \<times> string list \<Rightarrow> gerror + config \<times> string list" where
  "decode_config_members [] cb = Inr cb"
| "decode_config_members ((k, v) # ms) cb =
     (case find_field config_tags k of
        None \<Rightarrow> decode_config_members ms cb
      | Some tag \<Rightarrow>
          (case decode_config_field tag v cb of Inl e \<Rightarrow> Inl e | Inr cb' \<Rightarrow> decode_config_members ms cb'))"

definition decode_config :: "json \<Rightarrow> gerror + config" where
  "decode_config v =
     (case v of
        JNull \<Rightarrow> Inr zero_config
      | JObject ms \<Rightarrow>
          (case decode_config_members ms (zero_config, []) of Inl e \<Rightarrow> Inl e | Inr (c, _) \<Rightarrow> Inr c)
      | _ \<Rightarrow> Inl (UnmarshalTypeError None (json_kind v) ''v1.Config''))"

definition Decode :: "string \<Rightarrow> gerror + config" where
  "Decode r = (case decoder_value r of Inl e \<Rightarrow> Inl e | Inr v \<Rightarrow> decode_config v)"

section \<open>The new configuration\<close>

text \<open>
  \<open>order\<close> is the order in which the runtime's \<open>range\<close> loops visit the entries of the features map;
  \<open>validate\<close> is the struct validation of \<open>go-playground/validator\<close>, which returns an error or nil.
\<close>

text \<open>
  What the \<open>validate\<close> tags of the two structs ask for: \<open>required\<close> on \<open>Overrides\<close>, a map, which must not be
  nil, and on four fields of the trust bundle, which must not be empty; the validator visits a struct
  behind a pointer that is not nil.
\<close>

definition bundle_required_ok :: "cluster_trust_bundle \<Rightarrow> bool" where
  "bundle_required_ok m \<longleftrightarrow>
     ctb_Name m \<noteq> [] \<and> ctb_CertWritePath m \<noteq> [] \<and> ctb_VolumeMountPath m \<noteq> [] \<and> ctb_VolumeName m \<noteq> []"

definition required_ok :: "config \<Rightarrow> bool" where
  "required_ok c \<longleftrightarrow>
     cfg_Overrides c \<noteq> None
     \<and> (case cfg_ClusterTrustBundleMapping c of None \<Rightarrow> True | Some m \<Rightarrow> bundle_required_ok m)"

type_synonym features_order = "(string \<times> string list) list \<Rightarrow> (string \<times> string list) list"

definition in_order :: "features_order \<Rightarrow> config \<Rightarrow> config" where
  "in_order order c = c\<lparr>cfg_NamespaceFeatures := map_option (map_option order) (cfg_NamespaceFeatures c)\<rparr>"

definition NewConfig ::
  "features_order \<Rightarrow> (config \<Rightarrow> gerror option) \<Rightarrow> string \<Rightarrow> gerror + config" where
  "NewConfig order validate r =
     (case Decode r of
        Inl err \<Rightarrow> Inl err
      | Inr decoded \<Rightarrow>
          let out = in_order order decoded
          in (case validate out of
                Some err \<Rightarrow> Inl err
              | None \<Rightarrow>
                  (case validateFeatureAliases out KnownFeatureKeys of
                     Some err \<Rightarrow> Inl err
                   | None \<Rightarrow> Inr out)))"

lemma NewConfig_Inr:
  "NewConfig order validate r = Inr c
   \<longleftrightarrow> (\<exists>d. Decode r = Inr d \<and> c = in_order order d)
     \<and> validate c = None \<and> features_valid c KnownFeatureKeys"
  by (auto simp: NewConfig_def Let_def validateFeatureAliases_None [symmetric]
      split: sum.splits option.splits)

section \<open>The shape of what is decoded\<close>

text \<open>
  A decoded configuration is well-formed: its maps have no key twice, and the pointer to the features
  is nil or points to a map that is not nil.
\<close>

definition config_wf :: "config \<Rightarrow> bool" where
  "config_wf c \<longleftrightarrow> map_wf (cfg_Overrides c)
     \<and> (case cfg_NamespaceFeatures c of None \<Rightarrow> True | Some m \<Rightarrow> m \<noteq> None \<and> map_wf m)"

lemma decode_string_members_distinct:
  "decode_string_members ctx ms al = Inr al' \<Longrightarrow> distinct (map fst al) \<Longrightarrow> distinct (map fst al')"
  by (induction ctx ms al rule: decode_string_members.induct)
    (auto split: sum.splits intro: distinct_update)

lemma decode_features_members_distinct:
  "decode_features_members ctx ms al = Inr al' \<Longrightarrow> distinct (map fst al) \<Longrightarrow> distinct (map fst al')"
  by (induction ctx ms al rule: decode_features_members.induct)
    (auto split: sum.splits prod.splits simp: distinct_update)

lemma decode_string_map_wf:
  "decode_string_map ctx old v = Inr m \<Longrightarrow> map_wf old \<Longrightarrow> map_wf m"
  by (auto simp: decode_string_map_def map_wf_def split: json.splits sum.splits
      dest: decode_string_members_distinct)

lemma decode_features_wf:
  "decode_features ctx old v = Inr m \<Longrightarrow>
   (case old of None \<Rightarrow> True | Some x \<Rightarrow> x \<noteq> None \<and> map_wf x) \<Longrightarrow>
   (case m of None \<Rightarrow> True | Some x \<Rightarrow> x \<noteq> None \<and> map_wf x)"
  by (auto simp: decode_features_def map_wf_def split: json.splits sum.splits option.splits
      dest: decode_features_members_distinct)

lemma decode_config_field_wf:
  "decode_config_field tag v cb = Inr cb' \<Longrightarrow> config_wf (fst cb) \<Longrightarrow> config_wf (fst cb')"
  by (cases cb) (auto simp: decode_config_field_def config_wf_def Let_def split: if_splits sum.splits
      dest: decode_string_map_wf decode_features_wf)

lemma decode_config_members_wf:
  "decode_config_members ms cb = Inr cb' \<Longrightarrow> config_wf (fst cb) \<Longrightarrow> config_wf (fst cb')"
proof (induction ms cb rule: decode_config_members.induct)
  case (2 k v ms cb)
  show ?case
  proof (cases "find_field config_tags k")
    case (Some tag)
    with "2.prems"(1) obtain cb1 where cb1: "decode_config_field tag v cb = Inr cb1"
      "decode_config_members ms cb1 = Inr cb'" by (auto split: sum.splits)
    from "2.IH"(2) [OF Some cb1] decode_config_field_wf [OF cb1(1) "2.prems"(2)] show ?thesis .
  qed (use 2 in simp)
qed simp

lemma Decode_wf: "Decode r = Inr c \<Longrightarrow> config_wf c"
  by (auto simp: Decode_def decode_config_def config_wf_def zero_config_def map_wf_def
      split: sum.splits json.splits dest!: decode_config_members_wf)

definition reorders :: "('a list \<Rightarrow> 'a list) \<Rightarrow> bool" where
  "reorders order \<longleftrightarrow> (\<forall>xs. mset (order xs) = mset xs)"

lemma in_order_wf: "reorders order \<Longrightarrow> config_wf c \<Longrightarrow> config_wf (in_order order c)"
proof -
  assume o: "reorders order"
  have "distinct (map fst xs) \<Longrightarrow> distinct (map fst (order xs))" for xs
    using o by (metis mset_eq_imp_distinct_iff mset_map reorders_def)
  then show "config_wf c \<Longrightarrow> config_wf (in_order order c)"
    by (auto simp: config_wf_def in_order_def map_wf_def split: option.splits)
qed

end
