(* ===== verification/Config_Roundtrip.thy ===== *)
theory Config_Roundtrip
  imports Config_Reader
begin

text \<open>
  The JSON text of a configuration, by the tags of its structs and the rules of \<open>json.Marshal\<close>, and
  the theorem that \<open>NewConfig\<close> reads it back.
\<close>

section \<open>The text of a configuration\<close>

definition json_strings :: "string list \<Rightarrow> json" where
  "json_strings fs = JArray (map JString fs)"

definition json_map :: "('a \<Rightarrow> json) \<Rightarrow> (string \<times> 'a) list \<Rightarrow> json" where
  "json_map f al = JObject (map (\<lambda>(k, v). (k, f v)) al)"

definition json_ctb :: "cluster_trust_bundle \<Rightarrow> json" where
  "json_ctb b = JObject
     ([(''name'', JString (ctb_Name b)), (''certWritePath'', JString (ctb_CertWritePath b)),
       (''volumeMountPath'', JString (ctb_VolumeMountPath b)), (''volumeName'', JString (ctb_VolumeName b))]
      @ (if ctb_ResyncInterval b = [] then [] else [(''resyncInterval'', JString (ctb_ResyncInterval b))]))"

definition config_json :: "config \<Rightarrow> json" where
  "config_json c = JObject
     ([(''overrides'', case cfg_Overrides c of None \<Rightarrow> JNull | Some al \<Rightarrow> json_map JString al)]
      @ (case cfg_ClusterTrustBundleMapping c of None \<Rightarrow> [] | Some b \<Rightarrow> [(''clusterTrustBundle'', json_ctb b)])
      @ (case cfg_NamespaceFeatures c of
           None \<Rightarrow> []
         | Some m \<Rightarrow> [(''namespaceFeatures'',
             case m of None \<Rightarrow> JNull | Some al \<Rightarrow> json_map json_strings al)])
      @ (if cfg_AvailableFeatures c = [] then []
         else [(''availableFeatures'', json_strings (cfg_AvailableFeatures c))]))"

definition config_text :: "config \<Rightarrow> string" where
  "config_text c = print_json (config_json c)"

text \<open>Every string of the configuration is well-formed UTF-8, as a JSON text has to be.\<close>

definition sound_entries :: "('a \<Rightarrow> bool) \<Rightarrow> (string \<times> 'a) list \<Rightarrow> bool" where
  "sound_entries P al \<longleftrightarrow> list_all (\<lambda>(k, v). utf8_valid k \<and> P v) al"

definition config_sound :: "config \<Rightarrow> bool" where
  "config_sound c \<longleftrightarrow>
     sound_entries utf8_valid (map_entries (cfg_Overrides c))
     \<and> (case cfg_ClusterTrustBundleMapping c of None \<Rightarrow> True
        | Some b \<Rightarrow> list_all utf8_valid [ctb_Name b, ctb_CertWritePath b, ctb_VolumeMountPath b,
            ctb_VolumeName b, ctb_ResyncInterval b])
     \<and> sound_entries (list_all utf8_valid) (namespace_entries c)
     \<and> list_all utf8_valid (cfg_AvailableFeatures c)"

section \<open>It is sound JSON\<close>

lemma utf8_tag: "list_all (\<lambda>c. byte_val c < 0x80) s \<Longrightarrow> utf8_valid s"
  using utf8_ascii [of s "[]"] by simp

lemma sound_json_strings: "list_all utf8_valid fs \<Longrightarrow> sound_json (Suc n) (json_strings fs)"
proof -
  assume "list_all utf8_valid fs"
  then have "sound_items n (map JString fs)" by (induction fs) auto
  then show ?thesis by (simp add: json_strings_def)
qed

lemma sound_json_map:
  assumes "sound_entries P al" "\<And>v. P v \<Longrightarrow> sound_json n (f v)"
  shows "sound_json (Suc n) (json_map f al)"
proof -
  have "sound_members n (map (\<lambda>(k, v). (k, f v)) al)"
    using assms by (induction al) (auto simp: sound_entries_def)
  then show ?thesis by (simp add: json_map_def)
qed

lemma sound_members_append:
  "sound_members n (xs @ ys) \<longleftrightarrow> sound_members n xs \<and> sound_members n ys"
  by (induction xs) auto

lemma sound_config_json:
  assumes "config_sound c"
  shows "sound_json (Suc (Suc (Suc n))) (config_json c)"
proof -
  let ?m = "Suc (Suc n)"
  have overrides: "sound_json ?m (case cfg_Overrides c of None \<Rightarrow> JNull | Some al \<Rightarrow> json_map JString al)"
    using assms by (auto simp: config_sound_def intro: sound_json_map split: option.split)
  have ctb: "sound_members ?m (case cfg_ClusterTrustBundleMapping c of None \<Rightarrow> []
      | Some b \<Rightarrow> [(''clusterTrustBundle'', json_ctb b)])"
    using assms by (auto simp: config_sound_def json_ctb_def utf8_tag simp del: utf8_valid.simps split: option.splits)
  have features: "sound_members ?m (case cfg_NamespaceFeatures c of None \<Rightarrow> []
      | Some m \<Rightarrow> [(''namespaceFeatures'', case m of None \<Rightarrow> JNull | Some al \<Rightarrow> json_map json_strings al)])"
    using assms
    by (auto simp: config_sound_def namespace_entries_def utf8_tag simp del: utf8_valid.simps
        intro: sound_json_map sound_json_strings split: option.splits)
  have available: "sound_json ?m (json_strings (cfg_AvailableFeatures c))"
    using assms by (simp add: config_sound_def sound_json_strings)
  show ?thesis
    using overrides ctb features available
    by (simp add: config_json_def sound_members_append utf8_tag del: utf8_valid.simps)
qed

section \<open>It decodes to the configuration\<close>

lemma update_fresh: "k \<notin> fst ` set al \<Longrightarrow> AList.update k v al = al @ [(k, v)]"
  by (induction al) auto

lemma decode_string_members_map:
  "distinct (map fst (acc @ al)) \<Longrightarrow>
   decode_string_members ctx (map (\<lambda>(k, v). (k, JString v)) al) acc = Inr (acc @ al)"
proof (induction al arbitrary: acc)
  case (Cons e al)
  then show ?case by (cases e) (simp add: decode_string_def update_fresh)
qed simp

lemma decode_elements_map: "decode_elements ctx behind (map JString fs) = Inr fs"
  by (induction fs arbitrary: behind) (simp_all add: decode_string_def)

lemma decode_features_members_map:
  "distinct (map fst (acc @ al)) \<Longrightarrow>
   decode_features_members ctx (map (\<lambda>(k, v). (k, json_strings v)) al) acc = Inr (acc @ al)"
proof (induction al arbitrary: acc)
  case (Cons e al)
  then show ?case
    by (cases e) (simp add: decode_strings_def json_strings_def decode_elements_map update_fresh)
qed simp

lemma decode_overrides_json:
  "map_wf m \<Longrightarrow> decode_string_map ctx None
     (case m of None \<Rightarrow> JNull | Some al \<Rightarrow> json_map JString al) = Inr m"
  using decode_string_members_map [of "[]" "map_entries m" ctx]
  by (cases m) (simp_all add: decode_string_map_def json_map_def map_wf_def)

lemma decode_features_json:
  "map_wf (Some al) \<Longrightarrow> decode_features ctx None (json_map json_strings al) = Inr (Some (Some al))"
  using decode_features_members_map [of "[]" al ctx]
  by (simp add: decode_features_def json_map_def map_wf_def)

lemma decode_ctb_json: "decode_ctb ctx None (json_ctb b) = Inr (Some b)"
  by (simp add: decode_ctb_def json_ctb_def find_field_def ctb_tags_def decode_ctb_field_def
      decode_string_def zero_ctb_def)

lemma decode_config_json:
  assumes "config_wf c"
  shows "decode_config (config_json c) = Inr c"
proof -
  have fields: "find_field config_tags ''overrides'' = Some ''overrides''"
    "find_field config_tags ''clusterTrustBundle'' = Some ''clusterTrustBundle''"
    "find_field config_tags ''namespaceFeatures'' = Some ''namespaceFeatures''"
    "find_field config_tags ''availableFeatures'' = Some ''availableFeatures''"
    by (simp_all add: find_field_def config_tags_def)
  have over: "map_wf (cfg_Overrides c)" using assms by (simp add: config_wf_def)
  show ?thesis
    using assms
    by (cases "cfg_ClusterTrustBundleMapping c"; cases "cfg_NamespaceFeatures c")
      (auto simp: decode_config_def config_json_def fields decode_config_field_def zero_config_def
        decode_overrides_json [OF over] decode_ctb_json decode_features_json config_wf_def
        decode_strings_def json_strings_def decode_elements_map)
qed

lemma Decode_text:
  assumes "config_wf c" "config_sound c"
  shows "Decode (config_text c @ junk) = Inr c"
proof -
  obtain ms where ms: "config_json c = JObject ms" by (simp add: config_json_def)
  have "sound_json 10000 (JObject ms)"
    using sound_config_json [OF assms(2), of 9997] by (simp add: ms)
  then have "decoder_value (config_text c @ junk) = Inr (config_json c)"
    unfolding config_text_def ms by (rule decoder_reads_object)
  then show ?thesis by (simp add: Decode_def decode_config_json [OF assms(1)])
qed

text \<open>
  Property C26. Every configuration can be written down: from a text that starts with the JSON of a
  well-formed configuration, \<open>NewConfig\<close> reads exactly that configuration (whatever follows in the
  text), provided that the validation accepts it.
\<close>

theorem NewConfig_roundtrip:
  assumes "config_wf c" "config_sound c"
    and "validate (in_order order c) = None" "features_valid (in_order order c) KnownFeatureKeys"
  shows "NewConfig order validate (config_text c @ junk) = Inr (in_order order c)"
  using assms Decode_text [OF assms(1,2)] by (auto simp: NewConfig_Inr)

definition sample_features :: config where
  "sample_features = zero_config\<lparr>
     cfg_AvailableFeatures := [AnnotationSetFipsMode, AnnotationSetLandscape],
     cfg_NamespaceFeatures := Some (Some [(''apps'', [AnnotationAll])])\<rparr>"

lemma sound_annotation:
  "utf8_valid AnnotationSetFipsMode" "utf8_valid AnnotationSetLandscape" "utf8_valid AnnotationAll"
  "utf8_valid AnnotationAddClusterTrustBundle" "utf8_valid AnnotationAlterImgRegistry"
  "utf8_valid AnnotationSetPullSecret"
  by (simp_all add: utf8_tag annotation_defs del: utf8_valid.simps)

lemma sample_features_ok:
  "config_wf sample_features" "config_sound sample_features"
  "in_order rev sample_features = sample_features" "features_valid sample_features KnownFeatureKeys"
  by (simp_all add: config_wf_def config_sound_def sound_entries_def in_order_def features_valid_def
      sample_features_def zero_config_def map_wf_def namespace_entries_def KnownFeatureKeys_def
      entry_valid_def sound_annotation utf8_tag del: utf8_valid.simps)

lemma NewConfig_roundtrip_witness:
  "NewConfig rev (\<lambda>c. None) (config_text sample_features @ ''# more'') = Inr sample_features"
  using NewConfig_roundtrip [of sample_features "\<lambda>c. None" rev "''# more''"] sample_features_ok by simp

section \<open>What every configuration that is read has\<close>


lemma sample_features_read: "NewConfig rev (\<lambda>c. None) (config_text sample_features) = Inr sample_features"
proof -
  have "Decode (config_text sample_features @ []) = Inr sample_features"
    using sample_features_ok by (intro Decode_text) simp_all
  then show ?thesis using sample_features_ok by (auto simp: NewConfig_Inr)
qed


text \<open>
  A configuration that \<open>NewConfig\<close> returns grants a namespace by default only features
  the program knows, and only available ones when a catalog is given, whatever the text, the order
  of the maps and the struct validator.
\<close>

theorem NewConfig_defaults_known:
  assumes "NewConfig order validate raw = Inr c" "default_granted c ns k"
  shows "k \<in> set KnownFeatureKeys \<and> (k \<in> set (cfg_AvailableFeatures c) \<or> cfg_AvailableFeatures c = [])"
  using assms default_granted_known [of c ns k] by (auto simp: NewConfig_Inr)

lemma NewConfig_defaults_known_witness:
  "NewConfig rev (\<lambda>c. None) (config_text sample_features) = Inr sample_features
   \<and> AnnotationSetLandscape \<in> set KnownFeatureKeys"
proof -
  have "default_granted sample_features ''apps'' AnnotationSetLandscape"
    by (simp add: default_granted_def feature_list_def sample_features_def)
  from NewConfig_defaults_known [OF sample_features_read this] sample_features_read show ?thesis by blast
qed

end
