(* ===== verification/Go_Flag.thy ===== *)
theory Go_Flag
  imports Go_Strings
begin

text \<open>
  Command lines as Go's package \<open>flag\<close> reads them: \<open>-name=value\<close>, \<open>-name value\<close>, the second dash, the
  boolean flags that need no value, \<open>--\<close> and the first argument that is no flag. The state \<open>'c\<close> is the
  variables the flags are bound to.
\<close>

text \<open>A flag: its name, whether it is boolean, and \<open>Set\<close>.\<close>

record 'c flag =
  fl_name :: string
  fl_isBool :: bool
  fl_set :: "string \<Rightarrow> 'c \<Rightarrow> gerror + 'c"

text \<open>How a command line ends: with the remaining arguments, with the usage text, or with an error.\<close>

datatype flag_error =
    BadSyntax string
  | NotDefined string
  | NeedsArgument string
  | InvalidValue string string gerror

datatype 'c parsed = Parsed 'c "string list" | Help | BadFlag flag_error

definition string_flag :: "string \<Rightarrow> (string \<Rightarrow> 'c \<Rightarrow> 'c) \<Rightarrow> 'c flag" where
  "string_flag name assign = \<lparr>fl_name = name, fl_isBool = False, fl_set = (\<lambda>v c. Inr (assign v c))\<rparr>"

definition ParseBool :: "string \<Rightarrow> bool option" where
  "ParseBool s =
     (if s \<in> {''1'', ''t'', ''T'', ''TRUE'', ''true'', ''True''} then Some True
      else if s \<in> {''0'', ''f'', ''F'', ''FALSE'', ''false'', ''False''} then Some False
      else None)"

definition bool_flag :: "string \<Rightarrow> (bool \<Rightarrow> 'c \<Rightarrow> 'c) \<Rightarrow> 'c flag" where
  "bool_flag name assign = \<lparr>fl_name = name, fl_isBool = True, fl_set = (\<lambda>v c.
     case ParseBool v of None \<Rightarrow> Inl (ErrorString ''parse error'') | Some b \<Rightarrow> Inr (assign b c))\<rparr>"

text \<open>The name and the value of an argument without its dashes; the first character is no \<open>=\<close>.\<close>

fun split_value :: "string \<Rightarrow> string \<times> string option" where
  "split_value [] = ([], None)"
| "split_value (c # s) =
     (if c = CHR ''='' then ([], Some s) else (case split_value s of (n, v) \<Rightarrow> (c # n, v)))"

definition flag_name_value :: "string \<Rightarrow> string \<times> string option" where
  "flag_name_value a =
     (case a of [] \<Rightarrow> ([], None) | c # s \<Rightarrow> (case split_value s of (n, v) \<Rightarrow> (c # n, v)))"

definition find_flag :: "'c flag list \<Rightarrow> string \<Rightarrow> 'c flag option" where
  "find_flag flags name = find (\<lambda>f. fl_name f = name) flags"

text \<open>
  One flag, \<open>parseOne\<close> behind its dashes: the value, the variables and the rest of the arguments.
\<close>

definition set_flag ::
  "'c flag list \<Rightarrow> string \<Rightarrow> string list \<Rightarrow> 'c \<Rightarrow> 'c parsed" where
  "set_flag flags arg rest c =
     (case flag_name_value arg of
        (name, val) \<Rightarrow>
          (case find_flag flags name of
             None \<Rightarrow>
               if name = ''help'' \<or> name = ''h'' then Help
               else BadFlag (NotDefined name)
           | Some f \<Rightarrow>
               if fl_isBool f
               then let v = (case val of None \<Rightarrow> ''true'' | Some v \<Rightarrow> v)
                    in (case fl_set f v c of
                          Inl e \<Rightarrow> BadFlag (InvalidValue name v e)
                        | Inr c' \<Rightarrow> Parsed c' rest)
               else (case (case val of Some v \<Rightarrow> Some (v, rest)
                           | None \<Rightarrow> (case rest of [] \<Rightarrow> None | v # rest' \<Rightarrow> Some (v, rest'))) of
                       None \<Rightarrow> BadFlag (NeedsArgument name)
                     | Some (v, rest') \<Rightarrow>
                         (case fl_set f v c of
                            Inl e \<Rightarrow> BadFlag (InvalidValue name v e)
                          | Inr c' \<Rightarrow> Parsed c' rest'))))"

text \<open>The dashes of an argument: \<open>None\<close> when it is no flag.\<close>

definition flag_body :: "string \<Rightarrow> string option" where
  "flag_body s =
     (if length s < 2 \<or> hd s \<noteq> CHR ''-'' then None
      else if s ! 1 = CHR ''-'' then Some (drop 2 s) else Some (drop 1 s))"

lemma set_flag_rest: "set_flag flags arg rest c = Parsed c' rest' \<Longrightarrow> length rest' \<le> length rest"
  by (auto simp: set_flag_def Let_def split: prod.splits option.splits if_splits sum.splits list.splits)

function parse_flags :: "'c flag list \<Rightarrow> string list \<Rightarrow> 'c \<Rightarrow> 'c parsed" where
  "parse_flags flags [] c = Parsed c []"
| "parse_flags flags (s # args) c =
     (case flag_body s of
        None \<Rightarrow> Parsed c (s # args)
      | Some a \<Rightarrow>
          if s = ''--'' then Parsed c args
          else if a = [] \<or> hd a = CHR ''-'' \<or> hd a = CHR ''='' then BadFlag (BadSyntax s)
          else (case set_flag flags a args c of
                  Parsed c' rest \<Rightarrow> parse_flags flags rest c'
                | Help \<Rightarrow> Help
                | BadFlag e \<Rightarrow> BadFlag e))"
  by pat_completeness auto
termination
  by (relation "measure (\<lambda>(flags, args, c). length args)") (auto dest!: set_flag_rest)

declare parse_flags.simps(2) [simp del]

section \<open>What a command line sets\<close>

lemma split_value_eq:
  "CHR ''='' \<notin> set n \<Longrightarrow> split_value (n @ CHR ''='' # v) = (n, Some v)"
  by (induction n) auto

text \<open>An argument \<open>--name=value\<close> sets the flag of that name.\<close>

lemma parse_flags_set:
  assumes "find_flag flags n = Some f" "fl_set f v c = Inr c'"
    and "n \<noteq> []" "hd n \<noteq> CHR ''-''" "CHR ''='' \<notin> set n"
  shows "parse_flags flags ((''--'' @ n @ ''='' @ v) # args) c = parse_flags flags args c'"
proof -
  obtain a t where n: "n = a # t" using assms(3) by (cases n) auto
  have "flag_name_value (n @ ''='' @ v) = (n, Some v)"
    using assms(5) by (simp add: n flag_name_value_def split_value_eq)
  then have "set_flag flags (n @ ''='' @ v) args c = Parsed c' args"
    using assms(1,2) by (simp add: set_flag_def Let_def split: if_split)
  moreover have "flag_body (''--'' @ n @ ''='' @ v) = Some (n @ ''='' @ v)"
    by (simp add: flag_body_def)
  ultimately show ?thesis
    using assms(4,5) by (auto simp: parse_flags.simps(2) n)
qed

end
