(* ===== verification/Startup_Flags.thy ===== *)
theory Startup_Flags
  imports Go_Flag
begin

text \<open>
  The command line of \<open>cmd/main.go\<close>: the variables of \<open>main\<close>, their defaults, the flags bound to them,
  and what a command line makes of them.
\<close>

section \<open>The variables of the flags\<close>

record main_flags =
  mf_metricsAddr :: string
  mf_probeAddr :: string
  mf_enableLeaderElection :: bool
  mf_webhookCertPath :: string
  mf_webhookCertName :: string
  mf_webhookCertKey :: string
  mf_webhookCfgName :: string
  mf_metricsCertPath :: string
  mf_metricsCertName :: string
  mf_metricsCertKey :: string
  mf_enableHTTP2 :: bool
  mf_imagePullSecretName :: string
  mf_imagePullSecretNamespace :: string
  mf_configMapName :: string
  mf_configMapNamespace :: string
  mf_secretSyncInterval :: string
  mf_landscape :: string

definition default_flags :: main_flags where
  "default_flags =
     \<lparr>mf_metricsAddr = '':8080'', mf_probeAddr = '':8081'', mf_enableLeaderElection = False,
      mf_webhookCertPath = [], mf_webhookCertName = ''tls.crt'', mf_webhookCertKey = ''tls.key'',
      mf_webhookCfgName = ''rt-bootstrapper-mutating-webhook-configuration'',
      mf_metricsCertPath = [], mf_metricsCertName = ''tls.crt'', mf_metricsCertKey = ''tls.key'',
      mf_enableHTTP2 = False, mf_imagePullSecretName = ''registry-credentials'',
      mf_imagePullSecretNamespace = ''kyma-system'', mf_configMapName = ''rt-bootstrapper-config'',
      mf_configMapNamespace = ''kyma-system'', mf_secretSyncInterval = ''1m'', mf_landscape = []\<rparr>"

section \<open>The flags\<close>

definition own_flags :: "main_flags flag list" where
  "own_flags =
     [string_flag ''metrics-bind-address'' (\<lambda>v fl. fl\<lparr>mf_metricsAddr := v\<rparr>),
      string_flag ''health-probe-bind-address'' (\<lambda>v fl. fl\<lparr>mf_probeAddr := v\<rparr>),
      bool_flag ''leader-elect'' (\<lambda>v fl. fl\<lparr>mf_enableLeaderElection := v\<rparr>),
      string_flag ''webhook-cert-path'' (\<lambda>v fl. fl\<lparr>mf_webhookCertPath := v\<rparr>),
      string_flag ''webhook-cert-name'' (\<lambda>v fl. fl\<lparr>mf_webhookCertName := v\<rparr>),
      string_flag ''webhook-cert-key'' (\<lambda>v fl. fl\<lparr>mf_webhookCertKey := v\<rparr>),
      string_flag ''webhook-name'' (\<lambda>v fl. fl\<lparr>mf_webhookCfgName := v\<rparr>),
      string_flag ''metrics-cert-path'' (\<lambda>v fl. fl\<lparr>mf_metricsCertPath := v\<rparr>),
      string_flag ''metrics-cert-name'' (\<lambda>v fl. fl\<lparr>mf_metricsCertName := v\<rparr>),
      string_flag ''metrics-cert-key'' (\<lambda>v fl. fl\<lparr>mf_metricsCertKey := v\<rparr>),
      bool_flag ''enable-http2'' (\<lambda>v fl. fl\<lparr>mf_enableHTTP2 := v\<rparr>),
      string_flag ''image-pull-secret-name'' (\<lambda>v fl. fl\<lparr>mf_imagePullSecretName := v\<rparr>),
      string_flag ''image-pull-secret-namespace'' (\<lambda>v fl. fl\<lparr>mf_imagePullSecretNamespace := v\<rparr>),
      string_flag ''config-map-name'' (\<lambda>v fl. fl\<lparr>mf_configMapName := v\<rparr>),
      string_flag ''config-map-namespace'' (\<lambda>v fl. fl\<lparr>mf_configMapNamespace := v\<rparr>),
      string_flag ''secret-sync-interval'' (\<lambda>v fl. fl\<lparr>mf_secretSyncInterval := v\<rparr>),
      string_flag ''landscape'' (\<lambda>v fl. fl\<lparr>mf_landscape := v\<rparr>)]"

text \<open>
  The packages that \<open>main\<close> links register flags of their own (the options of the logger, the
  kubeconfig): \<open>others\<close>, bound to variables of type \<open>'z\<close>.
\<close>

definition on_fst :: "'a flag \<Rightarrow> ('a \<times> 'b) flag" where
  "on_fst f = \<lparr>fl_name = fl_name f, fl_isBool = fl_isBool f,
     fl_set = (\<lambda>v (a, b). case fl_set f v a of Inl e \<Rightarrow> Inl e | Inr a' \<Rightarrow> Inr (a', b))\<rparr>"

definition on_snd :: "'b flag \<Rightarrow> ('a \<times> 'b) flag" where
  "on_snd f = \<lparr>fl_name = fl_name f, fl_isBool = fl_isBool f,
     fl_set = (\<lambda>v (a, b). case fl_set f v b of Inl e \<Rightarrow> Inl e | Inr b' \<Rightarrow> Inr (a, b'))\<rparr>"

definition main_Parse :: "'z flag list \<Rightarrow> string list \<Rightarrow> 'z \<Rightarrow> (main_flags \<times> 'z) parsed" where
  "main_Parse others args z =
     parse_flags (map on_fst own_flags @ map on_snd others) args (default_flags, z)"

section \<open>Every setting has a command line\<close>

definition bool_text :: "bool \<Rightarrow> string" where
  "bool_text b = (if b then ''true'' else ''false'')"

definition flag_values :: "main_flags \<Rightarrow> (string \<times> string) list" where
  "flag_values fl =
     [(''metrics-bind-address'', mf_metricsAddr fl),
      (''health-probe-bind-address'', mf_probeAddr fl),
      (''leader-elect'', bool_text (mf_enableLeaderElection fl)),
      (''webhook-cert-path'', mf_webhookCertPath fl),
      (''webhook-cert-name'', mf_webhookCertName fl),
      (''webhook-cert-key'', mf_webhookCertKey fl),
      (''webhook-name'', mf_webhookCfgName fl),
      (''metrics-cert-path'', mf_metricsCertPath fl),
      (''metrics-cert-name'', mf_metricsCertName fl),
      (''metrics-cert-key'', mf_metricsCertKey fl),
      (''enable-http2'', bool_text (mf_enableHTTP2 fl)),
      (''image-pull-secret-name'', mf_imagePullSecretName fl),
      (''image-pull-secret-namespace'', mf_imagePullSecretNamespace fl),
      (''config-map-name'', mf_configMapName fl),
      (''config-map-namespace'', mf_configMapNamespace fl),
      (''secret-sync-interval'', mf_secretSyncInterval fl),
      (''landscape'', mf_landscape fl)]"

definition command_line :: "main_flags \<Rightarrow> string list" where
  "command_line fl = map (\<lambda>(n, v). ''--'' @ n @ ''='' @ v) (flag_values fl)"

lemma parse_bool_text: "ParseBool (bool_text b) = Some b"
  by (simp add: ParseBool_def bool_text_def)

lemma find_own_flag:
  "find_flag own_flags n = Some f \<Longrightarrow>
   find_flag (map on_fst own_flags @ map on_snd others) n = Some (on_fst f)"
proof -
  have "find (\<lambda>f. fl_name f = n) (map on_fst fs @ gs) = Some (on_fst f)"
    if "find (\<lambda>f. fl_name f = n) fs = Some f" for fs and gs :: "(main_flags \<times> 'a) flag list"
    using that by (induction fs) (auto simp: on_fst_def split: if_splits)
  then show "find_flag own_flags n = Some f \<Longrightarrow> ?thesis" by (simp add: find_flag_def)
qed

text \<open>One argument of the command line, for a flag of \<open>main\<close>.\<close>

lemma parse_own_flag:
  assumes "find_flag own_flags n = Some f" "fl_set f v fl = Inr fl'"
    and "n \<noteq> []" "hd n \<noteq> CHR ''-''" "CHR ''='' \<notin> set n"
  shows "parse_flags (map on_fst own_flags @ map on_snd others) ((''--'' @ n @ ''='' @ v) # args) (fl, z)
    = parse_flags (map on_fst own_flags @ map on_snd others) args (fl', z)"
  by (rule parse_flags_set [OF find_own_flag [OF assms(1)] _ assms(3-5)])
    (simp add: on_fst_def assms(2))

text \<open>A list of settings, by the flags of \<open>main\<close>.\<close>

fun assign_all :: "(string \<times> string) list \<Rightarrow> main_flags \<Rightarrow> main_flags option" where
  "assign_all [] fl = Some fl"
| "assign_all ((n, v) # nvs) fl =
     (case find_flag own_flags n of
        None \<Rightarrow> None
      | Some f \<Rightarrow>
          if n = [] \<or> hd n = CHR ''-'' \<or> CHR ''='' \<in> set n then None
          else (case fl_set f v fl of Inl e \<Rightarrow> None | Inr fl' \<Rightarrow> assign_all nvs fl'))"

lemma parse_assign_all:
  "assign_all nvs fl = Some fl' \<Longrightarrow>
   parse_flags (map on_fst own_flags @ map on_snd others) (map (\<lambda>(n, v). ''--'' @ n @ ''='' @ v) nvs) (fl, z)
     = Parsed (fl', z) []"
proof (induction nvs fl rule: assign_all.induct)
  case (2 n v nvs fl)
  then obtain f fl1 where f: "find_flag own_flags n = Some f" "fl_set f v fl = Inr fl1"
    "n \<noteq> []" "hd n \<noteq> CHR ''-''" "CHR ''='' \<notin> set n" "assign_all nvs fl1 = Some fl'"
    by (auto split: option.splits if_splits sum.splits)
  have "\<not> (n = [] \<or> hd n = CHR ''-'' \<or> CHR ''='' \<in> set n)" using f(3-5) by simp
  from "2.IH" [OF f(1) this f(2,6)] parse_own_flag [OF f(1-5), of others _ z] show ?case by simp
qed simp

lemma assign_flag_values: "assign_all (flag_values fl) default_flags = Some fl"
  by (cases fl) (simp add: flag_values_def find_flag_def own_flags_def string_flag_def bool_flag_def
      parse_bool_text default_flags_def)

text \<open>
  Property C29. Every setting of the program can be given on its command line: the flags, written as
  \<open>--name=value\<close>, are read back into the same settings, whatever other flags are registered, and no
  argument is left.
\<close>

theorem command_line_roundtrip:
  "main_Parse others (command_line fl) z = Parsed (fl, z) []"
  unfolding main_Parse_def command_line_def by (rule parse_assign_all [OF assign_flag_values])

end
