(* ===== verification/Startup.thy ===== *)
theory Startup
  imports Webhook_Properties Secret_Controller CA_Bundle Webhook_Server Api_Duration
    Config_Roundtrip Startup_Flags
begin

text \<open>
  \<open>cmd/main.go\<close>: what the program checks and wires together before it starts its manager, and the
  callback that runs whenever the serving certificate is loaded. The Kubernetes clients, the struct validator and the manager are parameters that answer or fail.
\<close>

section \<open>Surroundings\<close>

text \<open>
  \<open>me_...\<close>: what \<open>main\<close> calls outside the repository. \<open>me_RetryOnConflict\<close> is client-go's retry
  loop around one attempt.
\<close>

record 's main_env =
  me_have_rest_config :: bool
  me_client_New :: "gerror option"
  me_NewManager :: "gerror option"
  me_get_configmap :: "string \<Rightarrow> string \<Rightarrow> 's \<Rightarrow> 's \<times> (gerror + string go_map)"
  me_map_order :: features_order
  me_validate :: "config \<Rightarrow> gerror option"
  me_get_bundle :: "string \<Rightarrow> 's \<Rightarrow> 's \<times> (gerror + string)"
  me_kube :: "'s kube"
  me_get_secret :: "namespaced_name \<Rightarrow> 's \<Rightarrow> 's \<times> (gerror + secret)"
  me_patch_secret :: "secret \<Rightarrow> patch_options \<Rightarrow> 's \<Rightarrow> 's \<times> gerror option"
  me_error_text :: "gerror \<Rightarrow> string"
  me_setup_webhook :: "gerror option"
  me_setup_watcher :: "gerror option"
  me_setup_secret :: "gerror option"
  me_AddHealthzCheck :: "gerror option"
  me_AddReadyzCheck :: "gerror option"
  me_ReadFile :: "string \<Rightarrow> gerror + 8 word list"
  me_webhook_client :: "'s webhook_client"
  me_RetryOnConflict :: "('s \<Rightarrow> 's \<times> gerror option) \<Rightarrow> 's \<Rightarrow> 's \<times> gerror option"

section \<open>Reading the configuration\<close>

definition readConfig :: "'s main_env \<Rightarrow> main_flags \<Rightarrow> 's \<Rightarrow> 's \<times> (gerror + config)" where
  "readConfig env fl s =
     (case me_get_configmap env (mf_configMapName fl) (mf_configMapNamespace fl) s of
        (s1, Inl err) \<Rightarrow> (s1, Inl err)
      | (s1, Inr data) \<Rightarrow>
          (case map_get data ConfigMapKey of
             None \<Rightarrow> (s1, Inl (ErrorString ''configuration not found''))
           | Some rawConfig \<Rightarrow> (s1, NewConfig (me_map_order env) (me_validate env) rawConfig)))"

definition parseDurationOrDefault :: "string \<Rightarrow> int \<Rightarrow> int" where
  "parseDurationOrDefault s def =
     (if s = [] then def
      else (case ParseDuration s of Inl err \<Rightarrow> def | Inr d \<Rightarrow> d))"

section \<open>The webhook server and its certificate callback\<close>

definition certificateAuthorityName :: string where "certificateAuthorityName = ''ca.crt''"
definition patchFieldManagerName :: string where "patchFieldManagerName = ''rt-bootstrapper-webhook''"

definition disableHTTP2 :: "tls_config \<Rightarrow> tls_config" where
  "disableHTTP2 c = c\<lparr>tls_NextProtos := [''http/1.1'']\<rparr>"

definition main_tlsOpts :: "main_flags \<Rightarrow> (tls_config \<Rightarrow> tls_config) list" where
  "main_tlsOpts fl = (if \<not> mf_enableHTTP2 fl then [disableHTTP2] else [])"

definition webhook_server_options :: "main_flags \<Rightarrow> server_options" where
  "webhook_server_options fl =
     \<lparr>so_Host = [], so_Port = 0, so_CertDir = mf_webhookCertPath fl,
      so_CertName = mf_webhookCertName fl, so_KeyName = mf_webhookCertKey fl, so_ClientCAName = [],
      so_TLSOpts = main_tlsOpts fl, so_WebhookMux = None, so_Callback = True\<rparr>"

text \<open>An error in the callback ends the process: \<open>Some\<close> the message it logs.\<close>

definition certificate_callback ::
  "'s main_env \<Rightarrow> main_flags \<Rightarrow> 's \<Rightarrow> 's \<times> (string \<times> gerror) option" where
  "certificate_callback env fl s =
     (case me_ReadFile env (path_join [mf_webhookCertPath fl, certificateAuthorityName]) of
        Inl err \<Rightarrow> (s, Some (''unable to read certificate'', err))
      | Inr data \<Rightarrow>
          let updateCABundle = (\<lambda>s. case BuildUpdateCABundle (me_webhook_client env)
                 \<lparr>uo_Name = mf_webhookCfgName fl, uo_CABundle = data,
                  uo_FieldManager = patchFieldManagerName\<rparr> s of (s', patches, err) \<Rightarrow> (s', err))
          in (case me_RetryOnConflict env updateCABundle s of
                (s', Some err) \<Rightarrow> (s', Some (''unable to patch mutating webhook configuration'', err))
              | (s', None) \<Rightarrow> (s', None)))"

section \<open>What the program runs\<close>

record metrics_options =
  mo_BindAddress :: string
  mo_CertDir :: string
  mo_CertName :: string
  mo_KeyName :: string

definition metrics_server_options :: "main_flags \<Rightarrow> metrics_options" where
  "metrics_server_options fl =
     (let opts = \<lparr>mo_BindAddress = mf_metricsAddr fl, mo_CertDir = [], mo_CertName = [], mo_KeyName = []\<rparr>
      in if length (mf_metricsCertPath fl) > 0
         then opts\<lparr>mo_CertDir := mf_metricsCertPath fl, mo_CertName := mf_metricsCertName fl,
                mo_KeyName := mf_metricsCertKey fl\<rparr>
         else opts)"

text \<open>
  The options of the manager, without its scheme: the servers, the leader election, and the kinds its
  client reads from the API server instead of from its cache.
\<close>

record manager_options =
  mgo_Metrics :: metrics_options
  mgo_WebhookServer :: server_options
  mgo_HealthProbeBindAddress :: string
  mgo_LeaderElection :: bool
  mgo_LeaderElectionID :: string
  mgo_DisableFor :: "string list"

definition main_manager_options :: "main_flags \<Rightarrow> manager_options" where
  "main_manager_options fl =
     \<lparr>mgo_Metrics = metrics_server_options fl, mgo_WebhookServer = webhook_server_options fl,
      mgo_HealthProbeBindAddress = mf_probeAddr fl, mgo_LeaderElection = mf_enableLeaderElection fl,
      mgo_LeaderElectionID = ''1d97a37c.kyma-project.io'', mgo_DisableFor = [''Pod'']\<rparr>"

text \<open>
  The program after its set-up: the configuration it read, the cell, the options of the webhook (the
  \<open>GetConfig\<close> of the webhook reads the cluster as it is at each call), the watcher if there is one,
  the secret reconciler, and the options of the manager.
\<close>

record 's program =
  pg_config :: config
  pg_cell :: hash_holder
  pg_webhook :: "(nat \<Rightarrow> 's) \<Rightarrow> webhook_opts"
  pg_watcher :: "'s ctb_watcher option"
  pg_secrets :: "'s secret_reconciler"
  pg_manager :: manager_options

abbreviation pg_server :: "'s program \<Rightarrow> server_options" where
  "pg_server pg \<equiv> mgo_WebhookServer (pg_manager pg)"

datatype 's main_outcome = Exit string "gerror option" | Running "'s program"

definition ctb_active :: "config \<Rightarrow> bool" where
  "ctb_active cfg \<longleftrightarrow>
     cfg_ClusterTrustBundleMapping cfg \<noteq> None
     \<and> AnnotationAddClusterTrustBundle \<in> set (cfg_AvailableFeatures cfg)"

definition main_precompute :: "'s main_env \<Rightarrow> config \<Rightarrow> 's \<Rightarrow> 's \<times> hash_holder" where
  "main_precompute env cfg s =
     (case cfg_ClusterTrustBundleMapping cfg of
        None \<Rightarrow> (s, NewHashHolder)
      | Some m \<Rightarrow>
          if AnnotationAddClusterTrustBundle \<in> set (cfg_AvailableFeatures cfg)
          then (case PreComputeHash (me_get_bundle env) (ctb_Name m) NewHashHolder s of
                  (s', holder, err) \<Rightarrow> (s', holder))
          else (s, NewHashHolder))"

definition main_webhook_opts ::
  "'s main_env \<Rightarrow> main_flags \<Rightarrow> config \<Rightarrow> (nat \<Rightarrow> 's) \<Rightarrow> webhook_opts" where
  "main_webhook_opts env fl cfg states =
     \<lparr>wh_AvailableFeatures = cfg_AvailableFeatures cfg,
      wh_NamespaceDefaultFeatures = NamespaceDefaultFeatures cfg,
      wh_ImagePullSecretName = mf_imagePullSecretName fl,
      wh_Landscape = mf_landscape fl,
      wh_GetConfig = (\<lambda>j. Ret (snd (readConfig env fl (states j))))\<rparr>"

definition managed_namespaces :: "config \<Rightarrow> string list" where
  "managed_namespaces cfg =
     (case cfg_NamespaceFeatures cfg of None \<Rightarrow> [] | Some m \<Rightarrow> map fst (map_entries m))"

definition main_watcher :: "'s main_env \<Rightarrow> config \<Rightarrow> 's ctb_watcher option" where
  "main_watcher env cfg =
     (case cfg_ClusterTrustBundleMapping cfg of
        None \<Rightarrow> None
      | Some m \<Rightarrow>
          if AnnotationAddClusterTrustBundle \<in> set (cfg_AvailableFeatures cfg)
          then Some \<lparr>w_kube = me_kube env, w_get_bundle = me_get_bundle env, w_CTBName = ctb_Name m,
                 w_ResyncInterval =
                   parseDurationOrDefault (ctb_ResyncInterval m) (5 * minute),
                 w_ManagedNamespaces = managed_namespaces cfg\<rparr>
          else None)"

definition main_secrets :: "'s main_env \<Rightarrow> main_flags \<Rightarrow> int \<Rightarrow> 's secret_reconciler" where
  "main_secrets env fl interval =
     \<lparr>sr_get_secret = me_get_secret env, sr_list_namespaces = k_list_namespaces (me_kube env),
      sr_patch = me_patch_secret env, sr_error_text = me_error_text env,
      sr_NamespacedName = \<lparr>nn_Namespace = mf_imagePullSecretNamespace fl,
        nn_Name = mf_imagePullSecretName fl\<rparr>,
      sr_SecretSyncInterval = interval, sr_GetConfig = readConfig env fl\<rparr>"

text \<open>The wiring after the configuration was accepted; the first failing set-up ends the process.\<close>

definition main_wire ::
  "'s main_env \<Rightarrow> main_flags \<Rightarrow> int \<Rightarrow> config \<Rightarrow> 's \<Rightarrow> 's \<times> 's main_outcome" where
  "main_wire env fl interval cfg s =
     (let (s1, hashHolder) = main_precompute env cfg s;
          program = \<lparr>pg_config = cfg, pg_cell = hashHolder, pg_webhook = main_webhook_opts env fl cfg,
            pg_watcher = main_watcher env cfg, pg_secrets = main_secrets env fl interval,
            pg_manager = main_manager_options fl\<rparr>
      in case me_setup_webhook env of
           Some err \<Rightarrow> (s1, Exit ''unable to create webhook'' (Some err))
         | None \<Rightarrow>
             (case (if ctb_active cfg then me_setup_watcher env else None) of
                Some err \<Rightarrow> (s1, Exit ''unable to create controller'' (Some err))
              | None \<Rightarrow>
                  (case me_setup_secret env of
                     Some err \<Rightarrow> (s1, Exit ''unable to create controller'' (Some err))
                   | None \<Rightarrow>
                       (case me_AddHealthzCheck env of
                          Some err \<Rightarrow> (s1, Exit ''unable to set up health check'' (Some err))
                        | None \<Rightarrow>
                            (case me_AddReadyzCheck env of
                               Some err \<Rightarrow> (s1, Exit ''unable to set up ready check'' (Some err))
                             | None \<Rightarrow> (s1, Running program))))))"

text \<open>The configuration and what it requires of the flags.\<close>

definition main_configure :: "'s main_env \<Rightarrow> main_flags \<Rightarrow> int \<Rightarrow> 's \<Rightarrow> 's \<times> 's main_outcome" where
  "main_configure env fl interval s =
     (case readConfig env fl s of
        (s1, Inl err) \<Rightarrow> (s1, Exit ''unable to read config'' (Some err))
      | (s1, Inr cfg) \<Rightarrow>
          if AnnotationSetLandscape \<in> set (cfg_AvailableFeatures cfg) \<and> mf_landscape fl = []
          then (s1, Exit ''invalid configuration'' (Some (ErrorString (''--landscape flag is required when ''
                 @ AnnotationSetLandscape @ '' is in availableFeatures''))))
          else main_wire env fl interval cfg s1)"

definition main_setup :: "'s main_env \<Rightarrow> main_flags \<Rightarrow> 's \<Rightarrow> 's \<times> 's main_outcome" where
  "main_setup env fl s =
     (case ParseDuration (mf_secretSyncInterval fl) of
        Inl err \<Rightarrow> (s, Exit ''failed to parse 'secret-sync-interval' option value'' (Some err))
      | Inr interval \<Rightarrow>
          if \<not> me_have_rest_config env then (s, Exit ''unable to get kubeconfig'' None)
          else (case me_client_New env of
            Some err \<Rightarrow> (s, Exit ''unable to create client'' (Some err))
          | None \<Rightarrow>
              if length (mf_webhookCertPath fl) = 0
              then (s, Exit ''Cannot start webhook server without certificate path'' None)
              else (case me_NewManager env of
                Some err \<Rightarrow> (s, Exit ''unable to start manager'' (Some err))
              | None \<Rightarrow> main_configure env fl interval s)))"

text \<open>
  \<open>main\<close> from its arguments to the exit status of the process: \<open>flag.Parse\<close> ends it on a wrong command
  line and after the usage text, \<open>os.Exit(1)\<close> on every error. \<open>mgr_Start\<close> runs the manager until its
  context is cancelled, or returns an error.
\<close>

definition main_program ::
  "('s program \<Rightarrow> 's \<Rightarrow> 's \<times> gerror option) \<Rightarrow> 's main_env \<Rightarrow> 'z flag list \<Rightarrow> string list \<Rightarrow> 'z \<Rightarrow> 's
   \<Rightarrow> 's \<times> nat" where
  "main_program mgr_Start env others args z s =
     (case main_Parse others args z of
        Help \<Rightarrow> (s, 0)
      | BadFlag e \<Rightarrow> (s, 2)
      | Parsed (fl, z') rest \<Rightarrow>
          (case main_setup env fl s of
             (s1, Exit msg err) \<Rightarrow> (s1, 1)
           | (s1, Running pg) \<Rightarrow>
               (case mgr_Start pg s1 of (s2, Some err) \<Rightarrow> (s2, 1) | (s2, None) \<Rightarrow> (s2, 0))))"

text \<open>The process ends with status 0 after the usage text, or after a manager that ended well.\<close>

lemma main_program_success:
  "snd (main_program mgr_Start env others args z s) = 0 \<longleftrightarrow>
     main_Parse others args z = Help
     \<or> (\<exists>fl z' rest s1 pg. main_Parse others args z = Parsed (fl, z') rest
        \<and> main_setup env fl s = (s1, Running pg) \<and> snd (mgr_Start pg s1) = None)"
  by (auto simp: main_program_def split: parsed.split prod.split main_outcome.split option.split)

section \<open>What a running program is\<close>

lemma main_wire_Running:
  assumes "main_wire env fl interval cfg s = (s', Running pg)"
  shows "pg = \<lparr>pg_config = cfg, pg_cell = snd (main_precompute env cfg s),
      pg_webhook = main_webhook_opts env fl cfg, pg_watcher = main_watcher env cfg,
      pg_secrets = main_secrets env fl interval, pg_manager = main_manager_options fl\<rparr>"
  using assms by (auto simp: main_wire_def Let_def split: prod.splits option.splits if_splits)

lemma readConfig_valid:
  "readConfig env fl s = (s', Inr cfg) \<Longrightarrow>
   me_validate env cfg = None \<and> features_valid cfg KnownFeatureKeys"
  by (auto simp: readConfig_def NewConfig_Inr split: prod.splits sum.splits option.splits)

lemma main_setup_Running:
  assumes "main_setup env fl s = (s', Running pg)"
  obtains interval s1 cfg where
    "ParseDuration (mf_secretSyncInterval fl) = Inr interval" "mf_webhookCertPath fl \<noteq> []"
    "readConfig env fl s = (s1, Inr cfg)"
    "AnnotationSetLandscape \<notin> set (cfg_AvailableFeatures cfg) \<or> mf_landscape fl \<noteq> []"
    "main_wire env fl interval cfg s1 = (s', Running pg)"
  using assms
  by (auto simp: main_setup_def main_configure_def split: sum.splits if_splits option.splits prod.splits)

lemma main_precompute_cell:
  "Get (snd (main_precompute env cfg s)) = []
   \<or> (\<exists>m t tb. cfg_ClusterTrustBundleMapping cfg = Some m
        \<and> me_get_bundle env (ctb_Name m) s = (t, Inr tb)
        \<and> Get (snd (main_precompute env cfg s)) = bundle_hash tb)"
  by (auto simp: main_precompute_def PreComputeHash_def Get_ComputeAndSet hh.get_fresh
      split: option.split prod.split sum.split)

lemma main_watcher_active: "main_watcher env cfg = None \<longleftrightarrow> \<not> ctb_active cfg"
  by (simp add: main_watcher_def ctb_active_def split: option.split)

lemma watcher_available:
  assumes "main_setup env fl s0 = (s1, Running pg)" "pg_watcher pg = Some w"
  shows "AnnotationAddClusterTrustBundle \<in> set (wh_AvailableFeatures (pg_webhook pg states))"
  using assms(1)
proof (cases rule: main_setup_Running)
  case (1 interval t cfg)
  note pg = main_wire_Running [OF 1(5)]
  have "ctb_active cfg" using assms(2) main_watcher_active [of env cfg] by (simp add: pg)
  then show ?thesis by (simp add: pg main_webhook_opts_def ctb_active_def)
qed

text \<open>
  Property C23. A program that gets through its set-up has read a configuration whose feature lists
  are valid, knows the landscape whenever the landscape feature is available, has a certificate
  directory, runs a watcher exactly when a trust bundle is configured and its feature available,
  and starts with a cell that is empty or holds the hash of the configured bundle.
\<close>

theorem running_program_checked:
  assumes "main_setup env fl s = (s', Running pg)"
  shows "features_valid (pg_config pg) KnownFeatureKeys
    \<and> (AnnotationSetLandscape \<notin> set (cfg_AvailableFeatures (pg_config pg)) \<or> mf_landscape fl \<noteq> [])
    \<and> so_CertDir (pg_server pg) \<noteq> []
    \<and> (pg_watcher pg \<noteq> None) = ctb_active (pg_config pg)
    \<and> (Get (pg_cell pg) = [] \<or> (\<exists>m t t' tb. cfg_ClusterTrustBundleMapping (pg_config pg) = Some m
        \<and> me_get_bundle env (ctb_Name m) t = (t', Inr tb)
        \<and> Get (pg_cell pg) = bundle_hash tb))"
  using assms
proof (cases rule: main_setup_Running)
  case (1 interval s1 cfg)
  note pg = main_wire_Running [OF 1(5)]
  show ?thesis
    using readConfig_valid [OF 1(3)] 1(2,4) main_precompute_cell [of env cfg s1]
    by (simp add: pg main_watcher_active webhook_server_options_def main_manager_options_def) blast
qed

text \<open>A validator that looks at the tags and at nothing else.\<close>

definition check_required :: "config \<Rightarrow> gerror option" where
  "check_required c = (if required_ok c then None else Some (ErrorString ''required''))"

definition sample_env_on :: "'s kube \<Rightarrow> 's main_env" where
  "sample_env_on kube =
     \<lparr>me_have_rest_config = True, me_client_New = None,
      me_NewManager = None, me_get_configmap = (\<lambda>n ns s. (s, Inr (Some [(ConfigMapKey, config_text sample_cfg)]))),
      me_map_order = (\<lambda>es. es), me_validate = check_required,
      me_get_bundle = (\<lambda>n s. (s, Inr ''PEM'')), me_kube = kube,
      me_get_secret = (\<lambda>k s. (s, Inl (StatusError ''NotFound'' []))),
      me_patch_secret = (\<lambda>sec opts s. (s, None)), me_error_text = (\<lambda>e. []),
      me_setup_webhook = None, me_setup_watcher = None, me_setup_secret = None,
      me_AddHealthzCheck = None, me_AddReadyzCheck = None, me_ReadFile = (\<lambda>f. Inr [1, 2]),
      me_webhook_client = \<lparr>wcl_get = (\<lambda>n s. (s, Inl (StatusError ''NotFound'' []))),
        wcl_patch = (\<lambda>cfg opts s. (s, None))\<rparr>,
      me_RetryOnConflict = (\<lambda>f. f)\<rparr>"

abbreviation sample_main_env :: "deleted_pods main_env" where
  "sample_main_env \<equiv> sample_env_on sample_kube"

definition sample_flags :: main_flags where
  "sample_flags = default_flags\<lparr>mf_webhookCertPath := ''/certs'', mf_landscape := ''CN''\<rparr>"

lemma sample_cfg_valid: "features_valid sample_cfg KnownFeatureKeys"
  by (simp add: features_valid_def sample_cfg_def namespace_entries_def)

lemma sample_cfg_text: "config_wf sample_cfg" "config_sound sample_cfg"
  by (simp_all add: config_wf_def config_sound_def sound_entries_def sample_cfg_def sample_bundle_def
      map_wf_def namespace_entries_def KnownFeatureKeys_def sound_annotation utf8_tag
      del: utf8_valid.simps)

lemma sample_cfg_required: "required_ok sample_cfg"
  by (simp add: required_ok_def bundle_required_ok_def sample_cfg_def sample_bundle_def)

lemma sample_readConfig: "readConfig (sample_env_on kube) sample_flags s = (s, Inr sample_cfg)"
proof -
  have order: "in_order (\<lambda>es. es) sample_cfg = sample_cfg"
    by (simp add: in_order_def sample_cfg_def)
  have "Decode (config_text sample_cfg) = Inr sample_cfg"
    using Decode_text [OF sample_cfg_text, of "[]"] by simp
  with order sample_cfg_valid have
    "NewConfig (\<lambda>es. es) check_required (config_text sample_cfg) = Inr sample_cfg"
    using sample_cfg_required by (auto simp: NewConfig_Inr check_required_def)
  then show ?thesis by (simp add: readConfig_def sample_env_on_def)
qed

lemma parse_one_minute: "ParseDuration ''1m'' = Inr 60000000000"
proof -
  have "parse_term orig ''1m'' = Inr (60000000000, [])" for orig
    using parse_term_plain [OF unit_texts(5), of "[]" 1 orig]
    by (simp add: show_nat.simps digit_char_def)
  then have "parse_terms orig 0 ''1m'' = Inr 60000000000" for orig
    by (simp add: parse_terms_step parse_terms_end)
  then show ?thesis by (simp add: ParseDuration_def parse_unsigned_def)
qed

lemma sample_running: "\<exists>pg. main_setup (sample_env_on kube) sample_flags s = (s, Running pg)"
proof -
  have "ParseDuration (mf_secretSyncInterval sample_flags) = Inr 60000000000"
    by (simp add: sample_flags_def default_flags_def parse_one_minute)
  moreover have "me_have_rest_config (sample_env_on kube)" "me_client_New (sample_env_on kube) = None"
    "me_NewManager (sample_env_on kube) = None" "length (mf_webhookCertPath sample_flags) \<noteq> 0"
    "mf_landscape sample_flags \<noteq> []"
    by (simp_all add: sample_env_on_def sample_flags_def)
  moreover have "\<exists>pg. main_wire (sample_env_on kube) sample_flags 60000000000 sample_cfg s = (s, Running pg)"
    by (simp add: main_wire_def main_precompute_def sample_env_on_def sample_cfg_def
        PreComputeHash_def)
  ultimately show ?thesis by (simp add: main_setup_def main_configure_def sample_readConfig)
qed

text \<open>The sample program, part by part.\<close>

lemma sample_program:
  "\<exists>pg w. main_setup (sample_env_on kube) sample_flags s = (s, Running pg) \<and> pg_watcher pg = Some w
    \<and> (w_kube w = kube \<and> (\<forall>n t. w_get_bundle w n t = (t, Inr ''PEM'')) \<and> resyncInterval w = 5 * minute)
    \<and> pg_config pg = sample_cfg
    \<and> pg_webhook pg = main_webhook_opts (sample_env_on kube) sample_flags sample_cfg
    \<and> Get (pg_cell pg) = bundle_hash ''PEM''"
proof -
  let ?env = "sample_env_on kube"
  obtain pg where pg: "main_setup ?env sample_flags s = (s, Running pg)"
    using sample_running [of kube s] by blast
  then have parts: "pg_watcher pg = main_watcher ?env sample_cfg \<and> pg_config pg = sample_cfg
    \<and> pg_webhook pg = main_webhook_opts ?env sample_flags sample_cfg
    \<and> pg_cell pg = snd (main_precompute ?env sample_cfg s)"
    by (rule main_setup_Running) (auto simp: sample_readConfig dest: main_wire_Running)
  have "ctb_active sample_cfg" by (simp add: ctb_active_def sample_cfg_def)
  with parts obtain w where w: "pg_watcher pg = Some w"
    using main_watcher_active [of ?env sample_cfg] by auto
  with parts have "main_watcher ?env sample_cfg = Some w" by simp
  then have "w_kube w = kube \<and> (\<forall>n t. w_get_bundle w n t = (t, Inr ''PEM'')) \<and> resyncInterval w = 5 * minute"
    by (auto simp: main_watcher_def sample_env_on_def sample_cfg_def sample_bundle_def
        parseDurationOrDefault_def resyncInterval_def split: option.splits if_splits)
  moreover have "Get (pg_cell pg) = bundle_hash ''PEM''"
    by (simp add: parts main_precompute_def sample_env_on_def sample_cfg_def PreComputeHash_def
        Get_ComputeAndSet)
  ultimately show ?thesis using pg w parts by blast
qed

lemma running_program_checked_witness:
  "\<exists>pg. main_setup sample_main_env sample_flags [] = ([], Running pg)
    \<and> features_valid (pg_config pg) KnownFeatureKeys \<and> so_CertDir (pg_server pg) \<noteq> []"
proof -
  obtain pg where pg: "main_setup sample_main_env sample_flags [] = ([], Running pg)"
    using sample_running [of sample_kube "[]"] by blast
  from running_program_checked [OF pg] pg show ?thesis by blast
qed

section \<open>The intervals of a running program\<close>

lemma resync_default:
  "parseDurationOrDefault t (5 * minute) = (case ParseDuration t of Inl err \<Rightarrow> 5 * minute | Inr d \<Rightarrow> d)"
  by (cases "t = []")
    (simp_all add: parseDurationOrDefault_def ParseDuration_def parse_unsigned_def)

text \<open>
  Property C28. The intervals of a running program: the sync interval is the duration that the flag
  spells and fits into 64 bits; the watcher waits for the duration that the configuration spells
  when this is positive, and for five minutes when it is not or is no duration, so its interval is
  always positive and fits into 64 bits.
\<close>

theorem running_program_intervals:
  assumes "main_setup env fl s = (s', Running pg)"
  shows "ParseDuration (mf_secretSyncInterval fl) = Inr (sr_SecretSyncInterval (pg_secrets pg))
    \<and> - (2 ^ 63) \<le> sr_SecretSyncInterval (pg_secrets pg) \<and> sr_SecretSyncInterval (pg_secrets pg) < 2 ^ 63
    \<and> (case (pg_watcher pg, cfg_ClusterTrustBundleMapping (pg_config pg)) of
         (Some w, Some m) \<Rightarrow>
           0 < resyncInterval w \<and> resyncInterval w < 2 ^ 63
           \<and> resyncInterval w = (case ParseDuration (ctb_ResyncInterval m) of
               Inr d \<Rightarrow> if 0 < d then d else 5 * minute
             | Inl e \<Rightarrow> 5 * minute)
       | (Some w, None) \<Rightarrow> False
       | (None, _) \<Rightarrow> True)"
  using assms
proof (cases rule: main_setup_Running)
  case (1 interval s1 c)
  note pg = main_wire_Running [OF 1(5)]
  have small: "(5::int) * minute < 2 ^ 63" "0 < (5::int) * minute" by (simp_all add: minute_def second_def)
  show ?thesis
    using ParseDuration_range [OF 1(1)] 1(1) small ParseDuration_range
    by (auto simp: pg main_secrets_def main_watcher_def resyncInterval_def resync_default
        split: option.splits sum.splits if_splits)
qed

lemma running_program_intervals_witness:
  "\<exists>pg w. main_setup sample_main_env sample_flags [] = ([], Running pg)
    \<and> sr_SecretSyncInterval (pg_secrets pg) = minute
    \<and> pg_watcher pg = Some w \<and> 0 < resyncInterval w"
proof -
  obtain pg w where pg: "main_setup sample_main_env sample_flags [] = ([], Running pg)"
      "pg_watcher pg = Some w"
    using sample_program [of sample_kube "[]"] by blast
  note intervals = running_program_intervals [OF pg(1)]
  have "sr_SecretSyncInterval (pg_secrets pg) = minute"
    using intervals by (simp add: sample_flags_def default_flags_def parse_one_minute minute_def second_def)
  with pg intervals show ?thesis by (auto split: option.splits)
qed

section \<open>Transport security of the running server\<close>

lemma main_tls_policy:
  "tls_NextProtos (apply_tls_opts (main_tlsOpts fl) base_tls_config) =
     (if mf_enableHTTP2 fl then [''h2''] else [''http/1.1''])"
  "tls_MinVersion (apply_tls_opts (main_tlsOpts fl) base_tls_config) = VersionTLS13"
  "tls_GetCertificate (apply_tls_opts (main_tlsOpts fl) base_tls_config) = None"
  by (simp_all add: apply_tls_opts_def main_tlsOpts_def disableHTTP2_def base_tls_config_def)

lemma start_listen_watches:
  assumes "start_listen env opts = Inr cfg"
    and "tls_GetCertificate (apply_tls_opts (so_TLSOpts opts) base_tls_config) = None"
  shows "tls_GetCertificate cfg = Some (CertWatcher
    (path_join [so_CertDir opts, so_CertName opts]) (path_join [so_CertDir opts, so_KeyName opts])
    (so_Callback opts))"
  using assms
  by (auto simp: start_listen_def start_certificate_def start_client_ca_def Let_def
      split: sum.splits option.splits if_splits)

text \<open>
  Property C34. Whenever the server of a running program serves, it serves TLS 1.3 or newer with the
  certificate and key watched in the directory of the flags, with the callback run on every new
  certificate, over HTTP/1.1 only, or HTTP/2 only when the flag enables it.
\<close>

theorem running_server_tls:
  assumes "main_setup env fl s = (s', Running pg)"
    and "server_reachable senv (fresh_serving heap (pg_server pg)) v"
    and "sv_phase v = Serving cfg srv"
  shows "tls_MinVersion cfg = VersionTLS13
    \<and> tls_NextProtos cfg = (if mf_enableHTTP2 fl then [''h2''] else [''http/1.1''])
    \<and> tls_GetCertificate cfg = Some (CertWatcher
        (path_join [mf_webhookCertPath fl, or_default ''tls.crt'' (mf_webhookCertName fl)])
        (path_join [mf_webhookCertPath fl, or_default ''tls.key'' (mf_webhookCertKey fl)]) True)"
  using assms(1)
proof (cases rule: main_setup_Running)
  case (1 interval s1 c)
  note pg = main_wire_Running [OF 1(5)]
  let ?o = "ds_Options (sv_server v)"
  have mux: "case so_WebhookMux (pg_server pg) of None \<Rightarrow> True | Some i \<Rightarrow> mh_mux heap i = []"
    by (simp add: pg webhook_server_options_def main_manager_options_def)
  have "serving_inv senv v" by (rule reachable_inv [OF assms(2) fresh_serving_inv [OF mux]])
  then have run: "start_listen senv ?o = Inr cfg" "ds_defaulted (sv_server v)"
    using assms(3) by (simp_all add: serving_inv_def phase_ok_def)
  have opts: "so_TLSOpts ?o = main_tlsOpts fl" "so_CertDir ?o = mf_webhookCertPath fl"
    "so_CertName ?o = or_default ''tls.crt'' (mf_webhookCertName fl)"
    "so_KeyName ?o = or_default ''tls.key'' (mf_webhookCertKey fl)" "so_Callback ?o"
    using reachable_options [OF assms(2)] run(2) 1(2)
    by (simp_all add: options_from_def pg webhook_server_options_def main_manager_options_def)
  from start_listen_Inr [OF run(1)] start_listen_watches [OF run(1)] show ?thesis
    by (simp add: opts main_tls_policy)
qed

lemma reachable_serving:
  "\<exists>v cfg srv. server_reachable sample_env (fresh_serving (empty_heap :: nat mux_heap) opts) v
    \<and> sv_phase v = Serving cfg srv"
proof -
  let ?v0 = "fresh_serving (empty_heap :: nat mux_heap) opts"
  obtain heap' s' where once: "defaulting_once (se_TempDir sample_env) (sv_heap ?v0) (sv_server ?v0)
      = (heap', s')" by fastforce
  obtain cfg where cfg: "start_listen sample_env (ds_Options s') = Inr cfg"
    using sample_listens by blast
  have idle: "sv_phase ?v0 = Idle" by (simp add: fresh_serving_def)
  note run = server_reachable.step [OF server_reachable.initial start_listening [OF idle once cfg]]
  note run = server_reachable.step [OF run set_started, simplified]
  let ?last = "?v0\<lparr>sv_heap := heap', sv_server := s'\<lparr>ds_started := True\<rparr>,
    sv_phase := Serving cfg (httpserver_New (ds_webhookMux s'))\<rparr>"
  have "server_reachable sample_env ?v0 ?last" using run by simp
  moreover have "sv_phase ?last = Serving cfg (httpserver_New (ds_webhookMux s'))" by simp
  ultimately show ?thesis by blast
qed

lemma running_server_tls_witness:
  "\<exists>pg v cfg srv. main_setup sample_main_env sample_flags [] = ([], Running pg)
    \<and> server_reachable sample_env (fresh_serving (empty_heap :: nat mux_heap) (pg_server pg)) v
    \<and> sv_phase v = Serving cfg srv \<and> tls_NextProtos cfg = [''http/1.1'']"
proof -
  obtain pg where pg: "main_setup sample_main_env sample_flags [] = ([], Running pg)"
    using sample_running [of sample_kube "[]"] by blast
  obtain v cfg srv where v: "server_reachable sample_env
      (fresh_serving (empty_heap :: nat mux_heap) (pg_server pg)) v" "sv_phase v = Serving cfg srv"
    using reachable_serving by blast
  have "\<not> mf_enableHTTP2 sample_flags" by (simp add: sample_flags_def default_flags_def)
  with running_server_tls [OF pg v] pg v show ?thesis by auto
qed

section \<open>The certificate callback\<close>

text \<open>
  The retry loop of client-go returns the first attempt that ends without an error; nothing else is
  asked of it here.
\<close>

definition returns_success :: "(('s \<Rightarrow> 's \<times> gerror option) \<Rightarrow> 's \<Rightarrow> 's \<times> gerror option) \<Rightarrow> bool" where
  "returns_success retry \<longleftrightarrow> (\<forall>f s. snd (f s) = None \<longrightarrow> retry f s = f s)"

text \<open>
  Property C35. When the serving certificate is loaded and the CA file next to it can be read, on a
  cluster that serves the webhook configuration and applies patches, the callback succeeds and
  every webhook of the configuration trusts the CA in the file; an unreadable CA file ends the
  process before anything is patched.
\<close>

theorem certificate_callback_trusts:
  assumes "serves_configuration (me_webhook_client env) (mf_webhookCfgName fl) current"
    and "returns_success (me_RetryOnConflict env)"
  shows "case me_ReadFile env (path_join [mf_webhookCertPath fl, certificateAuthorityName]) of
      Inl e \<Rightarrow> certificate_callback env fl s = (s, Some (''unable to read certificate'', e))
    | Inr ca \<Rightarrow> (\<exists>s'. certificate_callback env fl s = (s', None)
        \<and> wc_Webhooks (current s') = map (with_bundle ca) (wc_Webhooks (current s)))"
proof (cases "me_ReadFile env (path_join [mf_webhookCertPath fl, certificateAuthorityName])")
  case (Inl e)
  then show ?thesis by (simp add: certificate_callback_def)
next
  case (Inr ca)
  let ?o = "\<lparr>uo_Name = mf_webhookCfgName fl, uo_CABundle = ca, uo_FieldManager = patchFieldManagerName\<rparr>"
  let ?f = "\<lambda>s. case BuildUpdateCABundle (me_webhook_client env) ?o s of (s', patches, err) \<Rightarrow> (s', err)"
  obtain s' patches where upd: "BuildUpdateCABundle (me_webhook_client env) ?o s = (s', patches, None)"
    "wc_Webhooks (current s') = map (with_bundle ca) (wc_Webhooks (current s))"
    using update_trusts [of "me_webhook_client env" ?o current s] assms(1) by auto
  then have "me_RetryOnConflict env ?f s = (s', None)"
    using assms(2) by (simp add: returns_success_def)
  with Inr upd(2) show ?thesis by (simp add: certificate_callback_def)
qed

section \<open>The landscape in admitted pods\<close>

lemma served_landscape:
  assumes "map_wf (p_annotations p)" "opted_in AnnotationSetLandscape p ns cfg"
    and "AnnotationSetLandscape \<in> set (wh_AvailableFeatures opts)"
  shows "list_all (\<lambda>c. env_lookup EnvKymaLandscape c = Some (wh_Landscape opts))
    (pod_group_containers (served_pod opts hh ns cfg p))"
proof -
  define q where "q = when_available opts AnnotationSetFipsMode (\<lambda>p. fips_effect p ns cfg)
    (when_available opts AnnotationAddClusterTrustBundle (\<lambda>p. ctb_effect hh p ns cfg)
    (when_available opts AnnotationSetPullSecret
       (\<lambda>p. pull_secret_effect (wh_ImagePullSecretName opts) p ns cfg)
    (when_available opts AnnotationAlterImgRegistry (\<lambda>p. registry_effect p ns cfg) p)))"
  have "annotations_kept p q"
    by (auto simp: q_def when_available_def annotations_kept_def ctb_effect_def stamp_annotations
        stamp_wf)
  moreover have "p_namespace q = p_namespace p" by (simp add: q_def when_available_def)
  ultimately have "opted_in AnnotationSetLandscape q ns cfg"
    using assms(1,2) opted_in_kept [of p q AnnotationSetLandscape ns cfg] by (simp add: pod_wf_def)
  then show ?thesis
    using assms(3) unfolding served_pod_def q_def [symmetric]
    by (simp add: when_available_def landscape_effect_def list_all_iff landscape_container_reads)
qed

text \<open>
  Property C31. In a running program with the landscape feature available, every pod that is admitted
  and opted in has, in every container and init container, the landscape variable with the
  landscape of the flags, which is not empty.
\<close>

theorem running_program_landscape:
  assumes "main_setup env fl s = (s', Running pg)"
    and "AnnotationSetLandscape \<in> set (cfg_AvailableFeatures (pg_config pg))"
    and "steady get (pg_webhook pg states) (p_namespace p) ns cfg"
    and "map_wf (p_annotations p)" "opted_in AnnotationSetLandscape p ns cfg"
  shows "mf_landscape fl \<noteq> []
    \<and> list_all (\<lambda>c. env_lookup EnvKymaLandscape c = Some (mf_landscape fl)) (pod_group_containers
        (default_pod (SetupPodWebhookWithManager get (pg_webhook pg states) hh) p))"
  using assms(1)
proof (cases rule: main_setup_Running)
  case (1 interval s1 c)
  note pg = main_wire_Running [OF 1(5)]
  let ?o = "pg_webhook pg states"
  have opts: "wh_Landscape ?o = mf_landscape fl"
    "wh_AvailableFeatures ?o = cfg_AvailableFeatures (pg_config pg)"
    by (simp_all add: pg main_webhook_opts_def)
  have "list_all (\<lambda>c. env_lookup EnvKymaLandscape c = Some (mf_landscape fl))
      (pod_group_containers (served_pod ?o hh ns cfg p))"
    using served_landscape [OF assms(4,5), of ?o hh] assms(2) by (simp add: opts)
  with steady_served_pod [OF assms(3), of hh] have
    "list_all (\<lambda>c. env_lookup EnvKymaLandscape c = Some (mf_landscape fl))
      (pod_group_containers (default_pod (SetupPodWebhookWithManager get ?o hh) p))"
    by (auto split: if_splits)
  moreover have "mf_landscape fl \<noteq> []" using 1(4) assms(2) by (simp add: pg)
  ultimately show ?thesis by blast
qed

lemma running_program_landscape_witness:
  "\<exists>pg. main_setup sample_main_env sample_flags [] = ([], Running pg)
    \<and> list_all (\<lambda>c. env_lookup EnvKymaLandscape c = Some ''CN'') (pod_group_containers
        (default_pod (SetupPodWebhookWithManager sample_get (pg_webhook pg (\<lambda>_. [])) sample_cell) sample_pod))"
proof -
  obtain pg where pg: "main_setup sample_main_env sample_flags [] = ([], Running pg)"
    and parts: "pg_config pg = sample_cfg"
      "pg_webhook pg = main_webhook_opts sample_main_env sample_flags sample_cfg"
    using sample_program [of sample_kube "[]"] by blast
  have available: "AnnotationSetLandscape \<in> set (cfg_AvailableFeatures (pg_config pg))"
    by (simp add: parts sample_cfg_def)
  have steady: "steady sample_get (pg_webhook pg (\<lambda>_. [])) (p_namespace sample_pod)
      sample_ns_annotations sample_cfg"
    by (simp add: parts steady_def sample_get_def sample_pod_def main_webhook_opts_def
        sample_readConfig)
  have opted: "opted_in AnnotationSetLandscape sample_pod sample_ns_annotations sample_cfg"
    by (simp add: sample_opted)
  have "mf_landscape sample_flags = ''CN''" by (simp add: sample_flags_def)
  with running_program_landscape [OF pg available steady sample_pod_wf opted] pg show ?thesis by auto
qed

definition sample_callback_env :: "admission_webhook list main_env" where
  "sample_callback_env =
     \<lparr>me_have_rest_config = True, me_client_New = None,
      me_NewManager = None, me_get_configmap = (\<lambda>n ns s. (s, Inr None)),
      me_map_order = (\<lambda>es. es), me_validate = (\<lambda>c. None),
      me_get_bundle = (\<lambda>n s. (s, Inr [])),
      me_kube = \<lparr>k_list_namespaces = (\<lambda>s. (s, Inr [])), k_list_pods = (\<lambda>ns s. (s, Inr [])),
        k_delete_pod = (\<lambda>p s. (s, None)), k_isForbidden = (\<lambda>e. False), k_isNotFound = (\<lambda>e. False)\<rparr>,
      me_get_secret = (\<lambda>k s. (s, Inl (StatusError ''NotFound'' []))),
      me_patch_secret = (\<lambda>sec opts s. (s, None)), me_error_text = (\<lambda>e. []),
      me_setup_webhook = None, me_setup_watcher = None, me_setup_secret = None,
      me_AddHealthzCheck = None, me_AddReadyzCheck = None, me_ReadFile = (\<lambda>f. Inr [1, 2]),
      me_webhook_client =
        \<lparr>wcl_get = (\<lambda>n s. (s, Inr (sample_configuration\<lparr>wc_Webhooks := s, wc_Name := n\<rparr>))),
         wcl_patch = (\<lambda>cfg opts s. (wc_Webhooks cfg, None))\<rparr>,
      me_RetryOnConflict = (\<lambda>f. f)\<rparr>"

lemma certificate_callback_trusts_witness:
  "\<exists>s'. certificate_callback sample_callback_env sample_flags (wc_Webhooks sample_configuration) = (s', None)
    \<and> map aw_CABundle s' = [[1, 2]]"
proof -
  let ?n = "mf_webhookCfgName sample_flags"
  have serves: "serves_configuration (me_webhook_client sample_callback_env) ?n
      (\<lambda>s. sample_configuration\<lparr>wc_Webhooks := s, wc_Name := ?n\<rparr>)"
    by (simp add: serves_configuration_def sample_callback_env_def)
  have retry: "returns_success (me_RetryOnConflict sample_callback_env)"
    by (simp add: returns_success_def sample_callback_env_def)
  have "me_ReadFile sample_callback_env f = Inr [1, 2]" for f
    by (simp add: sample_callback_env_def)
  with certificate_callback_trusts [OF serves retry, of "wc_Webhooks sample_configuration"]
  show ?thesis by (auto simp: sample_configuration_def with_bundle_def)
qed

end
