(* ===== verification/Running_System.thy ===== *)
theory Running_System
  imports Interleaving Startup
begin

text \<open>
  The running program: the watcher's goroutine, the admissions of the webhook and the other clients of
  the cluster, interleaved in any order. The hash cell is what they share.
\<close>

section \<open>The hash of an admitted pod\<close>

text \<open>
  Whatever the callbacks answer, and even if the handler ends with an error: the hash annotation is
  the one the pod came with or the cell's.
\<close>

definition hash_from :: "hash_holder \<Rightarrow> pod \<Rightarrow> pod \<Rightarrow> bool" where
  "hash_from hh p q \<longleftrightarrow>
     map_get (p_annotations q) AnnotationCTBHash = map_get (p_annotations p) AnnotationCTBHash
     \<or> Get hh \<noteq> [] \<and> map_get (p_annotations q) AnnotationCTBHash = Some (Get hh)"

lemma hash_from_refl [simp]: "hash_from hh p p"
  by (simp add: hash_from_def)

lemma hash_from_trans: "hash_from hh p q \<Longrightarrow> hash_from hh q r \<Longrightarrow> hash_from hh p r"
  by (auto simp: hash_from_def)

lemma hash_from_marked [simp]: "hash_from hh p (marked q) = hash_from hh p q"
  by (simp add: hash_from_def marked_annotations)

lemma entry_hash:
  assumes "(k, d) \<in> set (defaulterEntries opts hh)"
  shows "\<exists>q b. d p ns cfg = (q, Ret (Inr b)) \<and> hash_from hh p q"
  using assms
  by (auto simp: defaulterEntries_def registry_exact pull_secret_exact fips_exact landscape_exact
      ctb_ret ctb_effect_def hash_from_def stamp_annotations)

lemma default_loop_hash:
  assumes "\<And>d. d \<in> set ds \<Longrightarrow> \<forall>p cfg. \<exists>q b. d p ns cfg = (q, Ret (Inr b)) \<and> hash_from hh p q"
  shows "hash_from hh p (fst (default_loop G ns i ds p b))"
  using assms
proof (induction ds arbitrary: i p b)
  case (Cons d ds)
  consider (answer) cfg where "G i = Ret (Inr cfg)" | (failure) e where "G i = Ret (Inl e)"
    | (crash) x where "G i = Panic x"
    by (metis go.exhaust sum.exhaust)
  then show ?case
  proof cases
    case (answer cfg)
    obtain q m where q: "d p ns cfg = (q, Ret (Inr m))" "hash_from hh p q"
      using Cons.prems by (metis list.set_intros(1))
    have "hash_from hh q (fst (default_loop G ns (Suc i) ds q (if \<not> m then b else True)))"
      using Cons.IH Cons.prems by simp
    with q answer show ?thesis by (auto intro: hash_from_trans)
  qed simp_all
qed simp

lemma default_hash_from: "hash_from hh p (default_pod (SetupPodWebhookWithManager get opts hh) p)"
proof (cases "get (p_namespace p)")
  case (Inl e)
  then show ?thesis by (simp add: default_pod_def Default_def default_body_setup)
next
  case (Inr obj)
  have entries: "\<forall>p cfg. \<exists>q b. d p (ns_annotations obj) cfg = (q, Ret (Inr b)) \<and> hash_from hh p q"
    if "d \<in> set (pcd_defaulters (SetupPodWebhookWithManager get opts hh))" for d
  proof -
    obtain k where "(k, d) \<in> set (defaulterEntries opts hh)"
      using \<open>d \<in> _\<close> by (auto simp: setup_defaulters collect_available_filter)
    then show ?thesis using entry_hash by blast
  qed
  have "hash_from hh p (fst (default_loop (wh_GetConfig opts) (ns_annotations obj) 0
      (pcd_defaulters (SetupPodWebhookWithManager get opts hh)) p False))"
    by (rule default_loop_hash) (rule entries)
  then show ?thesis using Default_setup [of get p obj opts hh, OF Inr] by auto
qed

section \<open>The steps of the running program\<close>

text \<open>
  The state: the cluster, the cell, where the watcher's goroutine stands, and the history: the bundles
  that were read, the pods the watcher asked to delete, and the pods the webhook was given with what
  it admitted.
\<close>

record 's running =
  ru_cluster :: 's
  ru_cell :: hash_holder
  ru_watch :: watch_pc
  ru_bundles :: "string list"
  ru_deleted :: "pod list"
  ru_admitted :: "(pod \<times> pod) list"

fun bundles_read :: "watch_pc \<Rightarrow> string list \<Rightarrow> string list" where
  "bundles_read (Fetched tb) bs = tb # bs"
| "bundles_read pc bs = bs"

text \<open>
  One call of the watcher; the next reconciliation (the controller runs one at a time); one admission,
  for any answers about the namespace and the configuration; any change of the cluster by others.
\<close>

inductive run_step :: "'s ctb_watcher \<Rightarrow> webhook_opts \<Rightarrow> 's running \<Rightarrow> 's running \<Rightarrow> bool" for w opts where
  watcher: "run_step w opts r (r\<lparr>ru_cluster := s', ru_cell := cell', ru_watch := pc',
      ru_bundles := bundles_read pc' (ru_bundles r), ru_deleted := ru_deleted r @ deletions evs\<rparr>)"
  if "watch_step w (ru_watch r) (ru_cell r) (ru_cluster r) = (s', cell', evs, pc')"
| called_again: "run_step w opts r (r\<lparr>ru_watch := NotBegun\<rparr>)" if "ru_watch r = Reconciled after err"
| admission: "run_step w opts r (r\<lparr>ru_admitted := (p, default_pod
      (SetupPodWebhookWithManager get (opts\<lparr>wh_GetConfig := answers\<rparr>) (ru_cell r)) p) # ru_admitted r\<rparr>)"
| others: "run_step w opts r (r\<lparr>ru_cluster := s'\<rparr>)"

inductive run_reachable :: "'s ctb_watcher \<Rightarrow> webhook_opts \<Rightarrow> 's running \<Rightarrow> 's running \<Rightarrow> bool"
  for w opts r0 where
  start: "run_reachable w opts r0 r0"
| step: "run_reachable w opts r0 r'" if "run_reachable w opts r0 r" "run_step w opts r r'"

inductive_cases run_stepE: "run_step w opts r r'"

text \<open>The program as \<open>main\<close> leaves it to its manager.\<close>

definition run_start :: "'s \<Rightarrow> hash_holder \<Rightarrow> string list \<Rightarrow> 's running" where
  "run_start s cell bs =
     \<lparr>ru_cluster = s, ru_cell = cell, ru_watch = NotBegun, ru_bundles = bs, ru_deleted = [], ru_admitted = []\<rparr>"

section \<open>What every interleaving keeps\<close>

definition honest :: "string list \<Rightarrow> string \<Rightarrow> bool" where
  "honest bs h \<longleftrightarrow> (\<exists>tb \<in> set bs. h = bundle_hash tb)"

fun watch_ok :: "string list \<Rightarrow> hash_holder \<Rightarrow> watch_pc \<Rightarrow> bool" where
  "watch_ok bs cell (Fetched tb) \<longleftrightarrow> tb \<in> set bs"
| "watch_ok bs cell HashStored \<longleftrightarrow> honest bs (Get cell)"
| "watch_ok bs cell (RestartScan h pc) \<longleftrightarrow> h = Get cell \<and> honest bs h"
| "watch_ok bs cell pc \<longleftrightarrow> True"

definition admitted_ok :: "string list \<Rightarrow> pod \<times> pod \<Rightarrow> bool" where
  "admitted_ok bs = (\<lambda>(p, q).
     map_get (p_annotations q) AnnotationCTBHash = map_get (p_annotations p) AnnotationCTBHash
     \<or> (\<exists>tb \<in> set bs. map_get (p_annotations q) AnnotationCTBHash = Some (bundle_hash tb)))"

definition deleted_ok :: "string list \<Rightarrow> pod \<Rightarrow> bool" where
  "deleted_ok bs p \<longleftrightarrow> (\<exists>tb \<in> set bs. stale (bundle_hash tb) p)"

definition run_inv :: "'s running \<Rightarrow> bool" where
  "run_inv r \<longleftrightarrow>
     (Get (ru_cell r) = [] \<or> honest (ru_bundles r) (Get (ru_cell r)))
     \<and> watch_ok (ru_bundles r) (ru_cell r) (ru_watch r)
     \<and> list_all (deleted_ok (ru_bundles r)) (ru_deleted r)
     \<and> list_all (admitted_ok (ru_bundles r)) (ru_admitted r)"

lemma history_grows:
  "set bs \<subseteq> set bs' \<Longrightarrow> honest bs h \<Longrightarrow> honest bs' h"
  "set bs \<subseteq> set bs' \<Longrightarrow> list_all (deleted_ok bs) ps \<Longrightarrow> list_all (deleted_ok bs') ps"
  "set bs \<subseteq> set bs' \<Longrightarrow> list_all (admitted_ok bs) pqs \<Longrightarrow> list_all (admitted_ok bs') pqs"
  by (fastforce simp: honest_def deleted_ok_def admitted_ok_def list_all_iff)+

lemma bundles_read_grows: "set bs \<subseteq> set (bundles_read pc bs)"
  by (cases pc) auto

lemma restart_step_stale:
  assumes "restart_step c h managed pc s = (s', evs, pc')"
  shows "list_all (stale h) (deletions evs)"
proof (cases pc)
  case (NextPod ns pods d nss b)
  show ?thesis
  proof (cases pods)
    case (Cons q qs)
    have "deletions (fst (namespace_failed c managed ns e nss b)) = []" for e by simp
    then show ?thesis using assms NextPod Cons
      by (auto simp: restart_step_pod Let_def split_beta split: if_splits option.splits)
  qed (use assms NextPod in auto)
next
  case (NextNamespace nss b)
  then show ?thesis using assms
    by (cases nss) (auto split: prod.splits sum.splits if_splits simp: namespace_failed_def)
qed (use assms in \<open>auto split: prod.splits sum.splits\<close>)

lemma watch_step_cases:
  assumes "watch_step w pc cell s = (s', cell', evs, pc')" "watch_ok bs cell pc"
  shows "(cell' = cell \<or> (\<exists>tb \<in> set bs. Get cell' = bundle_hash tb) \<and> pc' = HashStored)
    \<and> watch_ok (bundles_read pc' bs) cell' pc' \<and> list_all (deleted_ok bs) (deletions evs)"
proof (cases pc)
  case (RestartScan h sp)
  then have h: "h = Get cell" "honest bs h" using assms(2) by auto
  obtain t evs1 sp1 where st: "restart_step (w_kube w) h (w_ManagedNamespaces w) sp s = (t, evs1, sp1)"
    by (metis prod_cases3)
  with assms(1) RestartScan have "cell' = cell" "evs = evs1" "pc' = scan_outcome w h sp1"
    by (auto simp: watch_step_scan)
  moreover have "watch_ok (bundles_read (scan_outcome w h sp1) bs) cell (scan_outcome w h sp1)"
    using h by (auto simp: scan_outcome_def split: scan_pc.split sum.split)
  moreover have "list_all (deleted_ok bs) (deletions evs1)"
    using restart_step_stale [OF st] h(2) by (auto simp: list_all_iff deleted_ok_def honest_def)
  ultimately show ?thesis by blast
qed (use assms in \<open>auto simp: Get_ComputeAndSet honest_def split: prod.splits sum.splits\<close>)

lemma run_step_inv: "run_step w opts r r' \<Longrightarrow> run_inv r \<Longrightarrow> run_inv r'"
proof (induction rule: run_step.induct)
  case (watcher r s' cell' evs pc')
  let ?bs = "bundles_read pc' (ru_bundles r)"
  have inv: "watch_ok (ru_bundles r) (ru_cell r) (ru_watch r)"
    "Get (ru_cell r) = [] \<or> honest (ru_bundles r) (Get (ru_cell r))"
    "list_all (deleted_ok (ru_bundles r)) (ru_deleted r)"
    "list_all (admitted_ok (ru_bundles r)) (ru_admitted r)"
    using watcher(2) by (simp_all add: run_inv_def)
  note st = watch_step_cases [OF watcher(1) inv(1)]
  have "Get cell' = [] \<or> honest ?bs (Get cell')"
    using st inv(2) history_grows(1) [OF bundles_read_grows] by (auto simp: honest_def)
  moreover have "list_all (deleted_ok ?bs) (ru_deleted r @ deletions evs)"
    using st inv(3) history_grows(2) [OF bundles_read_grows] by auto
  moreover have "list_all (admitted_ok ?bs) (ru_admitted r)"
    using inv(4) history_grows(3) [OF bundles_read_grows] by blast
  ultimately show ?case using st by (simp add: run_inv_def)
next
  case (admission r p get answers)
  then show ?case
    using default_hash_from [of "ru_cell r" p get "opts\<lparr>wh_GetConfig := answers\<rparr>"]
    by (auto simp: run_inv_def admitted_ok_def hash_from_def honest_def)
qed (auto simp: run_inv_def)

lemma run_reachable_inv: "run_reachable w opts r0 r \<Longrightarrow> run_inv r0 \<Longrightarrow> run_inv r"
  by (induction rule: run_reachable.induct) (auto intro: run_step_inv)

text \<open>The history of a program that has just been set up: the bundle whose hash it computed, if any.\<close>

definition started :: "'s \<Rightarrow> 's program \<Rightarrow> 's running \<Rightarrow> bool" where
  "started s pg r \<longleftrightarrow>
     (\<exists>bs. r = run_start s (pg_cell pg) bs
        \<and> (if Get (pg_cell pg) = [] then bs = [] else \<exists>tb. bs = [tb] \<and> Get (pg_cell pg) = bundle_hash tb))"

lemma started_inv: "started s pg r0 \<Longrightarrow> run_inv r0"
  by (auto simp: started_def run_inv_def run_start_def honest_def split: if_splits)

text \<open>
  Property C11. In a running program, whatever the interleaving of the watcher's calls, the admissions
  and the changes made by others, and whatever they all answer: the cell is empty or holds the hash of
  a bundle that was read; a pod the watcher asked to delete is owned, marked for restarts and carries
  a hash other than that of a bundle that was read; and the hash a pod is admitted with is the one it
  came with or the hash of a bundle that was read.
\<close>

theorem interleaving_honest:
  assumes "main_setup env fl s0 = (s1, Running pg)" "pg_watcher pg = Some w"
    and "started s1 pg r0" "run_reachable w (pg_webhook pg states) r0 r"
  shows "(Get (ru_cell r) = [] \<or> honest (ru_bundles r) (Get (ru_cell r)))
    \<and> list_all (deleted_ok (ru_bundles r)) (ru_deleted r)
    \<and> list_all (admitted_ok (ru_bundles r)) (ru_admitted r)"
  using run_reachable_inv [OF assms(4) started_inv [OF assms(3)]] by (simp add: run_inv_def)

text \<open>
  Property C12. No restart loop under any interleaving: a pod that the webhook selects for the bundle
  while the watcher scans, at whatever point of the scan, is not stale for that scan.
\<close>

theorem scan_spares_admitted:
  assumes "main_setup env fl s0 = (s1, Running pg)" "pg_watcher pg = Some w"
    and "started s1 pg r0" "run_reachable w (pg_webhook pg states) r0 r"
    and "ru_watch r = RestartScan h pc"
    and "steady get (pg_webhook pg states\<lparr>wh_GetConfig := answers\<rparr>) (p_namespace p) ns cfg"
    and "ctb_selected p ns cfg"
  shows "\<not> stale h (default_pod
    (SetupPodWebhookWithManager get (pg_webhook pg states\<lparr>wh_GetConfig := answers\<rparr>) (ru_cell r)) p)"
proof -
  have "watch_ok (ru_bundles r) (ru_cell r) (ru_watch r)"
    using run_reachable_inv [OF assms(4) started_inv [OF assms(3)]] by (simp add: run_inv_def)
  then obtain tb where h: "h = Get (ru_cell r)" "Get (ru_cell r) = bundle_hash tb"
    using assms(5) by (auto simp: honest_def)
  then have "Get (ru_cell r) \<noteq> []" by simp
  have "AnnotationAddClusterTrustBundle \<in> set (wh_AvailableFeatures (pg_webhook pg states))"
    by (rule watcher_available [OF assms(1,2)])
  with assms(7) h(1) \<open>Get (ru_cell r) \<noteq> []\<close> show ?thesis
    by (simp add: stale_def map_read_def default_hash [OF assms(6)])
qed

section \<open>A sample run\<close>

lemma run_watcher:
  assumes "run_reachable w opts r0 r"
    and "watch_step w (ru_watch r) (ru_cell r) (ru_cluster r) = (s', cell', evs, pc')"
  shows "\<exists>r'. run_reachable w opts r0 r' \<and> ru_watch r' = pc' \<and> ru_cell r' = cell' \<and> ru_cluster r' = s'
    \<and> ru_bundles r' = bundles_read pc' (ru_bundles r)"
  by (rule exI, rule conjI, rule run_reachable.step [OF assms(1) run_step.watcher [OF assms(2)]]) simp

text \<open>The sample program, three calls later: the watcher has begun to scan.\<close>

lemma sample_scanning:
  "\<exists>pg w r0 r. main_setup sample_main_env sample_flags [] = ([], Running pg) \<and> pg_watcher pg = Some w
    \<and> started [] pg r0 \<and> run_reachable w (pg_webhook pg (\<lambda>_. [])) r0 r
    \<and> ru_watch r = RestartScan (bundle_hash ''PEM'') ListNamespaces
    \<and> ru_cell r = ComputeAndSet (ru_cell r0) ''PEM''
    \<and> pg_webhook pg = main_webhook_opts sample_main_env sample_flags sample_cfg"
proof -
  obtain pg w where pg: "main_setup sample_main_env sample_flags [] = ([], Running pg)"
    "pg_watcher pg = Some w" "\<And>n t. w_get_bundle w n t = (t, Inr ''PEM'')"
    "pg_webhook pg = main_webhook_opts sample_main_env sample_flags sample_cfg"
    "Get (pg_cell pg) = bundle_hash ''PEM''"
    using sample_program [of sample_kube "[]"] by blast
  let ?opts = "pg_webhook pg (\<lambda>_. [])"
  let ?r0 = "run_start [] (pg_cell pg) [''PEM'']"
  have started: "started [] pg ?r0" unfolding started_def by (rule exI [of _ "[''PEM'']"]) (simp add: pg(5))
  have "run_reachable w ?opts ?r0 ?r0" by (rule run_reachable.start)
  from run_watcher [OF this] obtain r1 where r1: "run_reachable w ?opts ?r0 r1"
    "ru_watch r1 = Fetched ''PEM''" "ru_cell r1 = pg_cell pg"
    by (auto simp: run_start_def pg(3))
  from run_watcher [OF r1(1)] obtain r2 where r2: "run_reachable w ?opts ?r0 r2"
    "ru_watch r2 = HashStored" "ru_cell r2 = ComputeAndSet (pg_cell pg) ''PEM''"
    by (auto simp: r1(2,3))
  from run_watcher [OF r2(1)] obtain r3 where "run_reachable w ?opts ?r0 r3"
    "ru_watch r3 = RestartScan (bundle_hash ''PEM'') ListNamespaces"
    "ru_cell r3 = ComputeAndSet (pg_cell pg) ''PEM''"
    by (auto simp: r2(2,3) Get_ComputeAndSet)
  moreover have "ru_cell ?r0 = pg_cell pg" by (simp add: run_start_def)
  ultimately show ?thesis using pg(1,2,4) started by metis
qed

lemma interleaving_honest_witness:
  "\<exists>pg w r0 r. main_setup sample_main_env sample_flags [] = ([], Running pg)
    \<and> pg_watcher pg = Some w \<and> run_reachable w (pg_webhook pg (\<lambda>_. [])) r0 r
    \<and> Get (ru_cell r) = bundle_hash ''PEM'' \<and> honest (ru_bundles r) (bundle_hash ''PEM'')"
proof -
  obtain pg w r0 r where run: "main_setup sample_main_env sample_flags [] = ([], Running pg)"
    "pg_watcher pg = Some w" "started [] pg r0" "run_reachable w (pg_webhook pg (\<lambda>_. [])) r0 r"
    "ru_cell r = ComputeAndSet (ru_cell r0) ''PEM''"
    using sample_scanning by blast
  have "Get (ru_cell r) = bundle_hash ''PEM''" by (simp add: run(5) Get_ComputeAndSet)
  moreover from interleaving_honest [OF run(1-4)] this
  have "honest (ru_bundles r) (bundle_hash ''PEM'')" by simp
  ultimately show ?thesis using run by blast
qed

lemma scan_spares_admitted_witness:
  "\<exists>pg w r0 r. main_setup sample_main_env sample_flags [] = ([], Running pg)
    \<and> pg_watcher pg = Some w \<and> run_reachable w (pg_webhook pg (\<lambda>_. [])) r0 r
    \<and> ru_watch r = RestartScan (bundle_hash ''PEM'') ListNamespaces
    \<and> \<not> stale (bundle_hash ''PEM'') (default_pod (SetupPodWebhookWithManager sample_get
          (pg_webhook pg (\<lambda>_. [])\<lparr>wh_GetConfig := \<lambda>_. Ret (Inr sample_cfg)\<rparr>) (ru_cell r)) sample_pod)"
proof -
  obtain pg w r0 r where run: "main_setup sample_main_env sample_flags [] = ([], Running pg)"
    "pg_watcher pg = Some w" "started [] pg r0" "run_reachable w (pg_webhook pg (\<lambda>_. [])) r0 r"
    "ru_watch r = RestartScan (bundle_hash ''PEM'') ListNamespaces"
    and opts: "pg_webhook pg = main_webhook_opts sample_main_env sample_flags sample_cfg"
    using sample_scanning by blast
  have steady: "steady sample_get (pg_webhook pg (\<lambda>_. [])\<lparr>wh_GetConfig := \<lambda>_. Ret (Inr sample_cfg)\<rparr>)
      (p_namespace sample_pod) sample_ns_annotations sample_cfg"
    using sample_steady by (simp add: steady_def opts main_webhook_opts_def sample_opts_def)
  note spared = scan_spares_admitted [OF run steady sample_selected]
  show ?thesis
    by (intro exI conjI) (rule run(1), rule run(2), rule run(4), rule run(5), rule spared)
qed

end
