(* ===== verification/Interference.thy ===== *)
theory Interference
  imports Interleaving
begin

text \<open>
  The scan of \<open>internal/ctb/restarter.go\<close> and the reconciliation of \<open>internal/ctb/watcher.go\<close> among other
  clients: owners create pods, pods go away and change while the scan is between two of its calls. What
  the scan relies on is that nobody adds a pod that is stale for its hash; what it then guarantees is
  the same as on a cluster of its own.
\<close>

section \<open>What the scan relies on\<close>

definition no_new_stale :: "string \<Rightarrow> ('s \<Rightarrow> string \<Rightarrow> pod list) \<Rightarrow> ('s \<Rightarrow> 's) \<Rightarrow> bool" where
  "no_new_stale h pods_of f \<longleftrightarrow>
     (\<forall>s ns. \<forall>q \<in> set (pods_of (f s) ns). stale h q \<longrightarrow> q \<in> set (pods_of s ns))"

text \<open>
  \<open>stale_within h pods_of s ns ps\<close>: what is stale in a namespace is among \<open>ps\<close>; \<open>settled_in\<close>: nothing is.
\<close>

definition stale_within ::
  "string \<Rightarrow> ('s \<Rightarrow> string \<Rightarrow> pod list) \<Rightarrow> 's \<Rightarrow> k8s_namespace \<Rightarrow> pod list \<Rightarrow> bool" where
  "stale_within h pods_of s n ps \<longleftrightarrow>
     list_all (\<lambda>q. stale h q \<longrightarrow> q \<in> set ps) (pods_of s (ns_name n))"

abbreviation settled_in :: "string \<Rightarrow> ('s \<Rightarrow> string \<Rightarrow> pod list) \<Rightarrow> 's \<Rightarrow> k8s_namespace \<Rightarrow> bool" where
  "settled_in h pods_of s n \<equiv> stale_within h pods_of s n []"

lemma settled_in_iff: "settled_in h pods_of s n \<longleftrightarrow> filter (stale h) (pods_of s (ns_name n)) = []"
  by (simp add: stale_within_def list_all_iff filter_empty_conv)

lemma stale_within_all [simp]: "stale_within h pods_of s n (pods_of s (ns_name n))"
  by (simp add: stale_within_def list_all_iff)

lemma stale_within_skip: "\<not> stale h q \<Longrightarrow> stale_within h pods_of s n (q # ps) = stale_within h pods_of s n ps"
  by (auto simp: stale_within_def list_all_iff)

lemma stale_within_others:
  "no_new_stale h pods_of f \<Longrightarrow> stale_within h pods_of s n ps \<Longrightarrow> stale_within h pods_of (f s) n ps"
  by (auto simp: stale_within_def no_new_stale_def list_all_iff)

lemma stale_within_delete:
  assumes "live_cluster c nss pods_of" "stale_within h pods_of s n ps"
  shows "stale_within h pods_of (fst (k_delete_pod c q s)) n ps"
  using assms by (simp add: stale_within_def live_cluster_def list_all_iff)

text \<open>A pod that was deleted is not listed any more, so the rest of the list is enough.\<close>

lemma stale_within_deleted:
  assumes live: "live_cluster c nss pods_of" and within: "stale_within h pods_of s n (q # ps)"
  shows "stale_within h pods_of (fst (k_delete_pod c q s)) n ps"
proof -
  have "\<not> same_pod q (ns_name n) q \<Longrightarrow> q \<notin> set (pods_of s (ns_name n))"
    using live by (auto simp: live_cluster_def same_pod_def)
  then show ?thesis
    using assms by (auto simp: stale_within_def live_cluster_def list_all_iff)
qed

section \<open>The invariant of the scan\<close>

text \<open>
  The namespaces a scan is done with have no stale pod; inside a namespace every stale pod is still on
  the list; a scan that has returned did so without an error. \<open>scan_flag\<close>: what the scan has counted.
\<close>

fun scan_inv ::
  "string \<Rightarrow> k8s_namespace list \<Rightarrow> ('s \<Rightarrow> string \<Rightarrow> pod list) \<Rightarrow> scan_pc \<Rightarrow> 's \<Rightarrow> bool" where
  "scan_inv h nss pods_of ListNamespaces s \<longleftrightarrow> True"
| "scan_inv h nss pods_of (NextNamespace rest b) s \<longleftrightarrow>
     (\<exists>finished. nss = finished @ rest \<and> list_all (settled_in h pods_of s) finished)"
| "scan_inv h nss pods_of (NextPod n pods d rest b) s \<longleftrightarrow>
     (\<exists>finished. nss = finished @ n # rest \<and> list_all (settled_in h pods_of s) finished)
     \<and> stale_within h pods_of s n pods"
| "scan_inv h nss pods_of (ScanReturned r) s \<longleftrightarrow>
     (\<exists>b. r = Inr b) \<and> list_all (settled_in h pods_of s) nss"

fun scan_flag :: "scan_pc \<Rightarrow> bool" where
  "scan_flag (NextNamespace rest b) = b"
| "scan_flag (NextPod n pods d rest b) = (d \<or> b)"
| "scan_flag (ScanReturned (Inr b)) = b"
| "scan_flag pc = False"

lemma settled_others:
  "no_new_stale h pods_of f \<Longrightarrow> list_all (settled_in h pods_of s) ns \<Longrightarrow> list_all (settled_in h pods_of (f s)) ns"
  by (auto simp: list_all_iff intro: stale_within_others)

lemma settled_delete:
  "live_cluster c nss pods_of \<Longrightarrow> list_all (settled_in h pods_of s) ns
   \<Longrightarrow> list_all (settled_in h pods_of (fst (k_delete_pod c q s))) ns"
  by (auto simp: list_all_iff intro: stale_within_delete)

lemma scan_inv_others:
  "no_new_stale h pods_of f \<Longrightarrow> scan_inv h nss pods_of pc s \<Longrightarrow> scan_inv h nss pods_of pc (f s)"
  by (cases pc) (auto intro: settled_others stale_within_others)

lemma scan_inv_step:
  assumes live: "live_cluster c nss pods_of" and inv: "scan_inv h nss pods_of pc s"
    and step: "restart_step c h managed pc s = (s', evs, pc')"
  shows "scan_inv h nss pods_of pc' s' \<and> scan_flag pc' = (scan_flag pc \<or> deletions evs \<noteq> [])"
proof (cases pc)
  case ListNamespaces
  with live step show ?thesis by (auto simp: live_cluster_def)
next
  case (NextNamespace rest b)
  show ?thesis
  proof (cases rest)
    case Nil
    with NextNamespace step inv show ?thesis by auto
  next
    case (Cons n rest')
    moreover have "k_list_pods c (ns_name n) s = (s, Inr (pods_of s (ns_name n)))"
      using live by (simp add: live_cluster_def)
    ultimately show ?thesis using NextNamespace step inv by auto
  qed
next
  case (NextPod n pods d rest b)
  show ?thesis
  proof (cases pods)
    case Nil
    with NextPod inv obtain finished where "nss = (finished @ [n]) @ rest"
      "list_all (settled_in h pods_of s) (finished @ [n])" by auto
    then have "scan_inv h nss pods_of (NextNamespace rest (d \<or> b)) s" by fastforce
    moreover have "s' = s" "evs = []" "pc' = NextNamespace rest (d \<or> b)"
      using step NextPod Nil by (auto split: if_splits)
    ultimately show ?thesis using NextPod by simp
  next
    case (Cons q qs)
    show ?thesis
    proof (cases "stale h q")
      case False
      with step NextPod Cons inv show ?thesis
        by (auto simp: restart_step_pod stale_within_skip)
    next
      case True
      have "delete_error c (snd (k_delete_pod c q s)) = None"
        using live by (simp add: live_cluster_def)
      with True step NextPod Cons have "s' = fst (k_delete_pod c q s)"
        "deletions evs = [q]" "pc' = NextPod n qs True rest b"
        by (auto simp: restart_step_pod Let_def split_beta)
      with inv NextPod Cons show ?thesis
        by (auto intro: settled_delete [OF live] stale_within_deleted [OF live])
    qed
  qed
next
  case (ScanReturned r)
  with step inv show ?thesis by auto
qed

lemma scan_inv_run:
  assumes live: "live_cluster c nss pods_of" and rely: "\<And>f. f \<in> set others \<Longrightarrow> no_new_stale h pods_of f"
    and "scan_inv h nss pods_of pc s" "restart_run c h managed others pc s = (s', evs, pc')"
  shows "scan_inv h nss pods_of pc' s' \<and> scan_flag pc' = (scan_flag pc \<or> deletions evs \<noteq> [])"
  using assms(2-)
proof (induction others arbitrary: pc s evs)
  case (Cons f others)
  obtain s1 evs1 pc1 where step: "restart_step c h managed pc (f s) = (s1, evs1, pc1)"
    by (metis prod_cases3)
  with Cons.prems(3) obtain evs2 where run: "restart_run c h managed others pc1 s1 = (s', evs2, pc')"
    "evs = evs1 @ evs2" by (auto split: prod.splits)
  have "scan_inv h nss pods_of pc (f s)" using Cons.prems(1,2) by (simp add: scan_inv_others)
  from scan_inv_step [OF live this step] Cons.IH [OF _ _ run(1)] Cons.prems(1) run(2)
  show ?case by auto
qed simp

section \<open>A cluster with a busy client\<close>

text \<open>A cluster whose state is its pods; the first of several with one name counts.\<close>

fun first_of_name :: "pod list \<Rightarrow> pod list" where
  "first_of_name [] = []"
| "first_of_name (p # ps) = p # filter (\<lambda>q. p_name q \<noteq> p_name p) (first_of_name ps)"

definition store_pods :: "pod list \<Rightarrow> string \<Rightarrow> pod list" where
  "store_pods s ns = first_of_name (filter (\<lambda>p. p_namespace p = ns) s)"

definition store_kube :: "pod list kube" where
  "store_kube =
     \<lparr>k_list_namespaces = (\<lambda>s. (s, Inr sample_namespaces)),
      k_list_pods = (\<lambda>ns s. (s, Inr (store_pods s ns))),
      k_delete_pod = (\<lambda>p s. (filter (\<lambda>q. \<not> (p_namespace q = p_namespace p \<and> p_name q = p_name p)) s, None)),
      k_isForbidden = (\<lambda>e. False), k_isNotFound = (\<lambda>e. False)\<rparr>"

lemma first_of_name_distinct: "distinct (map p_name (first_of_name ps))"
  by (induction ps) (auto intro: distinct_map_filter)

lemma first_of_name_set: "set (first_of_name ps) \<subseteq> set ps"
  by (induction ps) auto

lemma first_of_name_append: "set (first_of_name (xs @ ys)) \<subseteq> set xs \<union> set (first_of_name ys)"
  by (induction xs) auto

lemma first_of_name_filter:
  "first_of_name (filter (\<lambda>q. p_name q \<noteq> n) ps) = filter (\<lambda>q. p_name q \<noteq> n) (first_of_name ps)"
  by (induction ps) (auto intro: filter_cong)

lemma store_delete:
  "store_pods (fst (k_delete_pod store_kube p s)) ns = filter (\<lambda>q. \<not> same_pod p ns q) (store_pods s ns)"
proof (cases "ns = p_namespace p")
  case True
  have "filter (\<lambda>q. p_namespace q = ns) (filter (\<lambda>q. \<not> (p_namespace q = p_namespace p \<and> p_name q = p_name p)) s)
      = filter (\<lambda>q. p_name q \<noteq> p_name p) (filter (\<lambda>q. p_namespace q = ns) s)"
    using True by (induction s) auto
  then show ?thesis
    using True by (simp add: store_pods_def store_kube_def same_pod_def first_of_name_filter del: filter_filter)
next
  case False
  then have "filter (\<lambda>q. p_namespace q = ns) (filter (\<lambda>q. \<not> (p_namespace q = p_namespace p \<and> p_name q = p_name p)) s)
      = filter (\<lambda>q. p_namespace q = ns) s"
    by (induction s) auto
  then show ?thesis using False by (simp add: store_pods_def store_kube_def same_pod_def)
qed

lemma store_live: "live_cluster store_kube sample_namespaces store_pods"
proof -
  have "\<forall>p \<in> set (store_pods s ns). p_namespace p = ns" for s ns
    using first_of_name_set by (fastforce simp: store_pods_def)
  moreover have "distinct (map p_name (store_pods s ns))" for s ns
    unfolding store_pods_def by (rule first_of_name_distinct)
  moreover have "delete_error store_kube (snd (k_delete_pod store_kube p s)) = None" for s p
    by (simp add: store_kube_def delete_error_def)
  ultimately show ?thesis
    using store_delete unfolding live_cluster_def by (simp add: store_kube_def)
qed

text \<open>The busy client deletes its pod and creates it again, between any two calls of the scan.\<close>

definition busy :: "pod \<Rightarrow> pod list \<Rightarrow> pod list" where
  "busy p s = (if p \<in> set s then fst (k_delete_pod store_kube p s) else p # s)"

lemma store_pods_add: "set (store_pods (p # s) ns) \<subseteq> insert p (set (store_pods s ns))"
  by (auto simp: store_pods_def)

lemma busy_adds: "q \<in> set (store_pods (busy p s) ns) \<Longrightarrow> q = p \<or> q \<in> set (store_pods s ns)"
  using store_pods_add by (fastforce simp: busy_def store_delete split: if_splits)

lemma busy_adds_nothing_stale: "\<not> stale h p \<Longrightarrow> no_new_stale h store_pods (busy p)"
  using busy_adds by (fastforce simp: no_new_stale_def)

definition old_pod :: pod where
  "old_pod = owned_pod ''apps'' ''web'' (Some [(AnnotationCTBHash, ''old'')])"

definition fresh_pod :: "string \<Rightarrow> string \<Rightarrow> pod" where
  "fresh_pod n h = owned_pod ''apps'' n (Some [(AnnotationCTBHash, h)])"

lemma fresh_pod_simps [simp]: "\<not> stale h (fresh_pod n h)"
  by (simp add: fresh_pod_def stale_def map_read_def)

section \<open>The scan converges among other clients\<close>

text \<open>
  While nobody else adds a pod that is stale for the hash, on a cluster that answers and
  deletes as asked: whatever other clients do between two calls of the scan (create, remove and change
  pods, in the namespaces it has been through as well), the scan returns without an error, no stale pod
  is left in any namespace, and it reports whether it deleted something.
\<close>

theorem RestartStalePods_converges_among_others:
  assumes "live_cluster c nss pods_of" "\<And>i. no_new_stale h pods_of (others i)"
  shows "\<exists>n s' evs b. restart_run c h managed (map others [0..<n]) ListNamespaces s
      = (s', evs, ScanReturned (Inr b))
    \<and> list_all (\<lambda>n. filter (stale h) (pods_of s' (ns_name n)) = []) nss
    \<and> b = (deletions evs \<noteq> [])"
proof -
  obtain n s' evs r where run: "restart_run c h managed (map others [0..<n]) ListNamespaces s
      = (s', evs, ScanReturned r)"
    using returns_scan [of c h managed] unfolding returns_def by blast
  have rely: "f \<in> set (map others [0..<n]) \<Longrightarrow> no_new_stale h pods_of f" for f
    using assms(2) by auto
  from scan_inv_run [OF assms(1) rely _ run] obtain b where "r = Inr b"
    "list_all (settled_in h pods_of s') nss" "b = (deletions evs \<noteq> [])" by auto
  with run show ?thesis by (auto simp: settled_in_iff)
qed

lemma RestartStalePods_converges_among_others_witness:
  "\<exists>n s' evs b. restart_run store_kube ''new'' [] (map (\<lambda>i. busy (fresh_pod ''job'' ''new'')) [0..<n])
      ListNamespaces [old_pod] = (s', evs, ScanReturned (Inr b))
    \<and> filter (stale ''new'') (store_pods s' ''apps'') = []"
proof -
  have rely: "no_new_stale ''new'' store_pods (busy (fresh_pod ''job'' ''new''))"
    by (rule busy_adds_nothing_stale) simp
  from RestartStalePods_converges_among_others [OF store_live,
      where others = "\<lambda>i. busy (fresh_pod ''job'' ''new'')", OF rely]
  show ?thesis by (fastforce simp: sample_namespaces_def)
qed

section \<open>The reconciliation among other clients\<close>











section \<open>A deletion goes by the name\<close>

text \<open>
  The scan deletes by namespace and name, without a precondition on the identity of the pod
  it has listed: when the stale pod was replaced since by a fresh one of the same name, as the owner
  of numbered pods does, the fresh pod is deleted, and the event names the old one.
\<close>

theorem RestartStalePods_deletes_replacement:
  assumes "live_cluster c nss pods_of" "stale h old" "p_namespace old = ns_name ns"
    and "fresh \<in> set (pods_of s (ns_name ns))" "p_name fresh = p_name old" "\<not> stale h fresh"
  shows "case restart_step c h managed (NextPod ns (old # pods) d rest b) s of
      (s', evs, pc') \<Rightarrow> deletions evs = [old] \<and> fresh \<notin> set (pods_of s' (ns_name ns))"
proof -
  have "delete_error c (snd (k_delete_pod c old s)) = None"
    "pods_of (fst (k_delete_pod c old s)) (ns_name ns) = filter (\<lambda>q. \<not> same_pod old (ns_name ns) q) (pods_of s (ns_name ns))"
    using assms(1) by (simp_all add: live_cluster_def)
  then show ?thesis
    using assms(2-5) by (simp add: restart_step_pod Let_def split_beta same_pod_def)
qed

definition apps_namespace :: k8s_namespace where
  "apps_namespace = hd sample_namespaces"

lemma RestartStalePods_deletes_replacement_witness:
  "case restart_step store_kube ''new'' [] (NextPod apps_namespace [old_pod] False [] False)
      [fresh_pod ''web'' ''new''] of (s', evs, pc') \<Rightarrow>
     deletions evs = [old_pod] \<and> fresh_pod ''web'' ''new'' \<notin> set (store_pods s' (ns_name apps_namespace))"
proof (rule RestartStalePods_deletes_replacement [where nss = sample_namespaces])
  show "live_cluster store_kube sample_namespaces store_pods" by (rule store_live)
  show "stale ''new'' old_pod" "p_namespace old_pod = ns_name apps_namespace"
    "fresh_pod ''web'' ''new'' \<in> set (store_pods [fresh_pod ''web'' ''new''] (ns_name apps_namespace))"
    "p_name (fresh_pod ''web'' ''new'') = p_name old_pod"
    by (simp_all add: old_pod_def stale_def CTBRestartEnabled_iff map_read_def apps_namespace_def
        sample_namespaces_def store_pods_def fresh_pod_def)
  show "\<not> stale ''new'' (fresh_pod ''web'' ''new'')" by simp
qed

end
