(* ===== verification/Process_Init.thy ===== *)
theory Process_Init
  imports Startup
begin

text \<open>
  The process before and around \<open>main\<close>: the package variables and the \<open>init\<close> functions of
  \<open>internal/log/log.go\<close>, \<open>internal/webhook/server/server.go\<close> and \<open>cmd/main.go\<close>, in the order in which Go runs
  them (an imported package first, variables before \<open>init\<close>), and the exit status of the whole process.
\<close>

section \<open>Packages\<close>

text \<open>
  The libraries the initialisation calls: \<open>logr.Logger\<close> with its zero value and \<open>WithName\<close>, the root
  logger of the controller runtime (\<open>log.Log\<close> and \<open>ctrl.Log\<close> are one variable), and the registration
  of kinds in a scheme, which edits the scheme in place.
\<close>

record ('l, 'k) libraries =
  li_zero_Logger :: 'l
  li_Log :: 'l
  li_WithName :: "'l \<Rightarrow> string \<Rightarrow> 'l"
  li_NewScheme :: 'k
  li_clientgo_AddToScheme :: "'k \<Rightarrow> 'k \<times> gerror option"
  li_certificates_AddToScheme :: "'k \<Rightarrow> 'k \<times> gerror option"

record ('l, 'k) packages =
  pk_RuntimeLog :: 'l
  pk_server_log :: 'l
  pk_scheme :: 'k
  pk_setupLog :: 'l

text \<open>Package \<open>log\<close>: its variable starts as the zero logger and is set by \<open>init\<close>.\<close>

definition log_init :: "('l, 'k) libraries \<Rightarrow> ('l, 'k) packages \<Rightarrow> ('l, 'k) packages" where
  "log_init li pk = pk\<lparr>pk_RuntimeLog := li_WithName li (li_Log li) ''controller-runtime''\<rparr>"

text \<open>The variable of package \<open>server\<close>, which imports package \<open>log\<close>.\<close>

definition server_vars :: "('l, 'k) libraries \<Rightarrow> ('l, 'k) packages \<Rightarrow> ('l, 'k) packages" where
  "server_vars li pk = pk\<lparr>pk_server_log := li_WithName li (pk_RuntimeLog pk) ''webhook''\<rparr>"

definition main_vars :: "('l, 'k) libraries \<Rightarrow> ('l, 'k) packages \<Rightarrow> ('l, 'k) packages" where
  "main_vars li pk = pk\<lparr>pk_scheme := li_NewScheme li, pk_setupLog := li_WithName li (li_Log li) ''setup''\<rparr>"

text \<open>\<open>utilruntime.Must\<close> panics on an error.\<close>

definition Must :: "gerror option \<Rightarrow> unit go" where
  "Must err = (case err of None \<Rightarrow> Ret () | Some e \<Rightarrow> Panic (PanicError e))"

definition main_init :: "('l, 'k) libraries \<Rightarrow> ('l, 'k) packages \<Rightarrow> ('l, 'k) packages go" where
  "main_init li pk =
     (let (sch1, err1) = li_clientgo_AddToScheme li (pk_scheme pk)
      in go_bind (Must err1) (\<lambda>_.
         let (sch2, err2) = li_certificates_AddToScheme li sch1
         in go_bind (Must err2) (\<lambda>_. Ret (pk\<lparr>pk_scheme := sch2\<rparr>))))"

definition init_packages :: "('l, 'k) libraries \<Rightarrow> ('l, 'k) packages go" where
  "init_packages li =
     main_init li (main_vars li (server_vars li (log_init li
       \<lparr>pk_RuntimeLog = li_zero_Logger li, pk_server_log = li_zero_Logger li,
        pk_scheme = li_NewScheme li, pk_setupLog = li_zero_Logger li\<rparr>)))"

text \<open>
  The names of the loggers and the kinds of the scheme: the webhook server logs below the logger
  that \<open>init\<close> set, not below the zero logger, and the scheme has been through both registrations.
\<close>

lemma init_packages_Ret:
  "init_packages li = Ret pk \<longleftrightarrow>
     (\<exists>sch1. li_clientgo_AddToScheme li (li_NewScheme li) = (sch1, None)
        \<and> li_certificates_AddToScheme li sch1 = (pk_scheme pk, None))
     \<and> pk_RuntimeLog pk = li_WithName li (li_Log li) ''controller-runtime''
     \<and> pk_server_log pk = li_WithName li (pk_RuntimeLog pk) ''webhook''
     \<and> pk_setupLog pk = li_WithName li (li_Log li) ''setup''"
  by (cases pk) (auto simp: init_packages_def main_init_def main_vars_def server_vars_def log_init_def
      Must_def Let_def split: prod.split option.split)

definition kinds_registered :: "('l, 'k) libraries \<Rightarrow> bool" where
  "kinds_registered li \<longleftrightarrow>
     (case li_clientgo_AddToScheme li (li_NewScheme li) of
        (sch1, Some err) \<Rightarrow> False
      | (sch1, None) \<Rightarrow> snd (li_certificates_AddToScheme li sch1) = None)"

lemma init_packages_runs: "(\<exists>pk. init_packages li = Ret pk) \<longleftrightarrow> kinds_registered li"
  by (simp add: init_packages_def main_init_def main_vars_def server_vars_def log_init_def
      Must_def kinds_registered_def Let_def split: prod.split option.split)

section \<open>The process\<close>

text \<open>
  A panic of an initialisation ends the process with status 2, before \<open>main\<close>.
\<close>

definition process ::
  "('l, 'k) libraries \<Rightarrow> ('s program \<Rightarrow> 's \<Rightarrow> 's \<times> gerror option) \<Rightarrow> 's main_env \<Rightarrow> 'z flag list
   \<Rightarrow> string list \<Rightarrow> 'z \<Rightarrow> 's \<Rightarrow> 's \<times> nat" where
  "process li mgr_Start env others args z s =
     (case init_packages li of
        Panic p \<Rightarrow> (s, 2)
      | Ret pk \<Rightarrow> main_program mgr_Start env others args z s)"

text \<open>
  What \<open>main\<close> requires of its surroundings, of the flags and of the configuration before it starts the
  manager, in the order of its checks.
\<close>

definition wiring_passes :: "'s main_env \<Rightarrow> config \<Rightarrow> bool" where
  "wiring_passes env cfg \<longleftrightarrow>
     me_setup_webhook env = None
     \<and> (if ctb_active cfg then me_setup_watcher env else None) = None
     \<and> me_setup_secret env = None \<and> me_AddHealthzCheck env = None \<and> me_AddReadyzCheck env = None"

definition checks_pass :: "'s main_env \<Rightarrow> main_flags \<Rightarrow> 's \<Rightarrow> bool" where
  "checks_pass env fl s \<longleftrightarrow>
     (case ParseDuration (mf_secretSyncInterval fl) of Inl err \<Rightarrow> False | Inr interval \<Rightarrow> True)
     \<and> me_have_rest_config env \<and> me_client_New env = None \<and> mf_webhookCertPath fl \<noteq> []
     \<and> me_NewManager env = None
     \<and> (case snd (readConfig env fl s) of
          Inl err \<Rightarrow> False
        | Inr cfg \<Rightarrow>
            (AnnotationSetLandscape \<notin> set (cfg_AvailableFeatures cfg) \<or> mf_landscape fl \<noteq> [])
            \<and> wiring_passes env cfg)"

text \<open>What the manager is started with when they pass.\<close>

definition wired_program :: "'s main_env \<Rightarrow> main_flags \<Rightarrow> int \<Rightarrow> config \<Rightarrow> 's \<Rightarrow> 's program" where
  "wired_program env fl interval cfg s =
     \<lparr>pg_config = cfg, pg_cell = snd (main_precompute env cfg s),
      pg_webhook = main_webhook_opts env fl cfg, pg_watcher = main_watcher env cfg,
      pg_secrets = main_secrets env fl interval, pg_manager = main_manager_options fl\<rparr>"

definition started_program :: "'s main_env \<Rightarrow> main_flags \<Rightarrow> 's \<Rightarrow> ('s \<times> 's program) option" where
  "started_program env fl s =
     (case (ParseDuration (mf_secretSyncInterval fl), readConfig env fl s) of
        (Inr interval, (s1, Inr cfg)) \<Rightarrow>
          Some (fst (main_precompute env cfg s1), wired_program env fl interval cfg s1)
      | _ \<Rightarrow> None)"

lemma main_wire_exact:
  "main_wire env fl interval cfg s = (s', Running pg) \<longleftrightarrow>
     wiring_passes env cfg \<and> s' = fst (main_precompute env cfg s) \<and> pg = wired_program env fl interval cfg s"
  by (auto simp: main_wire_def wiring_passes_def wired_program_def Let_def split: prod.split option.split)

lemma main_setup_exact:
  "main_setup env fl s = (s', Running pg) \<longleftrightarrow>
     checks_pass env fl s \<and> started_program env fl s = Some (s', pg)"
  unfolding main_setup_def main_configure_def checks_pass_def started_program_def
  by (auto simp: main_wire_exact split: sum.split option.split prod.split)

definition process_ok ::
  "('s program \<Rightarrow> 's \<Rightarrow> 's \<times> gerror option) \<Rightarrow> 's main_env \<Rightarrow> main_flags \<Rightarrow> 's \<Rightarrow> bool" where
  "process_ok mgr_Start env fl s \<longleftrightarrow>
     checks_pass env fl s
     \<and> (case started_program env fl s of None \<Rightarrow> False | Some (s1, pg) \<Rightarrow> snd (mgr_Start pg s1) = None)"

lemma main_setup_Exit: "main_setup env fl s = (s', Exit msg err) \<Longrightarrow> \<not> process_ok mgr_Start env fl s"
  by (auto simp: process_ok_def split: option.splits dest: main_setup_exact [THEN iffD2, OF conjI])

lemma main_setup_ok:
  "main_setup env fl s = (s1, Running pg) \<Longrightarrow> process_ok mgr_Start env fl s \<longleftrightarrow> snd (mgr_Start pg s1) = None"
  by (simp add: process_ok_def main_setup_exact)

text \<open>
  Property C24. The exit status of the process, exactly: it is 0 after the usage text, or when the
  packages were initialised, the command line was accepted, every check of the set-up passed and the
  manager, started with the program as it is wired, ended without an error; 2 when a registration of
  kinds fails or the command line is wrong; 1 in every other case.
\<close>

theorem process_status:
  "snd (process li mgr_Start env others args z s) =
     (if \<not> kinds_registered li then 2
      else case main_Parse others args z of
        Help \<Rightarrow> 0
      | BadFlag e \<Rightarrow> 2
      | Parsed (fl, z') rest \<Rightarrow> if process_ok mgr_Start env fl s then 0 else 1)"
  unfolding process_def main_program_def init_packages_runs [symmetric]
  by (auto simp: main_setup_Exit main_setup_ok split: go.split parsed.split prod.split main_outcome.split option.split)

end
