(* ===== verification/Bundle_Delivery.thy ===== *)
theory Bundle_Delivery
  imports Startup
begin

text \<open>
  The trust bundle from the configuration to the pod: what the validation of \<open>pkg/api/v1/types.go\<close> asks of
  the bundle, what the webhook mounts, and which bundle the watcher of the same program watches.
\<close>

section \<open>The bundle in the admitted pod\<close>





section \<open>In a running program\<close>




end
