(* ===== verification/Pull_Secret_Delivery.thy ===== *)
theory Pull_Secret_Delivery
  imports Startup
begin

text \<open>
  The pull secret across the components: the reconciler of \<open>internal/controller\<close> writes it into the
  namespaces, the webhook of \<open>internal/webhook/v1\<close> makes the pods refer to it, and \<open>main\<close> gives both the
  name of the same flag.
\<close>

lemma effects_keep_pull_secrets:
  "p_imagePullSecrets (when_available opts k f q) = p_imagePullSecrets q"
  if "p_imagePullSecrets (f q) = p_imagePullSecrets q"
  using that by (simp add: when_available_def)

lemma served_pull_secret:
  assumes "AnnotationSetPullSecret \<in> set (wh_AvailableFeatures opts)"
    and "opted_in AnnotationSetPullSecret p ns cfg"
  shows "wh_ImagePullSecretName opts \<in> set (p_imagePullSecrets (served_pod opts hh ns cfg p))"
proof -
  define q where "q = when_available opts AnnotationAlterImgRegistry (\<lambda>p. registry_effect p ns cfg) p"
  have "opted_in AnnotationSetPullSecret q ns cfg"
    using assms(2) by (simp add: opted_in_def q_def when_available_def)
  then have "wh_ImagePullSecretName opts
      \<in> set (p_imagePullSecrets (pull_secret_effect (wh_ImagePullSecretName opts) q ns cfg))"
    by (simp add: pull_secret_effect_def add_pull_secret_def)
  then show ?thesis
    using assms(1) unfolding served_pod_def q_def [symmetric]
    by (simp add: effects_keep_pull_secrets when_available_def ctb_effect_def)
qed

lemma default_pull_secrets:
  assumes "steady get opts (p_namespace p) ns cfg"
  shows "p_imagePullSecrets (default_pod (SetupPodWebhookWithManager get opts hh) p)
      = p_imagePullSecrets (served_pod opts hh ns cfg p)
    \<and> p_namespace (default_pod (SetupPodWebhookWithManager get opts hh) p) = p_namespace p"
proof -
  have "pod_frame p (default_pod (SetupPodWebhookWithManager get opts hh) p)"
    by (rule default_frame [OF assms])
  then show ?thesis
    using steady_served_pod [OF assms, of hh] by (auto simp: marked_def pod_frame_def)
qed

text \<open>
  Property C15. An admitted pod can pull its images: in a running program whose configuration is read,
  on a cluster that applies patches, after a sync every pod of a listed namespace that the webhook
  admits and that opted in refers to a secret that its own namespace holds, with the credentials of
  the master secret.
\<close>

theorem admitted_pod_can_pull:
  assumes "main_setup env fl s0 = (s1, Running pg)" "mf_imagePullSecretName fl \<noteq> []"
    and "sync_ready (pg_secrets pg) s s2 master" "applies_patches (pg_secrets pg) store"
    and "sr_list_namespaces (pg_secrets pg) s2 = (s3, Inr nss)" "list_all (\<lambda>n. ns_namespace n = []) nss"
    and "p_namespace p \<in> ns_name ` set nss"
    and "AnnotationSetPullSecret \<in> set (cfg_AvailableFeatures (pg_config pg))"
    and "steady get (pg_webhook pg states) (p_namespace p) ns cfg"
    and "opted_in AnnotationSetPullSecret p ns cfg"
  shows "\<exists>s' calls. SecretReconciler_Reconcile (pg_secrets pg) (sr_NamespacedName (pg_secrets pg)) s
      = (s', calls, sr_SecretSyncInterval (pg_secrets pg), None)
    \<and> (let q = default_pod (SetupPodWebhookWithManager get (pg_webhook pg states) hh) p
       in \<exists>name \<in> set (p_imagePullSecrets q). store s' (p_namespace q, name) = Some (credentials master))"
  using assms(1)
proof (cases rule: main_setup_Running)
  case (1 interval t c)
  note pg = main_wire_Running [OF 1(5)]
  let ?opts = "pg_webhook pg states"
  have names: "wh_ImagePullSecretName ?opts = nn_Name (sr_NamespacedName (pg_secrets pg))"
    "wh_AvailableFeatures ?opts = cfg_AvailableFeatures (pg_config pg)"
    and named: "nn_Name (sr_NamespacedName (pg_secrets pg)) \<noteq> []"
    using assms(2) by (simp_all add: pg main_webhook_opts_def main_secrets_def)
  obtain s' calls where "SecretReconciler_Reconcile (pg_secrets pg) (sr_NamespacedName (pg_secrets pg)) s
      = (s', calls, sr_SecretSyncInterval (pg_secrets pg), None)"
    "store s' = (\<lambda>(ns, n). if n = nn_Name (sr_NamespacedName (pg_secrets pg)) \<and> ns \<in> ns_name ` set nss
        then Some (credentials master) else store s3 (ns, n))"
    using reconcile_converges [OF assms(3,5,4) named assms(6)] by blast
  moreover have "nn_Name (sr_NamespacedName (pg_secrets pg))
      \<in> set (p_imagePullSecrets (served_pod ?opts hh ns cfg p))"
    using served_pull_secret [of ?opts p ns cfg hh] assms(8,10) by (simp add: names)
  ultimately show ?thesis
    using default_pull_secrets [OF assms(9), of hh] assms(7) by (auto simp: Let_def)
qed

section \<open>A sample cluster with secrets\<close>

definition delivery_kube :: "credential_store kube" where
  "delivery_kube =
     \<lparr>k_list_namespaces = (\<lambda>s. (s, Inr sample_targets)), k_list_pods = (\<lambda>n s. (s, Inr [])),
      k_delete_pod = (\<lambda>p s. (s, None)), k_isForbidden = (\<lambda>e. False), k_isNotFound = (\<lambda>e. False)\<rparr>"

definition delivery_env :: "credential_store main_env" where
  "delivery_env = (sample_env_on delivery_kube)
     \<lparr>me_get_secret := (\<lambda>k s. (s, Inr sample_master)),
      me_patch_secret := (\<lambda>sec opts s. (s((sec_namespace sec, sec_name sec) \<mapsto> credentials sec), None))\<rparr>"

lemma delivery_env_fields:
  "me_get_configmap delivery_env = me_get_configmap (sample_env_on delivery_kube)"
  "me_map_order delivery_env = me_map_order (sample_env_on delivery_kube)"
  "me_validate delivery_env = me_validate (sample_env_on delivery_kube)"
  by (simp_all add: delivery_env_def)

lemma delivery_readConfig: "readConfig delivery_env sample_flags s = (s, Inr sample_cfg)"
  using sample_readConfig [of delivery_kube s] unfolding readConfig_def delivery_env_fields .

lemma delivery_running:
  "\<exists>pg. main_setup delivery_env sample_flags s = (s, Running pg) \<and> pg_config pg = sample_cfg
    \<and> pg_webhook pg = main_webhook_opts delivery_env sample_flags sample_cfg
    \<and> pg_secrets pg = main_secrets delivery_env sample_flags minute"
proof -
  have "ParseDuration (mf_secretSyncInterval sample_flags) = Inr minute"
    by (simp add: sample_flags_def default_flags_def parse_one_minute minute_def second_def)
  moreover have "\<exists>pg. main_wire delivery_env sample_flags minute sample_cfg s = (s, Running pg)"
    by (simp add: main_wire_def main_precompute_def delivery_env_def sample_env_on_def sample_cfg_def
        PreComputeHash_def)
  moreover have "me_have_rest_config delivery_env" "me_client_New delivery_env = None"
    "me_NewManager delivery_env = None" "length (mf_webhookCertPath sample_flags) \<noteq> 0"
    "mf_landscape sample_flags \<noteq> []"
    by (simp_all add: delivery_env_def sample_env_on_def sample_flags_def)
  ultimately obtain pg where "main_setup delivery_env sample_flags s = (s, Running pg)"
    "main_wire delivery_env sample_flags minute sample_cfg s = (s, Running pg)"
    by (auto simp: main_setup_def main_configure_def delivery_readConfig)
  then show ?thesis using main_wire_Running by fastforce
qed

lemma admitted_pod_can_pull_witness:
  "\<exists>pg s' calls. main_setup delivery_env sample_flags Map.empty = (Map.empty, Running pg)
    \<and> SecretReconciler_Reconcile (pg_secrets pg) (sr_NamespacedName (pg_secrets pg)) Map.empty
        = (s', calls, minute, None)
    \<and> (\<exists>name \<in> set (p_imagePullSecrets (default_pod (SetupPodWebhookWithManager sample_get
          (pg_webhook pg (\<lambda>_. Map.empty)) sample_cell) sample_pod)).
        s' (''apps'', name) = Some ''auth'')"
proof -
  obtain pg where pg: "main_setup delivery_env sample_flags Map.empty = (Map.empty, Running pg)"
    and parts: "pg_config pg = sample_cfg"
      "pg_webhook pg = main_webhook_opts delivery_env sample_flags sample_cfg"
      "pg_secrets pg = main_secrets delivery_env sample_flags minute"
    using delivery_running [of Map.empty] by blast
  have named: "mf_imagePullSecretName sample_flags \<noteq> []" by (simp add: sample_flags_def default_flags_def)
  have available: "AnnotationSetPullSecret \<in> set (cfg_AvailableFeatures (pg_config pg))"
    by (simp add: parts sample_cfg_def)
  have ready: "sync_ready (pg_secrets pg) Map.empty Map.empty sample_master"
    using available by (simp add: sync_ready_def parts main_secrets_def delivery_readConfig)
      (simp add: delivery_env_def)
  have patches: "applies_patches (pg_secrets pg) (\<lambda>s. s)"
    by (simp add: applies_patches_def parts main_secrets_def delivery_env_def)
  have targets: "sr_list_namespaces (pg_secrets pg) Map.empty = (Map.empty, Inr sample_targets)"
    by (simp add: parts main_secrets_def delivery_env_def sample_env_on_def delivery_kube_def)
  have home: "p_namespace sample_pod \<in> ns_name ` set sample_targets"
    by (simp add: sample_pod_def sample_targets_def)
  have steady: "steady sample_get (pg_webhook pg (\<lambda>_. Map.empty)) (p_namespace sample_pod)
      sample_ns_annotations sample_cfg"
    by (simp add: parts steady_def sample_get_def sample_pod_def main_webhook_opts_def
        delivery_readConfig)
  have opted: "opted_in AnnotationSetPullSecret sample_pod sample_ns_annotations sample_cfg"
    by (simp add: sample_opted)
  obtain s' calls where "SecretReconciler_Reconcile (pg_secrets pg) (sr_NamespacedName (pg_secrets pg)) Map.empty
        = (s', calls, sr_SecretSyncInterval (pg_secrets pg), None)"
    "let q = default_pod (SetupPodWebhookWithManager sample_get (pg_webhook pg (\<lambda>_. Map.empty)) sample_cell) sample_pod
     in \<exists>name \<in> set (p_imagePullSecrets q). s' (p_namespace q, name) = Some (credentials sample_master)"
    using admitted_pod_can_pull [OF pg named ready patches targets sample_reconciler_facts(5) home
        available steady opted] by blast
  moreover have "sr_SecretSyncInterval (pg_secrets pg) = minute"
    by (simp add: parts main_secrets_def)
  moreover have "credentials sample_master = ''auth''"
    by (simp add: credentials_def sample_master_def)
  ultimately show ?thesis
    using pg default_pull_secrets [OF steady, of sample_cell] by (auto simp: Let_def sample_pod_def)
qed

end
