(* ===== verification/Shipped_Config.thy ===== *)
theory Shipped_Config
  imports Config_Roundtrip
begin

text \<open>
  The configuration that the repository ships (\<open>config/config/rt-bootstrapper-config.yaml\<close>), as its
  bytes, and the evaluation of the decoder on it.
\<close>

definition shipped_text :: string where
  "shipped_text = concat (map (\<lambda>l. l @ [CHR 0x0A])
    [''{'',
     ''  \"overrides\": {'',
     ''    \"replace.me\": \"localhost:5001\",'',
     ''    \"example.com\": \"localhost:5002\"'',
     ''  },'',
     ''  \"clusterTrustBundle\": {'',
     ''    \"name\": \"rt-bootstrapper-k3d.test:ctb:1\",'',
     ''    \"certWritePath\": \"kube-apiserver-serving.pem\",'',
     ''    \"volumeMountPath\": \"/etc/ssl/certs\",'',
     ''    \"volumeName\": \"rt-bootstrapper-certs\"'',
     ''  },'',
     ''  \"availableFeatures\": ['',
     ''    \"rt-cfg.kyma-project.io/alter-img-registry\",'',
     ''    \"rt-cfg.kyma-project.io/add-img-pull-secret\",'',
     ''    \"rt-cfg.kyma-project.io/add-cluster-trust-bundle\",'',
     ''    \"rt-cfg.kyma-project.io/set-fips-mode\",'',
     ''    \"rt-cfg.kyma-project.io/set-landscape\"'',
     ''  ],'',
     ''  \"namespaceFeatures\": {'',
     ''    \"kyma-system\": ['',
     ''      \"rt-cfg.kyma-project.io/all\"'',
     ''    ]'',
     ''  }'',
     ''}''])"

definition shipped_config :: config where
  "shipped_config = \<lparr>cfg_Overrides = Some [(''replace.me'', ''localhost:5001''), (''example.com'', ''localhost:5002'')],
    cfg_ClusterTrustBundleMapping = Some \<lparr>ctb_Name = ''rt-bootstrapper-k3d.test:ctb:1'',
      ctb_CertWritePath = ''kube-apiserver-serving.pem'', ctb_VolumeMountPath = ''/etc/ssl/certs'',
      ctb_VolumeName = ''rt-bootstrapper-certs'', ctb_ResyncInterval = []\<rparr>,
    cfg_NamespaceFeatures = Some (Some [(''kyma-system'', [AnnotationAll])]),
    cfg_AvailableFeatures = KnownFeatureKeys\<rparr>"

lemma shipped_decodes: "Decode shipped_text = Inr shipped_config"
  by code_simp

lemma shipped_accepted: "NewConfig (\<lambda>es. es) (\<lambda>c. None) shipped_text = Inr shipped_config"
proof -
  have "in_order (\<lambda>es. es) shipped_config = shipped_config"
    by (simp add: in_order_def shipped_config_def)
  moreover have "features_valid shipped_config KnownFeatureKeys"
    by (simp add: features_valid_def shipped_config_def namespace_entries_def entry_valid_def)
  ultimately show ?thesis by (auto simp: NewConfig_Inr shipped_decodes)
qed

end
